(* ===== verification/Go_Prelude.thy ===== *)
theory Go_Prelude
  imports Main "HOL-Library.State_Monad" "HOL-Library.AList"
begin

text \<open>
  Shared vocabulary of the development: the Go data the sources use (strings, string maps,
  decimal printing, nil pointers) and the effect monad every controller is written in.

  A Go \<^verbatim>\<open>map[string]string\<close> is an association list (its length is observable in the
  sources), a pointer is an option, a Go string is a list of bytes.  Code with effects is a
  \<^typ>\<open>('s, 'a) state\<close> computation over a \<open>gostate\<close>: the state of the outside world (API
  server, file system, network) together with the trace of calls made to it.  What the
  outside world answers is a parameter of the model; the trace is what the program does.
\<close>

named_theorems behaves_rules \<open>rules that compute what a computation returns and emits\<close>
named_theorems go_strings \<open>unfolding of the string constants of the sources\<close>

section \<open>Go data\<close>

type_synonym str_map = "(string \<times> string) list"
type_synonym go_time = int

text \<open>\<^verbatim>\<open>m[k]\<close>, which is the zero value for an absent key.\<close>

definition map_get :: "str_map \<Rightarrow> string \<Rightarrow> string" where
  "map_get m k = (case map_of m k of None \<Rightarrow> [] | Some v \<Rightarrow> v)"

text \<open>\<^verbatim>\<open>m[k] = v\<close> on a non-nil map.\<close>

definition map_put :: "string \<Rightarrow> string \<Rightarrow> str_map \<Rightarrow> str_map" where
  "map_put k v m = AList.update k v m"

lemma map_of_map_put [simp]: "map_of (map_put k v m) = (map_of m)(k \<mapsto> v)"
  by (simp add: map_put_def update_conv')

lemma map_get_map_put [simp]: "map_get (map_put k v m) k' = (if k' = k then v else map_get m k')"
  by (simp add: map_get_def)

lemma map_get_Nil [simp]: "map_get [] k = []"
  by (simp add: map_get_def)

lemma distinct_map_put [simp]: "distinct (map fst m) \<Longrightarrow> distinct (map fst (map_put k v m))"
  by (simp add: map_put_def distinct_update)

text \<open>Decimal printing, \<^verbatim>\<open>%d\<close>.\<close>

definition digit_char :: "nat \<Rightarrow> char" where
  "digit_char d = char_of (48 + d)"

fun utoa :: "nat \<Rightarrow> string" where
  "utoa n = (if n < 10 then [digit_char n] else utoa (n div 10) @ [digit_char (n mod 10)])"

declare utoa.simps [simp del]

definition itoa :: "int \<Rightarrow> string" where
  "itoa i = (if i < 0 then ''-'' @ utoa (nat (- i)) else utoa (nat i))"

lemma utoa_nonempty [simp]: "utoa n \<noteq> []"
  by (subst utoa.simps) simp

lemma itoa_nonempty [simp]: "itoa i \<noteq> []"
  by (simp add: itoa_def)

text \<open>\<^verbatim>\<open>strings.Join\<close>.\<close>

fun join_with :: "string \<Rightarrow> string list \<Rightarrow> string" where
  "join_with sep [] = []"
| "join_with sep [x] = x"
| "join_with sep (x # y # ys) = x @ sep @ join_with sep (y # ys)"

text \<open>How \<^verbatim>\<open>%v\<close> prints a slice of strings.\<close>

definition fmt_slice :: "string list \<Rightarrow> string" where
  "fmt_slice xs = ''['' @ join_with '' '' xs @ '']''"

text \<open>A text between single quotes, as in \<^verbatim>\<open>'%s'\<close>.\<close>

definition quoted :: "string \<Rightarrow> string" where
  "quoted s = [CHR 0x27] @ s @ [CHR 0x27]"

section \<open>Results that may panic\<close>

datatype 'a outcome = Return 'a | Panic string

section \<open>Computations with effects\<close>

record ('w, 'e) gostate =
  world :: 'w
  trace :: "'e list"

type_synonym ('w, 'e, 'a) go = "(('w, 'e) gostate, 'a) state"

abbreviation ret :: "'a \<Rightarrow> ('s, 'a) state" where
  "ret \<equiv> State_Monad.return"

text \<open>A call to the outside world: it changes the world, and the call with its answer is
  appended to the trace.\<close>

definition perform :: "('w \<Rightarrow> 'r \<times> 'w) \<Rightarrow> ('r \<Rightarrow> 'e) \<Rightarrow> ('w, 'e, 'r) go" where
  "perform f ev = State (\<lambda>s. case f (world s) of (r, w) \<Rightarrow>
     (r, s\<lparr>world := w, trace := trace s @ [ev r]\<rparr>))"

lemma run_perform [simp]:
  "run_state (perform f ev) s =
     (fst (f (world s)), s\<lparr>world := snd (f (world s)), trace := trace s @ [ev (fst (f (world s)))]\<rparr>)"
  by (simp add: perform_def split: prod.split)

text \<open>
  \<open>behaves m Q\<close>: whatever the world answers, every run of \<open>m\<close> only appends to the trace, and
  its result \<open>a\<close> and the calls \<open>es\<close> it makes satisfy \<open>Q a es\<close>.
\<close>

definition behaves :: "('w, 'e, 'a) go \<Rightarrow> ('a \<Rightarrow> 'e list \<Rightarrow> bool) \<Rightarrow> bool" where
  "behaves m Q \<longleftrightarrow> (\<forall>s. \<exists>es. trace (snd (run_state m s)) = trace s @ es
      \<and> Q (fst (run_state m s)) es)"

lemma behavesD:
  assumes "behaves m Q" and "run_state m s = (a, s')"
  shows "\<exists>es. trace s' = trace s @ es \<and> Q a es"
  using assms by (metis behaves_def fst_conv snd_conv)

lemma behavesI:
  assumes "\<And>s a s'. run_state m s = (a, s') \<Longrightarrow> \<exists>es. trace s' = trace s @ es \<and> Q a es"
  shows "behaves m Q"
  using assms by (metis behaves_def prod.collapse)

lemma behaves_ret [behaves_rules]: "Q a [] \<Longrightarrow> behaves (ret a) Q"
  by (simp add: behaves_def)

lemma behaves_bind [behaves_rules]:
  assumes "behaves m (\<lambda>a es. behaves (f a) (\<lambda>b fs. Q b (es @ fs)))"
  shows "behaves (State_Monad.bind m f) Q"
proof (rule behavesI)
  fix s b s'' assume run: "run_state (State_Monad.bind m f) s = (b, s'')"
  obtain a s' where m: "run_state m s = (a, s')" by fastforce
  with run have f: "run_state (f a) s' = (b, s'')" by simp
  from behavesD [OF assms m] obtain es where
    es: "trace s' = trace s @ es" "behaves (f a) (\<lambda>b fs. Q b (es @ fs))" by blast
  from behavesD [OF es(2) f] obtain fs where "trace s'' = trace s' @ fs" "Q b (es @ fs)" by blast
  with es(1) show "\<exists>es. trace s'' = trace s @ es \<and> Q b es" by auto
qed

lemma behaves_perform [behaves_rules]: "(\<And>r. Q r [ev r]) \<Longrightarrow> behaves (perform f ev) Q"
  by (simp add: behaves_def)

lemma behaves_weaken:
  assumes "behaves m Q" and "\<And>a es. Q a es \<Longrightarrow> Q' a es"
  shows "behaves m Q'"
  using assms unfolding behaves_def by blast

lemma behaves_conj:
  assumes "behaves m Q" and "behaves m R"
  shows "behaves m (\<lambda>a es. Q a es \<and> R a es)"
  using assms unfolding behaves_def by (metis append_same_eq same_append_eq)

text \<open>Composition with what is already known of the first part.\<close>

lemma behaves_bind_use:
  assumes "behaves m R" and "\<And>a es. R a es \<Longrightarrow> behaves (f a) (\<lambda>b fs. Q b (es @ fs))"
  shows "behaves (State_Monad.bind m f) Q"
  by (rule behaves_bind) (rule behaves_weaken [OF assms])

lemma behaves_if [behaves_rules]:
  "(b \<Longrightarrow> behaves m Q) \<Longrightarrow> (\<not> b \<Longrightarrow> behaves n Q) \<Longrightarrow> behaves (if b then m else n) Q"
  by simp

lemma behaves_case_sum [behaves_rules]:
  "(\<And>e. r = Inl e \<Longrightarrow> behaves (m e) Q) \<Longrightarrow> (\<And>a. r = Inr a \<Longrightarrow> behaves (n a) Q)
    \<Longrightarrow> behaves (case r of Inl e \<Rightarrow> m e | Inr a \<Rightarrow> n a) Q"
  by (cases r) simp_all

lemma behaves_case_option [behaves_rules]:
  "(r = None \<Longrightarrow> behaves m Q) \<Longrightarrow> (\<And>a. r = Some a \<Longrightarrow> behaves (n a) Q)
    \<Longrightarrow> behaves (case r of None \<Rightarrow> m | Some a \<Rightarrow> n a) Q"
  by (cases r) simp_all

lemma behaves_case_outcome [behaves_rules]:
  "(\<And>a. r = Return a \<Longrightarrow> behaves (m a) Q) \<Longrightarrow> (\<And>p. r = Panic p \<Longrightarrow> behaves (n p) Q)
    \<Longrightarrow> behaves (case r of Return a \<Rightarrow> m a | Panic p \<Rightarrow> n p) Q"
  by (cases r) simp_all

lemma behaves_case_prod [behaves_rules]:
  "(\<And>x y. r = (x, y) \<Longrightarrow> behaves (m x y) Q) \<Longrightarrow> behaves (case r of (x, y) \<Rightarrow> m x y) Q"
  by (cases r) simp

lemma behaves_case_list [behaves_rules]:
  "(r = [] \<Longrightarrow> behaves m Q) \<Longrightarrow> (\<And>x xs. r = x # xs \<Longrightarrow> behaves (n x xs) Q)
    \<Longrightarrow> behaves (case r of [] \<Rightarrow> m | x # xs \<Rightarrow> n x xs) Q"
  by (cases r) simp_all

lemma behaves_Let [behaves_rules]: "behaves (m a) Q \<Longrightarrow> behaves (let x = a in m x) Q"
  by simp

end
