(* ===== verification/Go_Errors.thy ===== *)
theory Go_Errors
  imports Go_Prelude
begin

text \<open>
  Go errors as the sources build and inspect them: \<^verbatim>\<open>errors.New\<close>, \<^verbatim>\<open>fmt.Errorf\<close> with and
  without \<^verbatim>\<open>%w\<close>, \<^verbatim>\<open>errors.Join\<close>, the API machinery's status errors and aggregates, and the
  walk of \<^verbatim>\<open>errors.As\<close> that \<^verbatim>\<open>apierrors.IsNotFound\<close> rests on.  A nil error is \<^const>\<open>None\<close>.
\<close>

datatype go_error =
    ErrorString string
  | WrapError string go_error
  | JoinError "go_error list"
  | StatusError string int string
  | Aggregate "go_error list"

text \<open>
  \<open>Error\<close> is the message of an error, \<open>visit_messages\<close> the messages that
  \<^verbatim>\<open>aggregate.visit\<close> passes to its callback: nested aggregates are entered, any other error
  contributes its own message.  An aggregate prints its distinct messages in brackets.
\<close>

definition remdups_first :: "string list \<Rightarrow> string list" where
  "remdups_first xs = rev (remdups (rev xs))"

definition aggregate_text :: "string list \<Rightarrow> string" where
  "aggregate_text msgs = (let seen = remdups_first msgs; result = join_with '', '' seen in
     if length seen = 1 then result else ''['' @ result @ '']'')"

fun Error :: "go_error \<Rightarrow> string"
  and visit_messages :: "go_error \<Rightarrow> string list"
where
  "Error (ErrorString msg) = msg"
| "Error (WrapError msg e) = msg"
| "Error (JoinError es) = join_with [CHR 0x0A] (map Error es)"
| "Error (StatusError reason code msg) = msg"
| "Error (Aggregate []) = []"
| "Error (Aggregate [e]) = Error e"
| "Error (Aggregate (e # f # es)) = aggregate_text (concat (map visit_messages (e # f # es)))"
| "visit_messages (Aggregate es) = concat (map visit_messages es)"
| "visit_messages (ErrorString msg) = [Error (ErrorString msg)]"
| "visit_messages (WrapError msg e) = [Error (WrapError msg e)]"
| "visit_messages (JoinError es) = [Error (JoinError es)]"
| "visit_messages (StatusError reason code msg) = [Error (StatusError reason code msg)]"

text \<open>\<^verbatim>\<open>errors.Join\<close>: nil arguments are dropped, and nothing is left of only nil ones.\<close>

definition errors_Join :: "go_error option list \<Rightarrow> go_error option" where
  "errors_Join es = (case List.map_filter id es of [] \<Rightarrow> None | x # xs \<Rightarrow> Some (JoinError (x # xs)))"

text \<open>\<^verbatim>\<open>utilerrors.NewAggregate\<close>.\<close>

definition NewAggregate :: "go_error option list \<Rightarrow> go_error option" where
  "NewAggregate errlist =
     (if errlist = [] then None
      else let errs = List.map_filter id errlist in
        if errs = [] then None else Some (Aggregate errs))"

text \<open>
  \<^verbatim>\<open>errors.As(err, &status)\<close> for an \<^verbatim>\<open>APIStatus\<close> target: the depth-first walk along
  \<^verbatim>\<open>Unwrap\<close>.  Aggregates have no \<^verbatim>\<open>Unwrap\<close> method, so the walk stops there.
\<close>

fun as_APIStatus :: "go_error \<Rightarrow> (string \<times> int) option"
  and as_APIStatus_list :: "go_error list \<Rightarrow> (string \<times> int) option"
where
  "as_APIStatus (ErrorString msg) = None"
| "as_APIStatus (WrapError msg e) = as_APIStatus e"
| "as_APIStatus (JoinError es) = as_APIStatus_list es"
| "as_APIStatus (StatusError reason code msg) = Some (reason, code)"
| "as_APIStatus (Aggregate es) = None"
| "as_APIStatus_list [] = None"
| "as_APIStatus_list (e # es) =
     (case as_APIStatus e of Some r \<Rightarrow> Some r | None \<Rightarrow> as_APIStatus_list es)"

definition reasonAndCodeForError :: "go_error \<Rightarrow> string \<times> int" where
  "reasonAndCodeForError err =
     (case as_APIStatus err of Some (reason, code) \<Rightarrow> (reason, code) | None \<Rightarrow> ([], 0))"

text \<open>\<^verbatim>\<open>errors.Is\<close>: the walk along \<^verbatim>\<open>Unwrap\<close>, and into aggregates by their own \<^verbatim>\<open>Is\<close> method.  Errors are compared by
  their contents.\<close>

primrec errors_Is :: "go_error \<Rightarrow> go_error \<Rightarrow> bool" where
  "errors_Is (ErrorString msg) = (\<lambda>target. target = ErrorString msg)"
| "errors_Is (WrapError msg e) = (\<lambda>target. target = WrapError msg e \<or> errors_Is e target)"
| "errors_Is (JoinError es) = (\<lambda>target. target = JoinError es \<or> list_ex (\<lambda>f. f target) (map errors_Is es))"
| "errors_Is (StatusError reason code msg) = (\<lambda>target. target = StatusError reason code msg)"
| "errors_Is (Aggregate es) = (\<lambda>target. list_ex (\<lambda>f. f target) (map errors_Is es))"

definition StatusReasonNotFound :: string where
  "StatusReasonNotFound = ''NotFound''"

definition knownReasons :: "string list" where
  "knownReasons = [''Unauthorized'', ''Forbidden'', ''NotFound'', ''AlreadyExists'', ''Conflict'',
     ''Gone'', ''Invalid'', ''ServerTimeout'', ''Timeout'', ''TooManyRequests'', ''BadRequest'',
     ''MethodNotAllowed'', ''NotAcceptable'', ''RequestEntityTooLarge'', ''UnsupportedMediaType'',
     ''InternalError'', ''Expired'', ''ServiceUnavailable'']"

definition IsNotFound :: "go_error \<Rightarrow> bool" where
  "IsNotFound err = (let (reason, code) = reasonAndCodeForError err in
     if reason = StatusReasonNotFound then True
     else reason \<notin> set knownReasons \<and> code = 404)"

text \<open>An API server's answer for an absent object.\<close>

definition NewNotFound :: "string \<Rightarrow> go_error" where
  "NewNotFound msg = StatusError StatusReasonNotFound 404 msg"

section \<open>Lemmas\<close>

lemma map_filter_id_eq_Nil: "List.map_filter id xs = [] \<longleftrightarrow> (\<forall>x\<in>set xs. x = None)"
  by (induction xs) (auto simp: List.map_filter_def)

lemma set_map_filter_id [simp]: "set (List.map_filter id xs) = {x. Some x \<in> set xs}"
  by (induction xs) (auto simp: List.map_filter_def)

lemma map_filter_id_Some [simp]: "List.map_filter id (map Some xs) = xs"
  by (induction xs) (simp_all add: List.map_filter_def)

lemma errors_Join_None [simp]: "errors_Join es = None \<longleftrightarrow> (\<forall>e\<in>set es. e = None)"
  by (auto simp: errors_Join_def map_filter_id_eq_Nil [symmetric] split: list.splits)

lemma NewAggregate_None [simp]: "NewAggregate es = None \<longleftrightarrow> (\<forall>e\<in>set es. e = None)"
  by (auto simp: NewAggregate_def map_filter_id_eq_Nil Let_def)

lemma NewAggregate_Some: "NewAggregate (map Some es) = (if es = [] then None else Some (Aggregate es))"
  by (simp add: NewAggregate_def)

text \<open>Formatting an error with \<^verbatim>\<open>%v\<close> keeps its text and loses its identity: no error built
  that way is ever recognised as not found.\<close>

lemma IsNotFound_ErrorString [simp]: "\<not> IsNotFound (ErrorString msg)"
  by (simp add: IsNotFound_def reasonAndCodeForError_def StatusReasonNotFound_def)

lemma IsNotFound_WrapError [simp]: "IsNotFound (WrapError msg e) = IsNotFound e"
  by (simp add: IsNotFound_def reasonAndCodeForError_def)

lemma IsNotFound_Aggregate [simp]: "\<not> IsNotFound (Aggregate es)"
  by (simp add: IsNotFound_def reasonAndCodeForError_def StatusReasonNotFound_def)

lemma IsNotFound_NewNotFound [simp]: "IsNotFound (NewNotFound msg)"
  by (simp add: IsNotFound_def reasonAndCodeForError_def NewNotFound_def)

lemma Error_NewNotFound [simp]: "Error (NewNotFound msg) = msg"
  by (simp add: NewNotFound_def)

end
