(* ===== verification/K8s_Objects.thy ===== *)
theory K8s_Objects
  imports Go_Errors
begin

text \<open>
  The Kubernetes objects the program reads and writes, with the fields it uses, and the
  type registry (\<^verbatim>\<open>runtime.Scheme\<close>) that maps Go types to group, version and kind.
\<close>

section \<open>Object metadata\<close>

record OwnerReference =
  or_APIVersion :: string
  or_Kind :: string
  or_Name :: string
  or_UID :: string
  or_Controller :: "bool option"
  or_BlockOwnerDeletion :: "bool option"

record ObjectMeta =
  om_Name :: string
  om_Namespace :: string
  om_UID :: string
  om_ResourceVersion :: string
  om_Labels :: "str_map option"
  om_Annotations :: str_map
  om_OwnerReferences :: "OwnerReference list"
  om_Finalizers :: "string list"
  om_DeletionTimestamp :: "go_time option"

record NamespacedName =
  nn_Namespace :: string
  nn_Name :: string

text \<open>\<^verbatim>\<open>NamespacedName.String\<close>.\<close>

definition nn_String :: "NamespacedName \<Rightarrow> string" where
  "nn_String n = nn_Namespace n @ ''/'' @ nn_Name n"

record Condition =
  cond_Type :: string
  cond_Status :: string
  cond_ObservedGeneration :: int
  cond_LastTransitionTime :: "go_time option"
  cond_Reason :: string
  cond_Message :: string

section \<open>Core objects\<close>

record GroupVersionKind =
  gvk_Group :: string
  gvk_Version :: string
  gvk_Kind :: string

record Service =
  svc_TypeMeta :: GroupVersionKind
  svc_meta :: ObjectMeta
  svc_Type :: string

record Pod =
  pod_meta :: ObjectMeta
  pod_Phase :: string
  pod_Containers :: "string list"

record Secret =
  sec_meta :: ObjectMeta
  sec_Data :: str_map

record SecretReference =
  sr_Name :: string
  sr_Namespace :: string

definition PodSucceeded :: string where "PodSucceeded = ''Succeeded''"
definition PodFailed :: string where "PodFailed = ''Failed''"
definition PodRunning :: string where "PodRunning = ''Running''"
definition ServiceTypeLoadBalancer :: string where "ServiceTypeLoadBalancer = ''LoadBalancer''"
definition ConditionTrue :: string where "ConditionTrue = ''True''"
definition ConditionFalse :: string where "ConditionFalse = ''False''"

section \<open>The type registry\<close>

text \<open>The Go types a scheme of this program can hold; \<^verbatim>\<open>GoOther\<close> carries whether the type
  implements \<^verbatim>\<open>client.Object\<close>.\<close>

datatype gotype = GoService | GoPod | GoFrpServer | GoFrpServerList | GoOther string bool

fun is_client_Object :: "gotype \<Rightarrow> bool" where
  "is_client_Object GoFrpServerList = False"
| "is_client_Object (GoOther n b) = b"
| "is_client_Object _ = True"

record scheme =
  sch_Name :: string
  sch_typeToGVK :: "(gotype \<times> GroupVersionKind list) list"
  sch_unversionedTypes :: "gotype list"
  sch_gvkToType :: "(GroupVersionKind \<times> gotype) list"
  sch_unversionedKinds :: "(string \<times> gotype) list"

text \<open>Labels of an object; a nil map has no entry.\<close>

definition meta_labels :: "ObjectMeta \<Rightarrow> str_map" where
  "meta_labels m = (case om_Labels m of None \<Rightarrow> [] | Some l \<Rightarrow> l)"

definition ObjectKeyFromMeta :: "ObjectMeta \<Rightarrow> NamespacedName" where
  "ObjectKeyFromMeta m = \<lparr>nn_Namespace = om_Namespace m, nn_Name = om_Name m\<rparr>"

end
