(* ===== verification/K8s_Lib.thy ===== *)
theory K8s_Lib
  imports K8s_Objects "HOL-Library.Char_ord" "HOL-Library.List_Lexorder"
begin

text \<open>
  The library routines the controllers call and that carry their logic: defaulting
  (\<^verbatim>\<open>util.EmptyOr\<close>), slices (\<^verbatim>\<open>samber/lo\<close>), status conditions, label selectors, owner
  references and name generation, each translated from the vendored source.
\<close>

section \<open>Defaulting and slices\<close>

text \<open>\<^verbatim>\<open>util.EmptyOr\<close>; the zero value of the type is an argument.\<close>

definition EmptyOr :: "'a \<Rightarrow> 'a \<Rightarrow> 'a \<Rightarrow> 'a" where
  "EmptyOr zero v fallback = (if zero = v then fallback else v)"

abbreviation EmptyOr_str :: "string \<Rightarrow> string \<Rightarrow> string" where
  "EmptyOr_str \<equiv> EmptyOr []"

abbreviation EmptyOr_int :: "int \<Rightarrow> int \<Rightarrow> int" where
  "EmptyOr_int \<equiv> EmptyOr 0"

abbreviation EmptyOr_ptr :: "'a option \<Rightarrow> 'a option \<Rightarrow> 'a option" where
  "EmptyOr_ptr \<equiv> EmptyOr None"

fun lo_Contains :: "'a list \<Rightarrow> 'a \<Rightarrow> bool" where
  "lo_Contains [] element = False"
| "lo_Contains (item # rest) element = (if item = element then True else lo_Contains rest element)"

fun lo_Every :: "'a list \<Rightarrow> 'a list \<Rightarrow> bool" where
  "lo_Every collection [] = True"
| "lo_Every collection (elem # rest) =
     (if \<not> lo_Contains collection elem then False else lo_Every collection rest)"

fun lo_Without :: "'a list \<Rightarrow> 'a list \<Rightarrow> 'a list" where
  "lo_Without [] exclude = []"
| "lo_Without (e # rest) exclude =
     (if \<not> lo_Contains exclude e then e # lo_Without rest exclude else lo_Without rest exclude)"

definition lo_FromPtr_bool :: "bool option \<Rightarrow> bool" where
  "lo_FromPtr_bool x = (case x of None \<Rightarrow> False | Some b \<Rightarrow> b)"

section \<open>Status conditions\<close>

text \<open>\<^verbatim>\<open>FindStatusCondition\<close> returns a pointer into the slice: its index.\<close>

fun FindStatusCondition :: "Condition list \<Rightarrow> string \<Rightarrow> nat option" where
  "FindStatusCondition [] conditionType = None"
| "FindStatusCondition (c # cs) conditionType =
     (if cond_Type c = conditionType then Some 0
      else map_option Suc (FindStatusCondition cs conditionType))"

text \<open>The in-place update of an existing condition, with the \<^verbatim>\<open>changed\<close> flag.\<close>

definition update_condition :: "go_time \<Rightarrow> Condition \<Rightarrow> Condition \<Rightarrow> Condition \<times> bool" where
  "update_condition now new ex =
     (let (ex, ch) =
        (if cond_Status ex \<noteq> cond_Status new
         then (ex\<lparr>cond_Status := cond_Status new,
                 cond_LastTransitionTime := (case cond_LastTransitionTime new of
                    Some t \<Rightarrow> Some t | None \<Rightarrow> Some now)\<rparr>, True)
         else (ex, False));
        (ex, ch) = (if cond_Reason ex \<noteq> cond_Reason new
           then (ex\<lparr>cond_Reason := cond_Reason new\<rparr>, True) else (ex, ch));
        (ex, ch) = (if cond_Message ex \<noteq> cond_Message new
           then (ex\<lparr>cond_Message := cond_Message new\<rparr>, True) else (ex, ch));
        (ex, ch) = (if cond_ObservedGeneration ex \<noteq> cond_ObservedGeneration new
           then (ex\<lparr>cond_ObservedGeneration := cond_ObservedGeneration new\<rparr>, True) else (ex, ch))
      in (ex, ch))"

definition SetStatusCondition ::
    "go_time \<Rightarrow> Condition list \<Rightarrow> Condition \<Rightarrow> Condition list \<times> bool" where
  "SetStatusCondition now conditions new =
     (case FindStatusCondition conditions (cond_Type new) of
        None \<Rightarrow>
          (let new = (case cond_LastTransitionTime new of
                 None \<Rightarrow> new\<lparr>cond_LastTransitionTime := Some now\<rparr> | Some _ \<Rightarrow> new)
           in (conditions @ [new], True))
      | Some i \<Rightarrow>
          (let (ex, changed) = update_condition now new (conditions ! i)
           in (conditions[i := ex], changed)))"

section \<open>Label selectors\<close>

record Requirement =
  req_key :: string
  req_strValues :: "string list"

text \<open>\<^verbatim>\<open>Requirement.Matches\<close> for the \<^verbatim>\<open>Equals\<close> operator, the only one a selector built from a
  set holds.\<close>

definition Requirement_Matches :: "Requirement \<Rightarrow> str_map \<Rightarrow> bool" where
  "Requirement_Matches r ls =
     (if map_of ls (req_key r) = None then False
      else lo_Contains (req_strValues r) (map_get ls (req_key r)))"

definition SelectorFromSet :: "str_map \<Rightarrow> Requirement list" where
  "SelectorFromSet ls =
     (if ls = [] then []
      else sort_key req_key (map (\<lambda>(label, v). \<lparr>req_key = label, req_strValues = [v]\<rparr>) ls))"

fun Selector_Matches :: "Requirement list \<Rightarrow> str_map \<Rightarrow> bool" where
  "Selector_Matches [] l = True"
| "Selector_Matches (r # rs) l =
     (if \<not> Requirement_Matches r l then False else Selector_Matches rs l)"

section \<open>Group, version and kind\<close>

text \<open>\<^verbatim>\<open>%q\<close> of a string of printable characters and the usual escapes.\<close>

definition quote_char :: "char \<Rightarrow> string" where
  "quote_char c =
     (if c = CHR 0x22 \<or> c = CHR 0x5C then [CHR 0x5C, c]
      else if c = CHR 0x0A then [CHR 0x5C, CHR ''n'']
      else if c = CHR 0x0D then [CHR 0x5C, CHR ''r'']
      else if c = CHR 0x09 then [CHR 0x5C, CHR ''t'']
      else [c])"

definition go_quote :: "string \<Rightarrow> string" where
  "go_quote s = [CHR 0x22] @ concat (map quote_char s) @ [CHR 0x22]"

definition gv_String :: "GroupVersionKind \<Rightarrow> string" where
  "gv_String gvk =
     (if gvk_Group gvk \<noteq> [] then gvk_Group gvk @ ''/'' @ gvk_Version gvk else gvk_Version gvk)"

definition gvk_String :: "GroupVersionKind \<Rightarrow> string" where
  "gvk_String gvk = gvk_Group gvk @ ''/'' @ gvk_Version gvk @ '', Kind='' @ gvk_Kind gvk"

text \<open>\<^verbatim>\<open>schema.ParseGroupVersion\<close>: the group and the version of an \<^verbatim>\<open>apiVersion\<close>.\<close>

definition ParseGroupVersion :: "string \<Rightarrow> go_error + (string \<times> string)" where
  "ParseGroupVersion gv =
     (if gv = [] \<or> gv = ''/'' then Inr ([], [])
      else case count_list gv (CHR ''/'') of
          0 \<Rightarrow> Inr ([], gv)
        | Suc 0 \<Rightarrow> Inr (takeWhile (\<lambda>c. c \<noteq> CHR ''/'') gv, tl (dropWhile (\<lambda>c. c \<noteq> CHR ''/'') gv))
        | _ \<Rightarrow> Inl (ErrorString (''unexpected GroupVersion string: '' @ gv)))"

definition gotype_name :: "gotype \<Rightarrow> string" where
  "gotype_name t = (case t of GoService \<Rightarrow> ''v1.Service'' | GoPod \<Rightarrow> ''v1.Pod''
     | GoFrpServer \<Rightarrow> ''v1beta1.FrpServer'' | GoFrpServerList \<Rightarrow> ''v1beta1.FrpServerList''
     | GoOther n _ \<Rightarrow> n)"

definition Scheme_ObjectKinds ::
    "scheme \<Rightarrow> gotype \<Rightarrow> go_error + (GroupVersionKind list \<times> bool)" where
  "Scheme_ObjectKinds s t =
     (case map_of (sch_typeToGVK s) t of
        None \<Rightarrow> Inl (ErrorString (''no kind is registered for the type '' @ gotype_name t
                  @ '' in scheme '' @ go_quote (sch_Name s)))
      | Some gvks \<Rightarrow> Inr (gvks, lo_Contains (sch_unversionedTypes s) t))"

definition Scheme_New :: "scheme \<Rightarrow> GroupVersionKind \<Rightarrow> go_error + gotype" where
  "Scheme_New s kind =
     (case map_of (sch_gvkToType s) kind of
        Some t \<Rightarrow> Inr t
      | None \<Rightarrow> (case map_of (sch_unversionedKinds s) (gvk_Kind kind) of
            Some t \<Rightarrow> Inr t
          | None \<Rightarrow> Inl (ErrorString (''no kind '' @ go_quote (gvk_Kind kind)
               @ '' is registered for version '' @ go_quote (gv_String kind)
               @ '' in scheme '' @ go_quote (sch_Name s)))))"

definition gvk_Empty :: "GroupVersionKind \<Rightarrow> bool" where
  "gvk_Empty g \<longleftrightarrow> gvk_Group g = [] \<and> gvk_Version g = [] \<and> gvk_Kind g = []"

text \<open>\<^verbatim>\<open>apiutil.GVKForObject\<close> on a typed object: its Go type and the kind it declares itself.\<close>

definition GVKForObject ::
    "gotype \<Rightarrow> GroupVersionKind \<Rightarrow> scheme \<Rightarrow> go_error + GroupVersionKind" where
  "GVKForObject t currentGVK s =
     (case Scheme_ObjectKinds s t of
        Inl err \<Rightarrow> Inl err
      | Inr (gvks, isUnversioned) \<Rightarrow>
          (if isUnversioned then Inl (ErrorString
             (''cannot create group-version-kind for unversioned type *'' @ gotype_name t))
           else case gvks of
             [] \<Rightarrow> Inl (ErrorString (''no GroupVersionKind associated with Go type *'' @ gotype_name t
                    @ '', was the type registered with the Scheme?''))
           | [gvk] \<Rightarrow> Inr gvk
           | _ \<Rightarrow>
             (let err = ErrorString (''multiple GroupVersionKinds associated with Go type *''
                    @ gotype_name t @ '' within the Scheme, this can happen when a type is registered for multiple GVKs at the same time'');
                  shown = ''['' @ join_with '' '' (map (go_quote \<circ> gvk_String) gvks) @ '']''
              in if \<not> gvk_Empty currentGVK
                 then if lo_Contains gvks currentGVK then Inr currentGVK
                      else Inl (WrapError (Error err @ '': the object's supplied GroupVersionKind ''
                        @ go_quote (gvk_String currentGVK)
                        @ '' was not found in the Scheme's list; refusing to guess at one: '' @ shown) err)
                 else Inl (WrapError (Error err @ '': callers can either fix their type registration to only register it once, or specify the GroupVersionKind to use for object passed in; refusing to guess at one: ''
                        @ shown) err))))"

section \<open>Owner references\<close>

fun GetControllerOf_refs :: "OwnerReference list \<Rightarrow> OwnerReference option" where
  "GetControllerOf_refs [] = None"
| "GetControllerOf_refs (r # rs) =
     (if or_Controller r = Some True then Some r else GetControllerOf_refs rs)"

definition GetControllerOf :: "ObjectMeta \<Rightarrow> OwnerReference option" where
  "GetControllerOf controllee = GetControllerOf_refs (om_OwnerReferences controllee)"

definition referSameObject :: "OwnerReference \<Rightarrow> OwnerReference \<Rightarrow> bool" where
  "referSameObject a b =
     (case ParseGroupVersion (or_APIVersion a) of
        Inl _ \<Rightarrow> False
      | Inr aGV \<Rightarrow> (case ParseGroupVersion (or_APIVersion b) of
            Inl _ \<Rightarrow> False
          | Inr bGV \<Rightarrow> fst aGV = fst bGV \<and> or_Kind a = or_Kind b \<and> or_Name a = or_Name b))"

fun indexOwnerRef :: "OwnerReference list \<Rightarrow> OwnerReference \<Rightarrow> nat option" where
  "indexOwnerRef [] ref = None"
| "indexOwnerRef (r # rs) ref =
     (if referSameObject r ref then Some 0 else map_option Suc (indexOwnerRef rs ref))"

definition upsertOwnerRef :: "OwnerReference \<Rightarrow> ObjectMeta \<Rightarrow> ObjectMeta" where
  "upsertOwnerRef ref object =
     (let owners = om_OwnerReferences object in
      case indexOwnerRef owners ref of
        None \<Rightarrow> object\<lparr>om_OwnerReferences := owners @ [ref]\<rparr>
      | Some idx \<Rightarrow> object\<lparr>om_OwnerReferences := owners[idx := ref]\<rparr>)"

definition validateOwner :: "ObjectMeta \<Rightarrow> ObjectMeta \<Rightarrow> go_error option" where
  "validateOwner owner object =
     (let ownerNs = om_Namespace owner; objNs = om_Namespace object in
      if ownerNs \<noteq> [] then
        if objNs = [] then Some (ErrorString
          (''cluster-scoped resource must not have a namespace-scoped owner, owner's namespace '' @ ownerNs))
        else if ownerNs \<noteq> objNs then Some (ErrorString
          (''cross-namespace owner references are disallowed, owner's namespace '' @ ownerNs
             @ '', obj's namespace '' @ objNs))
        else None
      else None)"

text \<open>\<^verbatim>\<open>newAlreadyOwnedError\<close>.\<close>

definition AlreadyOwnedError :: "ObjectMeta \<Rightarrow> OwnerReference \<Rightarrow> go_error" where
  "AlreadyOwnedError object owner = ErrorString (''Object '' @ om_Namespace object @ ''/''
     @ om_Name object @ '' is already owned by another '' @ or_Kind owner @ '' controller ''
     @ or_Name owner)"

definition controller_ref :: "GroupVersionKind \<Rightarrow> ObjectMeta \<Rightarrow> OwnerReference" where
  "controller_ref gvk owner = \<lparr>or_APIVersion = gv_String gvk, or_Kind = gvk_Kind gvk,
     or_Name = om_Name owner, or_UID = om_UID owner,
     or_Controller = Some True, or_BlockOwnerDeletion = Some True\<rparr>"

text \<open>\<^verbatim>\<open>controllerutil.SetControllerReference\<close> with a service as owner.  A nil scheme is
  dereferenced after the owner has been validated.\<close>

definition SetControllerReference ::
    "Service \<Rightarrow> ObjectMeta \<Rightarrow> scheme option \<Rightarrow> (go_error + ObjectMeta) outcome" where
  "SetControllerReference owner controlled scheme =
     (case validateOwner (svc_meta owner) controlled of
        Some err \<Rightarrow> Return (Inl err)
      | None \<Rightarrow> (case scheme of
          None \<Rightarrow> Panic ''invalid memory address or nil pointer dereference''
        | Some s \<Rightarrow> (case GVKForObject GoService (svc_TypeMeta owner) s of
            Inl err \<Rightarrow> Return (Inl err)
          | Inr gvk \<Rightarrow>
              (let ref = controller_ref gvk (svc_meta owner) in
               case GetControllerOf controlled of
                 Some existing \<Rightarrow>
                   (if \<not> referSameObject existing ref
                    then Return (Inl (AlreadyOwnedError controlled existing))
                    else Return (Inr (upsertOwnerRef ref controlled)))
               | None \<Rightarrow> Return (Inr (upsertOwnerRef ref controlled))))))"

section \<open>Names\<close>

definition maxNameLength :: nat where "maxNameLength = 63"
definition randomLength :: nat where "randomLength = 5"
definition MaxGeneratedNameLength :: nat where
  "MaxGeneratedNameLength = maxNameLength - randomLength"

text \<open>\<^verbatim>\<open>SimpleNameGenerator.GenerateName\<close>, with the random suffix as an argument.\<close>

definition GenerateName :: "string \<Rightarrow> string \<Rightarrow> string" where
  "GenerateName base suffix =
     (let base = (if length base > MaxGeneratedNameLength then take MaxGeneratedNameLength base else base)
      in base @ suffix)"

section \<open>Lemmas\<close>

lemma EmptyOr_zero [simp]: "EmptyOr z z f = f"
  by (simp add: EmptyOr_def)

lemma EmptyOr_nonzero [simp]: "v \<noteq> z \<Longrightarrow> EmptyOr z v f = v"
  by (simp add: EmptyOr_def)

lemma EmptyOr_idem [simp]: "EmptyOr z (EmptyOr z v f) f = EmptyOr z v f"
  by (simp add: EmptyOr_def)

lemma EmptyOr_ne_zero [simp]: "EmptyOr z v f = z \<longleftrightarrow> v = z \<and> f = z"
  by (auto simp: EmptyOr_def)

lemma EmptyOr_ptr_Some [simp]: "\<exists>y. EmptyOr_ptr v (Some f) = Some y"
  by (cases v) (simp_all add: EmptyOr_def)

lemma lo_Contains_iff [simp]: "lo_Contains xs x \<longleftrightarrow> x \<in> set xs"
  by (induction xs) auto

lemma lo_Every_iff [simp]: "lo_Every xs ys \<longleftrightarrow> set ys \<subseteq> set xs"
  by (induction ys) auto

lemma lo_Without_eq [simp]: "lo_Without xs ys = filter (\<lambda>x. x \<notin> set ys) xs"
  by (induction xs) auto

lemma FindStatusCondition_None: "FindStatusCondition cs t = None \<longleftrightarrow> t \<notin> cond_Type ` set cs"
  by (induction cs) auto

lemma FindStatusCondition_Some:
  "FindStatusCondition cs t = Some i \<Longrightarrow> i < length cs \<and> cond_Type (cs ! i) = t"
  by (induction cs arbitrary: i) (auto split: if_splits)

lemma FindStatusCondition_first:
  "FindStatusCondition cs t = Some i \<Longrightarrow> j < i \<Longrightarrow> cond_Type (cs ! j) \<noteq> t"
proof (induction cs arbitrary: i j)
  case (Cons c cs)
  then show ?case by (cases j) (auto split: if_splits)
qed simp

lemma update_condition_fields:
  "update_condition now new ex = (ex', ch) \<Longrightarrow>
     cond_Type ex' = cond_Type ex \<and> cond_Status ex' = cond_Status new
     \<and> cond_Reason ex' = cond_Reason new \<and> cond_Message ex' = cond_Message new
     \<and> cond_ObservedGeneration ex' = cond_ObservedGeneration new
     \<and> (cond_Status ex = cond_Status new \<longrightarrow> cond_LastTransitionTime ex' = cond_LastTransitionTime ex)"
  by (auto simp: update_condition_def Let_def split: if_splits)

lemma Requirement_Matches_single [simp]:
  "Requirement_Matches \<lparr>req_key = k, req_strValues = [v]\<rparr> ls \<longleftrightarrow> map_of ls k = Some v"
  by (auto simp: Requirement_Matches_def map_get_def split: option.splits)

lemma Selector_Matches_iff: "Selector_Matches rs ls \<longleftrightarrow> (\<forall>r\<in>set rs. Requirement_Matches r ls)"
  by (induction rs) auto

text \<open>A selector built from a set matches exactly the label sets that extend it.\<close>

lemma Selector_Matches_SelectorFromSet [simp]:
  "Selector_Matches (SelectorFromSet sel) ls \<longleftrightarrow> (\<forall>(k, v)\<in>set sel. map_of ls k = Some v)"
  by (auto simp: Selector_Matches_iff SelectorFromSet_def)

lemma GetControllerOf_refs_in: "GetControllerOf_refs rs = Some r \<Longrightarrow> r \<in> set rs \<and> or_Controller r = Some True"
  by (induction rs) (auto split: if_splits)

lemma GetControllerOf_refs_append:
  "GetControllerOf_refs (xs @ ys) =
     (case GetControllerOf_refs xs of Some r \<Rightarrow> Some r | None \<Rightarrow> GetControllerOf_refs ys)"
  by (induction xs) auto

lemma GetControllerOf_refs_None: "GetControllerOf_refs rs = None \<longleftrightarrow> (\<forall>r\<in>set rs. or_Controller r \<noteq> Some True)"
  by (induction rs) auto

lemma indexOwnerRef_Some:
  "indexOwnerRef rs ref = Some i \<Longrightarrow> i < length rs \<and> referSameObject (rs ! i) ref"
  by (induction rs arbitrary: i) (auto split: if_splits)

lemma indexOwnerRef_None: "indexOwnerRef rs ref = None \<longleftrightarrow> (\<forall>r\<in>set rs. \<not> referSameObject r ref)"
  by (induction rs) auto

lemma GetControllerOf_refs_update:
  assumes "GetControllerOf_refs rs = None" and "i < length rs" and "or_Controller ref = Some True"
  shows "GetControllerOf_refs (rs[i := ref]) = Some ref"
  using assms
proof (induction rs arbitrary: i)
  case (Cons r rs)
  then show ?case by (cases i) (auto split: if_splits)
qed simp

text \<open>An object without a controller ends up controlled by the reference that is upserted.\<close>

lemma GetControllerOf_upsertOwnerRef:
  assumes "GetControllerOf m = None" and "or_Controller ref = Some True"
  shows "GetControllerOf (upsertOwnerRef ref m) = Some ref"
proof (cases "indexOwnerRef (om_OwnerReferences m) ref")
  case None
  with assms show ?thesis
    by (simp add: upsertOwnerRef_def GetControllerOf_def GetControllerOf_refs_append)
next
  case (Some i)
  with assms show ?thesis
    by (simp add: upsertOwnerRef_def GetControllerOf_def GetControllerOf_refs_update
        indexOwnerRef_Some)
qed

lemma upsertOwnerRef_frame [simp]:
  "om_Name (upsertOwnerRef ref m) = om_Name m"
  "om_Namespace (upsertOwnerRef ref m) = om_Namespace m"
  "om_UID (upsertOwnerRef ref m) = om_UID m"
  "om_Labels (upsertOwnerRef ref m) = om_Labels m"
  "om_DeletionTimestamp (upsertOwnerRef ref m) = om_DeletionTimestamp m"
  "om_Finalizers (upsertOwnerRef ref m) = om_Finalizers m"
  "om_Annotations (upsertOwnerRef ref m) = om_Annotations m"
  by (simp_all add: upsertOwnerRef_def Let_def split: option.splits)

lemma controller_ref_simps [simp]:
  "or_UID (controller_ref gvk m) = om_UID m"
  "or_Controller (controller_ref gvk m) = Some True"
  "or_Name (controller_ref gvk m) = om_Name m"
  "or_Kind (controller_ref gvk m) = gvk_Kind gvk"
  by (simp_all add: controller_ref_def)

lemma length_GenerateName: "length suffix = randomLength \<Longrightarrow> length (GenerateName base suffix) \<le> maxNameLength"
  by (simp add: GenerateName_def MaxGeneratedNameLength_def maxNameLength_def randomLength_def)

end
