(* ===== verification/Api_Types.thy ===== *)
theory Api_Types
  imports K8s_Lib
begin

text \<open>
  The \<^verbatim>\<open>frp.gofrp.io/v1beta1\<close> API (\<^verbatim>\<open>pkg/api/v1beta1\<close>): the \<^verbatim>\<open>FrpServer\<close> resource with its
  spec and status, and the package's constants.  Enumerations are Go strings, because a
  value outside the listed ones can reach the program and is rejected by validation only.
  Go \<^verbatim>\<open>int\<close> and \<^verbatim>\<open>int64\<close> fields are only compared, never computed with.
\<close>

section \<open>Constants\<close>

definition FrpServerAuthMethodToken :: string where [go_strings]: "FrpServerAuthMethodToken = ''token''"
definition FrpServerAuthMethodOIDC :: string where [go_strings]: "FrpServerAuthMethodOIDC = ''oidc''"
definition FrpServerAuthScopeHeartBeats :: string where
  [go_strings]: "FrpServerAuthScopeHeartBeats = ''HeartBeats''"
definition FrpServerAuthScopeNewWorkConns :: string where
  [go_strings]: "FrpServerAuthScopeNewWorkConns = ''NewWorkConns''"
definition FrpServerTransportProtocolTCP :: string where [go_strings]: "FrpServerTransportProtocolTCP = ''tcp''"
definition FrpServerTransportProtocolKCP :: string where [go_strings]: "FrpServerTransportProtocolKCP = ''kcp''"
definition FrpServerTransportProtocolQUIC :: string where [go_strings]: "FrpServerTransportProtocolQUIC = ''quic''"
definition FrpServerTransportProtocolWebsocket :: string where
  [go_strings]: "FrpServerTransportProtocolWebsocket = ''websocket''"
definition FrpServerTransportProtocolWSS :: string where [go_strings]: "FrpServerTransportProtocolWSS = ''wss''"

definition FrpServerAuthMethods :: "string list" where
  "FrpServerAuthMethods = [FrpServerAuthMethodToken, FrpServerAuthMethodOIDC]"
definition FrpServerAuthScopes :: "string list" where
  "FrpServerAuthScopes = [FrpServerAuthScopeHeartBeats, FrpServerAuthScopeNewWorkConns]"
definition FrpServerTransportProtocols :: "string list" where
  "FrpServerTransportProtocols = [FrpServerTransportProtocolTCP, FrpServerTransportProtocolKCP,
     FrpServerTransportProtocolQUIC, FrpServerTransportProtocolWSS, FrpServerTransportProtocolWebsocket]"

definition ReasonInitialized :: string where [go_strings]: "ReasonInitialized = ''Initialized''"
definition ReasonInitializeFailed :: string where [go_strings]: "ReasonInitializeFailed = ''InitializeFailed''"
definition ReasonGenerateConfigFailed :: string where
  [go_strings]: "ReasonGenerateConfigFailed = ''GenerateConfigFailed''"

definition FrpServerPhasePending :: string where [go_strings]: "FrpServerPhasePending = ''Pending''"
definition FrpServerPhaseHealthy :: string where [go_strings]: "FrpServerPhaseHealthy = ''Healthy''"
definition FrpServerPhaseUnhealthy :: string where [go_strings]: "FrpServerPhaseUnhealthy = ''Unhealthy''"
definition FrpServerPhaseUnknown :: string where [go_strings]: "FrpServerPhaseUnknown = ''Unknown''"

definition FinalizerName :: string where [go_strings]: "FinalizerName = ''finalizer.gofrp.io/tracking''"
definition LabelServiceNameKey :: string where [go_strings]: "LabelServiceNameKey = ''gofrp.io/service-name''"
definition LabelControllerUidKey :: string where
  [go_strings]: "LabelControllerUidKey = ''gofrp.io/controller-uid''"
definition AnnotationFrpServerNameKey :: string where
  [go_strings]: "AnnotationFrpServerNameKey = ''service.beta.kubernetes.io/frp-server-name''"
definition DefaultCaFileName :: string where [go_strings]: "DefaultCaFileName = ''tls.ca''"
definition DefaultCertFileName :: string where [go_strings]: "DefaultCertFileName = ''tls.crt''"
definition DefaultKeyFileName :: string where [go_strings]: "DefaultKeyFileName = ''tls.key''"
definition DefaultNatHoleSTUNAddr :: string where
  [go_strings]: "DefaultNatHoleSTUNAddr = ''stun.easyvoip.com:3478''"

section \<open>The FrpServer resource\<close>

record FrpServerAuthOIDC =
  oidc_ClientID :: string
  oidc_ClientSecret :: string
  oidc_Audience :: string
  oidc_Scope :: string
  oidc_TokenEndpointURL :: string
  oidc_AdditionalEndpointParams :: "str_map option"

record FrpServerAuth =
  auth_Method :: string
  auth_AdditionalScopes :: "string list"
  auth_Token :: string
  auth_OIDC :: "FrpServerAuthOIDC option"

record FrpServerTransportQUIC =
  quic_KeepalivePeriod :: int
  quic_MaxIdleTimeout :: int
  quic_MaxIncomingStreams :: int

record FrpServerTransportTLS =
  tls_SecretRef :: "SecretReference option"
  tls_ServerName :: string
  tls_DisableCustomTLSFirstByte :: "bool option"

record FrpServerTransport =
  tr_Protocol :: string
  tr_DialServerTimeout :: int
  tr_DialServerKeepAlive :: int
  tr_ConnectServerLocalIP :: string
  tr_ProxyURL :: string
  tr_PoolCount :: int
  tr_TCPMux :: "bool option"
  tr_TCPMuxKeepaliveInterval :: int
  tr_QUIC :: "FrpServerTransportQUIC option"
  tr_HeartbeatInterval :: int
  tr_HeartbeatTimeout :: int
  tr_TLS :: FrpServerTransportTLS

record FrpServerSpec =
  spec_Auth :: FrpServerAuth
  spec_User :: string
  spec_ServerAddr :: string
  spec_ServerPort :: int
  spec_ExternalIPs :: "string list"
  spec_NatHoleSTUNServer :: string
  spec_DNSServer :: string
  spec_LoginFailExit :: "bool option"
  spec_Transport :: FrpServerTransport
  spec_UDPPacketSize :: int
  spec_Metadatas :: "str_map option"

record ServiceReference =
  sref_Name :: string
  sref_Namespace :: string

record FrpServerStatus =
  st_Phase :: string
  st_Conditions :: "Condition list"
  st_Reason :: string
  st_ServiceReferences :: "ServiceReference list"

record FrpServer =
  fs_meta :: ObjectMeta
  fs_Spec :: FrpServerSpec
  fs_Status :: FrpServerStatus

section \<open>Activity of pods and servers (pkg/utils/controller/controller.go)\<close>

definition IsPodActive :: "Pod \<Rightarrow> bool" where
  "IsPodActive p \<longleftrightarrow> PodSucceeded \<noteq> pod_Phase p \<and> PodFailed \<noteq> pod_Phase p
     \<and> om_DeletionTimestamp (pod_meta p) = None"

definition IsFrpServerActive :: "FrpServer \<Rightarrow> bool" where
  "IsFrpServerActive i \<longleftrightarrow> st_Phase (fs_Status i) = FrpServerPhaseHealthy
     \<and> om_DeletionTimestamp (fs_meta i) = None"

section \<open>Lemmas\<close>

lemma label_keys_distinct [simp]:
  "LabelServiceNameKey \<noteq> LabelControllerUidKey" "LabelControllerUidKey \<noteq> LabelServiceNameKey"
  by (simp_all add: go_strings)

lemma phases_distinct [simp]:
  "FrpServerPhaseUnhealthy \<noteq> FrpServerPhaseHealthy" "FrpServerPhaseHealthy \<noteq> FrpServerPhaseUnhealthy"
  "FrpServerPhasePending \<noteq> FrpServerPhaseHealthy" "FrpServerPhaseHealthy \<noteq> FrpServerPhasePending"
  "FrpServerPhaseUnknown \<noteq> FrpServerPhaseHealthy" "FrpServerPhaseHealthy \<noteq> FrpServerPhaseUnknown"
  "FrpServerPhasePending \<noteq> FrpServerPhaseUnknown" "FrpServerPhaseUnknown \<noteq> FrpServerPhasePending"
  "FrpServerPhaseUnhealthy \<noteq> FrpServerPhaseUnknown" "FrpServerPhaseUnknown \<noteq> FrpServerPhaseUnhealthy"
  "FrpServerPhaseUnhealthy \<noteq> FrpServerPhasePending" "FrpServerPhasePending \<noteq> FrpServerPhaseUnhealthy"
  by (simp_all add: go_strings)

end
