(* ===== verification/Defaulting.thy ===== *)
theory Defaulting
  imports Go_Prelude
begin

text \<open>
  The contract of a defaulting function, which several components provide: the admission webhook
  for its resource, the frp client for its configuration, the program for its options.  A
  \<open>complete\<close> value needs no default; defaulting produces one and leaves one alone.
\<close>

locale defaulter =
  fixes default :: "'a \<Rightarrow> 'a" and complete :: "'a \<Rightarrow> bool"
  assumes completes: "complete (default x)"
    and keeps: "complete x \<Longrightarrow> default x = x"
begin

lemma idem: "default (default x) = default x"
  by (rule keeps) (rule completes)

lemma fixpoint: "default x = x \<longleftrightarrow> complete x"
  using completes [of x] keeps [of x] by metis

lemma iterate: "(default ^^ Suc n) x = default x"
  by (induction n) (simp_all add: idem)

end

text \<open>Two defaulters that agree on complete values can be applied in any order.\<close>

locale defaulter_after = defaulter default complete for default complete +
  fixes outer :: "'b \<Rightarrow> 'b" and view :: "'a \<Rightarrow> 'b"
  assumes agrees: "outer (view (default x)) = outer (view x)"
begin

lemma agrees_iterate: "outer (view ((default ^^ n) x)) = outer (view x)"
  by (induction n) (simp_all add: agrees)

end

end
