(* ===== verification/Frp_Config.thy ===== *)
theory Frp_Config
  imports Api_Types Defaulting
begin

text \<open>
  The frp client configuration (vendored \<^verbatim>\<open>fatedier/frp/pkg/config/v1\<close> and its \<^verbatim>\<open>validation\<close>
  package) that a \<^verbatim>\<open>FrpServer\<close> spec is turned into: the structs, \<^verbatim>\<open>Complete\<close>, which fills in
  defaults, and \<^verbatim>\<open>ValidateClientCommonConfig\<close>.
\<close>

section \<open>Structs\<close>

record AuthOIDCClientConfig =
  oc_ClientID :: string
  oc_ClientSecret :: string
  oc_Audience :: string
  oc_Scope :: string
  oc_TokenEndpointURL :: string
  oc_AdditionalEndpointParams :: "str_map option"

record AuthClientConfig =
  ac_Method :: string
  ac_AdditionalScopes :: "string list"
  ac_Token :: string
  ac_OIDC :: AuthOIDCClientConfig

record QUICOptions =
  qo_KeepalivePeriod :: int
  qo_MaxIdleTimeout :: int
  qo_MaxIncomingStreams :: int

record TLSConfig =
  tc_CertFile :: string
  tc_KeyFile :: string
  tc_TrustedCaFile :: string
  tc_ServerName :: string

record TLSClientConfig =
  tcc_Enable :: "bool option"
  tcc_DisableCustomTLSFirstByte :: "bool option"
  tcc_TLSConfig :: TLSConfig

record ClientTransportConfig =
  ct_Protocol :: string
  ct_DialServerTimeout :: int
  ct_DialServerKeepAlive :: int
  ct_ConnectServerLocalIP :: string
  ct_ProxyURL :: string
  ct_PoolCount :: int
  ct_TCPMux :: "bool option"
  ct_TCPMuxKeepaliveInterval :: int
  ct_QUIC :: QUICOptions
  ct_HeartbeatInterval :: int
  ct_HeartbeatTimeout :: int
  ct_TLS :: TLSClientConfig

record LogConfig =
  lc_To :: string
  lc_Level :: string
  lc_MaxDays :: int
  lc_DisablePrintColor :: bool

record WebServerConfig =
  ws_Addr :: string
  ws_Port :: int
  ws_User :: string
  ws_Password :: string
  ws_AssetsDir :: string
  ws_PprofEnable :: bool
  ws_TLS :: "TLSConfig option"

record ClientCommonConfig =
  cc_Auth :: AuthClientConfig
  cc_User :: string
  cc_ServerAddr :: string
  cc_ServerPort :: int
  cc_NatHoleSTUNServer :: string
  cc_DNSServer :: string
  cc_LoginFailExit :: "bool option"
  cc_Start :: "string list"
  cc_Log :: LogConfig
  cc_WebServer :: WebServerConfig
  cc_Transport :: ClientTransportConfig
  cc_UDPPacketSize :: int
  cc_Metadatas :: "str_map option"
  cc_IncludeConfigFiles :: "string list"

text \<open>Zero values of the structs.\<close>

definition zero_OIDC :: AuthOIDCClientConfig where
  "zero_OIDC = \<lparr>oc_ClientID = [], oc_ClientSecret = [], oc_Audience = [], oc_Scope = [],
     oc_TokenEndpointURL = [], oc_AdditionalEndpointParams = None\<rparr>"
definition zero_QUIC :: QUICOptions where
  "zero_QUIC = \<lparr>qo_KeepalivePeriod = 0, qo_MaxIdleTimeout = 0, qo_MaxIncomingStreams = 0\<rparr>"
definition zero_Log :: LogConfig where
  "zero_Log = \<lparr>lc_To = [], lc_Level = [], lc_MaxDays = 0, lc_DisablePrintColor = False\<rparr>"
definition zero_WebServer :: WebServerConfig where
  "zero_WebServer = \<lparr>ws_Addr = [], ws_Port = 0, ws_User = [], ws_Password = [], ws_AssetsDir = [],
     ws_PprofEnable = False, ws_TLS = None\<rparr>"

section \<open>Complete\<close>

definition AuthClientConfig_Complete :: "AuthClientConfig \<Rightarrow> AuthClientConfig" where
  "AuthClientConfig_Complete c = c\<lparr>ac_Method := EmptyOr_str (ac_Method c) ''token''\<rparr>"

definition LogConfig_Complete :: "LogConfig \<Rightarrow> LogConfig" where
  "LogConfig_Complete c = c\<lparr>lc_To := EmptyOr_str (lc_To c) ''console'',
     lc_Level := EmptyOr_str (lc_Level c) ''info'', lc_MaxDays := EmptyOr_int (lc_MaxDays c) 3\<rparr>"

definition WebServerConfig_Complete :: "WebServerConfig \<Rightarrow> WebServerConfig" where
  "WebServerConfig_Complete c = c\<lparr>ws_Addr := EmptyOr_str (ws_Addr c) ''127.0.0.1''\<rparr>"

definition QUICOptions_Complete :: "QUICOptions \<Rightarrow> QUICOptions" where
  "QUICOptions_Complete c = c\<lparr>qo_KeepalivePeriod := EmptyOr_int (qo_KeepalivePeriod c) 10,
     qo_MaxIdleTimeout := EmptyOr_int (qo_MaxIdleTimeout c) 30,
     qo_MaxIncomingStreams := EmptyOr_int (qo_MaxIncomingStreams c) 100000\<rparr>"

definition TLSClientConfig_Complete :: "TLSClientConfig \<Rightarrow> TLSClientConfig" where
  "TLSClientConfig_Complete c = c\<lparr>tcc_Enable := EmptyOr_ptr (tcc_Enable c) (Some True),
     tcc_DisableCustomTLSFirstByte := EmptyOr_ptr (tcc_DisableCustomTLSFirstByte c) (Some True)\<rparr>"

text \<open>The argument \<open>http_proxy\<close> is the value of that environment variable.\<close>

definition ClientTransportConfig_Complete ::
    "string \<Rightarrow> ClientTransportConfig \<Rightarrow> ClientTransportConfig" where
  "ClientTransportConfig_Complete http_proxy c = c\<lparr>
     ct_Protocol := EmptyOr_str (ct_Protocol c) ''tcp'',
     ct_DialServerTimeout := EmptyOr_int (ct_DialServerTimeout c) 10,
     ct_DialServerKeepAlive := EmptyOr_int (ct_DialServerKeepAlive c) 7200,
     ct_ProxyURL := EmptyOr_str (ct_ProxyURL c) http_proxy,
     ct_PoolCount := EmptyOr_int (ct_PoolCount c) 1,
     ct_TCPMux := EmptyOr_ptr (ct_TCPMux c) (Some True),
     ct_TCPMuxKeepaliveInterval := EmptyOr_int (ct_TCPMuxKeepaliveInterval c) 60,
     ct_HeartbeatInterval := EmptyOr_int (ct_HeartbeatInterval c) 30,
     ct_HeartbeatTimeout := EmptyOr_int (ct_HeartbeatTimeout c) 90,
     ct_QUIC := QUICOptions_Complete (ct_QUIC c),
     ct_TLS := TLSClientConfig_Complete (ct_TLS c)\<rparr>"

definition ClientCommonConfig_Complete :: "string \<Rightarrow> ClientCommonConfig \<Rightarrow> ClientCommonConfig" where
  "ClientCommonConfig_Complete http_proxy c = c\<lparr>
     cc_ServerAddr := EmptyOr_str (cc_ServerAddr c) ''0.0.0.0'',
     cc_ServerPort := EmptyOr_int (cc_ServerPort c) 7000,
     cc_LoginFailExit := EmptyOr_ptr (cc_LoginFailExit c) (Some True),
     cc_NatHoleSTUNServer := EmptyOr_str (cc_NatHoleSTUNServer c) ''stun.easyvoip.com:3478'',
     cc_Auth := AuthClientConfig_Complete (cc_Auth c),
     cc_Log := LogConfig_Complete (cc_Log c),
     cc_Transport := ClientTransportConfig_Complete http_proxy (cc_Transport c),
     cc_WebServer := WebServerConfig_Complete (cc_WebServer c),
     cc_UDPPacketSize := EmptyOr_int (cc_UDPPacketSize c) 1500\<rparr>"

section \<open>Validation\<close>

definition SupportedTransportProtocols :: "string list" where
  "SupportedTransportProtocols = [''tcp'', ''kcp'', ''quic'', ''websocket'', ''wss'']"
definition SupportedAuthMethods :: "string list" where
  "SupportedAuthMethods = [''token'', ''oidc'']"
definition SupportedAuthAdditionalScopes :: "string list" where
  "SupportedAuthAdditionalScopes = [''HeartBeats'', ''NewWorkConns'']"
definition SupportedLogLevels :: "string list" where
  "SupportedLogLevels = [''trace'', ''debug'', ''info'', ''warn'', ''error'']"

definition AppendError :: "go_error option \<Rightarrow> go_error option list \<Rightarrow> go_error option" where
  "AppendError err errs = (if errs = [] then err else errors_Join (err # errs))"

definition validation_ValidatePort :: "int \<Rightarrow> string \<Rightarrow> go_error option" where
  "validation_ValidatePort port fieldPath =
     (if 0 \<le> port \<and> port \<le> 65535 then None
      else Some (ErrorString (fieldPath @ '': port number '' @ itoa port @ '' must be in the range 0..65535'')))"

definition validateWebServerConfig :: "WebServerConfig \<Rightarrow> go_error option" where
  "validateWebServerConfig c =
     (case ws_TLS c of
        Some t \<Rightarrow>
          (if tc_CertFile t = [] then Some (ErrorString ''tls.certFile must be specified when tls is enabled'')
           else if tc_KeyFile t = [] then Some (ErrorString ''tls.keyFile must be specified when tls is enabled'')
           else validation_ValidatePort (ws_Port c) ''webServer.port'')
      | None \<Rightarrow> validation_ValidatePort (ws_Port c) ''webServer.port'')"

definition validateLogConfig :: "LogConfig \<Rightarrow> go_error option" where
  "validateLogConfig c =
     (if \<not> lo_Contains SupportedLogLevels (lc_Level c)
      then Some (ErrorString (''invalid log level, optional values are '' @ fmt_slice SupportedLogLevels))
      else None)"

definition append_if :: "bool \<Rightarrow> go_error \<Rightarrow> go_error option \<Rightarrow> go_error option" where
  "append_if b e errs = (if b then AppendError errs [Some e] else errs)"

definition append_some :: "go_error option \<Rightarrow> go_error option \<Rightarrow> go_error option" where
  "append_some e errs = (case e of None \<Rightarrow> errs | Some x \<Rightarrow> AppendError errs [Some x])"

text \<open>The check of one \<^verbatim>\<open>includes\<close> entry needs the file system; what it finds is the argument
  \<open>include_error\<close>.\<close>

fun append_includes :: "(string \<Rightarrow> go_error option) \<Rightarrow> string list \<Rightarrow> go_error option \<Rightarrow> go_error option" where
  "append_includes include_error [] errs = errs"
| "append_includes include_error (f # fs) errs =
     append_includes include_error fs (append_some (include_error f) errs)"

definition checkTLSConfig :: "string \<Rightarrow> string \<Rightarrow> go_error option" where
  "checkTLSConfig name v =
     (if v \<noteq> [] then Some (ErrorString (name @ '' is invalid when transport.tls.enable is false'')) else None)"

text \<open>The result is the pair of warnings and errors.\<close>

definition ValidateClientCommonConfig ::
    "(string \<Rightarrow> go_error option) \<Rightarrow> ClientCommonConfig \<Rightarrow> go_error option \<times> go_error option" where
  "ValidateClientCommonConfig include_error c =
     (let errs = None;
        errs = append_if (\<not> lo_Contains SupportedAuthMethods (ac_Method (cc_Auth c)))
          (ErrorString (''invalid auth method, optional values are '' @ fmt_slice SupportedAuthMethods)) errs;
        errs = append_if (\<not> lo_Every SupportedAuthAdditionalScopes (ac_AdditionalScopes (cc_Auth c)))
          (ErrorString (''invalid auth additional scopes, optional values are ''
             @ fmt_slice SupportedAuthAdditionalScopes)) errs;
        errs = append_some (validateLogConfig (cc_Log c)) errs;
        errs = append_some (validateWebServerConfig (cc_WebServer c)) errs;
        t = cc_Transport c;
        errs = append_if (ct_HeartbeatTimeout t > 0 \<and> ct_HeartbeatInterval t > 0
             \<and> ct_HeartbeatTimeout t < ct_HeartbeatInterval t)
          (ErrorString ''invalid transport.heartbeatTimeout, heartbeat timeout should not less than heartbeat interval'') errs;
        f = tcc_TLSConfig (ct_TLS t);
        warnings = (if \<not> lo_FromPtr_bool (tcc_Enable (ct_TLS t))
           then AppendError (AppendError (AppendError None
                  [checkTLSConfig ''transport.tls.certFile'' (tc_CertFile f)])
                  [checkTLSConfig ''transport.tls.keyFile'' (tc_KeyFile f)])
                  [checkTLSConfig ''transport.tls.trustedCaFile'' (tc_TrustedCaFile f)]
           else None);
        errs = append_if (\<not> lo_Contains SupportedTransportProtocols (ct_Protocol t))
          (ErrorString (''invalid transport.protocol, optional values are ''
             @ fmt_slice SupportedTransportProtocols)) errs;
        errs = append_includes include_error (cc_IncludeConfigFiles c) errs
      in (warnings, errs))"

section \<open>Lemmas\<close>

lemma AppendError_None [simp]: "AppendError e es = None \<longleftrightarrow> e = None \<and> (\<forall>x\<in>set es. x = None)"
  by (auto simp: AppendError_def)

lemma append_if_None [simp]: "append_if b e errs = None \<longleftrightarrow> \<not> b \<and> errs = None"
  by (auto simp: append_if_def)

lemma append_some_None [simp]: "append_some e errs = None \<longleftrightarrow> e = None \<and> errs = None"
  by (auto simp: append_some_def split: option.splits)

lemma append_includes_None [simp]:
  "append_includes ie fs errs = None \<longleftrightarrow> errs = None \<and> (\<forall>f\<in>set fs. ie f = None)"
  by (induction ie fs errs rule: append_includes.induct) auto

text \<open>\<open>Complete\<close> is a defaulter; the proxy comes from the environment and may stay empty.\<close>

definition config_complete :: "string \<Rightarrow> ClientCommonConfig \<Rightarrow> bool" where
  "config_complete http_proxy c \<longleftrightarrow> (let t = cc_Transport c; q = ct_QUIC t; tls = ct_TLS t; l = cc_Log c in
     cc_ServerAddr c \<noteq> [] \<and> cc_ServerPort c \<noteq> 0 \<and> cc_LoginFailExit c \<noteq> None \<and> cc_NatHoleSTUNServer c \<noteq> []
     \<and> cc_UDPPacketSize c \<noteq> 0 \<and> ac_Method (cc_Auth c) \<noteq> [] \<and> ws_Addr (cc_WebServer c) \<noteq> []
     \<and> lc_To l \<noteq> [] \<and> lc_Level l \<noteq> [] \<and> lc_MaxDays l \<noteq> 0
     \<and> ct_Protocol t \<noteq> [] \<and> ct_DialServerTimeout t \<noteq> 0 \<and> ct_DialServerKeepAlive t \<noteq> 0
     \<and> (ct_ProxyURL t \<noteq> [] \<or> http_proxy = []) \<and> ct_PoolCount t \<noteq> 0 \<and> ct_TCPMux t \<noteq> None
     \<and> ct_TCPMuxKeepaliveInterval t \<noteq> 0 \<and> ct_HeartbeatInterval t \<noteq> 0 \<and> ct_HeartbeatTimeout t \<noteq> 0
     \<and> qo_KeepalivePeriod q \<noteq> 0 \<and> qo_MaxIdleTimeout q \<noteq> 0 \<and> qo_MaxIncomingStreams q \<noteq> 0
     \<and> tcc_Enable tls \<noteq> None \<and> tcc_DisableCustomTLSFirstByte tls \<noteq> None)"

lemmas Complete_defs = ClientCommonConfig_Complete_def ClientTransportConfig_Complete_def
  TLSClientConfig_Complete_def QUICOptions_Complete_def WebServerConfig_Complete_def
  LogConfig_Complete_def AuthClientConfig_Complete_def

interpretation frp_complete: defaulter "ClientCommonConfig_Complete p" "config_complete p" for p
proof
  show "config_complete p (ClientCommonConfig_Complete p c)" for c
    by (auto simp: config_complete_def Complete_defs Let_def)
  show "ClientCommonConfig_Complete p c = c" if "config_complete p c" for c
    using that by (cases "ct_ProxyURL (cc_Transport c) = []") (simp_all add: config_complete_def Complete_defs Let_def)
qed

text \<open>What a configuration without an error looks like.\<close>

lemma ValidateClientCommonConfig_ok_iff:
  "snd (ValidateClientCommonConfig ie c) = None \<longleftrightarrow>
     ac_Method (cc_Auth c) \<in> set SupportedAuthMethods
     \<and> set (ac_AdditionalScopes (cc_Auth c)) \<subseteq> set SupportedAuthAdditionalScopes
     \<and> validateLogConfig (cc_Log c) = None \<and> validateWebServerConfig (cc_WebServer c) = None
     \<and> \<not> (ct_HeartbeatTimeout (cc_Transport c) > 0 \<and> ct_HeartbeatInterval (cc_Transport c) > 0
          \<and> ct_HeartbeatTimeout (cc_Transport c) < ct_HeartbeatInterval (cc_Transport c))
     \<and> ct_Protocol (cc_Transport c) \<in> set SupportedTransportProtocols
     \<and> (\<forall>f\<in>set (cc_IncludeConfigFiles c). ie f = None)"
  by (auto simp: ValidateClientCommonConfig_def Let_def)

section \<open>Version\<close>

definition frp_version :: string where "frp_version = ''0.53.2''"

end
