(* ===== verification/Cluster_Env.thy ===== *)
theory Cluster_Env
  imports Frp_Config
begin

text \<open>
  The outside world of the controllers.  \<open>'w api\<close> is the Kubernetes API behind
  \<^verbatim>\<open>client.Client\<close>, \<open>'w sys\<close> the operating system, the clock and the network behind the frp
  connector.  Both are parameters: each operation may answer anything and change the world
  in any way.  Every call is recorded with its answer as an \<open>event\<close> of the trace, so that a
  property of the trace is a property of what the program does, for any cluster.
\<close>

section \<open>Messages to the frp server\<close>

record ClientSpec =
  csp_Type :: string
  csp_AlwaysAuthPass :: bool

record Login =
  lg_Version :: string
  lg_Hostname :: string
  lg_Os :: string
  lg_Arch :: string
  lg_User :: string
  lg_PrivilegeKey :: string
  lg_Timestamp :: int
  lg_RunID :: string
  lg_Metas :: "str_map option"
  lg_ClientSpec :: ClientSpec
  lg_PoolCount :: int

record LoginResp =
  lr_Version :: string
  lr_RunID :: string
  lr_Error :: string

text \<open>The OAuth2 client credentials an OIDC login is made with.\<close>

record credentials_Config =
  cr_ClientID :: string
  cr_ClientSecret :: string
  cr_Scopes :: "string list"
  cr_TokenURL :: string
  cr_EndpointParams :: "(string \<times> string list) list"

section \<open>Events\<close>

datatype event =
    EvGetService NamespacedName "go_error + Service"
  | EvUpdateService Service "go_error + Service"
  | EvListPods string "Requirement list" "go_error + Pod list"
  | EvCreatePod Pod "go_error + Pod"
  | EvUpdatePod Pod "go_error + Pod"
  | EvDeletePod Pod "go_error option"
  | EvGetObject gotype NamespacedName "go_error + ObjectMeta"
  | EvGetFrpServer NamespacedName "go_error + FrpServer"
  | EvListFrpServers "go_error + FrpServer list"
  | EvUpdateStatus FrpServer "go_error option"
  | EvGetSecret NamespacedName "go_error + Secret"
  | EvRand nat string
  | EvNow int
  | EvCreateTemp string "go_error + string"
  | EvWrite string string "go_error option"
  | EvClose string "go_error option"
  | EvRemove string "go_error option"
  | EvOpen ClientCommonConfig "go_error option"
  | EvConnect "go_error + nat"
  | EvCloseConnector
  | EvCloseConn nat
  | EvHostname "go_error + string"
  | EvToken credentials_Config "go_error + string"
  | EvWriteMsg nat Login "go_error option"
  | EvReadDeadline nat bool
  | EvReadMsg nat "go_error + LoginResp"

type_synonym 'w kstate = "('w, event) gostate"
type_synonym ('w, 'a) act = "('w, event, 'a) go"

section \<open>The Kubernetes API\<close>

record 'w api =
  api_get_service :: "NamespacedName \<Rightarrow> 'w \<Rightarrow> (go_error + Service) \<times> 'w"
  api_update_service :: "Service \<Rightarrow> 'w \<Rightarrow> (go_error + Service) \<times> 'w"
  api_list_pods :: "string \<Rightarrow> Requirement list \<Rightarrow> 'w \<Rightarrow> (go_error + Pod list) \<times> 'w"
  api_create_pod :: "Pod \<Rightarrow> 'w \<Rightarrow> (go_error + Pod) \<times> 'w"
  api_update_pod :: "Pod \<Rightarrow> 'w \<Rightarrow> (go_error + Pod) \<times> 'w"
  api_delete_pod :: "Pod \<Rightarrow> 'w \<Rightarrow> go_error option \<times> 'w"
  api_get_object :: "gotype \<Rightarrow> NamespacedName \<Rightarrow> 'w \<Rightarrow> (go_error + ObjectMeta) \<times> 'w"
  api_get_frpserver :: "NamespacedName \<Rightarrow> 'w \<Rightarrow> (go_error + FrpServer) \<times> 'w"
  api_list_frpservers :: "'w \<Rightarrow> (go_error + FrpServer list) \<times> 'w"
  api_update_status :: "FrpServer \<Rightarrow> 'w \<Rightarrow> go_error option \<times> 'w"
  api_get_secret :: "NamespacedName \<Rightarrow> 'w \<Rightarrow> (go_error + Secret) \<times> 'w"

definition Get_Service :: "'w api \<Rightarrow> NamespacedName \<Rightarrow> ('w, go_error + Service) act" where
  "Get_Service a k = perform (api_get_service a k) (EvGetService k)"
definition Update_Service :: "'w api \<Rightarrow> Service \<Rightarrow> ('w, go_error + Service) act" where
  "Update_Service a o1 = perform (api_update_service a o1) (EvUpdateService o1)"
definition List_Pods :: "'w api \<Rightarrow> string \<Rightarrow> Requirement list \<Rightarrow> ('w, go_error + Pod list) act" where
  "List_Pods a ns sel = perform (api_list_pods a ns sel) (EvListPods ns sel)"
definition Create_Pod :: "'w api \<Rightarrow> Pod \<Rightarrow> ('w, go_error + Pod) act" where
  "Create_Pod a p = perform (api_create_pod a p) (EvCreatePod p)"
definition Update_Pod :: "'w api \<Rightarrow> Pod \<Rightarrow> ('w, go_error + Pod) act" where
  "Update_Pod a p = perform (api_update_pod a p) (EvUpdatePod p)"
definition Delete_Pod :: "'w api \<Rightarrow> Pod \<Rightarrow> ('w, go_error option) act" where
  "Delete_Pod a p = perform (api_delete_pod a p) (EvDeletePod p)"
definition Get_Object :: "'w api \<Rightarrow> gotype \<Rightarrow> NamespacedName \<Rightarrow> ('w, go_error + ObjectMeta) act" where
  "Get_Object a t k = perform (api_get_object a t k) (EvGetObject t k)"
definition Get_FrpServer :: "'w api \<Rightarrow> NamespacedName \<Rightarrow> ('w, go_error + FrpServer) act" where
  "Get_FrpServer a k = perform (api_get_frpserver a k) (EvGetFrpServer k)"
definition List_FrpServers :: "'w api \<Rightarrow> ('w, go_error + FrpServer list) act" where
  "List_FrpServers a = perform (api_list_frpservers a) EvListFrpServers"
definition Update_Status :: "'w api \<Rightarrow> FrpServer \<Rightarrow> ('w, go_error option) act" where
  "Update_Status a o1 = perform (api_update_status a o1) (EvUpdateStatus o1)"
definition Get_Secret :: "'w api \<Rightarrow> NamespacedName \<Rightarrow> ('w, go_error + Secret) act" where
  "Get_Secret a k = perform (api_get_secret a k) (EvGetSecret k)"

section \<open>Operating system, clock and network\<close>

record 'w sys =
  sys_rand :: "nat \<Rightarrow> 'w \<Rightarrow> string \<times> 'w"
  sys_now :: "'w \<Rightarrow> int \<times> 'w"
  sys_create_temp :: "string \<Rightarrow> 'w \<Rightarrow> (go_error + string) \<times> 'w"
  sys_write :: "string \<Rightarrow> string \<Rightarrow> 'w \<Rightarrow> go_error option \<times> 'w"
  sys_close :: "string \<Rightarrow> 'w \<Rightarrow> go_error option \<times> 'w"
  sys_remove :: "string \<Rightarrow> 'w \<Rightarrow> go_error option \<times> 'w"
  sys_open :: "ClientCommonConfig \<Rightarrow> 'w \<Rightarrow> go_error option \<times> 'w"
  sys_connect :: "'w \<Rightarrow> (go_error + nat) \<times> 'w"
  sys_close_connector :: "'w \<Rightarrow> 'w"
  sys_close_conn :: "nat \<Rightarrow> 'w \<Rightarrow> 'w"
  sys_hostname :: "'w \<Rightarrow> (go_error + string) \<times> 'w"
  sys_token :: "credentials_Config \<Rightarrow> 'w \<Rightarrow> (go_error + string) \<times> 'w"
  sys_write_msg :: "nat \<Rightarrow> Login \<Rightarrow> 'w \<Rightarrow> go_error option \<times> 'w"
  sys_read_deadline :: "nat \<Rightarrow> bool \<Rightarrow> 'w \<Rightarrow> 'w"
  sys_read_msg :: "nat \<Rightarrow> 'w \<Rightarrow> (go_error + LoginResp) \<times> 'w"
  sys_http_proxy :: string
  sys_GOOS :: string
  sys_GOARCH :: string
  sys_md5_hex :: "string \<Rightarrow> string"
  sys_include_error :: "string \<Rightarrow> go_error option"

definition Rand_String :: "'w sys \<Rightarrow> nat \<Rightarrow> ('w, string) act" where
  "Rand_String y n = perform (sys_rand y n) (EvRand n)"
definition Now :: "'w sys \<Rightarrow> ('w, int) act" where
  "Now y = perform (sys_now y) EvNow"
definition CreateTemp :: "'w sys \<Rightarrow> string \<Rightarrow> ('w, go_error + string) act" where
  "CreateTemp y pat = perform (sys_create_temp y pat) (EvCreateTemp pat)"
definition File_Write :: "'w sys \<Rightarrow> string \<Rightarrow> string \<Rightarrow> ('w, go_error option) act" where
  "File_Write y f d = perform (sys_write y f d) (EvWrite f d)"
definition File_Close :: "'w sys \<Rightarrow> string \<Rightarrow> ('w, go_error option) act" where
  "File_Close y f = perform (sys_close y f) (EvClose f)"
definition File_Remove :: "'w sys \<Rightarrow> string \<Rightarrow> ('w, go_error option) act" where
  "File_Remove y f = perform (sys_remove y f) (EvRemove f)"
definition Connector_Open :: "'w sys \<Rightarrow> ClientCommonConfig \<Rightarrow> ('w, go_error option) act" where
  "Connector_Open y c = perform (sys_open y c) (EvOpen c)"
definition Connector_Connect :: "'w sys \<Rightarrow> ('w, go_error + nat) act" where
  "Connector_Connect y = perform (sys_connect y) EvConnect"
definition Connector_Close :: "'w sys \<Rightarrow> ('w, unit) act" where
  "Connector_Close y = perform (\<lambda>w. ((), sys_close_connector y w)) (\<lambda>_. EvCloseConnector)"
definition Conn_Close :: "'w sys \<Rightarrow> nat \<Rightarrow> ('w, unit) act" where
  "Conn_Close y c = perform (\<lambda>w. ((), sys_close_conn y c w)) (\<lambda>_. EvCloseConn c)"
definition Hostname :: "'w sys \<Rightarrow> ('w, go_error + string) act" where
  "Hostname y = perform (sys_hostname y) EvHostname"
definition Token :: "'w sys \<Rightarrow> credentials_Config \<Rightarrow> ('w, go_error + string) act" where
  "Token y c = perform (sys_token y c) (EvToken c)"
definition WriteMsg :: "'w sys \<Rightarrow> nat \<Rightarrow> Login \<Rightarrow> ('w, go_error option) act" where
  "WriteMsg y c m = perform (sys_write_msg y c m) (EvWriteMsg c m)"
definition SetReadDeadline :: "'w sys \<Rightarrow> nat \<Rightarrow> bool \<Rightarrow> ('w, unit) act" where
  "SetReadDeadline y c b = perform (\<lambda>w. ((), sys_read_deadline y c b w)) (\<lambda>_. EvReadDeadline c b)"
definition ReadMsgInto :: "'w sys \<Rightarrow> nat \<Rightarrow> ('w, go_error + LoginResp) act" where
  "ReadMsgInto y c = perform (sys_read_msg y c) (EvReadMsg c)"

lemmas api_defs = Get_Service_def Update_Service_def List_Pods_def Create_Pod_def Update_Pod_def
  Delete_Pod_def Get_Object_def Get_FrpServer_def List_FrpServers_def Update_Status_def Get_Secret_def

lemmas sys_defs = Rand_String_def Now_def CreateTemp_def File_Write_def File_Close_def File_Remove_def
  Connector_Open_def Connector_Connect_def Connector_Close_def Conn_Close_def Hostname_def Token_def
  WriteMsg_def SetReadDeadline_def ReadMsgInto_def

section \<open>What a call emits\<close>

lemma behaves_api [behaves_rules]:
  "(\<And>r. Q1 r [EvGetService k r]) \<Longrightarrow> behaves (Get_Service a k) Q1"
  "(\<And>r. Q1 r [EvUpdateService svc r]) \<Longrightarrow> behaves (Update_Service a svc) Q1"
  "(\<And>r. Q2 r [EvListPods ns sel r]) \<Longrightarrow> behaves (List_Pods a ns sel) Q2"
  "(\<And>r. Q3 r [EvCreatePod p r]) \<Longrightarrow> behaves (Create_Pod a p) Q3"
  "(\<And>r. Q3 r [EvUpdatePod p r]) \<Longrightarrow> behaves (Update_Pod a p) Q3"
  "(\<And>r. Q4 r [EvDeletePod p r]) \<Longrightarrow> behaves (Delete_Pod a p) Q4"
  "(\<And>r. Q5 r [EvGetObject t k r]) \<Longrightarrow> behaves (Get_Object a t k) Q5"
  "(\<And>r. Q6 r [EvGetFrpServer k r]) \<Longrightarrow> behaves (Get_FrpServer a k) Q6"
  "(\<And>r. Q7 r [EvListFrpServers r]) \<Longrightarrow> behaves (List_FrpServers a) Q7"
  "(\<And>r. Q4 r [EvUpdateStatus f r]) \<Longrightarrow> behaves (Update_Status a f) Q4"
  "(\<And>r. Q8 r [EvGetSecret k r]) \<Longrightarrow> behaves (Get_Secret a k) Q8"
  by (simp_all add: api_defs behaves_perform)

lemma behaves_sys [behaves_rules]:
  "(\<And>r. Q1 r [EvRand n r]) \<Longrightarrow> behaves (Rand_String y n) Q1"
  "(\<And>r. Q2 r [EvNow r]) \<Longrightarrow> behaves (Now y) Q2"
  "(\<And>r. Q3 r [EvCreateTemp pat r]) \<Longrightarrow> behaves (CreateTemp y pat) Q3"
  "(\<And>r. Q4 r [EvWrite f d r]) \<Longrightarrow> behaves (File_Write y f d) Q4"
  "(\<And>r. Q4 r [EvClose f r]) \<Longrightarrow> behaves (File_Close y f) Q4"
  "(\<And>r. Q6 r [EvRemove f r]) \<Longrightarrow> behaves (File_Remove y f) Q6"
  "(\<And>r. Q7 r [EvOpen c r]) \<Longrightarrow> behaves (Connector_Open y c) Q7"
  "(\<And>r. Q8 r [EvConnect r]) \<Longrightarrow> behaves (Connector_Connect y) Q8"
  "Q9 () [EvCloseConnector] \<Longrightarrow> behaves (Connector_Close y) Q9"
  "Q9 () [EvCloseConn h] \<Longrightarrow> behaves (Conn_Close y h) Q9"
  "(\<And>r. Q10 r [EvHostname r]) \<Longrightarrow> behaves (Hostname y) Q10"
  "(\<And>r. Q11 r [EvToken cr r]) \<Longrightarrow> behaves (Token y cr) Q11"
  "(\<And>r. Q12 r [EvWriteMsg h m r]) \<Longrightarrow> behaves (WriteMsg y h m) Q12"
  "Q9 () [EvReadDeadline h b] \<Longrightarrow> behaves (SetReadDeadline y h b) Q9"
  "(\<And>r. Q13 r [EvReadMsg h r]) \<Longrightarrow> behaves (ReadMsgInto y h) Q13"
  by (simp_all add: sys_defs behaves_perform)

end
