(* ===== verification/Mem_Cluster.thy ===== *)
theory Mem_Cluster
  imports Cluster_Env
begin

text \<open>
  A concrete cluster: an API server that keeps its objects in lists, and an operating system
  whose calls succeed.  The properties hold for every \<open>'w api\<close> and \<open>'w sys\<close>, or under
  hypotheses on single calls; this instance is where those hypotheses are seen to hold, and
  where whole runs are evaluated.
\<close>

section \<open>The store\<close>

record mem =
  mem_services :: "Service list"
  mem_pods :: "Pod list"
  mem_servers :: "FrpServer list"
  mem_secrets :: "Secret list"

definition has_key :: "NamespacedName \<Rightarrow> ObjectMeta \<Rightarrow> bool" where
  "has_key k m \<longleftrightarrow> om_Namespace m = nn_Namespace k \<and> om_Name m = nn_Name k"

definition mem_get :: "('o \<Rightarrow> ObjectMeta) \<Rightarrow> NamespacedName \<Rightarrow> 'o list \<Rightarrow> go_error + 'o" where
  "mem_get meta k os = (case find (has_key k \<circ> meta) os of
     None \<Rightarrow> Inl (NewNotFound (nn_Name k)) | Some ob \<Rightarrow> Inr ob)"

definition mem_has :: "('o \<Rightarrow> ObjectMeta) \<Rightarrow> 'o \<Rightarrow> 'o list \<Rightarrow> bool" where
  "mem_has meta ob os = list_ex (has_key (ObjectKeyFromMeta (meta ob)) \<circ> meta) os"

definition mem_set :: "('o \<Rightarrow> ObjectMeta) \<Rightarrow> 'o \<Rightarrow> 'o list \<Rightarrow> 'o list" where
  "mem_set meta ob os =
     map (\<lambda>o1. if has_key (ObjectKeyFromMeta (meta ob)) (meta o1) then ob else o1) os"

definition mem_del :: "('o \<Rightarrow> ObjectMeta) \<Rightarrow> 'o \<Rightarrow> 'o list \<Rightarrow> 'o list" where
  "mem_del meta ob os = filter (\<lambda>o1. \<not> has_key (ObjectKeyFromMeta (meta ob)) (meta o1)) os"

definition gone :: "ObjectMeta \<Rightarrow> go_error" where
  "gone m = NewNotFound (om_Name m)"

definition mem_api :: "mem api" where
  "mem_api = \<lparr>
     api_get_service = \<lambda>k w. (mem_get svc_meta k (mem_services w), w),
     api_update_service = \<lambda>svc w.
       (if mem_has svc_meta svc (mem_services w)
        then (Inr svc, w\<lparr>mem_services := (if om_DeletionTimestamp (svc_meta svc) \<noteq> None
                \<and> om_Finalizers (svc_meta svc) = [] then mem_del svc_meta svc (mem_services w)
                else mem_set svc_meta svc (mem_services w))\<rparr>)
        else (Inl (gone (svc_meta svc)), w)),
     api_list_pods = \<lambda>ns sel w. (Inr (filter (\<lambda>p. om_Namespace (pod_meta p) = ns
        \<and> Selector_Matches sel (meta_labels (pod_meta p))) (mem_pods w)), w),
     api_create_pod = \<lambda>p w.
       (if mem_has pod_meta p (mem_pods w)
        then (Inl (StatusError ''AlreadyExists'' 409 (om_Name (pod_meta p))), w)
        else (Inr p, w\<lparr>mem_pods := mem_pods w @ [p]\<rparr>)),
     api_update_pod = \<lambda>p w.
       (if mem_has pod_meta p (mem_pods w) then (Inr p, w\<lparr>mem_pods := mem_set pod_meta p (mem_pods w)\<rparr>)
        else (Inl (gone (pod_meta p)), w)),
     api_delete_pod = \<lambda>p w.
       (if mem_has pod_meta p (mem_pods w) then (None, w\<lparr>mem_pods := mem_del pod_meta p (mem_pods w)\<rparr>)
        else (Some (gone (pod_meta p)), w)),
     api_get_object = \<lambda>t k w. ((case mem_get svc_meta k (mem_services w) of
        Inl e \<Rightarrow> Inl e | Inr svc \<Rightarrow> Inr (svc_meta svc)), w),
     api_get_frpserver = \<lambda>k w. (mem_get fs_meta k (mem_servers w), w),
     api_list_frpservers = \<lambda>w. (Inr (mem_servers w), w),
     api_update_status = \<lambda>f w.
       (if mem_has fs_meta f (mem_servers w)
        then (None, w\<lparr>mem_servers := map (\<lambda>g. if has_key (ObjectKeyFromMeta (fs_meta f)) (fs_meta g)
                then g\<lparr>fs_Status := fs_Status f\<rparr> else g) (mem_servers w)\<rparr>)
        else (Some (gone (fs_meta f)), w)),
     api_get_secret = \<lambda>k w. (mem_get sec_meta k (mem_secrets w), w) \<rparr>"

section \<open>An operating system without failures\<close>

definition calm_sys :: "LoginResp \<Rightarrow> 'w sys" where
  "calm_sys resp = \<lparr>
     sys_rand = \<lambda>n w. (replicate n (CHR ''x''), w),
     sys_now = \<lambda>w. (42, w),
     sys_create_temp = \<lambda>pat w. (Inr (''/tmp/'' @ pat), w),
     sys_write = \<lambda>f d w. (None, w),
     sys_close = \<lambda>f w. (None, w),
     sys_remove = \<lambda>f w. (None, w),
     sys_open = \<lambda>c w. (None, w),
     sys_connect = \<lambda>w. (Inr 7, w),
     sys_close_connector = \<lambda>w. w,
     sys_close_conn = \<lambda>c w. w,
     sys_hostname = \<lambda>w. (Inr ''node-1'', w),
     sys_token = \<lambda>c w. (Inr ''oidc-token'', w),
     sys_write_msg = \<lambda>c m w. (None, w),
     sys_read_deadline = \<lambda>c b w. w,
     sys_read_msg = \<lambda>c w. (Inr resp, w),
     sys_http_proxy = [],
     sys_GOOS = ''linux'',
     sys_GOARCH = ''amd64'',
     sys_md5_hex = \<lambda>s. ''md5:'' @ s,
     sys_include_error = \<lambda>_. None \<rparr>"

section \<open>Sample objects\<close>

definition ex_meta :: "string \<Rightarrow> string \<Rightarrow> ObjectMeta" where
  "ex_meta name uid = \<lparr>om_Name = name, om_Namespace = ''prod'', om_UID = uid, om_ResourceVersion = ''1'',
     om_Labels = None, om_Annotations = [], om_OwnerReferences = [], om_Finalizers = [],
     om_DeletionTimestamp = None\<rparr>"

definition ex_gvk :: GroupVersionKind where
  "ex_gvk = \<lparr>gvk_Group = [], gvk_Version = ''v1'', gvk_Kind = ''Service''\<rparr>"

definition ex_scheme :: scheme where
  "ex_scheme = \<lparr>sch_Name = ''scheme'', sch_typeToGVK = [(GoService, [ex_gvk])],
     sch_unversionedTypes = [], sch_gvkToType = [(ex_gvk, GoService)], sch_unversionedKinds = []\<rparr>"

definition ex_service :: Service where
  "ex_service = \<lparr>svc_TypeMeta = \<lparr>gvk_Group = [], gvk_Version = [], gvk_Kind = []\<rparr>,
     svc_meta = (ex_meta ''web'' ''uid-web'')\<lparr>om_Annotations := [(AnnotationFrpServerNameKey, ''edge'')]\<rparr>,
     svc_Type = ServiceTypeLoadBalancer\<rparr>"

definition ex_labels :: str_map where
  "ex_labels = [(LabelServiceNameKey, ''web''), (LabelControllerUidKey, ''uid-web'')]"

definition ex_orphan :: Pod where
  "ex_orphan = \<lparr>pod_meta = (ex_meta ''frp-web-1'' ''uid-1'')\<lparr>om_Labels := Some ex_labels\<rparr>,
     pod_Phase = PodRunning, pod_Containers = [''frpc'']\<rparr>"

definition ex_owned :: Pod where
  "ex_owned = ex_orphan\<lparr>pod_meta := (pod_meta ex_orphan)
     \<lparr>om_OwnerReferences := [controller_ref ex_gvk (svc_meta ex_service)]\<rparr>\<rparr>"

definition ex_key :: NamespacedName where
  "ex_key = \<lparr>nn_Namespace = ''prod'', nn_Name = ''web''\<rparr>"

definition ex_mem :: "Service list \<Rightarrow> Pod list \<Rightarrow> mem" where
  "ex_mem ss ps = \<lparr>mem_services = ss, mem_pods = ps, mem_servers = [], mem_secrets = []\<rparr>"

definition ex_sys :: "mem sys" where
  "ex_sys = calm_sys \<lparr>lr_Version = ''0.53.2'', lr_RunID = ''run'', lr_Error = []\<rparr>"

definition start :: "'w \<Rightarrow> ('w, 'e) gostate" where
  "start w = \<lparr>world = w, trace = []\<rparr>"

lemmas ex_defs = ex_meta_def ex_gvk_def ex_scheme_def ex_service_def ex_labels_def ex_orphan_def
  ex_owned_def ex_key_def ex_mem_def

lemmas mem_defs = mem_api_def has_key_def mem_get_def mem_has_def mem_set_def mem_del_def gone_def
  ObjectKeyFromMeta_def start_def

end
