(* ===== verification/Ref_Manager.thy ===== *)
theory Ref_Manager
  imports Mem_Cluster
begin

text \<open>
  \<^verbatim>\<open>pkg/utils/controller/refmanager.go\<close>: claiming pods for a service by adopting orphans and
  releasing pods whose labels no longer match.  The manager's \<^verbatim>\<open>sync.Once\<close> and cached error
  are fields of its record, so every method that can run \<^verbatim>\<open>canAdoptOnce\<close> returns the
  updated manager; \<^verbatim>\<open>adopt\<close> mutates the object it is given, so the object is returned too.
  Formatting an error with \<^verbatim>\<open>%v\<close> yields a plain \<^const>\<open>ErrorString\<close>.
\<close>

section \<open>The manager\<close>

record printers =
  pr_time :: "go_time \<Rightarrow> string"
  pr_pod :: "Pod \<Rightarrow> string"

record RefManager =
  rm_selector :: "Requirement list"
  rm_owner :: Service
  rm_ownerType :: gotype
  rm_schema :: "scheme option"
  rm_once :: bool
  rm_canAdoptErr :: "go_error option"

definition NewRefManager ::
    "Requirement list \<Rightarrow> Service \<Rightarrow> scheme option \<Rightarrow> go_error + RefManager" where
  "NewRefManager selector owner schema = Inr \<lparr>rm_selector = selector, rm_owner = owner,
     rm_ownerType = GoService, rm_schema = schema, rm_once = False, rm_canAdoptErr = None\<rparr>"

abbreviation owner_meta :: "RefManager \<Rightarrow> ObjectMeta" where
  "owner_meta mgr \<equiv> svc_meta (rm_owner mgr)"

text \<open>\<^verbatim>\<open>%v/%v (%v)\<close> of an object's namespace, name and UID.\<close>

definition show_obj :: "ObjectMeta \<Rightarrow> string" where
  "show_obj m = om_Namespace m @ ''/'' @ om_Name m @ '' ('' @ om_UID m @ '')''"

definition nil_deref :: string where
  "nil_deref = ''invalid memory address or nil pointer dereference''"

definition getOwner :: "'w api \<Rightarrow> RefManager \<Rightarrow> ('w, (go_error + ObjectMeta) outcome) act" where
  "getOwner a mgr =
     (case rm_schema mgr of
        None \<Rightarrow> ret (Panic nil_deref)
      | Some sch \<Rightarrow> (case Scheme_ObjectKinds sch GoService of
          Inl err \<Rightarrow> ret (Return (Inl err))
        | Inr (kinds, _) \<Rightarrow> (case kinds of
            [] \<Rightarrow> ret (Panic ''index out of range [0] with length 0'')
          | kind # _ \<Rightarrow> (case Scheme_New sch kind of
              Inl err \<Rightarrow> ret (Return (Inl err))
            | Inr t \<Rightarrow>
                (if \<not> is_client_Object t
                 then ret (Return (Inl (ErrorString (''can't get owner '' @ om_Namespace (owner_meta mgr)
                        @ ''/'' @ om_Name (owner_meta mgr) @ '': fail to cast to client.Object''))))
                 else do {
                   r \<leftarrow> Get_Object a t \<lparr>nn_Namespace = om_Namespace (owner_meta mgr),
                                         nn_Name = om_Name (owner_meta mgr)\<rparr>;
                   ret (Return r) })))))"

definition updateOwner :: "'w api \<Rightarrow> Pod \<Rightarrow> ('w, go_error + Pod) act" where
  "updateOwner a object = Update_Pod a object"

definition canAdopt :: "printers \<Rightarrow> 'w api \<Rightarrow> RefManager \<Rightarrow> ('w, go_error option outcome) act" where
  "canAdopt pr a mgr = do {
     r \<leftarrow> getOwner a mgr;
     case r of
       Panic p \<Rightarrow> ret (Panic p)
     | Return (Inl err) \<Rightarrow> ret (Return (Some err))
     | Return (Inr fresh) \<Rightarrow>
         (let here = om_Namespace (owner_meta mgr) @ ''/'' @ om_Name (owner_meta mgr) in
          if om_UID fresh \<noteq> om_UID (owner_meta mgr)
          then ret (Return (Some (ErrorString (''original owner '' @ here @ '' is gone: got uid ''
                 @ om_UID fresh @ '', wanted '' @ om_UID (owner_meta mgr)))))
          else (case om_DeletionTimestamp fresh of
              Some t \<Rightarrow> ret (Return (Some (ErrorString (here @ '' has just been deleted at '' @ pr_time pr t))))
            | None \<Rightarrow> ret (Return None))) }"

definition canAdoptOnce ::
    "printers \<Rightarrow> 'w api \<Rightarrow> RefManager \<Rightarrow> ('w, (RefManager \<times> go_error option) outcome) act" where
  "canAdoptOnce pr a mgr =
     (if rm_once mgr then ret (Return (mgr, rm_canAdoptErr mgr))
      else do {
        r \<leftarrow> canAdopt pr a mgr;
        case r of
          Panic p \<Rightarrow> ret (Panic p)
        | Return e \<Rightarrow> ret (Return (mgr\<lparr>rm_once := True, rm_canAdoptErr := e\<rparr>, e)) })"

definition adopt ::
    "printers \<Rightarrow> 'w api \<Rightarrow> RefManager \<Rightarrow> Pod \<Rightarrow> ('w, (RefManager \<times> Pod \<times> go_error option) outcome) act" where
  "adopt pr a mgr obj = do {
     r \<leftarrow> canAdoptOnce pr a mgr;
     case r of
       Panic p \<Rightarrow> ret (Panic p)
     | Return (mgr, Some err) \<Rightarrow>
         ret (Return (mgr, obj, Some (ErrorString
           (''can't adopt Object '' @ show_obj (pod_meta obj) @ '': '' @ Error err))))
     | Return (mgr, None) \<Rightarrow>
         (if rm_schema mgr = None then ret (Return (mgr, obj, None))
          else (case SetControllerReference (rm_owner mgr) (pod_meta obj) (rm_schema mgr) of
            Panic p \<Rightarrow> ret (Panic p)
          | Return (Inl err) \<Rightarrow>
              ret (Return (mgr, obj, Some (ErrorString (''can't set Object ''
                @ show_obj (pod_meta obj) @ '' owner reference: '' @ Error err))))
          | Return (Inr m) \<Rightarrow> do {
              let obj = obj\<lparr>pod_meta := m\<rparr>;
              u \<leftarrow> updateOwner a obj;
              case u of
                Inl err \<Rightarrow>
                  ret (Return (mgr, obj, Some (ErrorString (''can't update Object ''
                    @ show_obj (pod_meta obj) @ '' owner reference: '' @ Error err))))
              | Inr obj \<Rightarrow> ret (Return (mgr, obj, None)) })) }"

text \<open>The index loop of \<^verbatim>\<open>release\<close>.\<close>

fun owner_index :: "string \<Rightarrow> OwnerReference list \<Rightarrow> nat option" where
  "owner_index uid [] = None"
| "owner_index uid (r # rs) = (if or_UID r = uid then Some 0 else map_option Suc (owner_index uid rs))"

definition release :: "'w api \<Rightarrow> RefManager \<Rightarrow> Pod \<Rightarrow> ('w, go_error option) act" where
  "release a mgr obj =
     (let refs = om_OwnerReferences (pod_meta obj) in
      case owner_index (om_UID (owner_meta mgr)) refs of
        None \<Rightarrow> ret None
      | Some idx \<Rightarrow> do {
          let clientObj = obj\<lparr>pod_meta := (pod_meta obj)
                \<lparr>om_OwnerReferences := take idx refs @ drop (idx + 1) refs\<rparr>\<rparr>;
          u \<leftarrow> updateOwner a clientObj;
          case u of
            Inl err \<Rightarrow> ret (Some (ErrorString (''can't remove Pod '' @ show_obj (pod_meta obj)
              @ '' owner reference '' @ om_Namespace (pod_meta obj) @ ''/'' @ om_Name (pod_meta obj)
              @ '' ('' @ om_UID (owner_meta mgr) @ ''): '' @ Error err)))
          | Inr _ \<Rightarrow> ret None })"

definition match_obj :: "RefManager \<Rightarrow> (Pod \<Rightarrow> bool) list \<Rightarrow> Pod \<Rightarrow> bool" where
  "match_obj mgr filters obj =
     (if \<not> Selector_Matches (rm_selector mgr) (meta_labels (pod_meta obj)) then False
      else list_all (\<lambda>f. f obj) filters)"

text \<open>\<^verbatim>\<open>claimObject\<close> returns whether the object was claimed and the error, with the manager and
  the object as they are afterwards.\<close>

type_synonym claim_result = "(RefManager \<times> Pod \<times> bool \<times> go_error option) outcome"

definition claimObject ::
    "printers \<Rightarrow> 'w api \<Rightarrow> RefManager \<Rightarrow> Pod \<Rightarrow> (Pod \<Rightarrow> bool) \<Rightarrow> ('w, claim_result) act" where
  "claimObject pr a mgr obj matches =
     (case GetControllerOf (pod_meta obj) of
        Some controllerRef \<Rightarrow>
          (if or_UID controllerRef \<noteq> om_UID (owner_meta mgr) then ret (Return (mgr, obj, False, None))
           else if matches obj then ret (Return (mgr, obj, True, None))
           else if om_DeletionTimestamp (owner_meta mgr) \<noteq> None then ret (Return (mgr, obj, False, None))
           else do {
             r \<leftarrow> release a mgr obj;
             case r of
               Some err \<Rightarrow> (if IsNotFound err then ret (Return (mgr, obj, False, None))
                             else ret (Return (mgr, obj, False, Some err)))
             | None \<Rightarrow> ret (Return (mgr, obj, False, None)) })
      | None \<Rightarrow>
          (if om_DeletionTimestamp (owner_meta mgr) \<noteq> None \<or> \<not> matches obj
           then ret (Return (mgr, obj, False, None))
           else if om_DeletionTimestamp (pod_meta obj) \<noteq> None then ret (Return (mgr, obj, False, None))
           else do {
             r \<leftarrow> adopt pr a mgr obj;
             case r of
               Panic p \<Rightarrow> ret (Panic p)
             | Return (mgr, obj, Some err) \<Rightarrow>
                 (if IsNotFound err then ret (Return (mgr, obj, False, None))
                  else ret (Return (mgr, obj, False, Some err)))
             | Return (mgr, obj, None) \<Rightarrow> ret (Return (mgr, obj, True, None)) }))"

fun claim_loop ::
    "printers \<Rightarrow> 'w api \<Rightarrow> (Pod \<Rightarrow> bool) \<Rightarrow> RefManager \<Rightarrow> Pod list
      \<Rightarrow> ('w, (RefManager \<times> Pod list \<times> go_error list) outcome) act" where
  "claim_loop pr a matches mgr [] = ret (Return (mgr, [], []))"
| "claim_loop pr a matches mgr (obj # objs) = do {
     r \<leftarrow> claimObject pr a mgr obj matches;
     case r of
       Panic p \<Rightarrow> ret (Panic p)
     | Return (mgr, obj, claimed, err) \<Rightarrow> do {
         rest \<leftarrow> claim_loop pr a matches mgr objs;
         case rest of
           Panic p \<Rightarrow> ret (Panic p)
         | Return (mgr, claimObjs, errList) \<Rightarrow>
             ret (Return (case err of
                 Some e \<Rightarrow> (mgr, claimObjs, e # errList)
               | None \<Rightarrow> (mgr, if claimed then obj # claimObjs else claimObjs, errList))) } }"

definition ClaimOwnedObjects ::
    "printers \<Rightarrow> 'w api \<Rightarrow> RefManager \<Rightarrow> Pod list \<Rightarrow> (Pod \<Rightarrow> bool) list
      \<Rightarrow> ('w, (Pod list \<times> go_error option) outcome) act" where
  "ClaimOwnedObjects pr a mgr objs filters = do {
     r \<leftarrow> claim_loop pr a (match_obj mgr filters) mgr objs;
     case r of
       Panic p \<Rightarrow> ret (Panic p)
     | Return (_, claimObjs, errList) \<Rightarrow> ret (Return (claimObjs, NewAggregate (map Some errList))) }"

section \<open>What the manager's calls mean\<close>

definition fresh_check :: "RefManager \<Rightarrow> event \<Rightarrow> bool" where
  "fresh_check mgr e \<longleftrightarrow> (\<exists>t k fresh. e = EvGetObject t k (Inr fresh)
     \<and> om_UID fresh = om_UID (owner_meta mgr) \<and> om_DeletionTimestamp fresh = None)"

definition is_get_object :: "event \<Rightarrow> bool" where
  "is_get_object e = (case e of EvGetObject _ _ _ \<Rightarrow> True | _ \<Rightarrow> False)"

definition is_update_pod :: "event \<Rightarrow> bool" where
  "is_update_pod e = (case e of EvUpdatePod _ _ \<Rightarrow> True | _ \<Rightarrow> False)"

text \<open>\<open>p\<close> is \<open>obj\<close> without its first owner reference to \<open>uid\<close>.\<close>

definition released_from :: "string \<Rightarrow> Pod \<Rightarrow> Pod \<Rightarrow> bool" where
  "released_from uid obj p \<longleftrightarrow> (\<exists>xs r ys. om_OwnerReferences (pod_meta obj) = xs @ r # ys
     \<and> or_UID r = uid \<and> (\<forall>x\<in>set xs. or_UID x \<noteq> uid)
     \<and> p = obj\<lparr>pod_meta := (pod_meta obj)\<lparr>om_OwnerReferences := xs @ ys\<rparr>\<rparr>)"

definition adopted_by :: "RefManager \<Rightarrow> Pod \<Rightarrow> Pod \<Rightarrow> bool" where
  "adopted_by mgr obj p \<longleftrightarrow> (\<exists>gvk. p = obj\<lparr>pod_meta :=
     upsertOwnerRef (controller_ref gvk (owner_meta mgr)) (pod_meta obj)\<rparr>)"

lemma owner_index_Some:
  "owner_index uid refs = Some i \<Longrightarrow> \<exists>xs r ys. refs = xs @ r # ys \<and> length xs = i
     \<and> or_UID r = uid \<and> (\<forall>x\<in>set xs. or_UID x \<noteq> uid)"
proof (induction refs arbitrary: i)
  case (Cons r refs)
  show ?case
  proof (cases "or_UID r = uid")
    case True
    with Cons.prems show ?thesis by (intro exI [of _ "[]"]) auto
  next
    case False
    with Cons.prems obtain j where j: "owner_index uid refs = Some j" "i = Suc j" by auto
    from Cons.IH [OF j(1)] obtain xs r' ys where "refs = xs @ r' # ys" "length xs = j"
      "or_UID r' = uid" "\<forall>x\<in>set xs. or_UID x \<noteq> uid" by blast
    with False j show ?thesis by (intro exI [of _ "r # xs"]) auto
  qed
qed simp

lemma SetControllerReference_Inr:
  "SetControllerReference owner m sch = Return (Inr m') \<Longrightarrow>
     \<exists>gvk. m' = upsertOwnerRef (controller_ref gvk (svc_meta owner)) m"
  by (auto simp: SetControllerReference_def Let_def
      split: option.splits sum.splits if_splits)

lemma owner_index_released:
  assumes "owner_index uid (om_OwnerReferences (pod_meta obj)) = Some i"
  shows "released_from uid obj (obj\<lparr>pod_meta := (pod_meta obj)\<lparr>om_OwnerReferences :=
     take i (om_OwnerReferences (pod_meta obj)) @ drop (i + 1) (om_OwnerReferences (pod_meta obj))\<rparr>\<rparr>)"
proof -
  from owner_index_Some [OF assms] obtain xs r ys where
    *: "om_OwnerReferences (pod_meta obj) = xs @ r # ys" "length xs = i" "or_UID r = uid"
       "\<forall>x\<in>set xs. or_UID x \<noteq> uid" by blast
  then have "take i (om_OwnerReferences (pod_meta obj)) @ drop (i + 1) (om_OwnerReferences (pod_meta obj)) = xs @ ys"
    by auto
  with * show ?thesis unfolding released_from_def by metis
qed

section \<open>Behaviour of the methods\<close>

lemma release_behaves:
  "behaves (release a mgr obj) (\<lambda>r es.
     (es = [] \<and> r = None) \<or>
     (\<exists>p res. es = [EvUpdatePod p res] \<and> released_from (om_UID (owner_meta mgr)) obj p
        \<and> (r = None \<longleftrightarrow> (\<exists>q. res = Inr q)) \<and> (\<forall>err. r = Some err \<longrightarrow> \<not> IsNotFound err)))"
  by (auto simp: release_def updateOwner_def Let_def dest!: owner_index_released [simplified]
      intro!: behaves_rules)

lemma getOwner_behaves:
  "behaves (getOwner a mgr) (\<lambda>r es. list_all is_get_object es \<and> length es \<le> 1
      \<and> (\<forall>fresh. r = Return (Inr fresh) \<longrightarrow> (\<exists>t k. es = [EvGetObject t k (Inr fresh)]))
      \<and> (rm_schema mgr = None \<longrightarrow> (\<exists>p. r = Panic p)))"
  unfolding getOwner_def
  by (intro behaves_rules) (simp_all add: is_get_object_def)


lemma canAdopt_behaves:
  "behaves (canAdopt pr a mgr) (\<lambda>r es. list_all is_get_object es \<and> length es \<le> 1
      \<and> (r = Return None \<longrightarrow> (\<exists>e\<in>set es. fresh_check mgr e))
      \<and> (rm_schema mgr = None \<longrightarrow> (\<exists>p. r = Panic p)))"
  unfolding canAdopt_def
  by (rule behaves_bind_use [OF getOwner_behaves], intro behaves_rules)
    (auto simp: fresh_check_def)

text \<open>The manager after a call: same owner, and the adoption check is never forgotten.\<close>

definition checked_ok :: "RefManager \<Rightarrow> bool" where
  "checked_ok mgr \<longleftrightarrow> rm_once mgr \<and> rm_canAdoptErr mgr = None"

definition same_manager :: "RefManager \<Rightarrow> RefManager \<Rightarrow> bool" where
  "same_manager mgr mgr' \<longleftrightarrow> rm_owner mgr' = rm_owner mgr \<and> rm_schema mgr' = rm_schema mgr
     \<and> rm_selector mgr' = rm_selector mgr
     \<and> (rm_once mgr \<longrightarrow> rm_once mgr' \<and> rm_canAdoptErr mgr' = rm_canAdoptErr mgr)"

lemma same_manager_refl [simp]: "same_manager m m"
  by (simp add: same_manager_def)

lemma same_manager_trans: "same_manager m m' \<Longrightarrow> same_manager m' m'' \<Longrightarrow> same_manager m m''"
  by (auto simp: same_manager_def)

abbreviation gets :: "event list \<Rightarrow> nat" where
  "gets es \<equiv> length (filter is_get_object es)"

definition budget :: "RefManager \<Rightarrow> nat" where
  "budget mgr = (if rm_once mgr then 0 else 1)"

definition mgr_step :: "RefManager \<Rightarrow> RefManager \<Rightarrow> event list \<Rightarrow> bool" where
  "mgr_step mgr mgr' es \<longleftrightarrow> same_manager mgr mgr'
     \<and> (checked_ok mgr' \<longrightarrow> checked_ok mgr \<or> (\<exists>e\<in>set es. fresh_check mgr e))
     \<and> gets es + budget mgr' \<le> budget mgr"

lemma mgr_step_refl [simp]: "mgr_step mgr mgr []"
  by (simp add: mgr_step_def)

lemma mgr_step_trans:
  assumes "mgr_step m m' es" and "mgr_step m' m'' fs"
  shows "mgr_step m m'' (es @ fs)"
proof -
  have "fresh_check m' e = fresh_check m e" for e
    using assms(1) by (simp add: mgr_step_def same_manager_def fresh_check_def)
  with assms show ?thesis unfolding mgr_step_def
    by (auto intro: same_manager_trans)
qed

lemma canAdoptOnce_behaves:
  "behaves (canAdoptOnce pr a mgr) (\<lambda>r es. list_all is_get_object es \<and> gets es \<le> budget mgr
      \<and> (\<forall>m e. r = Return (m, e) \<longrightarrow> mgr_step mgr m es \<and> rm_once m \<and> rm_canAdoptErr m = e))"
proof (cases "rm_once mgr")
  case True
  then show ?thesis
    by (auto simp: canAdoptOnce_def intro!: behaves_rules)
next
  case False
  have "gets es \<le> 1" if "length es \<le> 1" for es
    using that length_filter_le order_trans by blast
  with False show ?thesis
    unfolding canAdoptOnce_def
    by (simp, intro behaves_bind_use [OF canAdopt_behaves] behaves_rules)
      (auto simp: mgr_step_def same_manager_def checked_ok_def budget_def)
qed

text \<open>
  A pod update is justified when it releases one of the given pods from this owner, or adopts
  one of them after a check that the owner is still there and not being deleted.
\<close>

definition justified_update :: "RefManager \<Rightarrow> Pod list \<Rightarrow> bool \<Rightarrow> Pod \<Rightarrow> bool" where
  "justified_update mgr objs ok p \<longleftrightarrow> om_DeletionTimestamp (owner_meta mgr) = None \<and>
     ((\<exists>obj\<in>set objs. released_from (om_UID (owner_meta mgr)) obj p
         \<and> (\<exists>ref. GetControllerOf (pod_meta obj) = Some ref \<and> or_UID ref = om_UID (owner_meta mgr)))
      \<or> (ok \<and> (\<exists>obj\<in>set objs. adopted_by mgr obj p \<and> GetControllerOf (pod_meta obj) = None
         \<and> om_DeletionTimestamp (pod_meta obj) = None)))"

fun justified :: "RefManager \<Rightarrow> Pod list \<Rightarrow> bool \<Rightarrow> event list \<Rightarrow> bool" where
  "justified mgr objs ok [] = True"
| "justified mgr objs ok (e # es) =
     ((case e of EvUpdatePod p r \<Rightarrow> justified_update mgr objs ok p | _ \<Rightarrow> is_get_object e)
      \<and> justified mgr objs (ok \<or> fresh_check mgr e) es)"

lemma justified_append [simp]:
  "justified mgr objs ok (xs @ ys) \<longleftrightarrow> justified mgr objs ok xs
     \<and> justified mgr objs (ok \<or> (\<exists>e\<in>set xs. fresh_check mgr e)) ys"
  by (induction xs arbitrary: ok) (auto simp: disj_ac)

lemma justified_gets: "list_all is_get_object es \<Longrightarrow> justified mgr objs ok es"
  by (induction es arbitrary: ok) (auto simp: is_get_object_def split: event.splits)

lemma justified_mono:
  "justified mgr objs ok es \<Longrightarrow> set objs \<subseteq> set objs' \<Longrightarrow> (ok \<Longrightarrow> ok') \<Longrightarrow> justified mgr objs' ok' es"
proof (induction es arbitrary: ok ok')
  case (Cons e es)
  have "justified mgr objs' (ok' \<or> fresh_check mgr e) es"
    by (rule Cons.IH [of "ok \<or> fresh_check mgr e"]) (use Cons.prems in auto)
  moreover have "justified_update mgr objs' ok' p" if "justified_update mgr objs ok p" for p
    using that Cons.prems(2,3) unfolding justified_update_def by blast
  ultimately show ?case using Cons.prems(1) by (auto split: event.splits)
qed simp

lemma justified_same: "same_manager mgr mgr' \<Longrightarrow> justified mgr' objs ok es = justified mgr objs ok es"
proof (induction es arbitrary: ok)
  case (Cons e es)
  then have "rm_owner mgr' = rm_owner mgr" by (simp add: same_manager_def)
  then have "justified_update mgr' objs ok p = justified_update mgr objs ok p"
    and "fresh_check mgr' e = fresh_check mgr e" for p
    by (simp_all add: justified_update_def adopted_by_def fresh_check_def)
  with Cons show ?case by (simp split: event.splits)
qed simp


lemma not_get_update [simp]: "\<not> is_get_object (EvUpdatePod p r)"
  by (simp add: is_get_object_def)

lemma fresh_check_update [simp]: "\<not> fresh_check mgr (EvUpdatePod p r)"
  by (simp add: fresh_check_def)

text \<open>An update that the API server refused is in the list.\<close>

definition refused :: "event list \<Rightarrow> bool" where
  "refused es \<longleftrightarrow> (\<exists>p e. EvUpdatePod p (Inl e) \<in> set es)"

lemma refused_simps [simp]:
  "\<not> refused []"
  "refused (xs @ ys) \<longleftrightarrow> refused xs \<or> refused ys"
  "refused (EvUpdatePod p r # ys) \<longleftrightarrow> (\<exists>e. r = Inl e) \<or> refused ys"
  by (auto simp: refused_def)

lemma refused_gets: "list_all is_get_object es \<Longrightarrow> \<not> refused es"
  by (auto simp: refused_def list_all_iff)

definition adopt_post :: "RefManager \<Rightarrow> Pod \<Rightarrow> (RefManager \<times> Pod \<times> go_error option) outcome
    \<Rightarrow> event list \<Rightarrow> bool" where
  "adopt_post mgr obj r es \<longleftrightarrow> justified mgr [obj] (checked_ok mgr) es \<and> gets es \<le> budget mgr
     \<and> (case r of Panic _ \<Rightarrow> \<not> refused es
        | Return (m, obj', err) \<Rightarrow> mgr_step mgr m es
            \<and> (\<forall>e. err = Some e \<longrightarrow> \<not> IsNotFound e) \<and> (refused es \<longrightarrow> err \<noteq> None)
            \<and> (err = None \<longrightarrow> (obj' = obj \<and> rm_schema mgr = None)
                 \<or> (\<exists>p. EvUpdatePod p (Inr obj') \<in> set es \<and> adopted_by mgr obj p)))"

lemma adopt_behaves:
  assumes "GetControllerOf (pod_meta obj) = None" and "om_DeletionTimestamp (pod_meta obj) = None"
    and "om_DeletionTimestamp (owner_meta mgr) = None"
  shows "behaves (adopt pr a mgr obj) (adopt_post mgr obj)"
proof -
  have upd: "justified_update mgr [obj] True (obj\<lparr>pod_meta := m\<rparr>) \<and> adopted_by mgr obj (obj\<lparr>pod_meta := m\<rparr>)"
    if "SetControllerReference (rm_owner mgr) (pod_meta obj) sch = Return (Inr m)" for m sch
    using SetControllerReference_Inr [OF that] assms
    by (auto simp: justified_update_def adopted_by_def)
  have same: "rm_owner m = rm_owner mgr" "rm_schema m = rm_schema mgr" if "mgr_step mgr m es" for m es
    using that by (simp_all add: mgr_step_def same_manager_def)
  have ok: "checked_ok mgr \<or> (\<exists>ev\<in>set es. fresh_check mgr ev)"
    if "mgr_step mgr m es" "rm_once m" "rm_canAdoptErr m = None" for m es
    using that by (simp add: mgr_step_def checked_ok_def)
  have more: "mgr_step mgr m (es @ [EvUpdatePod p r])" if "mgr_step mgr m es" for m es p r
    using that by (simp add: mgr_step_def)
  show ?thesis
    unfolding adopt_def updateOwner_def Let_def
    by (rule behaves_bind_use [OF canAdoptOnce_behaves], intro behaves_rules)
      (auto simp: adopt_post_def same ok more justified_gets refused_gets dest: upd, (blast dest: upd)+)
qed

definition owned_by :: "Service \<Rightarrow> Pod \<Rightarrow> bool" where
  "owned_by owner obj \<longleftrightarrow> (\<exists>ref. GetControllerOf (pod_meta obj) = Some ref
     \<and> or_UID ref = om_UID (svc_meta owner))"

text \<open>How a pod came to be claimed: it was owned already, or it has just been adopted.\<close>

definition claimed_as :: "RefManager \<Rightarrow> Pod \<Rightarrow> Pod \<Rightarrow> event list \<Rightarrow> bool" where
  "claimed_as mgr obj obj' es \<longleftrightarrow> (obj' = obj \<and> owned_by (rm_owner mgr) obj)
     \<or> (GetControllerOf (pod_meta obj) = None \<and>
         (obj' = obj \<and> rm_schema mgr = None
          \<or> (\<exists>p. EvUpdatePod p (Inr obj') \<in> set es \<and> adopted_by mgr obj p)))"

definition claim_post :: "RefManager \<Rightarrow> (Pod \<Rightarrow> bool) \<Rightarrow> Pod \<Rightarrow> claim_result \<Rightarrow> event list \<Rightarrow> bool" where
  "claim_post mgr matches obj r es \<longleftrightarrow> justified mgr [obj] (checked_ok mgr) es \<and> gets es \<le> budget mgr
     \<and> (case r of Panic _ \<Rightarrow> \<not> refused es
        | Return (m, obj', claimed, err) \<Rightarrow> mgr_step mgr m es
            \<and> (\<forall>e. err = Some e \<longrightarrow> \<not> IsNotFound e \<and> \<not> claimed) \<and> (refused es \<longrightarrow> err \<noteq> None)
            \<and> (claimed \<longrightarrow> matches obj \<and> claimed_as mgr obj obj' es))"

lemma claimObject_behaves: "behaves (claimObject pr a mgr obj matches) (claim_post mgr matches obj)"
proof (cases "GetControllerOf (pod_meta obj)")
  case None
  show ?thesis
  proof (cases "om_DeletionTimestamp (owner_meta mgr) = None \<and> om_DeletionTimestamp (pod_meta obj) = None")
    case True
    with None have ad: "behaves (adopt pr a mgr obj) (adopt_post mgr obj)"
      by (intro adopt_behaves) auto
    from None show ?thesis
      unfolding claimObject_def
      by (simp, intro conjI impI behaves_rules behaves_weaken [OF ad])
        (auto simp: claim_post_def adopt_post_def claimed_as_def)
  next
    case False
    with None show ?thesis
      by (auto simp: claimObject_def claim_post_def intro!: behaves_rules)
  qed
next
  case (Some ref)
  have "justified_update mgr [obj] ok p"
    if "released_from (om_UID (owner_meta mgr)) obj p" "or_UID ref = om_UID (owner_meta mgr)"
      "om_DeletionTimestamp (owner_meta mgr) = None" for p ok
    using that Some by (auto simp: justified_update_def)
  with Some show ?thesis
    unfolding claimObject_def
    by (simp, intro conjI impI behaves_rules behaves_weaken [OF release_behaves])
      (auto simp: claim_post_def mgr_step_def claimed_as_def owned_by_def)
qed

definition loop_post :: "RefManager \<Rightarrow> (Pod \<Rightarrow> bool) \<Rightarrow> Pod list
    \<Rightarrow> (RefManager \<times> Pod list \<times> go_error list) outcome \<Rightarrow> event list \<Rightarrow> bool" where
  "loop_post mgr matches objs r es \<longleftrightarrow> justified mgr objs (checked_ok mgr) es \<and> gets es \<le> budget mgr
     \<and> (case r of Panic _ \<Rightarrow> True
        | Return (m, claimed, errs) \<Rightarrow> mgr_step mgr m es
            \<and> (\<forall>e\<in>set errs. \<not> IsNotFound e) \<and> (refused es \<longrightarrow> errs \<noteq> [])
            \<and> (\<forall>obj'\<in>set claimed. \<exists>obj\<in>set objs. matches obj \<and> claimed_as mgr obj obj' es))"

lemma claimed_as_append: "claimed_as mgr obj obj' es \<Longrightarrow> claimed_as mgr obj obj' (es @ fs)"
  "claimed_as mgr obj obj' fs \<Longrightarrow> claimed_as mgr obj obj' (es @ fs)"
  by (auto simp: claimed_as_def)

lemma claimed_as_same: "same_manager mgr m \<Longrightarrow> claimed_as m obj obj' es = claimed_as mgr obj obj' es"
  by (simp add: claimed_as_def same_manager_def adopted_by_def)

text \<open>One object, then the rest of the list.\<close>

lemma loop_post_step:
  assumes c: "claim_post mgr matches obj (Return (m, obj', claimed, err)) es"
    and l: "loop_post m matches objs r fs"
  shows "justified mgr (obj # objs) (checked_ok mgr) (es @ fs)" "gets (es @ fs) \<le> budget mgr"
    and "r = Return (m', claimObjs, errs) \<Longrightarrow> loop_post mgr matches (obj # objs)
       (Return (case err of Some e \<Rightarrow> (m', claimObjs, e # errs)
          | None \<Rightarrow> (m', if claimed then obj' # claimObjs else claimObjs, errs))) (es @ fs)"
proof -
  from c have step: "mgr_step mgr m es" by (simp add: claim_post_def)
  then have same: "same_manager mgr m" by (simp add: mgr_step_def)
  have 1: "justified mgr (obj # objs) (checked_ok mgr) es"
    using c justified_mono [of mgr "[obj]" "checked_ok mgr" es "obj # objs"]
    by (auto simp: claim_post_def)
  have "justified mgr objs (checked_ok m) fs"
    using l by (simp add: loop_post_def justified_same [OF same])
  then have "justified mgr (obj # objs) (checked_ok mgr \<or> (\<exists>e\<in>set es. fresh_check mgr e)) fs"
    by (rule justified_mono) (use step in \<open>auto simp: mgr_step_def\<close>)
  with 1 show j: "justified mgr (obj # objs) (checked_ok mgr) (es @ fs)" by simp
  show g: "gets (es @ fs) \<le> budget mgr"
    using step l by (simp add: mgr_step_def loop_post_def)
  assume r: "r = Return (m', claimObjs, errs)"
  with l have "mgr_step m m' fs" by (simp add: loop_post_def)
  then have "mgr_step mgr m' (es @ fs)" by (rule mgr_step_trans [OF step])
  moreover have "\<exists>o1\<in>set (obj # objs). matches o1 \<and> claimed_as mgr o1 o2 (es @ fs)" if "o2 \<in> set claimObjs" for o2
    using that l r unfolding loop_post_def claimed_as_same [OF same]
    by simp (meson claimed_as_append(2))
  moreover have "matches obj \<and> claimed_as mgr obj obj' (es @ fs)" if "claimed"
    using that c unfolding claim_post_def by (simp add: claimed_as_append(1))
  ultimately show "loop_post mgr matches (obj # objs)
       (Return (case err of Some e \<Rightarrow> (m', claimObjs, e # errs)
          | None \<Rightarrow> (m', if claimed then obj' # claimObjs else claimObjs, errs))) (es @ fs)"
    using c l j g r unfolding loop_post_def claim_post_def
    by (cases err) auto
qed

lemma loop_post_Panic:
  assumes "claim_post mgr matches obj (Return (m, obj', claimed, err)) es"
    and "loop_post m matches objs (Panic p) fs"
  shows "loop_post mgr matches (obj # objs) (Panic q) (es @ fs)"
  using loop_post_step(1,2) [OF assms] by (simp add: loop_post_def)

lemma claim_loop_behaves: "behaves (claim_loop pr a matches mgr objs) (loop_post mgr matches objs)"
proof (induction objs arbitrary: mgr)
  case Nil
  show ?case by (auto simp: loop_post_def intro!: behaves_rules)
next
  case (Cons obj objs)
  have panic: "loop_post mgr matches (obj # objs) (Panic p) es"
    if "claim_post mgr matches obj (Panic q) es" for p q es
    using that justified_mono [of mgr "[obj]" "checked_ok mgr" es "obj # objs"]
    by (auto simp: loop_post_def claim_post_def)
  show ?case
    unfolding claim_loop.simps
    by (intro behaves_rules behaves_weaken [OF claimObject_behaves] behaves_weaken [OF Cons.IH])
      (auto intro: panic loop_post_step(3) loop_post_Panic split del: if_split)
qed

lemma ClaimOwnedObjects_behaves:
  "behaves (ClaimOwnedObjects pr a mgr objs filters) (\<lambda>r es.
     justified mgr objs (checked_ok mgr) es \<and> gets es \<le> budget mgr
     \<and> (\<forall>claimed err. r = Return (claimed, err) \<longrightarrow> (refused es \<longrightarrow> err \<noteq> None)
         \<and> (\<forall>obj'\<in>set claimed. \<exists>obj\<in>set objs. match_obj mgr filters obj \<and> claimed_as mgr obj obj' es)))"
  unfolding ClaimOwnedObjects_def
  by (intro behaves_rules behaves_weaken [OF claim_loop_behaves])
    (auto simp: loop_post_def NewAggregate_Some)

section \<open>What is claimed\<close>

text \<open>The pods an owner may claim: the ones it controls, and orphans while neither is being deleted.\<close>

definition claimable :: "Service \<Rightarrow> Pod \<Rightarrow> bool" where
  "claimable svc obj \<longleftrightarrow> owned_by svc obj \<or> (GetControllerOf (pod_meta obj) = None
     \<and> om_DeletionTimestamp (svc_meta svc) = None \<and> om_DeletionTimestamp (pod_meta obj) = None)"

lemma adopt_owner:
  "behaves (adopt pr a mgr obj) (\<lambda>r es. case r of Panic _ \<Rightarrow> True | Return (m, obj', err) \<Rightarrow>
     rm_owner m = rm_owner mgr)"
  unfolding adopt_def updateOwner_def
  by (intro behaves_rules behaves_weaken [OF canAdoptOnce_behaves])
    (auto simp: mgr_step_def same_manager_def)

lemma claimObject_complete:
  "behaves (claimObject pr a mgr obj matches) (\<lambda>r es. case r of Panic _ \<Rightarrow> True
     | Return (m, obj', claimed, err) \<Rightarrow> rm_owner m = rm_owner mgr
         \<and> (err = None \<longrightarrow> claimed = (matches obj \<and> claimable (rm_owner mgr) obj)))"
proof (cases "GetControllerOf (pod_meta obj)")
  case None
  then have adopt: "behaves (adopt pr a mgr obj) (\<lambda>r es. case r of Panic _ \<Rightarrow> True
     | Return (m, obj', err) \<Rightarrow> rm_owner m = rm_owner mgr \<and> (\<forall>e. err = Some e \<longrightarrow> \<not> IsNotFound e))"
    if "om_DeletionTimestamp (owner_meta mgr) = None" "om_DeletionTimestamp (pod_meta obj) = None"
    by (intro behaves_weaken [OF behaves_conj [OF adopt_owner adopt_behaves [OF None that(2,1)]]])
      (auto simp: adopt_post_def split: outcome.splits)
  from None show ?thesis
    unfolding claimObject_def
    by (simp, intro conjI impI behaves_rules behaves_weaken [OF adopt])
      (auto simp: claimable_def owned_by_def)
next
  case (Some ref)
  then show ?thesis
    unfolding claimObject_def
    by (simp, intro conjI impI behaves_rules behaves_weaken [OF release_behaves])
      (auto simp: claimable_def owned_by_def)
qed

lemma claim_loop_complete:
  "behaves (claim_loop pr a matches mgr objs) (\<lambda>r es. case r of Panic _ \<Rightarrow> True
     | Return (m, claimed, errs) \<Rightarrow> errs = [] \<longrightarrow>
         length claimed = length (filter (\<lambda>obj. matches obj \<and> claimable (rm_owner mgr) obj) objs))"
proof (induction objs arbitrary: mgr)
  case Nil
  show ?case by (auto intro!: behaves_rules)
next
  case (Cons obj objs)
  show ?case
    unfolding claim_loop.simps
    by (intro behaves_rules behaves_weaken [OF claimObject_complete] behaves_weaken [OF Cons.IH])
      (auto split: option.splits)
qed

definition claim_call :: "event \<Rightarrow> bool" where
  "claim_call e \<longleftrightarrow> is_get_object e \<or> is_update_pod e"

lemma justified_claim_calls: "justified mgr objs ok es \<Longrightarrow> list_all claim_call es"
  by (induction es arbitrary: ok) (auto simp: claim_call_def is_update_pod_def split: event.splits)

text \<open>Without a scheme a new manager panics before it adopts anything.\<close>

lemma claimObject_no_scheme:
  assumes "rm_schema mgr = None" and "\<not> rm_once mgr"
  shows "behaves (claimObject pr a mgr obj matches) (\<lambda>r es. case r of Panic _ \<Rightarrow> True
     | Return (m, obj', claimed, err) \<Rightarrow> m = mgr \<and> obj' = obj \<and> (claimed \<longrightarrow> owned_by (rm_owner mgr) obj))"
proof -
  have ad: "behaves (adopt pr a mgr obj) (\<lambda>r es. \<exists>p. r = Panic p)"
    unfolding adopt_def canAdoptOnce_def using assms
    by (simp, intro behaves_rules behaves_weaken [OF canAdopt_behaves]) auto
  show ?thesis
    unfolding claimObject_def
    by (intro behaves_rules behaves_weaken [OF release_behaves] behaves_weaken [OF ad])
      (auto simp: owned_by_def)
qed

lemma claim_loop_no_scheme:
  assumes "rm_schema mgr = None" and "\<not> rm_once mgr"
  shows "behaves (claim_loop pr a matches mgr objs) (\<lambda>r es. case r of Panic _ \<Rightarrow> True
     | Return (m, claimed, errs) \<Rightarrow> \<forall>obj\<in>set claimed. obj \<in> set objs \<and> owned_by (rm_owner mgr) obj)"
  using assms
proof (induction objs arbitrary: mgr)
  case Nil
  show ?case by (auto intro!: behaves_rules)
next
  case (Cons obj objs)
  show ?case
    unfolding claim_loop.simps
    by (intro behaves_rules behaves_weaken [OF claimObject_no_scheme [OF Cons.prems]] behaves_weaken [OF Cons.IH])
      (use Cons.prems in \<open>auto split: option.splits if_splits\<close>)
qed

section \<open>Properties\<close>

definition new_manager :: "Requirement list \<Rightarrow> Service \<Rightarrow> scheme option \<Rightarrow> RefManager" where
  "new_manager selector owner schema = projr (NewRefManager selector owner schema)"

lemma new_manager_simps [simp]:
  "NewRefManager selector owner schema = Inr (new_manager selector owner schema)"
  "rm_owner (new_manager selector owner schema) = owner"
  "rm_selector (new_manager selector owner schema) = selector"
  "rm_schema (new_manager selector owner schema) = schema"
  "\<not> rm_once (new_manager selector owner schema)"
  "budget (new_manager selector owner schema) = 1"
  "\<not> checked_ok (new_manager selector owner schema)"
  by (simp_all add: new_manager_def NewRefManager_def budget_def checked_ok_def)

definition ex_printers :: printers where
  "ex_printers = \<lparr>pr_time = itoa, pr_pod = \<lambda>p. om_Name (pod_meta p)\<rparr>"

text \<open>\<open>obj'\<close> is \<open>obj\<close>, which the owner controls, or the API server's answer to an update
  that made the owner the controller of the orphan \<open>obj\<close> and changed nothing else.\<close>

definition adopted_from :: "Service \<Rightarrow> Pod \<Rightarrow> Pod \<Rightarrow> bool" where
  "adopted_from owner obj p \<longleftrightarrow> GetControllerOf (pod_meta obj) = None \<and> owned_by owner p
     \<and> p = obj\<lparr>pod_meta := (pod_meta obj)\<lparr>om_OwnerReferences := om_OwnerReferences (pod_meta p)\<rparr>\<rparr>"

definition claimed_from :: "Service \<Rightarrow> Pod \<Rightarrow> Pod \<Rightarrow> event list \<Rightarrow> bool" where
  "claimed_from owner obj obj' es \<longleftrightarrow> (obj' = obj \<and> owned_by owner obj)
     \<or> (\<exists>p. EvUpdatePod p (Inr obj') \<in> set es \<and> adopted_from owner obj p)"

lemma adopted_by_from:
  "adopted_by mgr obj p \<Longrightarrow> GetControllerOf (pod_meta obj) = None \<Longrightarrow> adopted_from (rm_owner mgr) obj p"
  by (auto simp: adopted_by_def adopted_from_def owned_by_def GetControllerOf_upsertOwnerRef)
    (simp add: upsertOwnerRef_def Let_def split: option.split)

lemma claimed_as_from:
  "claimed_as mgr obj obj' es \<Longrightarrow> rm_schema mgr \<noteq> None \<Longrightarrow> claimed_from (rm_owner mgr) obj obj' es"
  by (auto simp: claimed_as_def claimed_from_def dest: adopted_by_from)

lemma match_new: "match_obj (new_manager sel owner sch) filters obj \<longleftrightarrow>
    Selector_Matches sel (meta_labels (pod_meta obj)) \<and> list_all (\<lambda>f. f obj) filters"
  by (simp add: match_obj_def)

lemma claimed_new:
  "claimed_as (new_manager sel owner (Some sch)) obj obj' es \<Longrightarrow> claimed_from owner obj obj' es"
  using claimed_as_from [of "new_manager sel owner (Some sch)"] by simp

text \<open>When no pod has to be adopted or released the loop is a filter and makes no call.\<close>

lemma claim_loop_quiet:
  assumes "\<And>obj. obj \<in> set objs \<Longrightarrow> om_DeletionTimestamp (owner_meta mgr) \<noteq> None
      \<or> GetControllerOf (pod_meta obj) \<noteq> None \<and> (owned_by (rm_owner mgr) obj \<longrightarrow> matches obj)"
  shows "run_state (claim_loop pr a matches mgr objs) s =
     (Return (mgr, filter (\<lambda>obj. owned_by (rm_owner mgr) obj \<and> matches obj) objs, []), s)"
  using assms
proof (induction objs arbitrary: s)
  case (Cons obj objs)
  have "run_state (claimObject pr a mgr obj matches) s =
      (Return (mgr, obj, owned_by (rm_owner mgr) obj \<and> matches obj, None), s)"
    using Cons.prems [of obj]
    by (auto simp: claimObject_def owned_by_def split: option.split)
  with Cons show ?case by simp
qed simp

lemma owner_index_snoc:
  "\<forall>r\<in>set refs. or_UID r \<noteq> uid \<Longrightarrow> or_UID ref = uid \<Longrightarrow> owner_index uid (refs @ [ref]) = Some (length refs)"
  by (induction refs) auto

text \<open>
  (C1) Whatever the API server answers, every pod update of a new manager either removes the
  owner's reference from a given pod that this owner controls, or adopts a given pod that has
  no controller and is not being deleted, and then only after the manager has read the owner
  from the API server in this very run and found it with the same UID and not being deleted.
  When the owner it was created with is already being deleted, it updates nothing.
\<close>

theorem claim_updates_justified:
  "behaves (ClaimOwnedObjects pr a (new_manager sel owner sch) objs filters)
     (\<lambda>r es. justified (new_manager sel owner sch) objs False es)"
  by (rule behaves_weaken [OF ClaimOwnedObjects_behaves]) simp

text \<open>
  However many orphans there are, the owner is looked up at most once per manager.
\<close>

lemma adoption_checked_once:
  "behaves (ClaimOwnedObjects pr a (new_manager sel owner sch) objs filters)
     (\<lambda>r es. length (filter is_get_object es) \<le> 1)"
  by (rule behaves_weaken [OF ClaimOwnedObjects_behaves]) simp

text \<open>
  (C16) Every pod that is claimed matches the selector and the filters, and either belonged to
  the owner before or is the API server's answer to an update that made the owner its
  controller.
\<close>

theorem claimed_pods_belong:
  "behaves (ClaimOwnedObjects pr a (new_manager sel owner (Some sch)) objs filters) (\<lambda>r es.
     case r of Panic _ \<Rightarrow> True
     | Return (claimed, err) \<Rightarrow> list_all (\<lambda>obj'. list_ex (\<lambda>obj.
         Selector_Matches sel (meta_labels (pod_meta obj)) \<and> list_all (\<lambda>f. f obj) filters
         \<and> claimed_from owner obj obj' es) objs) claimed)"
  by (rule behaves_weaken [OF ClaimOwnedObjects_behaves])
    (clarsimp simp: list_all_iff list_ex_iff match_new split: outcome.splits,
     drule (1) bspec, blast intro: claimed_new)

text \<open>
  An owner that is being deleted keeps the matching pods it controls and touches nothing:
  no call is made, the world stays as it was.
\<close>

lemma deleting_owner_only_reads:
  assumes "om_DeletionTimestamp (svc_meta owner) \<noteq> None"
  shows "run_state (ClaimOwnedObjects pr a (new_manager sel owner sch) objs filters) s =
     (Return (filter (\<lambda>obj. owned_by owner obj \<and> match_obj (new_manager sel owner sch) filters obj) objs, None), s)"
  using assms by (simp add: ClaimOwnedObjects_def claim_loop_quiet NewAggregate_Some)

lemma deleting_owner_only_reads_witness:
  "run_state (ClaimOwnedObjects ex_printers mem_api (new_manager (SelectorFromSet ex_labels)
       (ex_service\<lparr>svc_meta := (svc_meta ex_service)\<lparr>om_DeletionTimestamp := Some 9\<rparr>\<rparr>) (Some ex_scheme))
       [ex_orphan, ex_owned] []) (start (ex_mem [] [])) = (Return ([ex_owned], None), start (ex_mem [] []))"
  by (subst deleting_owner_only_reads)
    (simp_all add: ex_defs owned_by_def match_obj_def GetControllerOf_def meta_labels_def controller_ref_def)

text \<open>
  In the steady state, where every given pod has a controller and the owner's own pods match,
  claiming returns exactly the owner's pods and makes no call.
\<close>

lemma claim_steady_state:
  assumes "\<forall>obj\<in>set objs. GetControllerOf (pod_meta obj) \<noteq> None
     \<and> (owned_by owner obj \<longrightarrow> match_obj (new_manager sel owner sch) filters obj)"
  shows "run_state (ClaimOwnedObjects pr a (new_manager sel owner sch) objs filters) s =
     (Return (filter (owned_by owner) objs, None), s)"
proof -
  have "filter (\<lambda>obj. owned_by owner obj \<and> match_obj (new_manager sel owner sch) filters obj) objs
      = filter (owned_by owner) objs"
    using assms by (auto intro: filter_cong)
  moreover have "run_state (claim_loop pr a (match_obj (new_manager sel owner sch) filters)
       (new_manager sel owner sch) objs) s = (Return (new_manager sel owner sch,
       filter (\<lambda>obj. owned_by owner obj \<and> match_obj (new_manager sel owner sch) filters obj) objs, []), s)"
    by (rule claim_loop_quiet [of _ "new_manager sel owner sch", simplified]) (use assms in blast)
  ultimately show ?thesis by (simp add: ClaimOwnedObjects_def NewAggregate_Some)
qed

lemma claim_steady_state_witness:
  "run_state (ClaimOwnedObjects ex_printers mem_api (new_manager (SelectorFromSet ex_labels) ex_service (Some ex_scheme))
       [ex_owned] []) (start (ex_mem [] [])) = (Return ([ex_owned], None), start (ex_mem [] []))"
  by (subst claim_steady_state)
    (simp_all add: ex_defs owned_by_def match_obj_def GetControllerOf_def meta_labels_def controller_ref_def)

text \<open>
  (C35) A refused pod update is always reported: \<^verbatim>\<open>claimObject\<close> returns an error whenever the API server refused the
  update it made, and that error never satisfies \<^verbatim>\<open>IsNotFound\<close>, also when the API server said
  that the pod is gone.  The branches of \<^verbatim>\<open>claimObject\<close> for a pod that no longer exists are dead.
\<close>

theorem refused_update_reported:
  "behaves (claimObject pr a mgr obj matches) (\<lambda>r es. if refused es
     then (\<exists>m obj' e. r = Return (m, obj', False, Some e) \<and> \<not> IsNotFound e) else True)"
  by (rule behaves_weaken [OF claimObject_behaves])
    (auto simp: claim_post_def split: outcome.splits)



end
