(* ===== verification/Service_Controller.thy ===== *)
theory Service_Controller
  imports Ref_Manager
begin

text \<open>
  \<^verbatim>\<open>pkg/controller/service_controller.go\<close>: the reconciler that keeps one frp client pod for
  every service of type \<^verbatim>\<open>LoadBalancer\<close> that names an frp server, and cleans up after the
  others.  \<^verbatim>\<open>ctrl.Result{}\<close> is always empty, so a run returns the error only; a nil
  dereference is a \<^const>\<open>Panic\<close>.
\<close>

section \<open>The reconciler\<close>

definition defaultBaseName :: string where [go_strings]: "defaultBaseName = ''frp-client''"

text \<open>The reconciler's fields; \<open>r_yaml\<close> is \<^verbatim>\<open>yaml.Unmarshal\<close> into a pod.\<close>

record ServiceReconciler =
  r_Scheme :: "scheme option"
  r_PodTemplate :: string
  r_yaml :: "string \<Rightarrow> go_error + Pod"
  r_printers :: printers

definition pod_selector :: "Service \<Rightarrow> Requirement list" where
  "pod_selector svc = SelectorFromSet [(LabelServiceNameKey, om_Name (svc_meta svc)),
     (LabelControllerUidKey, om_UID (svc_meta svc))]"

fun split_active :: "Pod list \<Rightarrow> Pod list \<times> Pod list" where
  "split_active [] = ([], [])"
| "split_active (pod # items) = (let (activePods, inactivePods) = split_active items in
     if IsPodActive pod then (pod # activePods, inactivePods) else (activePods, pod # inactivePods))"

definition getOwnedPods :: "'w api \<Rightarrow> Service \<Rightarrow> ('w, go_error + (Pod list \<times> Pod list)) act" where
  "getOwnedPods a svc = do {
     r \<leftarrow> List_Pods a (om_Namespace (svc_meta svc)) (pod_selector svc);
     case r of
       Inl err \<Rightarrow> ret (Inl err)
     | Inr items \<Rightarrow> ret (Inr (split_active items)) }"

definition generatePod ::
    "'w sys \<Rightarrow> ServiceReconciler \<Rightarrow> Service \<Rightarrow> ('w, (go_error + Pod) outcome) act" where
  "generatePod y r owner =
     (case r_yaml r (r_PodTemplate r) of
        Inl err \<Rightarrow> ret (Return (Inl (WrapError
          (''unable parse yaml from pod template, err: '' @ Error err) err)))
      | Inr pod \<Rightarrow> do {
          let m = pod_meta pod;
          let m = (if om_Labels m = None then m\<lparr>om_Labels := Some []\<rparr> else m);
          let baseName = (if om_Name m \<noteq> [] then om_Name m else defaultBaseName);
          let m = m\<lparr>om_Namespace := om_Namespace (svc_meta owner)\<rparr>;
          suffix \<leftarrow> Rand_String y randomLength;
          let m = m\<lparr>om_Name := GenerateName (baseName @ ''-'' @ om_Name (svc_meta owner)) suffix\<rparr>;
          case SetControllerReference owner m (r_Scheme r) of
            Panic p \<Rightarrow> ret (Panic p)
          | Return (Inl err) \<Rightarrow> ret (Return (Inl (WrapError (''can't set Pod '' @ quoted (om_Namespace m
              @ ''/'' @ om_Name m) @ '' owner reference: '' @ Error err) err)))
          | Return (Inr m) \<Rightarrow> do {
              let m = m\<lparr>om_Labels := map_option (map_put LabelServiceNameKey (om_Name (svc_meta owner)))
                          (om_Labels m)\<rparr>;
              let m = m\<lparr>om_Labels := map_option (map_put LabelControllerUidKey (om_UID (svc_meta owner)))
                          (om_Labels m)\<rparr>;
              ret (Return (Inr (pod\<lparr>pod_meta := m\<rparr>))) } })"

definition claimPods ::
    "'w api \<Rightarrow> ServiceReconciler \<Rightarrow> Service \<Rightarrow> Pod list \<Rightarrow> ('w, (go_error + Pod list) outcome) act" where
  "claimPods a r svc pods =
     (case NewRefManager (pod_selector svc) svc (r_Scheme r) of
        Inl err \<Rightarrow> ret (Return (Inl err))
      | Inr mgr \<Rightarrow> do {
          c \<leftarrow> ClaimOwnedObjects (r_printers r) a mgr pods [];
          case c of
            Panic p \<Rightarrow> ret (Panic p)
          | Return (claimed, Some err) \<Rightarrow> ret (Return (Inl err))
          | Return (claimed, None) \<Rightarrow> ret (Return (Inr claimed)) })"

text \<open>A loop of deletes: an error other than not-found is collected, after \<open>wrap\<close>.\<close>

fun delete_pods :: "'w api \<Rightarrow> (go_error \<Rightarrow> go_error) \<Rightarrow> Pod list \<Rightarrow> ('w, go_error list) act" where
  "delete_pods a wrap [] = ret []"
| "delete_pods a wrap (pod # pods) = do {
     e \<leftarrow> Delete_Pod a pod;
     errsList \<leftarrow> delete_pods a wrap pods;
     ret (case e of
         Some err \<Rightarrow> if \<not> IsNotFound err then wrap err # errsList else errsList
       | None \<Rightarrow> errsList) }"

definition needs_cleanup :: "Service \<Rightarrow> bool" where
  "needs_cleanup svc \<longleftrightarrow> svc_Type svc \<noteq> ServiceTypeLoadBalancer \<or> length (om_Annotations (svc_meta svc)) = 0
     \<or> map_get (om_Annotations (svc_meta svc)) AnnotationFrpServerNameKey = []
     \<or> om_DeletionTimestamp (svc_meta svc) \<noteq> None"

definition without_finalizer :: "Service \<Rightarrow> Service" where
  "without_finalizer svc = svc\<lparr>svc_meta := (svc_meta svc)
     \<lparr>om_Finalizers := lo_Without (om_Finalizers (svc_meta svc)) [FinalizerName]\<rparr>\<rparr>"

definition with_finalizer :: "Service \<Rightarrow> Service" where
  "with_finalizer svc = svc\<lparr>svc_meta := (svc_meta svc)
     \<lparr>om_Finalizers := om_Finalizers (svc_meta svc) @ [FinalizerName]\<rparr>\<rparr>"

text \<open>The branch that deletes the claimed pods and removes the finalizer.\<close>

definition cleanup_service ::
    "'w api \<Rightarrow> NamespacedName \<Rightarrow> Service \<Rightarrow> Pod list \<Rightarrow> ('w, go_error option) act" where
  "cleanup_service a req svc claimedPods = do {
     errsList \<leftarrow> delete_pods a (\<lambda>err. WrapError (''unable delete pod '' @ quoted (nn_String req)
        @ '', err: '' @ Error err) err) claimedPods;
     u \<leftarrow> Update_Service a (without_finalizer svc);
     let errsList = (case u of
         Inl err \<Rightarrow> errsList @ [WrapError (''unable remove finalizers for service ''
            @ quoted (nn_String req) @ '', err: '' @ Error err) err]
       | Inr _ \<Rightarrow> errsList);
     ret (NewAggregate (map Some errsList)) }"

text \<open>The branch that makes sure the finalizer is set; it returns the service as stored.\<close>

definition ensure_finalizer ::
    "'w api \<Rightarrow> NamespacedName \<Rightarrow> Service \<Rightarrow> ('w, go_error + Service) act" where
  "ensure_finalizer a req svc =
     (if \<not> lo_Contains (om_Finalizers (svc_meta svc)) FinalizerName
      then do {
        u \<leftarrow> Update_Service a (with_finalizer svc);
        case u of
          Inl err \<Rightarrow> ret (Inl (WrapError (''unable add finalizers for service ''
            @ quoted (nn_String req) @ '', err: '' @ Error err) err))
        | Inr svc \<Rightarrow> ret (Inr svc) }
      else ret (Inr svc))"

definition ensure_pod ::
    "'w api \<Rightarrow> 'w sys \<Rightarrow> ServiceReconciler \<Rightarrow> Service \<Rightarrow> Pod list \<Rightarrow> ('w, go_error option outcome) act" where
  "ensure_pod a y r svc claimedPods =
     (if length claimedPods = 0 then do {
        g \<leftarrow> generatePod y r svc;
        case g of
          Panic p \<Rightarrow> ret (Panic p)
        | Return (Inl err) \<Rightarrow> ret (Return (Some (WrapError
            (''unable generate pod from podTemplate, err: '' @ Error err) err)))
        | Return (Inr pod) \<Rightarrow> do {
            c \<leftarrow> Create_Pod a pod;
            case c of
              Inl err \<Rightarrow> ret (Return (Some (WrapError (''unable create frp pod ''
                @ quoted (pr_pod (r_printers r) pod) @ '',err: '' @ Error err) err)))
            | Inr _ \<Rightarrow> ret (Return None) } }
      else ret (Return None))"

text \<open>The part of \<^verbatim>\<open>Reconcile\<close> that follows the claim.\<close>

definition reconcile_claimed ::
    "'w api \<Rightarrow> 'w sys \<Rightarrow> ServiceReconciler \<Rightarrow> NamespacedName \<Rightarrow> Service \<Rightarrow> Pod list \<Rightarrow> Pod list
      \<Rightarrow> ('w, go_error option outcome) act" where
  "reconcile_claimed a y r req svc inactivePods claimedPods = do {
     errsList \<leftarrow> delete_pods a (\<lambda>err. err) inactivePods;
     if length errsList \<noteq> 0 then ret (Return (NewAggregate (map Some errsList)))
     else if needs_cleanup svc then do {
       e \<leftarrow> cleanup_service a req svc claimedPods;
       ret (Return e) }
     else do {
       f \<leftarrow> ensure_finalizer a req svc;
       case f of
         Inl err \<Rightarrow> ret (Return (Some err))
       | Inr svc \<Rightarrow> ensure_pod a y r svc claimedPods } }"

text \<open>\<^verbatim>\<open>Reconcile\<close> over the claim operation it relies on.\<close>

definition Reconcile_with ::
    "(Service \<Rightarrow> Pod list \<Rightarrow> ('w, (go_error + Pod list) outcome) act)
      \<Rightarrow> 'w api \<Rightarrow> 'w sys \<Rightarrow> ServiceReconciler \<Rightarrow> NamespacedName \<Rightarrow> ('w, go_error option outcome) act" where
  "Reconcile_with claim a y r req = do {
     g \<leftarrow> Get_Service a req;
     case g of
       Inl err \<Rightarrow> (if IsNotFound err then ret (Return None) else ret (Return (Some err)))
     | Inr svc \<Rightarrow> do {
         pods \<leftarrow> getOwnedPods a svc;
         case pods of
           Inl err \<Rightarrow> ret (Return (Some err))
         | Inr (activePods, inactivePods) \<Rightarrow> do {
             c \<leftarrow> claim svc activePods;
             case c of
               Panic p \<Rightarrow> ret (Panic p)
             | Return (Inl err) \<Rightarrow> ret (Return (Some err))
             | Return (Inr claimedPods) \<Rightarrow> reconcile_claimed a y r req svc inactivePods claimedPods } } }"

definition ServiceReconciler_Reconcile ::
    "'w api \<Rightarrow> 'w sys \<Rightarrow> ServiceReconciler \<Rightarrow> NamespacedName \<Rightarrow> ('w, go_error option outcome) act" where
  "ServiceReconciler_Reconcile a y r req = Reconcile_with (claimPods a r) a y r req"

section \<open>Choosing a server\<close>

definition scheduleServer :: "'w api \<Rightarrow> Service \<Rightarrow> ('w, go_error + FrpServer) act" where
  "scheduleServer a svc =
     (let unset = Inl (ErrorString (''please set annotations.'' @ AnnotationFrpServerNameKey
            @ '' to assign frp server''))
      in if length (om_Annotations (svc_meta svc)) = 0 then ret unset
         else case map_of (om_Annotations (svc_meta svc)) AnnotationFrpServerNameKey of
             None \<Rightarrow> ret unset
           | Some serverName \<Rightarrow>
               (if serverName = [] then ret unset
                else Get_FrpServer a \<lparr>nn_Namespace = [], nn_Name = serverName\<rparr>))"

fun split_servers :: "FrpServer list \<Rightarrow> FrpServer list \<times> FrpServer list" where
  "split_servers [] = ([], [])"
| "split_servers (srv # items) = (let (activeServers, inactiveServers) = split_servers items in
     if IsFrpServerActive srv then (srv # activeServers, inactiveServers)
     else (activeServers, srv # inactiveServers))"

definition getFrpServers :: "'w api \<Rightarrow> ('w, go_error + (FrpServer list \<times> FrpServer list)) act" where
  "getFrpServers a = do {
     r \<leftarrow> List_FrpServers a;
     case r of
       Inl err \<Rightarrow> ret (Inl err)
     | Inr items \<Rightarrow> ret (Inr (split_servers items)) }"

section \<open>Helper lemmas\<close>

lemma split_active_filter:
  "split_active items = (filter IsPodActive items, filter (\<lambda>p. \<not> IsPodActive p) items)"
  by (induction items) auto

lemma split_servers_filter:
  "split_servers items = (filter IsFrpServerActive items, filter (\<lambda>p. \<not> IsFrpServerActive p) items)"
  by (induction items) auto

lemma GetControllerOf_refs_upsert_same:
  assumes "GetControllerOf_refs rs = Some ex" and "referSameObject ex ref" and "or_Controller ref = Some True"
  shows "\<exists>i. indexOwnerRef rs ref = Some i \<and> GetControllerOf_refs (rs[i := ref]) = Some ref"
  using assms
proof (induction rs)
  case (Cons r rs)
  then show ?case by (cases "referSameObject r ref") (auto split: if_splits)
qed simp

lemma SetControllerReference_controller:
  assumes "SetControllerReference owner m sch = Return (Inr m')"
  shows "\<exists>s gvk. sch = Some s \<and> GVKForObject GoService (svc_TypeMeta owner) s = Inr gvk
     \<and> m' = upsertOwnerRef (controller_ref gvk (svc_meta owner)) m
     \<and> GetControllerOf m' = Some (controller_ref gvk (svc_meta owner)) \<and> om_Name m' = om_Name m"
proof -
  have same: "GetControllerOf (upsertOwnerRef ref m) = Some ref"
    if "GetControllerOf m = Some ex" "referSameObject ex ref" "or_Controller ref = Some True" for ex ref
    using GetControllerOf_refs_upsert_same [of "om_OwnerReferences m" ex ref] that
    by (auto simp: GetControllerOf_def upsertOwnerRef_def)
  from assms show ?thesis
    by (auto simp: SetControllerReference_def Let_def GetControllerOf_upsertOwnerRef same
        split: option.splits sum.splits if_splits)
qed

text \<open>What a generated pod looks like: the contract between \<^verbatim>\<open>generatePod\<close> and the next
  reconciliation, which finds the pod by its labels and recognises it by its controller.\<close>

definition pod_for :: "Service \<Rightarrow> string \<Rightarrow> Pod \<Rightarrow> bool" where
  "pod_for svc suffix p \<longleftrightarrow> om_Namespace (pod_meta p) = om_Namespace (svc_meta svc)
     \<and> Selector_Matches (pod_selector svc) (meta_labels (pod_meta p)) \<and> owned_by svc p
     \<and> (\<exists>base. om_Name (pod_meta p) = GenerateName (base @ ''-'' @ om_Name (svc_meta svc)) suffix)"

lemma generatePod_behaves:
  "behaves (generatePod y r svc) (\<lambda>res es. (es = [] \<or> (\<exists>suffix. es = [EvRand randomLength suffix]))
     \<and> (\<forall>p. res = Return (Inr p) \<longrightarrow> (\<exists>suffix. es = [EvRand randomLength suffix] \<and> pod_for svc suffix p
         \<and> (\<exists>t. r_yaml r (r_PodTemplate r) = Inr t \<and> p = t\<lparr>pod_meta := pod_meta p\<rparr>
              \<and> om_DeletionTimestamp (pod_meta p) = om_DeletionTimestamp (pod_meta t)))))"
  unfolding generatePod_def
  by (intro behaves_rules)
    (auto simp: pod_for_def pod_selector_def meta_labels_def owned_by_def GetControllerOf_def
      dest!: SetControllerReference_controller)

definition failed :: "go_error option \<Rightarrow> bool" where
  "failed e \<longleftrightarrow> (\<exists>err. e = Some err \<and> \<not> IsNotFound err)"

lemma delete_pods_behaves:
  "behaves (delete_pods a wrap pods) (\<lambda>errs es. \<exists>ds. length ds = length pods \<and> es = map2 EvDeletePod pods ds
     \<and> (errs = [] \<longleftrightarrow> \<not> list_ex failed ds))"
proof (induction pods)
  case Nil
  show ?case by (auto intro!: behaves_rules)
next
  case (Cons pod pods)
  have step: "\<exists>ds. length ds = Suc (length pods)
      \<and> EvDeletePod pod e # map2 EvDeletePod pods ds' = map2 EvDeletePod (pod # pods) ds
      \<and> ((case e of None \<Rightarrow> errs | Some err \<Rightarrow> if \<not> IsNotFound err then wrap err # errs else errs) = []
          \<longleftrightarrow> \<not> list_ex failed ds)"
    if "length ds' = length pods" "errs = [] \<longleftrightarrow> \<not> list_ex failed ds'" for e ds' errs
    using that by (intro exI [of _ "e # ds'"]) (auto simp: failed_def split: option.split)
  show ?case
    unfolding delete_pods.simps
    by (intro behaves_rules behaves_weaken [OF Cons.IH]) (use step in fastforce)
qed

section \<open>The protocol of a reconciliation\<close>

text \<open>
  The abstract specification of \<^verbatim>\<open>Reconcile\<close>: which calls a run makes, in which order, and when
  it reports success.  The rules leave open what the cluster answers, the texts of errors and
  how pods are claimed and generated.
\<close>

inductive create_run :: "Service \<Rightarrow> Pod list \<Rightarrow> go_error option outcome \<Rightarrow> event list \<Rightarrow> bool" where
  has_pod: "claimed \<noteq> [] \<Longrightarrow> create_run svc claimed (Return None) []"
| not_generated: "r \<noteq> Return None \<Longrightarrow> es = [] \<or> es = [EvRand randomLength suffix] \<Longrightarrow> create_run svc [] r es"
| create_refused: "pod_for svc suffix p \<Longrightarrow> r \<noteq> Return None
    \<Longrightarrow> create_run svc [] r [EvRand randomLength suffix, EvCreatePod p (Inl err)]"
| created: "pod_for svc suffix p
    \<Longrightarrow> create_run svc [] (Return None) [EvRand randomLength suffix, EvCreatePod p (Inr p')]"

inductive keep_run :: "Service \<Rightarrow> Pod list \<Rightarrow> go_error option outcome \<Rightarrow> event list \<Rightarrow> bool" where
  has_finalizer: "FinalizerName \<in> set (om_Finalizers (svc_meta svc)) \<Longrightarrow> create_run svc claimed r es
    \<Longrightarrow> keep_run svc claimed r es"
| finalizer_refused: "FinalizerName \<notin> set (om_Finalizers (svc_meta svc)) \<Longrightarrow> r \<noteq> Return None
    \<Longrightarrow> keep_run svc claimed r [EvUpdateService (with_finalizer svc) (Inl err)]"
| finalizer_added: "FinalizerName \<notin> set (om_Finalizers (svc_meta svc)) \<Longrightarrow> create_run svc' claimed r es
    \<Longrightarrow> keep_run svc claimed r (EvUpdateService (with_finalizer svc) (Inr svc') # es)"

inductive claimed_run ::
    "Service \<Rightarrow> Pod list \<Rightarrow> Pod list \<Rightarrow> go_error option outcome \<Rightarrow> event list \<Rightarrow> bool" where
  purge_failed: "length ds = length inactive \<Longrightarrow> list_ex failed ds \<Longrightarrow> r \<noteq> Return None
    \<Longrightarrow> claimed_run svc inactive claimed r (map2 EvDeletePod inactive ds)"
| cleaned: "length ds = length inactive \<Longrightarrow> \<not> list_ex failed ds \<Longrightarrow> needs_cleanup svc
    \<Longrightarrow> length cs = length claimed \<Longrightarrow> r = Return None \<longleftrightarrow> \<not> list_ex failed cs \<and> \<not> isl u
    \<Longrightarrow> claimed_run svc inactive claimed r (map2 EvDeletePod inactive ds
          @ map2 EvDeletePod claimed cs @ [EvUpdateService (without_finalizer svc) u])"
| kept: "length ds = length inactive \<Longrightarrow> \<not> list_ex failed ds \<Longrightarrow> \<not> needs_cleanup svc
    \<Longrightarrow> keep_run svc claimed r es
    \<Longrightarrow> claimed_run svc inactive claimed r (map2 EvDeletePod inactive ds @ es)"

text \<open>
  What the reconciler relies on when it claims pods.  The provider may read objects and update
  pods and reports every refused update; when it succeeds it returns one pod for every matching
  pod that can be claimed, and only pods that the service controls.
\<close>

definition claim_contract ::
    "Service \<Rightarrow> Pod list \<Rightarrow> (go_error + Pod list) outcome \<Rightarrow> event list \<Rightarrow> bool" where
  "claim_contract svc pods r es \<longleftrightarrow> list_all claim_call es
     \<and> (\<forall>claimed. r = Return (Inr claimed) \<longrightarrow> \<not> refused es
          \<and> list_all (\<lambda>p. list_ex (\<lambda>q. claimed_from svc q p es) pods) claimed
          \<and> length claimed = length (filter (\<lambda>q. Selector_Matches (pod_selector svc) (meta_labels (pod_meta q))
               \<and> claimable svc q) pods))"

locale pod_claimer =
  fixes claim :: "Service \<Rightarrow> Pod list \<Rightarrow> ('w, (go_error + Pod list) outcome) act"
  assumes claims: "behaves (claim svc pods) (claim_contract svc pods)"

inductive reconcile_run :: "NamespacedName \<Rightarrow> go_error option outcome \<Rightarrow> event list \<Rightarrow> bool" where
  no_service: "r = Return None \<longleftrightarrow> IsNotFound err \<Longrightarrow> reconcile_run req r [EvGetService req (Inl err)]"
| no_list: "r \<noteq> Return None \<Longrightarrow> reconcile_run req r [EvGetService req (Inr svc),
      EvListPods (om_Namespace (svc_meta svc)) (pod_selector svc) (Inl err)]"
| no_claim: "list_all claim_call cs \<Longrightarrow> r \<noteq> Return None \<Longrightarrow> reconcile_run req r (EvGetService req (Inr svc)
      # EvListPods (om_Namespace (svc_meta svc)) (pod_selector svc) (Inr items) # cs)"
| claimed: "claim_contract svc (filter IsPodActive items) (Return (Inr claimed)) cs
    \<Longrightarrow> claimed_run svc (filter (\<lambda>p. \<not> IsPodActive p) items) claimed r es
    \<Longrightarrow> reconcile_run req r (EvGetService req (Inr svc)
      # EvListPods (om_Namespace (svc_meta svc)) (pod_selector svc) (Inr items) # cs @ es)"

section \<open>The code refines the protocol\<close>

lemma ensure_pod_behaves: "behaves (ensure_pod a y r svc claimed) (create_run svc claimed)"
  unfolding ensure_pod_def
  by (intro behaves_rules behaves_weaken [OF generatePod_behaves])
    (auto intro: create_run.intros)

lemma ensure_finalizer_then:
  assumes "\<And>svc'. behaves (k svc') (create_run svc' claimed)"
  shows "behaves (do { f \<leftarrow> ensure_finalizer a req svc;
       case f of Inl err \<Rightarrow> ret (Return (Some err)) | Inr svc' \<Rightarrow> k svc' }) (keep_run svc claimed)"
  unfolding ensure_finalizer_def
  by (intro behaves_rules behaves_weaken [OF assms]) (auto intro: keep_run.intros)

lemma cleanup_service_behaves:
  "behaves (cleanup_service a req svc claimed) (\<lambda>e es. \<exists>cs u. length cs = length claimed
     \<and> es = map2 EvDeletePod claimed cs @ [EvUpdateService (without_finalizer svc) u]
     \<and> (e = None \<longleftrightarrow> \<not> list_ex failed cs \<and> \<not> isl u))"
  unfolding cleanup_service_def
  by (intro behaves_rules behaves_weaken [OF delete_pods_behaves]) (auto split: sum.split)

lemma reconcile_claimed_behaves:
  "behaves (reconcile_claimed a y r req svc inactive claimed) (claimed_run svc inactive claimed)"
  unfolding reconcile_claimed_def
proof (rule behaves_bind_use [OF delete_pods_behaves], elim exE conjE)
  fix errs :: "go_error list" and es ds
  assume ds: "length ds = length inactive" "es = map2 EvDeletePod inactive ds"
    "errs = [] \<longleftrightarrow> \<not> list_ex failed ds"
  have clean: "behaves (do { e \<leftarrow> cleanup_service a req svc claimed; ret (Return e) })
      (\<lambda>b fs. claimed_run svc inactive claimed b (es @ fs))" if "needs_cleanup svc" "\<not> length errs \<noteq> 0"
    by (rule behaves_bind_use [OF cleanup_service_behaves], rule behaves_ret)
      (use that ds in \<open>auto intro!: claimed_run.cleaned\<close>)
  show "behaves (if length errs \<noteq> 0 then ret (Return (NewAggregate (map Some errs)))
      else if needs_cleanup svc then do { e \<leftarrow> cleanup_service a req svc claimed; ret (Return e) }
      else do { f \<leftarrow> ensure_finalizer a req svc;
        case f of Inl err \<Rightarrow> ret (Return (Some err)) | Inr svc \<Rightarrow> ensure_pod a y r svc claimed })
     (\<lambda>b fs. claimed_run svc inactive claimed b (es @ fs))"
    by (intro behaves_if behaves_ret clean behaves_weaken [OF ensure_finalizer_then [OF ensure_pod_behaves]])
      (use ds in \<open>auto intro: claimed_run.purge_failed [of _ _ "Return e" for e, simplified] claimed_run.kept
         simp: NewAggregate_Some\<close>)
qed

context pod_claimer
begin

lemma claimed_then:
  "behaves (claim svc (filter IsPodActive items)) (\<lambda>c es.
     behaves (case c of Panic p \<Rightarrow> ret (Panic p)
         | Return (Inl err) \<Rightarrow> ret (Return (Some err))
         | Return (Inr claimedPods) \<Rightarrow>
             reconcile_claimed a y r req svc (filter (\<lambda>p. \<not> IsPodActive p) items) claimedPods)
       (\<lambda>b fs. reconcile_run req b (EvGetService req (Inr svc)
          # EvListPods (om_Namespace (svc_meta svc)) (pod_selector svc) (Inr items) # es @ fs)))"
proof (rule behaves_weaken [OF claims])
  fix c es assume c: "claim_contract svc (filter IsPodActive items) c es"
  then have calls: "list_all claim_call es" by (simp add: claim_contract_def)
  show "behaves (case c of Panic p \<Rightarrow> ret (Panic p)
         | Return (Inl err) \<Rightarrow> ret (Return (Some err))
         | Return (Inr claimedPods) \<Rightarrow>
             reconcile_claimed a y r req svc (filter (\<lambda>p. \<not> IsPodActive p) items) claimedPods)
       (\<lambda>b fs. reconcile_run req b (EvGetService req (Inr svc)
          # EvListPods (om_Namespace (svc_meta svc)) (pod_selector svc) (Inr items) # es @ fs))"
    by (intro behaves_rules behaves_weaken [OF reconcile_claimed_behaves])
      (use c calls in \<open>auto intro: reconcile_run.intros\<close>)
qed

lemma Reconcile_contract: "behaves (Reconcile_with claim a y r req) (reconcile_run req)"
  unfolding Reconcile_with_def getOwnedPods_def
  by (intro behaves_rules)
    (auto simp: split_active_filter intro!: claimed_then reconcile_run.intros(1,2))

end

section \<open>The reference manager keeps the claim contract\<close>

lemma ClaimOwnedObjects_contract:
  "behaves (ClaimOwnedObjects pr a (new_manager (pod_selector svc) svc sch) pods []) (\<lambda>r es.
     case r of Panic _ \<Rightarrow> list_all claim_call es
     | Return (claimed, err) \<Rightarrow> claim_contract svc pods
         (Return (case err of Some e \<Rightarrow> Inl e | None \<Rightarrow> Inr claimed)) es)"
proof -
  let ?mgr = "new_manager (pod_selector svc) svc sch"
  have match: "match_obj ?mgr [] = (\<lambda>q. Selector_Matches (pod_selector svc) (meta_labels (pod_meta q)))"
    by (simp add: match_new fun_eq_iff)
  define from_ok where "from_ok r es \<longleftrightarrow> (case r of Panic _ \<Rightarrow> True | Return (m, claimed, errs) \<Rightarrow>
      list_all (\<lambda>p. list_ex (\<lambda>q. claimed_from svc q p es) pods) claimed)"
    for r :: "(RefManager \<times> Pod list \<times> go_error list) outcome" and es
  have origin: "behaves (claim_loop pr a (match_obj ?mgr []) ?mgr pods) from_ok"
  proof (cases sch)
    case None
    have "behaves (claim_loop pr a (match_obj ?mgr []) ?mgr pods) (\<lambda>r es. case r of Panic _ \<Rightarrow> True
       | Return (m, claimed, errs) \<Rightarrow> \<forall>obj\<in>set claimed. obj \<in> set pods \<and> owned_by (rm_owner ?mgr) obj)"
      by (rule claim_loop_no_scheme) (simp_all add: None)
    then show ?thesis
      by (rule behaves_weaken)
        (auto simp: from_ok_def claimed_from_def list_all_iff list_ex_iff split: outcome.splits)
  next
    case (Some s)
    show ?thesis
      unfolding from_ok_def
      by (rule behaves_weaken [OF claim_loop_behaves])
        (clarsimp simp: Some loop_post_def list_all_iff list_ex_iff split: outcome.splits,
         drule (1) bspec, blast intro: claimed_new)
  qed
  have post: "claim_contract svc pods (Return (case NewAggregate (map Some errs) of
       Some e \<Rightarrow> Inl e | None \<Rightarrow> Inr claimed)) es"
    if "from_ok (Return (m, claimed, errs)) es" "loop_post ?mgr (match_obj ?mgr []) pods (Return (m, claimed, errs)) es"
      "errs = [] \<longrightarrow> length claimed = length (filter (\<lambda>obj. match_obj ?mgr [] obj \<and> claimable svc obj) pods)"
    for m claimed errs es
    using that justified_claim_calls [of ?mgr pods "checked_ok ?mgr" es]
    by (auto simp: from_ok_def loop_post_def claim_contract_def match NewAggregate_Some)
  have calls: "list_all claim_call es" if "loop_post ?mgr m pods (Panic p) es" for m p es
    using that justified_claim_calls [of ?mgr pods "checked_ok ?mgr" es] by (auto simp: loop_post_def)
  show ?thesis
    unfolding ClaimOwnedObjects_def
  proof (rule behaves_bind_use [OF behaves_conj [OF origin behaves_conj [OF claim_loop_behaves claim_loop_complete]]],
      elim conjE)
    fix r es
    assume r: "from_ok r es" "loop_post ?mgr (match_obj ?mgr []) pods r es"
      "case r of Panic _ \<Rightarrow> True | Return (m, claimed, errs) \<Rightarrow> errs = [] \<longrightarrow> length claimed
         = length (filter (\<lambda>obj. match_obj ?mgr [] obj \<and> claimable (rm_owner ?mgr) obj) pods)"
    show "behaves (case r of Panic p \<Rightarrow> ret (Panic p)
        | Return (_, claimObjs, errList) \<Rightarrow> ret (Return (claimObjs, NewAggregate (map Some errList))))
      (\<lambda>b fs. case b of Panic _ \<Rightarrow> list_all claim_call (es @ fs)
        | Return (claimed, err) \<Rightarrow> claim_contract svc pods
            (Return (case err of Some e \<Rightarrow> Inl e | None \<Rightarrow> Inr claimed)) (es @ fs))"
    proof (cases r)
      case (Return x)
      obtain m claimed errs where "x = (m, claimed, errs)" by (cases x)
      with Return r show ?thesis using post [of m claimed errs es] by (simp add: behaves_ret)
    next
      case (Panic p)
      with r show ?thesis using calls by (simp add: behaves_ret)
    qed
  qed
qed

lemma claimPods_contract: "behaves (claimPods a r svc pods) (claim_contract svc pods)"
  unfolding claimPods_def
  by (simp, intro behaves_rules behaves_weaken [OF ClaimOwnedObjects_contract])
    (auto simp: claim_contract_def)

interpretation refs: pod_claimer "claimPods a r" for a r
  by unfold_locales (rule claimPods_contract)

lemma Reconcile_behaves: "behaves (ServiceReconciler_Reconcile a y r req) (reconcile_run req)"
  unfolding ServiceReconciler_Reconcile_def by (rule refs.Reconcile_contract)

section \<open>Reading the protocol\<close>

lemma map2_delete: "e \<in> set (map2 EvDeletePod ps ds) \<Longrightarrow> \<exists>p d. e = EvDeletePod p d \<and> p \<in> set ps \<and> d \<in> set ds"
  by (auto dest: set_zip_leftD set_zip_rightD)

definition is_create :: "event \<Rightarrow> bool" where
  "is_create e = (case e of EvCreatePod _ _ \<Rightarrow> True | _ \<Rightarrow> False)"

lemma is_create_simps [simp]:
  "is_create (EvCreatePod p c)" "\<not> is_create (EvDeletePod p d)" "\<not> is_create (EvUpdateService svc u)"
  "\<not> is_create (EvGetService k g)" "\<not> is_create (EvListPods ns sel l)" "\<not> is_create (EvRand n s)"
  by (simp_all add: is_create_def)

lemma claim_call_iff: "claim_call e \<longleftrightarrow> (\<exists>t k r. e = EvGetObject t k r) \<or> (\<exists>p r. e = EvUpdatePod p r)"
  by (cases e) (simp_all add: claim_call_def is_get_object_def is_update_pod_def)

lemma claim_call_not:
  "claim_call e \<Longrightarrow> \<not> is_create e" "\<not> claim_call (EvDeletePod p d)" "\<not> claim_call (EvCreatePod p c)"
  by (auto simp: claim_call_iff is_create_def)

lemma claimed_from_mono: "claimed_from svc q p es \<Longrightarrow> set es \<subseteq> set fs \<Longrightarrow> claimed_from svc q p fs"
  by (auto simp: claimed_from_def)

text \<open>A call that did not do its work; a missing service or pod is not a failure.\<close>

definition call_failed :: "event \<Rightarrow> bool" where
  "call_failed e = (case e of EvGetService _ (Inl err) \<Rightarrow> \<not> IsNotFound err
     | EvListPods _ _ (Inl _) \<Rightarrow> True | EvUpdatePod _ (Inl _) \<Rightarrow> True
     | EvDeletePod _ d \<Rightarrow> failed d | EvUpdateService _ (Inl _) \<Rightarrow> True | EvCreatePod _ (Inl _) \<Rightarrow> True
     | _ \<Rightarrow> False)"

text \<open>The justification of a delete, and of a create, in the calls \<open>es\<close> of a run.\<close>

definition delete_justified :: "NamespacedName \<Rightarrow> event list \<Rightarrow> event \<Rightarrow> bool" where
  "delete_justified req es e = (case e of
     EvDeletePod p d \<Rightarrow> \<exists>svc items. EvGetService req (Inr svc) \<in> set es
       \<and> EvListPods (om_Namespace (svc_meta svc)) (pod_selector svc) (Inr items) \<in> set es
       \<and> (p \<in> set items \<and> \<not> IsPodActive p
          \<or> needs_cleanup svc \<and> (\<exists>q\<in>set items. IsPodActive q \<and> claimed_from svc q p es))
   | _ \<Rightarrow> True)"

text \<open>\<open>p\<close> was generated for a service that has the finalizer, either all along or by an update
  that the API server accepted.\<close>

definition tracked :: "Service \<Rightarrow> Pod \<Rightarrow> event list \<Rightarrow> bool" where
  "tracked svc p es \<longleftrightarrow> (\<exists>svc' suffix. pod_for svc' suffix p
     \<and> (svc' = svc \<and> FinalizerName \<in> set (om_Finalizers (svc_meta svc))
        \<or> EvUpdateService (with_finalizer svc) (Inr svc') \<in> set es))"

lemma tracked_mono: "tracked svc p es \<Longrightarrow> set es \<subseteq> set fs \<Longrightarrow> tracked svc p fs"
  unfolding tracked_def by blast

definition create_justified :: "NamespacedName \<Rightarrow> event list \<Rightarrow> event \<Rightarrow> bool" where
  "create_justified req es e = (case e of
     EvCreatePod p c \<Rightarrow> \<exists>svc items. EvGetService req (Inr svc) \<in> set es
       \<and> EvListPods (om_Namespace (svc_meta svc)) (pod_selector svc) (Inr items) \<in> set es
       \<and> \<not> needs_cleanup svc
       \<and> filter (\<lambda>q. IsPodActive q \<and> Selector_Matches (pod_selector svc) (meta_labels (pod_meta q))
            \<and> claimable svc q) items = []
       \<and> tracked svc p es
   | _ \<Rightarrow> True)"

lemma create_justified_other: "\<forall>p c. e \<noteq> EvCreatePod p c \<Longrightarrow> create_justified req es e"
  by (cases e) (auto simp: create_justified_def)

lemma delete_justified_other: "\<forall>p d. e \<noteq> EvDeletePod p d \<Longrightarrow> delete_justified req es e"
  by (cases e) (auto simp: delete_justified_def)

text \<open>A pod is created by the last call only.\<close>

lemma create_run_last: "create_run svc claimed r es \<Longrightarrow> list_all (\<lambda>e. \<not> is_create e) (butlast es)"
  by (erule create_run.cases) auto

lemma keep_run_last: "keep_run svc claimed r es \<Longrightarrow> list_all (\<lambda>e. \<not> is_create e) (butlast es)"
  by (erule keep_run.cases) (auto dest: create_run_last)

lemma list_all_map2_delete: "(\<And>p d. p \<in> set ps \<Longrightarrow> P (EvDeletePod p d)) \<Longrightarrow> list_all P (map2 EvDeletePod ps ds)"
  by (auto simp: list_all_iff dest: set_zip_leftD)

lemma list_all_butlast: "list_all P xs \<Longrightarrow> list_all P (butlast xs)"
  by (auto simp: list_all_iff dest: in_set_butlastD)

lemma no_create_map2 [simp]: "list_all (\<lambda>e. \<not> is_create e) (map2 EvDeletePod ps ds)"
  by (rule list_all_map2_delete) simp

lemma claimed_run_last: "claimed_run svc inactive claimed r es \<Longrightarrow> list_all (\<lambda>e. \<not> is_create e) (butlast es)"
  by (erule claimed_run.cases)
    (auto simp: butlast_append list_all_butlast [OF no_create_map2] dest: keep_run_last)

lemma reconcile_run_last:
  assumes "reconcile_run req r es"
  shows "list_all (\<lambda>e. \<not> is_create e) (butlast es)"
proof -
  have calls: "list_all (\<lambda>e. \<not> is_create e) cs" if "list_all claim_call cs" for cs
    using that by (auto simp: list_all_iff claim_call_not)
  from assms show ?thesis
    by cases (auto simp: butlast_append claim_contract_def intro: calls list_all_butlast dest: claimed_run_last)
qed

text \<open>Which pods are deleted.\<close>

lemma create_run_deletes: "create_run svc claimed r es \<Longrightarrow> EvDeletePod p d \<notin> set es"
  by (erule create_run.cases) auto

lemma keep_run_deletes: "keep_run svc claimed r es \<Longrightarrow> EvDeletePod p d \<notin> set es"
  by (erule keep_run.cases) (auto dest: create_run_deletes)

lemma claimed_run_deletes:
  "claimed_run svc inactive claimed r es \<Longrightarrow> EvDeletePod p d \<in> set es
    \<Longrightarrow> p \<in> set inactive \<or> needs_cleanup svc \<and> p \<in> set claimed"
  by (erule claimed_run.cases) (auto dest: keep_run_deletes set_zip_leftD)

text \<open>Which pods are created.\<close>

lemma create_run_creates: "create_run svc claimed r es \<Longrightarrow> EvCreatePod p c \<in> set es
    \<Longrightarrow> claimed = [] \<and> (\<exists>suffix. pod_for svc suffix p)"
  by (erule create_run.cases) auto

lemma keep_run_creates: "keep_run svc claimed r es \<Longrightarrow> EvCreatePod p c \<in> set es
    \<Longrightarrow> claimed = [] \<and> tracked svc p es"
  by (erule keep_run.cases) (auto simp: tracked_def dest!: create_run_creates)

lemma claimed_run_creates: "claimed_run svc inactive claimed r es \<Longrightarrow> EvCreatePod p c \<in> set es
    \<Longrightarrow> \<not> needs_cleanup svc \<and> claimed = [] \<and> tracked svc p es"
  by (erule claimed_run.cases) (auto dest!: keep_run_creates intro: tracked_mono)

text \<open>Which failures are reported.\<close>

lemma call_failed_simps [simp]:
  "call_failed (EvDeletePod p d) = failed d" "call_failed (EvUpdateService svc u) = isl u"
  "call_failed (EvCreatePod p c) = isl c" "\<not> call_failed (EvRand n s)"
  "call_failed (EvListPods ns sel l) = isl l" "call_failed (EvUpdatePod p u') = isl u'"
  "\<not> call_failed (EvGetService req (Inr svc))"
  by (auto simp: call_failed_def split: sum.splits)

lemma create_run_reports: "create_run svc claimed (Return None) es \<Longrightarrow> \<not> list_ex call_failed es"
  by (erule create_run.cases) auto

lemma keep_run_reports: "keep_run svc claimed (Return None) es \<Longrightarrow> \<not> list_ex call_failed es"
  by (erule keep_run.cases) (auto dest: create_run_reports)

lemma list_ex_map2_delete: "length ds = length ps
    \<Longrightarrow> list_ex call_failed (map2 EvDeletePod ps ds) \<longleftrightarrow> list_ex failed ds"
  by (induction ps ds rule: list_induct2') auto

lemma claimed_run_reports: "claimed_run svc inactive claimed (Return None) es \<Longrightarrow> \<not> list_ex call_failed es"
  by (erule claimed_run.cases) (auto simp: list_ex_map2_delete dest: keep_run_reports)


section \<open>What is created\<close>

text \<open>\<^verbatim>\<open>rand.String(n)\<close> of \<^verbatim>\<open>k8s.io/apimachinery/pkg/util/rand\<close> returns \<^verbatim>\<open>n\<close> characters.\<close>

definition rand_ok :: "'w sys \<Rightarrow> bool" where
  "rand_ok y \<longleftrightarrow> (\<forall>n w. length (fst (sys_rand y n w)) = n)"

text \<open>A created pod is the template with its own metadata; its name fits, and its controller is a service,
  under the kind that the scheme gives to services.\<close>

definition controller_kind :: "ServiceReconciler \<Rightarrow> Pod \<Rightarrow> bool" where
  "controller_kind r p \<longleftrightarrow> (\<exists>(owner :: Service) s gvk. r_Scheme r = Some s \<and> GVKForObject GoService (svc_TypeMeta owner) s = Inr gvk
     \<and> GetControllerOf (pod_meta p) = Some (controller_ref gvk (svc_meta owner)))"

definition created_from :: "'w sys \<Rightarrow> ServiceReconciler \<Rightarrow> event \<Rightarrow> bool" where
  "created_from y r e = (case e of
     EvCreatePod p c \<Rightarrow> (\<exists>t. r_yaml r (r_PodTemplate r) = Inr t \<and> p = t\<lparr>pod_meta := pod_meta p\<rparr>)
       \<and> (rand_ok y \<longrightarrow> length (om_Name (pod_meta p)) \<le> maxNameLength)
       \<and> controller_kind r p
   | _ \<Rightarrow> True)"

lemma created_from_other: "\<not> is_create e \<Longrightarrow> created_from y r e"
  by (cases e) (simp_all add: created_from_def)

lemma Rand_String_length: "behaves (Rand_String y n) (\<lambda>s es. es = [EvRand n s] \<and> (rand_ok y \<longrightarrow> length s = n))"
  by (simp add: Rand_String_def behaves_def rand_ok_def)

lemma SetControllerReference_name:
  "SetControllerReference owner m sch = Return (Inr m') \<Longrightarrow> om_Name m' = om_Name m"
  by (auto simp: SetControllerReference_def upsertOwnerRef_def Let_def split: option.splits outcome.splits sum.splits if_splits)

lemma generatePod_kind: "behaves (generatePod y r svc) (\<lambda>res es. \<forall>p. res = Return (Inr p) \<longrightarrow> controller_kind r p)"
  unfolding generatePod_def
  by (intro behaves_rules) (auto simp: controller_kind_def GetControllerOf_def dest!: SetControllerReference_controller, blast)

lemma generatePod_name:
  "behaves (generatePod y r svc) (\<lambda>res es. (\<forall>e\<in>set es. \<not> is_create e)
     \<and> (\<forall>p. res = Return (Inr p) \<longrightarrow> (\<exists>t. r_yaml r (r_PodTemplate r) = Inr t \<and> p = t\<lparr>pod_meta := pod_meta p\<rparr>)
          \<and> (rand_ok y \<longrightarrow> length (om_Name (pod_meta p)) \<le> maxNameLength)))"
  unfolding generatePod_def
  by (intro behaves_rules behaves_weaken [OF Rand_String_length])
    (auto simp: length_GenerateName dest!: SetControllerReference_name)

lemma generatePod_from:
  "behaves (generatePod y r svc) (\<lambda>res es. list_all (created_from y r) es
     \<and> (\<forall>p c. res = Return (Inr p) \<longrightarrow> created_from y r (EvCreatePod p c)))"
  by (rule behaves_weaken [OF behaves_conj [OF generatePod_kind generatePod_name]])
    (simp add: created_from_other list_all_iff, simp add: created_from_def)

lemma ensure_pod_from: "behaves (ensure_pod a y r svc claimed) (\<lambda>res es. list_all (created_from y r) es)"
  unfolding ensure_pod_def
  by (intro behaves_rules behaves_weaken [OF generatePod_from]) auto

lemma no_creates: "list_all (\<lambda>e. \<not> is_create e) es \<Longrightarrow> list_all (created_from y r) es"
  by (auto simp: list_all_iff created_from_other)

lemma reconcile_claimed_from:
  "behaves (reconcile_claimed a y r req svc inactive claimed) (\<lambda>res es. list_all (created_from y r) es)"
  unfolding reconcile_claimed_def ensure_finalizer_def
  by (intro behaves_rules behaves_weaken [OF delete_pods_behaves] behaves_weaken [OF cleanup_service_behaves]
        behaves_weaken [OF ensure_pod_from])
    (auto simp: created_from_other no_creates)

context pod_claimer
begin

lemma Reconcile_from: "behaves (Reconcile_with claim a y r req) (\<lambda>res es. list_all (created_from y r) es)"
proof -
  have calls: "list_all (created_from y r) es" if "claim_contract svc pods c es" for svc pods c es
    using that by (intro no_creates) (auto simp: claim_contract_def list_all_iff claim_call_not)
  show ?thesis
    unfolding Reconcile_with_def getOwnedPods_def
    by (intro behaves_rules behaves_weaken [OF claims] behaves_weaken [OF reconcile_claimed_from])
      (auto simp: created_from_other intro: calls)
qed

end

lemma Reconcile_creates_from:
  "behaves (ServiceReconciler_Reconcile a y r req) (\<lambda>res es. list_all (created_from y r) es)"
  unfolding ServiceReconciler_Reconcile_def by (rule refs.Reconcile_from)

section \<open>Properties of the reconciler\<close>

text \<open>
  (C17) Reconciling a service deletes a pod only when it was listed for this very service (same
  namespace and labels) and is no longer active, or when the service has to be cleaned up and
  the pod is an active listed one that the service controls or has just adopted.
\<close>

theorem reconcile_deletes_only:
  "behaves (ServiceReconciler_Reconcile a y r req) (\<lambda>res es. list_all (delete_justified req es) es)"
proof (rule behaves_weaken [OF Reconcile_behaves])
  fix res es assume "reconcile_run req res es"
  then show "list_all (delete_justified req es) es"
  proof cases
    case (claimed svc items claimed cs rest)
    have claims: "\<exists>q\<in>set items. IsPodActive q \<and> claimed_from svc q p es" if "p \<in> set claimed" for p
    proof -
      from claimed(2) that obtain q where "q \<in> set items" "IsPodActive q" "claimed_from svc q p cs"
        by (auto simp: claim_contract_def list_all_iff list_ex_iff)
      moreover from this(3) have "claimed_from svc q p es"
        by (rule claimed_from_mono) (auto simp: claimed(1))
      ultimately show ?thesis by blast
    qed
    have "EvDeletePod p d \<in> set rest" if "EvDeletePod p d \<in> set es" for p d
      using that claimed(1,2) by (auto simp: claim_contract_def list_all_iff claim_call_not)
    moreover have "delete_justified req es (EvDeletePod p d)" if "EvDeletePod p d \<in> set rest" for p d
      using claimed_run_deletes [OF claimed(3) that] claims [of p] claimed(1)
      by (auto simp: delete_justified_def)
    ultimately show ?thesis
      unfolding list_all_iff by (metis delete_justified_other)
  qed (auto simp: list_all_iff delete_justified_def claim_call_iff split: event.split)
qed



text \<open>
  A failed call is never swallowed: when a list, a pod or service update, a create, a delete
  (unless the pod is gone) or the first read (unless the service is gone) fails, the run
  reports an error, so that the request is queued again.
\<close>

lemma reconcile_reports_failures:
  "behaves (ServiceReconciler_Reconcile a y r req)
     (\<lambda>res es. if list_ex call_failed es then res \<noteq> Return None else True)"
proof (rule behaves_weaken [OF Reconcile_behaves])
  fix res es assume "reconcile_run req res es"
  then show "if list_ex call_failed es then res \<noteq> Return None else True"
  proof cases
    case (claimed svc items claimed cs rest)
    have "\<not> list_ex call_failed cs"
      using claimed(2) unfolding claim_contract_def refused_def list_all_iff list_ex_iff claim_call_iff
      by (fastforce simp: call_failed_def split: sum.splits)
    with claimed claimed_run_reports show ?thesis by auto
  qed (auto simp: call_failed_def)
qed

text \<open>
  (C38) Cleaning up a service tries to delete every claimed pod and then stores the service without
  the finalizer, whatever the deletes answered.  The errors are reported, but when only a
  delete failed the finalizer is gone and the next run has nothing to hold the service back.
\<close>

theorem cleanup_drops_finalizer_regardless:
  "behaves (cleanup_service a req svc claimed) (\<lambda>e es. \<exists>cs u. length cs = length claimed
     \<and> es = map2 EvDeletePod claimed cs @ [EvUpdateService (without_finalizer svc) u]
     \<and> FinalizerName \<notin> set (om_Finalizers (svc_meta (without_finalizer svc)))
     \<and> (e = None \<longleftrightarrow> \<not> list_ex failed cs \<and> \<not> isl u))"
  by (rule behaves_weaken [OF cleanup_service_behaves]) (auto simp: without_finalizer_def)

text \<open>
  The pod a run creates is enough for the next one: when the service is read back and the list
  returns exactly that pod, still active, reconciling again succeeds after the two reads and
  writes nothing.
\<close>

lemma reconcile_keeps_its_pod:
  assumes "pod_for svc suffix p" and "IsPodActive p"
    and "\<not> needs_cleanup svc" and "FinalizerName \<in> set (om_Finalizers (svc_meta svc))"
    and "api_get_service a req (world s) = (Inr svc, w1)"
    and "api_list_pods a (om_Namespace (svc_meta svc)) (pod_selector svc) w1 = (Inr [p], w2)"
  shows "run_state (ServiceReconciler_Reconcile a y r req) s = (Return None, s\<lparr>world := w2, trace := trace s @
     [EvGetService req (Inr svc), EvListPods (om_Namespace (svc_meta svc)) (pod_selector svc) (Inr [p])]\<rparr>)"
proof -
  have claim: "run_state (claimPods a r svc [p]) s' = (Return (Inr [p]), s')" for s'
  proof -
    have "run_state (claim_loop (r_printers r) a (match_obj (new_manager (pod_selector svc) svc (r_Scheme r)) [])
        (new_manager (pod_selector svc) svc (r_Scheme r)) [p]) s'
      = (Return (new_manager (pod_selector svc) svc (r_Scheme r), [p], []), s')"
      using assms(1) by (subst claim_loop_quiet) (auto simp: pod_for_def match_new owned_by_def)
    then show ?thesis
      by (simp add: claimPods_def ClaimOwnedObjects_def NewAggregate_Some del: claim_loop.simps)
  qed
  show ?thesis
    using assms(2-) by (simp add: ServiceReconciler_Reconcile_def Reconcile_with_def getOwnedPods_def api_defs claim
        reconcile_claimed_def ensure_finalizer_def ensure_pod_def)
qed

definition ex_reconciler :: ServiceReconciler where
  "ex_reconciler = \<lparr>r_Scheme = Some ex_scheme, r_PodTemplate = ''kind: Pod'',
     r_yaml = \<lambda>_. Inr \<lparr>pod_meta = (ex_meta [] [])\<lparr>om_Namespace := []\<rparr>, pod_Phase = [], pod_Containers = [''frpc'']\<rparr>,
     r_printers = ex_printers\<rparr>"

text \<open>The pod that the first run on an empty cluster creates.\<close>

definition ex_created :: Pod where
  "ex_created = \<lparr>pod_meta = (ex_meta ''frp-client-webxxxxx'' [])\<lparr>om_Labels := Some ex_labels,
     om_OwnerReferences := [controller_ref ex_gvk (svc_meta ex_service)]\<rparr>, pod_Phase = [],
     pod_Containers = [''frpc'']\<rparr>"

definition ex_ready :: Service where
  "ex_ready = with_finalizer ex_service"

lemma ex_first_run:
  "world (snd (run_state (ServiceReconciler_Reconcile mem_api ex_sys ex_reconciler ex_key)
     (start (ex_mem [ex_service] [])))) = ex_mem [ex_ready] [ex_created]"
  by code_simp

lemma ex_created_pod_for: "pod_for ex_ready ''xxxxx'' ex_created"
  by (auto simp: pod_for_def ex_ready_def with_finalizer_def ex_created_def ex_defs pod_selector_def
      meta_labels_def owned_by_def GetControllerOf_def controller_ref_def GenerateName_def
      MaxGeneratedNameLength_def maxNameLength_def randomLength_def intro!: exI [of _ "''frp-client''"])

lemma reconcile_keeps_its_pod_witness:
  "let first = run_state (ServiceReconciler_Reconcile mem_api ex_sys ex_reconciler ex_key)
         (start (ex_mem [ex_service] []))
   in run_state (ServiceReconciler_Reconcile mem_api ex_sys ex_reconciler ex_key) (start (world (snd first)))
     = (Return None, \<lparr>world = ex_mem [ex_ready] [ex_created], trace = [EvGetService ex_key (Inr ex_ready),
          EvListPods ''prod'' (pod_selector ex_ready) (Inr [ex_created])]\<rparr>)"
proof -
  have "api_get_service mem_api ex_key (ex_mem [ex_ready] [ex_created]) = (Inr ex_ready, ex_mem [ex_ready] [ex_created])"
    "api_list_pods mem_api (om_Namespace (svc_meta ex_ready)) (pod_selector ex_ready) (ex_mem [ex_ready] [ex_created])
       = (Inr [ex_created], ex_mem [ex_ready] [ex_created])"
    "\<not> needs_cleanup ex_ready" "FinalizerName \<in> set (om_Finalizers (svc_meta ex_ready))" "IsPodActive ex_created"
    "om_Namespace (svc_meta ex_ready) = ''prod''"
    by code_simp+
  then show ?thesis
    using reconcile_keeps_its_pod [OF ex_created_pod_for, of mem_api ex_key "start (ex_mem [ex_ready] [ex_created])"
        "ex_mem [ex_ready] [ex_created]" "ex_mem [ex_ready] [ex_created]" ex_sys ex_reconciler]
    unfolding Let_def ex_first_run by (simp add: start_def)
qed

text \<open>
  The names of created pods fit: when the random suffixes have the length that is asked for, no pod is created
  with a name of more than 63 characters, however long the names of the template and the service are.
\<close>

lemma created_names_bounded:
  assumes "rand_ok y"
  shows "behaves (ServiceReconciler_Reconcile a y r req) (\<lambda>res es. list_all (\<lambda>e. case e of
     EvCreatePod p c \<Rightarrow> length (om_Name (pod_meta p)) \<le> 63 | _ \<Rightarrow> True) es)"
  by (rule behaves_weaken [OF Reconcile_creates_from])
    (use assms in \<open>auto simp: created_from_def maxNameLength_def list_all_iff split: event.splits\<close>)

lemma created_names_bounded_witness:
  "rand_ok ex_sys \<and> behaves (ServiceReconciler_Reconcile mem_api ex_sys ex_reconciler ex_key) (\<lambda>res es. list_all (\<lambda>e. case e of
     EvCreatePod p c \<Rightarrow> length (om_Name (pod_meta p)) \<le> 63 | _ \<Rightarrow> True) es)"
proof -
  have "rand_ok ex_sys" by (simp add: rand_ok_def ex_sys_def calm_sys_def)
  with created_names_bounded [OF this] show ?thesis by blast
qed

end
