(* ===== verification/Scheme_Build.thy ===== *)
theory Scheme_Build
  imports K8s_Lib "HOL-Library.AList"
begin

text \<open>
  How the scheme of the manager is built when the program starts: \<^verbatim>\<open>pkg/api/v1beta1/groupversion_info.go\<close>, the \<^verbatim>\<open>init\<close>
  functions of \<^verbatim>\<open>pkg/api/v1beta1/frpserver_types.go\<close> and \<^verbatim>\<open>pkg/server/server.go\<close>, and the registration functions
  of the vendored libraries they call.  The groups of client-go are an argument: each has a group, a
  version and its types.  Conversion and defaulting functions, which are registered as well, are not part of
  the registry of types, and the messages of the panics are shortened to the kind they are about.
\<close>

section \<open>Registration\<close>

record GroupVersion =
  gv_Group :: string
  gv_Version :: string

definition WithKind :: "GroupVersion \<Rightarrow> string \<Rightarrow> GroupVersionKind" where
  "WithKind gv kind = \<lparr>gvk_Group = gv_Group gv, gvk_Version = gv_Version gv, gvk_Kind = kind\<rparr>"

definition NewScheme :: "string \<Rightarrow> scheme" where
  "NewScheme name = \<lparr>sch_Name = name, sch_typeToGVK = [], sch_unversionedTypes = [], sch_gvkToType = [],
     sch_unversionedKinds = []\<rparr>"

text \<open>\<^verbatim>\<open>reflect.Type.Name\<close>: the name of a type without its package.\<close>

definition type_Name :: "gotype \<Rightarrow> string" where
  "type_Name t = rev (takeWhile (\<lambda>c. c \<noteq> CHR ''.'') (rev (gotype_name t)))"

definition registered_kinds :: "scheme \<Rightarrow> gotype \<Rightarrow> GroupVersionKind list" where
  "registered_kinds s t = (case map_of (sch_typeToGVK s) t of None \<Rightarrow> [] | Some gvks \<Rightarrow> gvks)"

definition AddKnownTypeWithName :: "GroupVersionKind \<Rightarrow> gotype \<Rightarrow> scheme \<Rightarrow> scheme outcome" where
  "AddKnownTypeWithName gvk t s =
     (if gvk_Version gvk = [] then Panic (''version is required on all types: '' @ gvk_String gvk)
      else if map_of (sch_gvkToType s) gvk \<noteq> None \<and> map_of (sch_gvkToType s) gvk \<noteq> Some t
      then Panic (''Double registration of different types for '' @ gvk_String gvk)
      else
        let s = s\<lparr>sch_gvkToType := AList.update gvk t (sch_gvkToType s)\<rparr>;
            gvks = registered_kinds s t
        in if gvk \<in> set gvks then Return s
           else Return (s\<lparr>sch_typeToGVK := AList.update t (gvks @ [gvk]) (sch_typeToGVK s)\<rparr>))"

fun AddKnownTypes :: "GroupVersion \<Rightarrow> gotype list \<Rightarrow> scheme \<Rightarrow> scheme outcome" where
  "AddKnownTypes gv [] s = Return s"
| "AddKnownTypes gv (t # ts) s = (case AddKnownTypeWithName (WithKind gv (type_Name t)) t s of
     Panic p \<Rightarrow> Panic p
   | Return s \<Rightarrow> AddKnownTypes gv ts s)"

fun add_unversioned :: "gotype list \<Rightarrow> scheme \<Rightarrow> scheme outcome" where
  "add_unversioned [] s = Return s"
| "add_unversioned (t # ts) s =
     (let s = s\<lparr>sch_unversionedTypes := List.insert t (sch_unversionedTypes s)\<rparr> in
      if map_of (sch_unversionedKinds s) (type_Name t) \<noteq> None \<and> map_of (sch_unversionedKinds s) (type_Name t) \<noteq> Some t
      then Panic (type_Name t @ '' has already been registered as unversioned kind'')
      else add_unversioned ts (s\<lparr>sch_unversionedKinds := AList.update (type_Name t) t (sch_unversionedKinds s)\<rparr>))"

definition AddUnversionedTypes :: "GroupVersion \<Rightarrow> gotype list \<Rightarrow> scheme \<Rightarrow> scheme outcome" where
  "AddUnversionedTypes gv ts s = (case AddKnownTypes gv ts s of
     Panic p \<Rightarrow> Panic p
   | Return s \<Rightarrow> add_unversioned ts s)"

definition optionsTypes :: "gotype list" where
  "optionsTypes = map (\<lambda>n. GoOther n False) [''v1.ListOptions'', ''v1.GetOptions'', ''v1.DeleteOptions'',
     ''v1.CreateOptions'', ''v1.UpdateOptions'', ''v1.PatchOptions'']"

definition unversioned_types :: "gotype list" where
  "unversioned_types = map (\<lambda>n. GoOther n False) [''v1.Status'', ''v1.APIVersions'', ''v1.APIGroupList'',
     ''v1.APIGroup'', ''v1.APIResourceList'']"

definition Unversioned :: GroupVersion where
  "Unversioned = \<lparr>gv_Group = [], gv_Version = ''v1''\<rparr>"

definition APIVersionInternal :: string where "APIVersionInternal = ''__internal''"
definition WatchEventKind :: string where "WatchEventKind = ''WatchEvent''"

definition AddToGroupVersion :: "GroupVersion \<Rightarrow> scheme \<Rightarrow> scheme outcome" where
  "AddToGroupVersion gv s =
     (case AddKnownTypeWithName (WithKind gv WatchEventKind) (GoOther ''v1.WatchEvent'' False) s of
        Panic p \<Rightarrow> Panic p
      | Return s \<Rightarrow>
     (case AddKnownTypeWithName (WithKind \<lparr>gv_Group = gv_Group gv, gv_Version = APIVersionInternal\<rparr> WatchEventKind)
             (GoOther ''v1.InternalEvent'' False) s of
        Panic p \<Rightarrow> Panic p
      | Return s \<Rightarrow>
     (case AddKnownTypes gv optionsTypes s of
        Panic p \<Rightarrow> Panic p
      | Return s \<Rightarrow> AddUnversionedTypes Unversioned unversioned_types s)))"

section \<open>Scheme builders\<close>

type_synonym setup_func = "scheme \<Rightarrow> (scheme \<times> go_error option) outcome"

fun SchemeBuilder_AddToScheme :: "setup_func list \<Rightarrow> setup_func" where
  "SchemeBuilder_AddToScheme [] s = Return (s, None)"
| "SchemeBuilder_AddToScheme (f # sb) s = (case f s of
     Panic p \<Rightarrow> Panic p
   | Return (s, Some err) \<Rightarrow> Return (s, Some err)
   | Return (s, None) \<Rightarrow> SchemeBuilder_AddToScheme sb s)"

record Builder =
  bld_GroupVersion :: GroupVersion
  bld_funcs :: "setup_func list"

text \<open>The function that a group registers.\<close>

definition add_group :: "GroupVersion \<Rightarrow> gotype list \<Rightarrow> setup_func" where
  "add_group gv objects s = (case AddKnownTypes gv objects s of
     Panic p \<Rightarrow> Panic p
   | Return s \<Rightarrow> (case AddToGroupVersion gv s of
       Panic p \<Rightarrow> Panic p
     | Return s \<Rightarrow> Return (s, None)))"

definition Builder_Register :: "gotype list \<Rightarrow> Builder \<Rightarrow> Builder" where
  "Builder_Register objects bld = bld\<lparr>bld_funcs := bld_funcs bld @ [add_group (bld_GroupVersion bld) objects]\<rparr>"

definition Builder_AddToScheme :: "Builder \<Rightarrow> setup_func" where
  "Builder_AddToScheme bld = SchemeBuilder_AddToScheme (bld_funcs bld)"

section \<open>The API group of the program\<close>

definition v1beta1_GroupVersion :: GroupVersion where
  "v1beta1_GroupVersion = \<lparr>gv_Group = ''frp.gofrp.io'', gv_Version = ''v1beta1''\<rparr>"

definition v1beta1_SchemeBuilder :: Builder where
  "v1beta1_SchemeBuilder = \<lparr>bld_GroupVersion = v1beta1_GroupVersion, bld_funcs = []\<rparr>"

text \<open>The builder after the \<^verbatim>\<open>init\<close> function of \<^verbatim>\<open>frpserver_types.go\<close>.\<close>

definition v1beta1_init :: Builder where
  "v1beta1_init = Builder_Register [GoFrpServer, GoFrpServerList] v1beta1_SchemeBuilder"

definition v1beta1_AddToScheme :: setup_func where
  "v1beta1_AddToScheme = Builder_AddToScheme v1beta1_init"

text \<open>\<^verbatim>\<open>clientgoscheme.AddToScheme\<close>, for the groups of client-go.\<close>

type_synonym api_group = "GroupVersion \<times> gotype list"

definition clientgo_AddToScheme :: "api_group list \<Rightarrow> setup_func" where
  "clientgo_AddToScheme groups = SchemeBuilder_AddToScheme (map (\<lambda>(gv, ts). add_group gv ts) groups)"

text \<open>\<^verbatim>\<open>utilruntime.Must\<close>.\<close>

definition Must :: "(scheme \<times> go_error option) outcome \<Rightarrow> scheme outcome" where
  "Must r = (case r of
     Panic p \<Rightarrow> Panic p
   | Return (s, Some err) \<Rightarrow> Panic (Error err)
   | Return (s, None) \<Rightarrow> Return s)"

definition server_init :: "string \<Rightarrow> api_group list \<Rightarrow> scheme outcome" where
  "server_init name groups = (case Must (v1beta1_AddToScheme (NewScheme name)) of
     Panic p \<Rightarrow> Panic p
   | Return s \<Rightarrow> Must (clientgo_AddToScheme groups s))"

section \<open>What is registered\<close>

text \<open>The registrations in the order they are made, and the scheme after them.\<close>

type_synonym registration = "GroupVersionKind \<times> gotype"

definition type_regs :: "GroupVersion \<Rightarrow> gotype list \<Rightarrow> registration list" where
  "type_regs gv ts = map (\<lambda>t. (WithKind gv (type_Name t), t)) ts"

definition meta_regs :: "GroupVersion \<Rightarrow> registration list" where
  "meta_regs gv = (WithKind gv WatchEventKind, GoOther ''v1.WatchEvent'' False)
     # (WithKind \<lparr>gv_Group = gv_Group gv, gv_Version = APIVersionInternal\<rparr> WatchEventKind, GoOther ''v1.InternalEvent'' False)
     # type_regs gv optionsTypes @ type_regs Unversioned unversioned_types"

definition group_regs :: "api_group \<Rightarrow> registration list" where
  "group_regs g = type_regs (fst g) (snd g) @ meta_regs (fst g)"

definition startup_regs :: "api_group list \<Rightarrow> registration list" where
  "startup_regs groups = concat (map group_regs ((v1beta1_GroupVersion, [GoFrpServer, GoFrpServerList]) # groups))"

text \<open>A kind stands for one type, and has a version.\<close>

definition consistent :: "registration list \<Rightarrow> bool" where
  "consistent rs \<longleftrightarrow> list_all (\<lambda>(g, t). gvk_Version g \<noteq> [] \<and> list_all (\<lambda>(g', t'). g' = g \<longrightarrow> t' = t) rs) rs"

definition holds :: "registration list \<Rightarrow> scheme \<Rightarrow> bool" where
  "holds rs s \<longleftrightarrow> (\<forall>g t. map_of (sch_gvkToType s) g = Some t \<longleftrightarrow> (g, t) \<in> set rs)
     \<and> (\<forall>t. distinct (registered_kinds s t) \<and> set (registered_kinds s t) = {g. (g, t) \<in> set rs}
          \<and> map_of (sch_typeToGVK s) t \<noteq> Some [])
     \<and> set (sch_unversionedTypes s) \<subseteq> set unversioned_types
     \<and> (\<forall>k t. map_of (sch_unversionedKinds s) k = Some t \<longrightarrow> t \<in> set unversioned_types \<and> type_Name t = k)"

lemma consistent_iff: "consistent rs \<longleftrightarrow> (\<forall>g t. (g, t) \<in> set rs \<longrightarrow> gvk_Version g \<noteq> [] \<and> (\<forall>t'. (g, t') \<in> set rs \<longrightarrow> t' = t))"
  unfolding consistent_def list_all_iff by blast

lemma consistent_append: "consistent (xs @ ys) \<Longrightarrow> consistent xs"
  unfolding consistent_iff set_append by blast

lemma holds_new: "holds [] (NewScheme n)"
  by (simp add: holds_def NewScheme_def registered_kinds_def)

lemma holds_known:
  assumes h: "holds rs s" and c: "consistent (rs @ [(g, t)])"
  obtains s' where "AddKnownTypeWithName g t s = Return s'" and "holds (rs @ [(g, t)]) s'"
proof -
  let ?s = "s\<lparr>sch_gvkToType := AList.update g t (sch_gvkToType s)\<rparr>"
  have v: "gvk_Version g \<noteq> []" and one: "\<And>t'. (g, t') \<in> set rs \<Longrightarrow> t' = t"
    using c unfolding consistent_iff by auto
  have free: "map_of (sch_gvkToType s) g = None \<or> map_of (sch_gvkToType s) g = Some t"
    using h one by (cases "map_of (sch_gvkToType s) g") (auto simp: holds_def)
  have types: "map_of (sch_gvkToType ?s) g' = Some t' \<longleftrightarrow> (g', t') \<in> set (rs @ [(g, t)])" for g' t'
    using h one by (auto simp: holds_def update_conv')
  have kinds: "registered_kinds ?s t' = registered_kinds s t'" for t'
    by (simp add: registered_kinds_def)
  show ?thesis
  proof (cases "g \<in> set (registered_kinds s t)")
    case True
    then have "AddKnownTypeWithName g t s = Return ?s"
      using v free by (auto simp: AddKnownTypeWithName_def kinds)
    moreover from True h have "(g, t) \<in> set rs" by (auto simp: holds_def)
    with h types have "holds (rs @ [(g, t)]) ?s" by (auto simp: holds_def kinds)
    ultimately show ?thesis by (rule that)
  next
    case False
    let ?s' = "?s\<lparr>sch_typeToGVK := AList.update t (registered_kinds s t @ [g]) (sch_typeToGVK s)\<rparr>"
    from False have "AddKnownTypeWithName g t s = Return ?s'"
      using v free by (auto simp: AddKnownTypeWithName_def kinds)
    moreover have "registered_kinds ?s' t' = (if t' = t then registered_kinds s t @ [g] else registered_kinds s t')" for t'
      by (simp add: registered_kinds_def update_conv')
    with False h types have "holds (rs @ [(g, t)]) ?s'" by (auto simp: holds_def update_conv')
    ultimately show ?thesis by (rule that)
  qed
qed

lemma holds_types:
  assumes "holds rs s" and "consistent (rs @ type_regs gv ts)"
  obtains s' where "AddKnownTypes gv ts s = Return s'" and "holds (rs @ type_regs gv ts) s'"
  using assms
proof (induction ts arbitrary: rs s thesis)
  case Nil
  then show ?case by (simp add: type_regs_def)
next
  case (Cons t ts)
  let ?r = "(WithKind gv (type_Name t), t)"
  have rs: "rs @ type_regs gv (t # ts) = (rs @ [?r]) @ type_regs gv ts" by (simp add: type_regs_def)
  from Cons.prems(3) have c: "consistent ((rs @ [?r]) @ type_regs gv ts)" by (simp only: rs)
  from holds_known [OF Cons.prems(2) consistent_append [OF c]] obtain s1 where
    s1: "AddKnownTypeWithName (WithKind gv (type_Name t)) t s = Return s1" "holds (rs @ [?r]) s1" .
  from Cons.IH [OF _ s1(2) c] obtain s' where "AddKnownTypes gv ts s1 = Return s'"
    "holds ((rs @ [?r]) @ type_regs gv ts) s'" by blast
  with s1 Cons.prems(1) rs show ?case by simp
qed

lemma unversioned_names: "inj_on type_Name (set unversioned_types)"
  unfolding unversioned_types_def type_Name_def gotype_name_def by (simp add: inj_on_def)

lemma holds_unversioned:
  assumes "holds rs s" and "set ts \<subseteq> set unversioned_types"
  obtains s' where "add_unversioned ts s = Return s'" and "holds rs s'"
  using assms
proof (induction ts arbitrary: s thesis)
  case (Cons t ts)
  let ?s = "s\<lparr>sch_unversionedTypes := List.insert t (sch_unversionedTypes s),
    sch_unversionedKinds := AList.update (type_Name t) t (sch_unversionedKinds s)\<rparr>"
  have t: "t \<in> set unversioned_types" using Cons.prems(3) by simp
  have free: "t' = t" if "map_of (sch_unversionedKinds s) (type_Name t) = Some t'" for t'
    using that Cons.prems(2) t inj_onD [OF unversioned_names] by (auto simp: holds_def)
  have kinds: "registered_kinds ?s t' = registered_kinds s t'" for t' by (simp add: registered_kinds_def)
  have "holds rs ?s" using Cons.prems(2) t by (simp add: holds_def kinds update_conv')
  from Cons.IH [OF _ this] Cons.prems(3) obtain s' where s': "add_unversioned ts ?s = Return s'" "holds rs s'" by auto
  from free have "add_unversioned (t # ts) s = add_unversioned ts ?s"
    by (auto simp: Let_def)
  with s' Cons.prems(1) show ?case by simp
qed simp

lemma holds_meta:
  assumes h: "holds rs s" and c: "consistent (rs @ meta_regs gv)"
  obtains s' where "AddToGroupVersion gv s = Return s'" and "holds (rs @ meta_regs gv) s'"
proof -
  let ?a = "(WithKind gv WatchEventKind, GoOther ''v1.WatchEvent'' False)"
  let ?b = "(WithKind \<lparr>gv_Group = gv_Group gv, gv_Version = APIVersionInternal\<rparr> WatchEventKind, GoOther ''v1.InternalEvent'' False)"
  let ?o = "type_regs gv optionsTypes" and ?u = "type_regs Unversioned unversioned_types"
  have rs: "rs @ meta_regs gv = (((rs @ [?a]) @ [?b]) @ ?o) @ ?u" by (simp add: meta_regs_def)
  note c4 = c [unfolded rs]
  note c3 = consistent_append [OF c4]
  note c2 = consistent_append [OF c3]
  from holds_known [OF h consistent_append [OF c2]] obtain s1 where
    s1: "AddKnownTypeWithName (fst ?a) (snd ?a) s = Return s1" "holds (rs @ [?a]) s1" by auto
  from holds_known [OF s1(2) c2] obtain s2 where
    s2: "AddKnownTypeWithName (fst ?b) (snd ?b) s1 = Return s2" "holds ((rs @ [?a]) @ [?b]) s2" by auto
  from holds_types [OF s2(2) c3] obtain s3 where s3: "AddKnownTypes gv optionsTypes s2 = Return s3"
    "holds (((rs @ [?a]) @ [?b]) @ ?o) s3" .
  from holds_types [OF s3(2) c4] obtain s4 where s4: "AddKnownTypes Unversioned unversioned_types s3 = Return s4"
    "holds ((((rs @ [?a]) @ [?b]) @ ?o) @ ?u) s4" .
  from holds_unversioned [OF s4(2) order_refl] obtain s5 where s5: "add_unversioned unversioned_types s4 = Return s5"
    "holds ((((rs @ [?a]) @ [?b]) @ ?o) @ ?u) s5" .
  have "AddToGroupVersion gv s = Return s5"
    using s1(1) s2(1) s3(1) s4(1) s5(1) by (simp add: AddToGroupVersion_def AddUnversionedTypes_def)
  then show thesis by (rule that) (simp only: rs s5(2))
qed

lemma holds_group:
  assumes h: "holds rs s" and c: "consistent (rs @ group_regs (gv, ts))"
  obtains s' where "add_group gv ts s = Return (s', None)" and "holds (rs @ group_regs (gv, ts)) s'"
proof -
  have rs: "rs @ group_regs (gv, ts) = (rs @ type_regs gv ts) @ meta_regs gv" by (simp add: group_regs_def)
  note c2 = c [unfolded rs]
  from holds_types [OF h consistent_append [OF c2]] obtain s1 where s1: "AddKnownTypes gv ts s = Return s1"
    "holds (rs @ type_regs gv ts) s1" .
  from holds_meta [OF s1(2) c2] obtain s2 where "AddToGroupVersion gv s1 = Return s2"
    "holds ((rs @ type_regs gv ts) @ meta_regs gv) s2" .
  with s1(1) rs show thesis by (intro that [of s2]) (simp_all add: add_group_def)
qed

lemma holds_groups:
  assumes "holds rs s" and "consistent (rs @ concat (map group_regs groups))"
  obtains s' where "clientgo_AddToScheme groups s = Return (s', None)" and "holds (rs @ concat (map group_regs groups)) s'"
  using assms
proof (induction groups arbitrary: rs s thesis)
  case Nil
  then show ?case by (simp add: clientgo_AddToScheme_def)
next
  case (Cons g groups)
  obtain gv ts where g: "g = (gv, ts)" by (cases g)
  have rs: "rs @ concat (map group_regs (g # groups)) = (rs @ group_regs (gv, ts)) @ concat (map group_regs groups)"
    by (simp add: g)
  note c = Cons.prems(3) [unfolded rs]
  from holds_group [OF Cons.prems(2) consistent_append [OF c]] obtain s1 where
    s1: "add_group gv ts s = Return (s1, None)" "holds (rs @ group_regs (gv, ts)) s1" .
  from Cons.IH [OF _ s1(2) c] obtain s2 where "clientgo_AddToScheme groups s1 = Return (s2, None)"
    "holds ((rs @ group_regs (gv, ts)) @ concat (map group_regs groups)) s2" .
  with s1(1) show ?case by (intro Cons.prems(1) [of s2]) (simp_all add: clientgo_AddToScheme_def g)
qed

lemma server_init_holds:
  assumes "consistent (startup_regs groups)"
  obtains s where "server_init name groups = Return s" and "holds (startup_regs groups) s"
proof -
  let ?g = "(v1beta1_GroupVersion, [GoFrpServer, GoFrpServerList])"
  have rs: "startup_regs groups = ([] @ group_regs ?g) @ concat (map group_regs groups)" by (simp add: startup_regs_def)
  note c = assms [unfolded rs]
  from holds_group [OF holds_new consistent_append [OF c]] obtain s1 where
    s1: "add_group v1beta1_GroupVersion [GoFrpServer, GoFrpServerList] (NewScheme name) = Return (s1, None)"
      "holds ([] @ group_regs ?g) s1" .
  from holds_groups [OF s1(2) c] obtain s2 where s2: "clientgo_AddToScheme groups s1 = Return (s2, None)"
    "holds (([] @ group_regs ?g) @ concat (map group_regs groups)) s2" .
  have "server_init name groups = Return s2"
    using s1(1) s2(1) by (simp add: server_init_def v1beta1_AddToScheme_def v1beta1_init_def v1beta1_SchemeBuilder_def
        Builder_AddToScheme_def Builder_Register_def Must_def)
  then show thesis by (rule that) (simp only: rs s2(2))
qed

text \<open>A type that is registered for one kind has that kind.\<close>

lemma holds_kind:
  assumes h: "holds rs s" and one: "{g. (g, t) \<in> set rs} = {gvk}" and t: "t \<notin> set unversioned_types"
  shows "Scheme_ObjectKinds s t = Inr ([gvk], False)" and "GVKForObject t current s = Inr gvk" and "Scheme_New s gvk = Inr t"
proof -
  have "distinct (registered_kinds s t)" "set (registered_kinds s t) = {gvk}" "t \<notin> set (sch_unversionedTypes s)"
    using h one t by (auto simp: holds_def)
  then have "registered_kinds s t = [gvk]"
    by (cases "registered_kinds s t" rule: remdups_adj.cases) auto
  then have "map_of (sch_typeToGVK s) t = Some [gvk]" by (auto simp: registered_kinds_def split: option.splits)
  with \<open>t \<notin> set (sch_unversionedTypes s)\<close> show "Scheme_ObjectKinds s t = Inr ([gvk], False)"
    by (simp add: Scheme_ObjectKinds_def)
  then show "GVKForObject t current s = Inr gvk" by (simp add: GVKForObject_def)
  have "(gvk, t) \<in> set rs" using one by auto
  with h have "map_of (sch_gvkToType s) gvk = Some t" unfolding holds_def by blast
  then show "Scheme_New s gvk = Inr t" by (simp add: Scheme_New_def)
qed

end
