(* ===== verification/Startup_Scheme.thy ===== *)
theory Startup_Scheme
  imports Scheme_Build
begin

text \<open>
  The groups that \<^verbatim>\<open>k8s.io/client-go/kubernetes/scheme/register.go\<close> registers, from the \<^verbatim>\<open>register.go\<close> of each package of
  \<^verbatim>\<open>k8s.io/api\<close>, and the scheme the manager starts with.  The types of these groups that the program does not name
  carry their group and version, which keeps types of the same name apart.
\<close>

section \<open>The groups of client-go\<close>

definition ends_with :: "string \<Rightarrow> string \<Rightarrow> bool" where
  "ends_with suffix s \<longleftrightarrow> drop (length s - length suffix) s = suffix"

text \<open>The types of these groups with an \<^verbatim>\<open>ObjectMeta\<close>.\<close>

definition has_ObjectMeta :: "string \<Rightarrow> bool" where
  "has_ObjectMeta n \<longleftrightarrow> \<not> ends_with ''List'' n \<and> \<not> ends_with ''Options'' n
     \<and> n \<notin> set [''DeploymentRollback'', ''SerializedReference'']"

text \<open>The Go type a package registers under a name; \<^verbatim>\<open>metav1.Status\<close> is registered by two of them.\<close>

definition client_type :: "string \<Rightarrow> string \<Rightarrow> string \<Rightarrow> gotype" where
  "client_type grp version n =
     (if grp = [] \<and> n = ''Pod'' then GoPod
      else if grp = [] \<and> n = ''Service'' then GoService
      else if n = ''Status'' then GoOther ''v1.Status'' False
      else GoOther (grp @ ''/'' @ version @ ''.'' @ n) (has_ObjectMeta n))"

definition client_group :: "string \<times> string \<times> string list \<Rightarrow> api_group" where
  "client_group r = (case r of (grp, version, names) \<Rightarrow>
     (\<lparr>gv_Group = grp, gv_Version = version\<rparr>, map (client_type grp version) names))"

text \<open>The group, the version and the types of each package, in the order they are added.\<close>

definition clientgo_table :: "(string \<times> string \<times> string list) list" where
  "clientgo_table = [
     (''admissionregistration.k8s.io'', ''v1'', [''ValidatingWebhookConfiguration'',
        ''ValidatingWebhookConfigurationList'', ''MutatingWebhookConfiguration'',
        ''MutatingWebhookConfigurationList'']),
     (''admissionregistration.k8s.io'', ''v1alpha1'', [''ValidatingAdmissionPolicy'',
        ''ValidatingAdmissionPolicyList'', ''ValidatingAdmissionPolicyBinding'',
        ''ValidatingAdmissionPolicyBindingList'']),
     (''admissionregistration.k8s.io'', ''v1beta1'', [''ValidatingWebhookConfiguration'',
        ''ValidatingWebhookConfigurationList'', ''MutatingWebhookConfiguration'',
        ''MutatingWebhookConfigurationList'', ''ValidatingAdmissionPolicy'', ''ValidatingAdmissionPolicyList'',
        ''ValidatingAdmissionPolicyBinding'', ''ValidatingAdmissionPolicyBindingList'']),
     (''internal.apiserver.k8s.io'', ''v1alpha1'', [''StorageVersion'', ''StorageVersionList'']),
     (''apps'', ''v1'', [''Deployment'', ''DeploymentList'', ''StatefulSet'', ''StatefulSetList'', ''DaemonSet'',
        ''DaemonSetList'', ''ReplicaSet'', ''ReplicaSetList'', ''ControllerRevision'', ''ControllerRevisionList'']),
     (''apps'', ''v1beta1'', [''Deployment'', ''DeploymentList'', ''DeploymentRollback'', ''Scale'',
        ''StatefulSet'', ''StatefulSetList'', ''ControllerRevision'', ''ControllerRevisionList'']),
     (''apps'', ''v1beta2'', [''Deployment'', ''DeploymentList'', ''Scale'', ''StatefulSet'', ''StatefulSetList'',
        ''DaemonSet'', ''DaemonSetList'', ''ReplicaSet'', ''ReplicaSetList'', ''ControllerRevision'',
        ''ControllerRevisionList'']),
     (''authentication.k8s.io'', ''v1'', [''TokenReview'', ''TokenRequest'', ''SelfSubjectReview'']),
     (''authentication.k8s.io'', ''v1alpha1'', [''SelfSubjectReview'']),
     (''authentication.k8s.io'', ''v1beta1'', [''SelfSubjectReview'', ''TokenReview'']),
     (''authorization.k8s.io'', ''v1'', [''SelfSubjectRulesReview'', ''SelfSubjectAccessReview'',
        ''SubjectAccessReview'', ''LocalSubjectAccessReview'']),
     (''authorization.k8s.io'', ''v1beta1'', [''SelfSubjectRulesReview'', ''SelfSubjectAccessReview'',
        ''SubjectAccessReview'', ''LocalSubjectAccessReview'']),
     (''autoscaling'', ''v1'', [''HorizontalPodAutoscaler'', ''HorizontalPodAutoscalerList'', ''Scale'']),
     (''autoscaling'', ''v2'', [''HorizontalPodAutoscaler'', ''HorizontalPodAutoscalerList'']),
     (''autoscaling'', ''v2beta1'', [''HorizontalPodAutoscaler'', ''HorizontalPodAutoscalerList'']),
     (''autoscaling'', ''v2beta2'', [''HorizontalPodAutoscaler'', ''HorizontalPodAutoscalerList'']),
     (''batch'', ''v1'', [''Job'', ''JobList'', ''CronJob'', ''CronJobList'']),
     (''batch'', ''v1beta1'', [''CronJob'', ''CronJobList'']),
     (''certificates.k8s.io'', ''v1'', [''CertificateSigningRequest'', ''CertificateSigningRequestList'']),
     (''certificates.k8s.io'', ''v1beta1'', [''CertificateSigningRequest'', ''CertificateSigningRequestList'']),
     (''certificates.k8s.io'', ''v1alpha1'', [''ClusterTrustBundle'', ''ClusterTrustBundleList'']),
     (''coordination.k8s.io'', ''v1beta1'', [''Lease'', ''LeaseList'']),
     (''coordination.k8s.io'', ''v1'', [''Lease'', ''LeaseList'']),
     ([], ''v1'', [''Pod'', ''PodList'', ''PodStatusResult'', ''PodTemplate'', ''PodTemplateList'',
        ''ReplicationController'', ''ReplicationControllerList'', ''Service'', ''ServiceProxyOptions'',
        ''ServiceList'', ''Endpoints'', ''EndpointsList'', ''Node'', ''NodeList'', ''NodeProxyOptions'', ''Binding'',
        ''Event'', ''EventList'', ''List'', ''LimitRange'', ''LimitRangeList'', ''ResourceQuota'',
        ''ResourceQuotaList'', ''Namespace'', ''NamespaceList'', ''Secret'', ''SecretList'', ''ServiceAccount'',
        ''ServiceAccountList'', ''PersistentVolume'', ''PersistentVolumeList'', ''PersistentVolumeClaim'',
        ''PersistentVolumeClaimList'', ''PodAttachOptions'', ''PodLogOptions'', ''PodExecOptions'',
        ''PodPortForwardOptions'', ''PodProxyOptions'', ''ComponentStatus'', ''ComponentStatusList'',
        ''SerializedReference'', ''RangeAllocation'', ''ConfigMap'', ''ConfigMapList'', ''Status'']),
     (''discovery.k8s.io'', ''v1'', [''EndpointSlice'', ''EndpointSliceList'']),
     (''discovery.k8s.io'', ''v1beta1'', [''EndpointSlice'', ''EndpointSliceList'']),
     (''events.k8s.io'', ''v1'', [''Event'', ''EventList'']),
     (''events.k8s.io'', ''v1beta1'', [''Event'', ''EventList'']),
     (''extensions'', ''v1beta1'', [''Deployment'', ''DeploymentList'', ''DeploymentRollback'', ''Scale'',
        ''DaemonSetList'', ''DaemonSet'', ''Ingress'', ''IngressList'', ''ReplicaSet'', ''ReplicaSetList'',
        ''NetworkPolicy'', ''NetworkPolicyList'']),
     (''flowcontrol.apiserver.k8s.io'', ''v1'', [''FlowSchema'', ''FlowSchemaList'',
        ''PriorityLevelConfiguration'', ''PriorityLevelConfigurationList'']),
     (''flowcontrol.apiserver.k8s.io'', ''v1beta1'', [''FlowSchema'', ''FlowSchemaList'',
        ''PriorityLevelConfiguration'', ''PriorityLevelConfigurationList'']),
     (''flowcontrol.apiserver.k8s.io'', ''v1beta2'', [''FlowSchema'', ''FlowSchemaList'',
        ''PriorityLevelConfiguration'', ''PriorityLevelConfigurationList'']),
     (''flowcontrol.apiserver.k8s.io'', ''v1beta3'', [''FlowSchema'', ''FlowSchemaList'',
        ''PriorityLevelConfiguration'', ''PriorityLevelConfigurationList'']),
     (''networking.k8s.io'', ''v1'', [''Ingress'', ''IngressList'', ''IngressClass'', ''IngressClassList'',
        ''NetworkPolicy'', ''NetworkPolicyList'']),
     (''networking.k8s.io'', ''v1alpha1'', [''IPAddress'', ''IPAddressList'', ''ServiceCIDR'',
        ''ServiceCIDRList'']),
     (''networking.k8s.io'', ''v1beta1'', [''Ingress'', ''IngressList'', ''IngressClass'', ''IngressClassList'']),
     (''node.k8s.io'', ''v1'', [''RuntimeClass'', ''RuntimeClassList'']),
     (''node.k8s.io'', ''v1alpha1'', [''RuntimeClass'', ''RuntimeClassList'']),
     (''node.k8s.io'', ''v1beta1'', [''RuntimeClass'', ''RuntimeClassList'']),
     (''policy'', ''v1'', [''PodDisruptionBudget'', ''PodDisruptionBudgetList'', ''Eviction'']),
     (''policy'', ''v1beta1'', [''PodDisruptionBudget'', ''PodDisruptionBudgetList'', ''Eviction'']),
     (''rbac.authorization.k8s.io'', ''v1'', [''Role'', ''RoleBinding'', ''RoleBindingList'', ''RoleList'',
        ''ClusterRole'', ''ClusterRoleBinding'', ''ClusterRoleBindingList'', ''ClusterRoleList'']),
     (''rbac.authorization.k8s.io'', ''v1beta1'', [''Role'', ''RoleBinding'', ''RoleBindingList'', ''RoleList'',
        ''ClusterRole'', ''ClusterRoleBinding'', ''ClusterRoleBindingList'', ''ClusterRoleList'']),
     (''rbac.authorization.k8s.io'', ''v1alpha1'', [''Role'', ''RoleBinding'', ''RoleBindingList'', ''RoleList'',
        ''ClusterRole'', ''ClusterRoleBinding'', ''ClusterRoleBindingList'', ''ClusterRoleList'']),
     (''resource.k8s.io'', ''v1alpha2'', [''ResourceClass'', ''ResourceClassList'', ''ResourceClaim'',
        ''ResourceClaimList'', ''ResourceClaimTemplate'', ''ResourceClaimTemplateList'', ''PodSchedulingContext'',
        ''PodSchedulingContextList'', ''Status'']),
     (''scheduling.k8s.io'', ''v1alpha1'', [''PriorityClass'', ''PriorityClassList'']),
     (''scheduling.k8s.io'', ''v1beta1'', [''PriorityClass'', ''PriorityClassList'']),
     (''scheduling.k8s.io'', ''v1'', [''PriorityClass'', ''PriorityClassList'']),
     (''storage.k8s.io'', ''v1beta1'', [''StorageClass'', ''StorageClassList'', ''VolumeAttachment'',
        ''VolumeAttachmentList'', ''CSIDriver'', ''CSIDriverList'', ''CSINode'', ''CSINodeList'',
        ''CSIStorageCapacity'', ''CSIStorageCapacityList'']),
     (''storage.k8s.io'', ''v1'', [''StorageClass'', ''StorageClassList'', ''VolumeAttachment'',
        ''VolumeAttachmentList'', ''CSINode'', ''CSINodeList'', ''CSIDriver'', ''CSIDriverList'',
        ''CSIStorageCapacity'', ''CSIStorageCapacityList'']),
     (''storage.k8s.io'', ''v1alpha1'', [''VolumeAttachment'', ''VolumeAttachmentList'', ''CSIStorageCapacity'',
        ''CSIStorageCapacityList'', ''VolumeAttributesClass'', ''VolumeAttributesClassList''])]"

definition clientgo_groups :: "api_group list" where
  "clientgo_groups = map client_group clientgo_table"

section \<open>Groups that do not get in each other's way\<close>

definition group_ok :: "api_group \<Rightarrow> bool" where
  "group_ok g \<longleftrightarrow> gv_Version (fst g) \<noteq> [] \<and> gv_Version (fst g) \<noteq> APIVersionInternal
     \<and> distinct (map type_Name (snd g))
     \<and> list_all (\<lambda>t. type_Name t \<noteq> WatchEventKind \<and> type_Name t \<notin> set (map type_Name optionsTypes)
          \<and> (fst g = Unversioned \<and> type_Name t \<in> set (map type_Name unversioned_types) \<longrightarrow> t \<in> set unversioned_types)) (snd g)"

definition groups_ok :: "api_group list \<Rightarrow> bool" where
  "groups_ok groups \<longleftrightarrow> distinct (map fst groups) \<and> list_all group_ok groups"

definition find_type :: "string \<Rightarrow> gotype list \<Rightarrow> gotype option" where
  "find_type k ts = find (\<lambda>t. type_Name t = k) ts"

text \<open>The type that a kind stands for.\<close>

definition type_of_kind :: "api_group list \<Rightarrow> GroupVersionKind \<Rightarrow> gotype option" where
  "type_of_kind groups g =
     (let gv = \<lparr>gv_Group = gvk_Group g, gv_Version = gvk_Version g\<rparr>; k = gvk_Kind g in
      if k = WatchEventKind then Some (GoOther (if gvk_Version g = APIVersionInternal then ''v1.InternalEvent'' else ''v1.WatchEvent'') False)
      else if k \<in> set (map type_Name optionsTypes) then find_type k optionsTypes
      else if gv = Unversioned \<and> k \<in> set (map type_Name unversioned_types) then find_type k unversioned_types
      else Option.bind (map_of groups gv) (find_type k))"

lemma find_type_distinct: "distinct (map type_Name ts) \<Longrightarrow> t \<in> set ts \<Longrightarrow> find_type (type_Name t) ts = Some t"
  by (induction ts) (auto simp: find_type_def)

lemma meta_names:
  "distinct (map type_Name optionsTypes)" "distinct (map type_Name unversioned_types)"
  "WatchEventKind \<notin> set (map type_Name optionsTypes)" "WatchEventKind \<notin> set (map type_Name unversioned_types)"
  "set (map type_Name optionsTypes) \<inter> set (map type_Name unversioned_types) = {}"
  "gv_Version Unversioned \<noteq> []" "gv_Version Unversioned \<noteq> APIVersionInternal" "APIVersionInternal \<noteq> []"
  by code_simp+

lemma gv_eta [simp]: "\<lparr>gv_Group = gv_Group gv, gv_Version = gv_Version gv\<rparr> = gv"
  by simp

lemma type_of_meta:
  assumes "(g, t) \<in> set (meta_regs gv)" and v: "gv_Version gv \<noteq> []" "gv_Version gv \<noteq> APIVersionInternal"
  shows "gvk_Version g \<noteq> [] \<and> type_of_kind groups g = Some t"
proof -
  from assms(1) consider
      "g = WithKind gv WatchEventKind" "t = GoOther ''v1.WatchEvent'' False"
    | "g = WithKind \<lparr>gv_Group = gv_Group gv, gv_Version = APIVersionInternal\<rparr> WatchEventKind" "t = GoOther ''v1.InternalEvent'' False"
    | "t \<in> set optionsTypes" "g = WithKind gv (type_Name t)"
    | "t \<in> set unversioned_types" "g = WithKind Unversioned (type_Name t)"
    by (auto simp: meta_regs_def type_regs_def)
  then show ?thesis
  proof cases
    case 1
    then show ?thesis using v by (simp add: WithKind_def type_of_kind_def)
  next
    case 2
    then show ?thesis using meta_names(8) by (simp add: WithKind_def type_of_kind_def)
  next
    case 3
    have "type_Name t \<noteq> WatchEventKind" using 3(1) meta_names(3) by force
    with 3 v find_type_distinct [OF meta_names(1) 3(1)] show ?thesis
      by (simp add: WithKind_def type_of_kind_def)
  next
    case 4
    have "type_Name t \<noteq> WatchEventKind" "type_Name t \<notin> set (map type_Name optionsTypes)"
      using 4(1) meta_names(4,5) by force+
    with 4 meta_names(6) find_type_distinct [OF meta_names(2) 4(1)] show ?thesis
      by (simp add: WithKind_def type_of_kind_def Let_def)
  qed
qed

lemma type_of_member:
  assumes ok: "groups_ok groups" and g: "(gv, ts) \<in> set groups" and t: "t \<in> set ts"
  shows "gv_Version gv \<noteq> [] \<and> type_of_kind groups (WithKind gv (type_Name t)) = Some t"
proof -
  have ts: "map_of groups gv = Some ts" using ok g by (simp add: groups_ok_def)
  have "group_ok (gv, ts)" using ok g by (auto simp: groups_ok_def list_all_iff)
  then have m: "gv_Version gv \<noteq> []" "distinct (map type_Name ts)" "type_Name t \<noteq> WatchEventKind" "type_Name t \<notin> set (map type_Name optionsTypes)"
    "gv = Unversioned \<and> type_Name t \<in> set (map type_Name unversioned_types) \<longrightarrow> t \<in> set unversioned_types"
    using t by (auto simp: group_ok_def list_all_iff)
  then show ?thesis
    using ts find_type_distinct [OF m(2) t] find_type_distinct [OF meta_names(2), of t]
    by (simp add: type_of_kind_def WithKind_def Let_def)
qed

lemma groups_consistent:
  assumes ok: "groups_ok gs"
  shows "consistent (concat (map group_regs gs))"
proof -
  have reg: "gvk_Version g \<noteq> [] \<and> type_of_kind gs g = Some t" if gt: "(g, t) \<in> set (concat (map group_regs gs))" for g t
  proof -
    from gt have "\<exists>x\<in>set gs. (g, t) \<in> set (group_regs x)" by simp
    then obtain gv ts where m: "(gv, ts) \<in> set gs" and r: "(g, t) \<in> set (group_regs (gv, ts))"
      by (elim bexE) (metis prod.collapse)
    have "group_ok (gv, ts)" using ok m by (auto simp: groups_ok_def list_all_iff)
    then have v: "gv_Version gv \<noteq> []" "gv_Version gv \<noteq> APIVersionInternal" by (simp_all add: group_ok_def)
    from r consider "(g, t) \<in> set (type_regs gv ts)" | "(g, t) \<in> set (meta_regs gv)"
      by (auto simp: group_regs_def)
    then show ?thesis
    proof cases
      case 1
      then have "t \<in> set ts" "g = WithKind gv (type_Name t)" by (auto simp: type_regs_def)
      with type_of_member [OF ok m] v show ?thesis by (simp add: WithKind_def)
    next
      case 2
      from type_of_meta [OF this v] show ?thesis .
    qed
  qed
  have "t' = t" if "(g, t) \<in> set (concat (map group_regs gs))" "(g, t') \<in> set (concat (map group_regs gs))" for g t t'
    using reg [OF that(1)] reg [OF that(2)] by simp
  with reg show ?thesis unfolding consistent_iff by blast
qed

text \<open>The table of client-go.\<close>

definition row_ok :: "string \<times> string \<times> string list \<Rightarrow> bool" where
  "row_ok r = (case r of (grp, version, names) \<Rightarrow> version \<noteq> [] \<and> version \<noteq> APIVersionInternal \<and> distinct names
     \<and> list_all (\<lambda>n. CHR ''.'' \<notin> set n \<and> n \<notin> set (WatchEventKind # map type_Name optionsTypes
          @ [''APIVersions'', ''APIGroupList'', ''APIGroup'', ''APIResourceList''])) names)"

lemma type_Name_client:
  assumes "CHR ''.'' \<notin> set n"
  shows "type_Name (client_type grp version n) = n"
proof -
  have "takeWhile (\<lambda>c. c \<noteq> CHR ''.'') (rev n @ CHR ''.'' # xs) = rev n" for xs
    using assms by (subst takeWhile_append2) auto
  then show ?thesis by (simp add: client_type_def type_Name_def gotype_name_def)
qed

lemma unversioned_type_names:
  "map type_Name unversioned_types = [''Status'', ''APIVersions'', ''APIGroupList'', ''APIGroup'', ''APIResourceList'']"
  by code_simp

lemma client_type_Status: "client_type grp version ''Status'' \<in> set unversioned_types"
  by (simp add: client_type_def unversioned_types_def)

lemma client_group_ok:
  assumes "row_ok r"
  shows "group_ok (client_group r)"
proof -
  obtain grp version names where r: "r = (grp, version, names)" by (cases r)
  have row: "version \<noteq> []" "version \<noteq> APIVersionInternal" "distinct names"
    and name: "n \<in> set names \<Longrightarrow> CHR ''.'' \<notin> set n \<and> n \<noteq> WatchEventKind \<and> n \<notin> set (map type_Name optionsTypes)
      \<and> n \<notin> set [''APIVersions'', ''APIGroupList'', ''APIGroup'', ''APIResourceList'']" for n
    using assms unfolding r row_ok_def prod.case list_all_iff by (simp_all only: set_append list.set Un_iff insert_iff) blast+
  have names: "map type_Name (map (client_type grp version) names) = names"
    unfolding map_map
  proof (rule map_idI)
    fix n assume "n \<in> set names"
    from name [OF this] show "(type_Name \<circ> client_type grp version) n = n" by (simp add: type_Name_client)
  qed
  have member: "type_Name t \<noteq> WatchEventKind \<and> type_Name t \<notin> set (map type_Name optionsTypes)
      \<and> (fst (client_group r) = Unversioned \<and> type_Name t \<in> set (map type_Name unversioned_types) \<longrightarrow> t \<in> set unversioned_types)"
    if "t \<in> set (map (client_type grp version) names)" for t
  proof -
    from that obtain n where n: "n \<in> set names" "t = client_type grp version n" by (simp only: set_map) blast
    with name [OF n(1)] have "type_Name t = n" using type_Name_client by blast
    moreover have "t \<in> set unversioned_types" if "n \<in> set (map type_Name unversioned_types)"
    proof -
      from that name [OF n(1)] have "n = ''Status''" unfolding unversioned_type_names by (simp only: list.set insert_iff empty_iff) blast
      with client_type_Status n(2) show ?thesis by simp
    qed
    ultimately show ?thesis using name [OF n(1)] by blast
  qed
  have "fst (client_group r) = \<lparr>gv_Group = grp, gv_Version = version\<rparr>" "snd (client_group r) = map (client_type grp version) names"
    by (simp_all add: client_group_def r)
  with row names member show ?thesis unfolding group_ok_def list_all_iff by simp
qed

lemma clientgo_rows: "list_all row_ok clientgo_table"
  by code_simp

lemma clientgo_distinct: "distinct (map (\<lambda>r. (fst r, fst (snd r))) clientgo_table)"
  by code_simp

section \<open>The scheme the manager starts with\<close>

definition frp_group :: api_group where
  "frp_group = (v1beta1_GroupVersion, [GoFrpServer, GoFrpServerList])"

lemma clientgo_keys: "map fst clientgo_groups = map (\<lambda>(g, v). \<lparr>gv_Group = g, gv_Version = v\<rparr>) (map (\<lambda>r. (fst r, fst (snd r))) clientgo_table)"
  by (simp add: clientgo_groups_def client_group_def split_beta)

lemma frp_group_ok: "group_ok frp_group"
  by code_simp

lemma frp_group_new: "list_all (\<lambda>r. fst r \<noteq> ''frp.gofrp.io'') clientgo_table"
  by code_simp

lemma startup_groups_ok: "groups_ok (frp_group # clientgo_groups)"
proof -
  have inj: "inj (\<lambda>(g, v). \<lparr>gv_Group = g, gv_Version = v\<rparr>)" by (auto simp: inj_def)
  have "distinct (map fst clientgo_groups)"
    unfolding clientgo_keys
    by (rule distinct_map [THEN iffD2], rule conjI [OF clientgo_distinct inj_on_subset [OF inj subset_UNIV]])
  moreover have "fst frp_group \<notin> set (map fst clientgo_groups)"
  proof
    assume "fst frp_group \<in> set (map fst clientgo_groups)"
    then obtain r where r: "r \<in> set clientgo_table" "fst frp_group = fst (client_group r)"
      unfolding clientgo_groups_def set_map by blast
    then have "fst r = ''frp.gofrp.io''"
      by (simp add: frp_group_def v1beta1_GroupVersion_def client_group_def split_beta)
    with r(1) frp_group_new show False unfolding list_all_iff by blast
  qed
  moreover have "list_all group_ok clientgo_groups"
    unfolding clientgo_groups_def list.pred_map
    by (rule list.pred_mono_strong [OF clientgo_rows]) (simp add: client_group_ok)
  ultimately show ?thesis using frp_group_ok by (simp add: groups_ok_def)
qed

lemma startup_regs_groups: "startup_regs groups = concat (map group_regs (frp_group # groups))"
  by (simp add: startup_regs_def frp_group_def)

lemma startup_consistent: "consistent (startup_regs clientgo_groups)"
  unfolding startup_regs_groups by (rule groups_consistent [OF startup_groups_ok])

text \<open>The kinds of a type: those of the groups that list it.\<close>

definition is_meta :: "gotype \<Rightarrow> bool" where
  "is_meta t \<longleftrightarrow> t \<in> set (GoOther ''v1.WatchEvent'' False # GoOther ''v1.InternalEvent'' False # optionsTypes @ unversioned_types)"

lemma meta_regs_meta: "(g, t) \<in> set (meta_regs gv) \<Longrightarrow> is_meta t"
  by (auto simp: meta_regs_def type_regs_def is_meta_def)

lemma kinds_of_type:
  assumes "\<not> is_meta t"
  shows "{g. (g, t) \<in> set (concat (map group_regs gs))} = {WithKind gv (type_Name t) |gv. \<exists>ts. (gv, ts) \<in> set gs \<and> t \<in> set ts}"
proof -
  have "(g, t) \<in> set (group_regs x) \<longleftrightarrow> t \<in> set (snd x) \<and> g = WithKind (fst x) (type_Name t)" for g x
    using assms meta_regs_meta by (auto simp: group_regs_def type_regs_def)
  then show ?thesis by fastforce
qed

text \<open>Which groups of client-go list the service and the pod, and that none lists the types of the program.\<close>

lemma client_type_named:
  "client_type grp version n = GoService \<longleftrightarrow> grp = [] \<and> n = ''Service''"
  "client_type grp version n = GoPod \<longleftrightarrow> grp = [] \<and> n = ''Pod''"
  "client_type grp version n \<noteq> GoFrpServer" "client_type grp version n \<noteq> GoFrpServerList"
  by (simp_all add: client_type_def)

lemma core_rows: "filter (\<lambda>r. fst r = []) clientgo_table = [([], ''v1'', snd (snd (clientgo_table ! 23)))]"
  by code_simp

lemma core_names: "list_all (\<lambda>n. n \<in> set (snd (snd (clientgo_table ! 23)))) [''Service'', ''Pod'']"
  by code_simp

lemma core_row: "([], version, names) \<in> set clientgo_table \<longleftrightarrow> version = ''v1'' \<and> names = snd (snd (clientgo_table ! 23))"
proof -
  have "([], version, names) \<in> set clientgo_table \<longleftrightarrow> ([], version, names) \<in> set (filter (\<lambda>r. fst r = []) clientgo_table)"
    by simp
  then show ?thesis unfolding core_rows by simp
qed

definition in_group :: "gotype \<Rightarrow> GroupVersion \<Rightarrow> bool" where
  "in_group t gv \<longleftrightarrow> (\<exists>ts. (gv, ts) \<in> set clientgo_groups \<and> t \<in> set ts)"

lemma groups_of_type:
  "in_group t gv \<longleftrightarrow> (\<exists>names n. (gv_Group gv, gv_Version gv, names) \<in> set clientgo_table \<and> n \<in> set names
     \<and> client_type (gv_Group gv) (gv_Version gv) n = t)"
proof -
  have row: "client_group (grp, version, names) = (gv, ts) \<longleftrightarrow>
      gv_Group gv = grp \<and> gv_Version gv = version \<and> map (client_type grp version) names = ts" for ts grp version names
    by (cases gv) (auto simp: client_group_def)
  have "(gv, ts) \<in> set clientgo_groups \<longleftrightarrow> (\<exists>names. (gv_Group gv, gv_Version gv, names) \<in> set clientgo_table
      \<and> map (client_type (gv_Group gv) (gv_Version gv)) names = ts)" for ts
  proof -
    have "(gv, ts) \<in> set clientgo_groups \<longleftrightarrow> (\<exists>r\<in>set clientgo_table. client_group r = (gv, ts))"
      unfolding clientgo_groups_def set_map image_iff by (simp only: eq_commute)
    also have "\<dots> \<longleftrightarrow> (\<exists>grp version names. (grp, version, names) \<in> set clientgo_table \<and> client_group (grp, version, names) = (gv, ts))"
      by (simp only: Bex_def split_paired_Ex)
    finally show ?thesis unfolding row by blast
  qed
  then have "in_group t gv \<longleftrightarrow> (\<exists>names. (gv_Group gv, gv_Version gv, names) \<in> set clientgo_table
      \<and> t \<in> set (map (client_type (gv_Group gv) (gv_Version gv)) names))"
    unfolding in_group_def by auto
  then show ?thesis unfolding set_map image_iff by (metis (no_types))
qed

lemma in_core_group:
  assumes "\<And>grp version n'. client_type grp version n' = t \<longleftrightarrow> grp = [] \<and> n' = n" and "n \<in> set (snd (snd (clientgo_table ! 23)))"
  shows "in_group t gv \<longleftrightarrow> gv = \<lparr>gv_Group = [], gv_Version = ''v1''\<rparr>"
proof -
  have "in_group t gv \<longleftrightarrow> gv_Group gv = [] \<and> gv_Version gv = ''v1''"
    unfolding groups_of_type assms(1) using assms(2) by (metis core_row)
  then show ?thesis by (cases gv) simp
qed

lemma in_group_core:
  "in_group GoService gv \<longleftrightarrow> gv = \<lparr>gv_Group = [], gv_Version = ''v1''\<rparr>"
  "in_group GoPod gv \<longleftrightarrow> gv = \<lparr>gv_Group = [], gv_Version = ''v1''\<rparr>"
  "\<not> in_group GoFrpServer gv" "\<not> in_group GoFrpServerList gv"
proof -
  show "in_group GoService gv \<longleftrightarrow> gv = \<lparr>gv_Group = [], gv_Version = ''v1''\<rparr>"
    by (rule in_core_group [OF client_type_named(1)]) (use core_names in \<open>simp only: list.pred_inject\<close>)
  show "in_group GoPod gv \<longleftrightarrow> gv = \<lparr>gv_Group = [], gv_Version = ''v1''\<rparr>"
    by (rule in_core_group [OF client_type_named(2)]) (use core_names in \<open>simp only: list.pred_inject\<close>)
  show "\<not> in_group GoFrpServer gv" "\<not> in_group GoFrpServerList gv"
    unfolding groups_of_type by (simp_all add: client_type_named)
qed

lemma startup_kinds:
  "{g. (g, GoService) \<in> set (startup_regs clientgo_groups)} = {WithKind \<lparr>gv_Group = [], gv_Version = ''v1''\<rparr> ''Service''}"
  "{g. (g, GoPod) \<in> set (startup_regs clientgo_groups)} = {WithKind \<lparr>gv_Group = [], gv_Version = ''v1''\<rparr> ''Pod''}"
  "{g. (g, GoFrpServer) \<in> set (startup_regs clientgo_groups)} = {WithKind v1beta1_GroupVersion ''FrpServer''}"
  "{g. (g, GoFrpServerList) \<in> set (startup_regs clientgo_groups)} = {WithKind v1beta1_GroupVersion ''FrpServerList''}"
proof -
  have meta: "\<not> is_meta GoService" "\<not> is_meta GoPod" "\<not> is_meta GoFrpServer" "\<not> is_meta GoFrpServerList"
    by (simp_all add: is_meta_def optionsTypes_def unversioned_types_def)
  have names: "type_Name GoService = ''Service''" "type_Name GoPod = ''Pod''" "type_Name GoFrpServer = ''FrpServer''"
    "type_Name GoFrpServerList = ''FrpServerList''" by code_simp+
  have kinds: "{g. (g, t) \<in> set (startup_regs clientgo_groups)}
      = {WithKind gv (type_Name t) |gv. gv = v1beta1_GroupVersion \<and> t \<in> {GoFrpServer, GoFrpServerList} \<or> in_group t gv}"
    if "\<not> is_meta t" for t
  proof -
    have "(\<exists>ts. (gv, ts) \<in> set (frp_group # clientgo_groups) \<and> t \<in> set ts)
        \<longleftrightarrow> gv = v1beta1_GroupVersion \<and> t \<in> {GoFrpServer, GoFrpServerList} \<or> in_group t gv" for gv
      by (auto simp: in_group_def frp_group_def)
    then show ?thesis unfolding startup_regs_groups kinds_of_type [OF that] by (simp only:)
  qed
  show "{g. (g, GoService) \<in> set (startup_regs clientgo_groups)} = {WithKind \<lparr>gv_Group = [], gv_Version = ''v1''\<rparr> ''Service''}"
    unfolding kinds [OF meta(1)] names by (auto simp: in_group_core)
  show "{g. (g, GoPod) \<in> set (startup_regs clientgo_groups)} = {WithKind \<lparr>gv_Group = [], gv_Version = ''v1''\<rparr> ''Pod''}"
    unfolding kinds [OF meta(2)] names by (auto simp: in_group_core)
  show "{g. (g, GoFrpServer) \<in> set (startup_regs clientgo_groups)} = {WithKind v1beta1_GroupVersion ''FrpServer''}"
    unfolding kinds [OF meta(3)] names by (auto simp: in_group_core)
  show "{g. (g, GoFrpServerList) \<in> set (startup_regs clientgo_groups)} = {WithKind v1beta1_GroupVersion ''FrpServerList''}"
    unfolding kinds [OF meta(4)] names by (auto simp: in_group_core)
qed

text \<open>
  The program starts: registering the types of the API group and of client-go does not
  panic, and afterwards the scheme knows each type the controllers use under exactly one kind, and that kind as the type.
\<close>

lemma startup_scheme:
  "\<exists>s. server_init name clientgo_groups = Return s
     \<and> (\<forall>tm. list_all (\<lambda>(t, gvk). Scheme_ObjectKinds s t = Inr ([gvk], False) \<and> GVKForObject t tm s = Inr gvk \<and> Scheme_New s gvk = Inr t)
       [(GoService, \<lparr>gvk_Group = [], gvk_Version = ''v1'', gvk_Kind = ''Service''\<rparr>),
        (GoPod, \<lparr>gvk_Group = [], gvk_Version = ''v1'', gvk_Kind = ''Pod''\<rparr>),
        (GoFrpServer, \<lparr>gvk_Group = ''frp.gofrp.io'', gvk_Version = ''v1beta1'', gvk_Kind = ''FrpServer''\<rparr>),
        (GoFrpServerList, \<lparr>gvk_Group = ''frp.gofrp.io'', gvk_Version = ''v1beta1'', gvk_Kind = ''FrpServerList''\<rparr>)])"
proof -
  obtain s where s: "server_init name clientgo_groups = Return s" and h: "holds (startup_regs clientgo_groups) s"
    by (rule server_init_holds [OF startup_consistent])
  have u: "GoService \<notin> set unversioned_types" "GoPod \<notin> set unversioned_types" "GoFrpServer \<notin> set unversioned_types"
    "GoFrpServerList \<notin> set unversioned_types" by (simp_all add: unversioned_types_def)
  note kinds = holds_kind [OF h startup_kinds(1) u(1)] holds_kind [OF h startup_kinds(2) u(2)]
    holds_kind [OF h startup_kinds(3) u(3)] holds_kind [OF h startup_kinds(4) u(4)]
  show ?thesis
    by (rule exI [of _ s]) (use s kinds in \<open>simp add: WithKind_def v1beta1_GroupVersion_def\<close>)
qed

end
