(* ===== verification/Cluster_Store.thy ===== *)
theory Cluster_Store
  imports Mem_Cluster
begin

text \<open>
  What the API server keeps.  \<open>runs\<close> follows a computation from a world to the world after it; \<open>store_api\<close> says
  that the answers of the API server are about a store of services and pods: a read gives what is stored, and a write that
  is answered with success has been made.  Calls may fail; when the server is reliable they fail only for a reason.
  The controllers read through a cache of the manager, which is taken to be up to date.
\<close>

section \<open>From world to world\<close>

named_theorems runs_rules \<open>rules that compute what a computation returns, emits and does to the world\<close>

definition runs :: "('w, 'e, 'a) go \<Rightarrow> 'w \<Rightarrow> ('a \<Rightarrow> 'e list \<Rightarrow> 'w \<Rightarrow> bool) \<Rightarrow> bool" where
  "runs m w Q \<longleftrightarrow> (\<forall>tr. \<exists>a es w'. run_state m \<lparr>world = w, trace = tr\<rparr> = (a, \<lparr>world = w', trace = tr @ es\<rparr>) \<and> Q a es w')"

lemma runs_ret [runs_rules]: "Q a [] w \<Longrightarrow> runs (ret a) w Q"
  by (simp add: runs_def)

lemma runs_bind [runs_rules]:
  assumes "runs m w (\<lambda>a es w'. runs (f a) w' (\<lambda>b fs w''. Q b (es @ fs) w''))"
  shows "runs (State_Monad.bind m f) w Q"
  unfolding runs_def
proof
  fix tr
  from assms obtain a es w' where m: "run_state m \<lparr>world = w, trace = tr\<rparr> = (a, \<lparr>world = w', trace = tr @ es\<rparr>)"
    and f: "runs (f a) w' (\<lambda>b fs w''. Q b (es @ fs) w'')" unfolding runs_def by blast
  from f obtain b fs w'' where "run_state (f a) \<lparr>world = w', trace = tr @ es\<rparr> = (b, \<lparr>world = w'', trace = (tr @ es) @ fs\<rparr>)"
    "Q b (es @ fs) w''" unfolding runs_def by blast
  with m show "\<exists>b es w''. run_state (State_Monad.bind m f) \<lparr>world = w, trace = tr\<rparr> = (b, \<lparr>world = w'', trace = tr @ es\<rparr>) \<and> Q b es w''"
    by auto
qed

lemma runs_perform: "Q (fst (f w)) [ev (fst (f w))] (snd (f w)) \<Longrightarrow> runs (perform f ev) w Q"
  by (simp add: runs_def)

lemma runs_weaken:
  assumes "runs m w Q" and "\<And>a es w'. Q a es w' \<Longrightarrow> Q' a es w'"
  shows "runs m w Q'"
  using assms unfolding runs_def by blast

lemma runs_bind_use:
  assumes "runs m w R" and "\<And>a es w'. R a es w' \<Longrightarrow> runs (f a) w' (\<lambda>b fs w''. Q b (es @ fs) w'')"
  shows "runs (State_Monad.bind m f) w Q"
  by (rule runs_bind) (rule runs_weaken [OF assms])

lemma runs_conj: "runs m w Q \<Longrightarrow> runs m w R \<Longrightarrow> runs m w (\<lambda>a es w'. Q a es w' \<and> R a es w')"
  unfolding runs_def by (metis (no_types, lifting) Pair_inject gostate.ext_inject same_append_eq)

lemma runs_if [runs_rules]: "(b \<Longrightarrow> runs m w Q) \<Longrightarrow> (\<not> b \<Longrightarrow> runs n w Q) \<Longrightarrow> runs (if b then m else n) w Q"
  by simp

lemma runs_cases [runs_rules]:
  "(\<And>e. r1 = Inl e \<Longrightarrow> runs (m1 e) w Q1) \<Longrightarrow> (\<And>a. r1 = Inr a \<Longrightarrow> runs (n1 a) w Q1) \<Longrightarrow> runs (case r1 of Inl e \<Rightarrow> m1 e | Inr a \<Rightarrow> n1 a) w Q1"
  "(r2 = None \<Longrightarrow> runs m2 w Q2) \<Longrightarrow> (\<And>a. r2 = Some a \<Longrightarrow> runs (n2 a) w Q2) \<Longrightarrow> runs (case r2 of None \<Rightarrow> m2 | Some a \<Rightarrow> n2 a) w Q2"
  "(\<And>a. r3 = Return a \<Longrightarrow> runs (m3 a) w Q3) \<Longrightarrow> (\<And>p. r3 = Panic p \<Longrightarrow> runs (n3 p) w Q3) \<Longrightarrow> runs (case r3 of Return a \<Rightarrow> m3 a | Panic p \<Rightarrow> n3 p) w Q3"
  "(\<And>x y. r4 = (x, y) \<Longrightarrow> runs (m4 x y) w Q4) \<Longrightarrow> runs (case r4 of (x, y) \<Rightarrow> m4 x y) w Q4"
  "(r5 = [] \<Longrightarrow> runs m5 w Q5) \<Longrightarrow> (\<And>x xs. r5 = x # xs \<Longrightarrow> runs (n5 x xs) w Q5) \<Longrightarrow> runs (case r5 of [] \<Rightarrow> m5 | x # xs \<Rightarrow> n5 x xs) w Q5"
  "runs (m6 a6) w Q6 \<Longrightarrow> runs (let x = a6 in m6 x) w Q6"
  by (auto split: sum.split option.split outcome.split prod.split list.split)

lemma behaves_runs:
  assumes "behaves m Q"
  shows "runs m w (\<lambda>a es w'. Q a es)"
  unfolding runs_def
proof
  fix tr
  obtain a s' where m: "run_state m \<lparr>world = w, trace = tr\<rparr> = (a, s')" by fastforce
  from behavesD [OF assms m] obtain es where "trace s' = tr @ es" "Q a es" by auto
  then show "\<exists>a es w'. run_state m \<lparr>world = w, trace = tr\<rparr> = (a, \<lparr>world = w', trace = tr @ es\<rparr>) \<and> Q a es"
    unfolding m by (cases s') auto
qed

section \<open>The store\<close>

text \<open>The objects the server keeps in a world, and the worlds it can be in.\<close>

record 'w store =
  sto_valid :: "'w \<Rightarrow> bool"
  sto_services :: "'w \<Rightarrow> Service set"
  sto_pods :: "'w \<Rightarrow> Pod set"

abbreviation svc_key :: "Service \<Rightarrow> NamespacedName" where "svc_key svc \<equiv> ObjectKeyFromMeta (svc_meta svc)"
abbreviation pod_key :: "Pod \<Rightarrow> NamespacedName" where "pod_key p \<equiv> ObjectKeyFromMeta (pod_meta p)"

text \<open>Objects of a kind are told apart by namespace and name.\<close>

definition unique_keys :: "'w store \<Rightarrow> 'w \<Rightarrow> bool" where
  "unique_keys v w \<longleftrightarrow> sto_valid v w \<and> inj_on svc_key (sto_services v w) \<and> inj_on pod_key (sto_pods v w)"

definition same_store :: "'w store \<Rightarrow> 'w \<Rightarrow> 'w \<Rightarrow> bool" where
  "same_store v w w' \<longleftrightarrow> sto_valid v w' = sto_valid v w \<and> sto_services v w' = sto_services v w \<and> sto_pods v w' = sto_pods v w"

text \<open>What the server may change in an object it stores: its version, its identifier, and a pod's phase.\<close>

definition stored_pod :: "Pod \<Rightarrow> Pod \<Rightarrow> bool" where
  "stored_pod p p' \<longleftrightarrow> pod_key p' = pod_key p \<and> om_Labels (pod_meta p') = om_Labels (pod_meta p)
     \<and> om_OwnerReferences (pod_meta p') = om_OwnerReferences (pod_meta p) \<and> (IsPodActive p \<longrightarrow> IsPodActive p')"

definition stored_service :: "Service \<Rightarrow> Service \<Rightarrow> bool" where
  "stored_service s s' \<longleftrightarrow> svc_key s' = svc_key s \<and> om_UID (svc_meta s') = om_UID (svc_meta s)
     \<and> om_Annotations (svc_meta s') = om_Annotations (svc_meta s) \<and> om_Finalizers (svc_meta s') = om_Finalizers (svc_meta s)
     \<and> om_DeletionTimestamp (svc_meta s') = om_DeletionTimestamp (svc_meta s) \<and> svc_Type s' = svc_Type s"

definition listed :: "'w store \<Rightarrow> 'w \<Rightarrow> string \<Rightarrow> Requirement list \<Rightarrow> Pod set" where
  "listed v w ns sel = {p \<in> sto_pods v w. om_Namespace (pod_meta p) = ns \<and> Selector_Matches sel (meta_labels (pod_meta p))}"

text \<open>What an answer of the server says about the store before and after the call.  With \<open>rel\<close> the server is reliable.\<close>

definition got_service :: "bool \<Rightarrow> 'w store \<Rightarrow> 'w \<Rightarrow> NamespacedName \<Rightarrow> (go_error + Service) \<times> 'w \<Rightarrow> bool" where
  "got_service rel v w k res = (case res of (r, w') \<Rightarrow> same_store v w w' \<and> (case r of
       Inr svc \<Rightarrow> svc \<in> sto_services v w \<and> svc_key svc = k
     | Inl err \<Rightarrow> IsNotFound err \<or> rel \<longrightarrow> (\<forall>svc\<in>sto_services v w. svc_key svc \<noteq> k)))"

definition got_object :: "bool \<Rightarrow> 'w store \<Rightarrow> 'w \<Rightarrow> NamespacedName \<Rightarrow> (go_error + ObjectMeta) \<times> 'w \<Rightarrow> bool" where
  "got_object rel v w k res = (case res of (r, w') \<Rightarrow> same_store v w w' \<and> (case r of
       Inr m \<Rightarrow> (\<exists>svc\<in>sto_services v w. svc_meta svc = m \<and> svc_key svc = k)
     | Inl err \<Rightarrow> rel \<longrightarrow> (\<forall>svc\<in>sto_services v w. svc_key svc \<noteq> k)))"

definition listed_pods :: "bool \<Rightarrow> 'w store \<Rightarrow> 'w \<Rightarrow> string \<Rightarrow> Requirement list \<Rightarrow> (go_error + Pod list) \<times> 'w \<Rightarrow> bool" where
  "listed_pods rel v w ns sel res = (case res of (r, w') \<Rightarrow> same_store v w w' \<and> (case r of
       Inr items \<Rightarrow> distinct items \<and> set items = listed v w ns sel
     | Inl err \<Rightarrow> \<not> rel))"

text \<open>An update is made on the version it was read at.\<close>

definition updated_service :: "bool \<Rightarrow> 'w store \<Rightarrow> 'w \<Rightarrow> Service \<Rightarrow> (go_error + Service) \<times> 'w \<Rightarrow> bool" where
  "updated_service rel v w svc res = (case res of (r, w') \<Rightarrow> (case r of
       Inr svc' \<Rightarrow> stored_service svc svc' \<and> sto_valid v w' \<and> sto_pods v w' = sto_pods v w
         \<and> sto_services v w' = insert svc' {s \<in> sto_services v w. svc_key s \<noteq> svc_key svc}
     | Inl err \<Rightarrow> rel \<longrightarrow> (\<forall>s\<in>sto_services v w. svc_key s = svc_key svc
         \<longrightarrow> om_ResourceVersion (svc_meta s) \<noteq> om_ResourceVersion (svc_meta svc))))"

definition updated_pod :: "bool \<Rightarrow> 'w store \<Rightarrow> 'w \<Rightarrow> Pod \<Rightarrow> (go_error + Pod) \<times> 'w \<Rightarrow> bool" where
  "updated_pod rel v w p res = (case res of (r, w') \<Rightarrow> (case r of
       Inr p' \<Rightarrow> stored_pod p p' \<and> sto_valid v w' \<and> sto_services v w' = sto_services v w
         \<and> sto_pods v w' = insert p' {q \<in> sto_pods v w. pod_key q \<noteq> pod_key p}
     | Inl err \<Rightarrow> rel \<longrightarrow> (\<forall>q\<in>sto_pods v w. pod_key q = pod_key p
         \<longrightarrow> om_ResourceVersion (pod_meta q) \<noteq> om_ResourceVersion (pod_meta p))))"

definition created_pod :: "bool \<Rightarrow> 'w store \<Rightarrow> 'w \<Rightarrow> Pod \<Rightarrow> (go_error + Pod) \<times> 'w \<Rightarrow> bool" where
  "created_pod rel v w p res = (case res of (r, w') \<Rightarrow> (case r of
       Inr p' \<Rightarrow> stored_pod p p' \<and> sto_valid v w' \<and> sto_services v w' = sto_services v w
         \<and> (\<forall>q\<in>sto_pods v w. pod_key q \<noteq> pod_key p) \<and> sto_pods v w' = insert p' (sto_pods v w)
     | Inl err \<Rightarrow> rel \<longrightarrow> (\<exists>q\<in>sto_pods v w. pod_key q = pod_key p)))"

text \<open>A deleted pod is gone, or it is terminating and no longer active.\<close>

definition deleted_pod :: "bool \<Rightarrow> 'w store \<Rightarrow> 'w \<Rightarrow> Pod \<Rightarrow> go_error option \<times> 'w \<Rightarrow> bool" where
  "deleted_pod rel v w p res = (case res of (r, w') \<Rightarrow> (case r of
       None \<Rightarrow> sto_valid v w' \<and> sto_services v w' = sto_services v w \<and> (\<exists>t. pod_key t = pod_key p \<and> \<not> IsPodActive t
         \<and> sto_pods v w' - {t} = {q \<in> sto_pods v w. pod_key q \<noteq> pod_key p})
     | Some err \<Rightarrow> (rel \<longrightarrow> IsNotFound err) \<and> (IsNotFound err \<longrightarrow> same_store v w w')))"

definition store_api :: "bool \<Rightarrow> 'w api \<Rightarrow> 'w sys \<Rightarrow> 'w store \<Rightarrow> bool" where
  "store_api rel a y v \<longleftrightarrow> (\<forall>w. unique_keys v w \<longrightarrow>
       (\<forall>k. got_service rel v w k (api_get_service a k w)) \<and> (\<forall>k. got_object rel v w k (api_get_object a GoService k w))
     \<and> (\<forall>ns sel. listed_pods rel v w ns sel (api_list_pods a ns sel w))
     \<and> (\<forall>svc. om_DeletionTimestamp (svc_meta svc) = None \<longrightarrow> updated_service rel v w svc (api_update_service a svc w))
     \<and> (\<forall>p. updated_pod rel v w p (api_update_pod a p w)) \<and> (\<forall>p. created_pod rel v w p (api_create_pod a p w))
     \<and> (\<forall>p. deleted_pod rel v w p (api_delete_pod a p w)) \<and> (\<forall>n. same_store v w (snd (sys_rand y n w))))"

section \<open>Rules for the calls\<close>

lemma same_store_unique: "same_store v w w' \<Longrightarrow> unique_keys v w' \<longleftrightarrow> unique_keys v w"
  by (simp add: same_store_def unique_keys_def)

lemma unique_pod:
  assumes "unique_keys v w" and "p \<in> sto_pods v w" "q \<in> sto_pods v w" and "pod_key p = pod_key q"
  shows "p = q"
  using assms by (simp add: unique_keys_def inj_on_def)

lemma unique_service:
  assumes "unique_keys v w" and "s \<in> sto_services v w" "t \<in> sto_services v w" and "svc_key s = svc_key t"
  shows "s = t"
  using assms by (simp add: unique_keys_def inj_on_def)

lemma same_store_refl [simp]: "same_store v w w"
  by (simp add: same_store_def)

lemma same_store_trans: "same_store v w w' \<Longrightarrow> same_store v w' w'' \<Longrightarrow> same_store v w w''"
  by (simp add: same_store_def)

lemma store_apiD:
  assumes "store_api rel a y v" and "unique_keys v w"
  shows "got_service rel v w k (api_get_service a k w)" "got_object rel v w k (api_get_object a GoService k w)"
    "listed_pods rel v w ns sel (api_list_pods a ns sel w)"
    "om_DeletionTimestamp (svc_meta svc) = None \<Longrightarrow> updated_service rel v w svc (api_update_service a svc w)"
    "updated_pod rel v w p (api_update_pod a p w)" "created_pod rel v w p (api_create_pod a p w)"
    "deleted_pod rel v w p (api_delete_pod a p w)" "same_store v w (snd (sys_rand y n w))"
  using assms unfolding store_api_def by blast+

lemma runs_call:
  assumes "\<And>r w'. f w = (r, w') \<Longrightarrow> Q r [ev r] w'"
  shows "runs (perform f ev) w Q"
  by (rule runs_perform) (simp add: assms)

lemma runs_Get_Service:
  assumes "store_api rel a y v" and "unique_keys v w"
    and "\<And>r w'. got_service rel v w k (r, w') \<Longrightarrow> Q r [EvGetService k r] w'"
  shows "runs (Get_Service a k) w Q"
  unfolding Get_Service_def by (rule runs_call) (metis assms store_apiD(1))

lemma runs_Get_Object:
  assumes "store_api rel a y v" and "unique_keys v w"
    and "\<And>r w'. got_object rel v w k (r, w') \<Longrightarrow> Q r [EvGetObject GoService k r] w'"
  shows "runs (Get_Object a GoService k) w Q"
  unfolding Get_Object_def by (rule runs_call) (metis assms store_apiD(2))

lemma runs_List_Pods:
  assumes "store_api rel a y v" and "unique_keys v w"
    and "\<And>r w'. listed_pods rel v w ns sel (r, w') \<Longrightarrow> Q r [EvListPods ns sel r] w'"
  shows "runs (List_Pods a ns sel) w Q"
  unfolding List_Pods_def by (rule runs_call) (metis assms store_apiD(3))

lemma runs_Update_Service:
  assumes "store_api rel a y v" and "unique_keys v w" and "om_DeletionTimestamp (svc_meta svc) = None"
    and "\<And>r w'. updated_service rel v w svc (r, w') \<Longrightarrow> Q r [EvUpdateService svc r] w'"
  shows "runs (Update_Service a svc) w Q"
  unfolding Update_Service_def by (rule runs_call) (metis assms store_apiD(4))

lemma runs_Update_Pod:
  assumes "store_api rel a y v" and "unique_keys v w"
    and "\<And>r w'. updated_pod rel v w p (r, w') \<Longrightarrow> Q r [EvUpdatePod p r] w'"
  shows "runs (Update_Pod a p) w Q"
  unfolding Update_Pod_def by (rule runs_call) (metis assms store_apiD(5))

lemma runs_Create_Pod:
  assumes "store_api rel a y v" and "unique_keys v w"
    and "\<And>r w'. created_pod rel v w p (r, w') \<Longrightarrow> Q r [EvCreatePod p r] w'"
  shows "runs (Create_Pod a p) w Q"
  unfolding Create_Pod_def by (rule runs_call) (metis assms store_apiD(6))

lemma runs_Delete_Pod:
  assumes "store_api rel a y v" and "unique_keys v w"
    and "\<And>r w'. deleted_pod rel v w p (r, w') \<Longrightarrow> Q r [EvDeletePod p r] w'"
  shows "runs (Delete_Pod a p) w Q"
  unfolding Delete_Pod_def by (rule runs_call) (metis assms store_apiD(7))

lemma runs_Rand_String:
  assumes "store_api rel a y v" and "unique_keys v w"
    and "\<And>w'. same_store v w w' \<Longrightarrow> Q (fst (sys_rand y n w)) [EvRand n (fst (sys_rand y n w))] w'"
  shows "runs (Rand_String y n) w Q"
  unfolding Rand_String_def by (rule runs_perform) (rule assms(3) [OF store_apiD(8) [OF assms(1,2)]])

section \<open>The cluster in memory\<close>

definition mem_store :: "mem store" where
  "mem_store = \<lparr>sto_valid = \<lambda>w. distinct (map svc_key (mem_services w)) \<and> distinct (map pod_key (mem_pods w)),
     sto_services = \<lambda>w. set (mem_services w), sto_pods = \<lambda>w. set (mem_pods w)\<rparr>"

lemma has_key_iff: "has_key k m \<longleftrightarrow> ObjectKeyFromMeta m = k"
  by (cases k) (auto simp: has_key_def ObjectKeyFromMeta_def)

lemma mem_has_iff: "mem_has meta ob os \<longleftrightarrow> (\<exists>q\<in>set os. ObjectKeyFromMeta (meta q) = ObjectKeyFromMeta (meta ob))"
  by (simp add: mem_has_def has_key_iff list_ex_iff)

lemma mem_set_keys: "map (ObjectKeyFromMeta \<circ> meta) (mem_set meta ob os) = map (ObjectKeyFromMeta \<circ> meta) os"
  by (induction os) (auto simp: mem_set_def has_key_iff)

lemma set_mem_set:
  "mem_has meta ob os \<Longrightarrow> set (mem_set meta ob os) = insert ob {q \<in> set os. ObjectKeyFromMeta (meta q) \<noteq> ObjectKeyFromMeta (meta ob)}"
  by (auto simp: mem_set_def has_key_iff mem_has_iff)

lemma distinct_keys_del: "distinct (map f os) \<Longrightarrow> distinct (map f (mem_del meta ob os))"
  by (simp add: mem_del_def distinct_map_filter)

lemma set_mem_del: "set (mem_del meta ob os) = {q \<in> set os. ObjectKeyFromMeta (meta q) \<noteq> ObjectKeyFromMeta (meta ob)}"
  by (auto simp: mem_del_def has_key_iff)

lemma mem_get_cases:
  "(\<exists>ob\<in>set os. mem_get meta k os = Inr ob \<and> ObjectKeyFromMeta (meta ob) = k)
   \<or> (\<exists>err. mem_get meta k os = Inl err \<and> (\<forall>ob\<in>set os. ObjectKeyFromMeta (meta ob) \<noteq> k))"
proof (cases "find (has_key k \<circ> meta) os")
  case None
  then have "\<forall>ob\<in>set os. ObjectKeyFromMeta (meta ob) \<noteq> k" by (auto simp: find_None_iff has_key_iff)
  with None show ?thesis by (simp add: mem_get_def)
next
  case (Some ob)
  then have "ob \<in> set os \<and> ObjectKeyFromMeta (meta ob) = k" by (auto simp: find_Some_iff has_key_iff)
  with Some show ?thesis by (auto simp: mem_get_def)
qed

lemma stored_refl [simp]: "stored_pod p p" "stored_service svc svc"
  by (simp_all add: stored_pod_def stored_service_def)

lemma mem_store_api: "store_api True mem_api (calm_sys resp) mem_store"
  unfolding store_api_def
proof (intro allI impI conjI)
  fix w assume "unique_keys mem_store w"
  then have keys: "distinct (map svc_key (mem_services w))" "distinct (map pod_key (mem_pods w))"
    by (simp_all add: unique_keys_def mem_store_def)
  show "got_service True mem_store w k (api_get_service mem_api k w)" for k
    using mem_get_cases [of "mem_services w" svc_meta k]
    by (auto simp: got_service_def mem_api_def mem_store_def same_store_def)
  show "got_object True mem_store w k (api_get_object mem_api GoService k w)" for k
    using mem_get_cases [of "mem_services w" svc_meta k]
    by (auto simp: got_object_def mem_api_def mem_store_def same_store_def)
  show "listed_pods True mem_store w ns sel (api_list_pods mem_api ns sel w)" for ns sel
    using keys(2) by (auto simp: listed_pods_def mem_api_def mem_store_def same_store_def listed_def distinct_map)
  show "updated_service True mem_store w svc (api_update_service mem_api svc w)" if "om_DeletionTimestamp (svc_meta svc) = None" for svc
    using that keys set_mem_set [of svc_meta svc "mem_services w"] mem_set_keys [of svc_meta svc "mem_services w"]
    by (auto simp: updated_service_def mem_api_def mem_store_def mem_has_iff comp_def)
  show "updated_pod True mem_store w p (api_update_pod mem_api p w)" for p
    using keys set_mem_set [of pod_meta p "mem_pods w"] mem_set_keys [of pod_meta p "mem_pods w"]
    by (auto simp: updated_pod_def mem_api_def mem_store_def mem_has_iff comp_def)
  show "created_pod True mem_store w p (api_create_pod mem_api p w)" for p
    using keys by (auto simp: created_pod_def mem_api_def mem_store_def mem_has_iff)
  show "deleted_pod True mem_store w p (api_delete_pod mem_api p w)" for p
  proof -
    let ?t = "p\<lparr>pod_meta := (pod_meta p)\<lparr>om_DeletionTimestamp := Some 0\<rparr>\<rparr>"
    have t: "pod_key ?t = pod_key p" "\<not> IsPodActive ?t" by (simp_all add: ObjectKeyFromMeta_def IsPodActive_def)
    then have "set (mem_del pod_meta p (mem_pods w)) - {?t} = {q \<in> set (mem_pods w). pod_key q \<noteq> pod_key p}"
      by (auto simp: set_mem_del)
    with t have "\<exists>t. pod_key t = pod_key p \<and> \<not> IsPodActive t
        \<and> set (mem_del pod_meta p (mem_pods w)) - {t} = {q \<in> set (mem_pods w). pod_key q \<noteq> pod_key p}" by blast
    then show ?thesis
      using keys distinct_keys_del by (auto simp: deleted_pod_def mem_api_def mem_store_def same_store_def gone_def)
  qed
  show "same_store mem_store w (snd (sys_rand (calm_sys resp) n w))" for n
    by (simp add: calm_sys_def)
qed

end
