(* ===== verification/Service_Convergence.thy ===== *)
theory Service_Convergence
  imports Service_Startup Cluster_Store
begin

text \<open>
  The service reconciler over a cluster that keeps what it is given (\<^verbatim>\<open>Cluster_Store\<close>).  Each part of a run is followed from the
  store before it to the store after it; together they show that a successful run settles a service, and that
  reconciling a settled service changes nothing of note.
\<close>

section \<open>What is to be reached\<close>

text \<open>The active pods that a reconciliation of the service lists.\<close>

definition mine :: "Service \<Rightarrow> Pod \<Rightarrow> bool" where
  "mine svc p \<longleftrightarrow> om_Namespace (pod_meta p) = om_Namespace (svc_meta svc)
     \<and> Selector_Matches (pod_selector svc) (meta_labels (pod_meta p)) \<and> IsPodActive p"

definition has_controller :: "Pod \<Rightarrow> bool" where
  "has_controller p \<longleftrightarrow> GetControllerOf (pod_meta p) \<noteq> None"

definition pod_serves :: "'w store \<Rightarrow> 'w \<Rightarrow> Service \<Rightarrow> bool" where
  "pod_serves v w svc \<longleftrightarrow> (\<exists>p\<in>sto_pods v w. mine svc p \<and> owned_by svc p)"

text \<open>The service is one to be served and has the finalizer, an active pod of it is controlled by it, and no active pod with
  its labels is without a controller.\<close>

definition settled :: "'w store \<Rightarrow> NamespacedName \<Rightarrow> 'w \<Rightarrow> bool" where
  "settled v req w \<longleftrightarrow> unique_keys v w \<and> (\<exists>svc\<in>sto_services v w. svc_key svc = req \<and> \<not> needs_cleanup svc
     \<and> FinalizerName \<in> set (om_Finalizers (svc_meta svc)) \<and> (\<forall>p\<in>sto_pods v w. mine svc p \<longrightarrow> has_controller p) \<and> pod_serves v w svc)"

section \<open>Claiming\<close>

text \<open>The scheme has services registered under one kind.\<close>

definition service_scheme :: "scheme \<Rightarrow> bool" where
  "service_scheme s \<longleftrightarrow> (\<exists>gvk. Scheme_ObjectKinds s GoService = Inr ([gvk], False) \<and> Scheme_New s gvk = Inr GoService
     \<and> (\<forall>tm. GVKForObject GoService tm s = Inr gvk))"

text \<open>A manager for the service that has not found a reason against adoption.\<close>

definition adopting :: "Service \<Rightarrow> scheme \<Rightarrow> RefManager \<Rightarrow> bool" where
  "adopting svc s mgr \<longleftrightarrow> rm_owner mgr = svc \<and> rm_schema mgr = Some s \<and> (rm_once mgr \<longrightarrow> rm_canAdoptErr mgr = None)"

lemma getOwner_runs:
  assumes laws: "store_api rel a y v" and u: "unique_keys v w" and s: "service_scheme s" "rm_schema mgr = Some s"
  shows "runs (getOwner a mgr) w (\<lambda>r es w'. same_store v w w' \<and> (\<exists>x. r = Return x
     \<and> (\<forall>m. x = Inr m \<longrightarrow> (\<exists>svc\<in>sto_services v w. svc_meta svc = m \<and> svc_key svc = svc_key (rm_owner mgr)))
     \<and> (\<forall>e. x = Inl e \<longrightarrow> rel \<longrightarrow> (\<forall>svc\<in>sto_services v w. svc_key svc \<noteq> svc_key (rm_owner mgr)))))"
proof -
  from s(1) obtain gvk where "Scheme_ObjectKinds s GoService = Inr ([gvk], False)" "Scheme_New s gvk = Inr GoService"
    unfolding service_scheme_def by blast
  then have owner: "getOwner a mgr = do { r \<leftarrow> Get_Object a GoService (svc_key (rm_owner mgr)); ret (Return r) }"
    by (simp add: getOwner_def s(2) ObjectKeyFromMeta_def)
  show ?thesis
    unfolding owner
    by (intro runs_rules runs_Get_Object [OF laws u]) (auto simp: got_object_def split: sum.splits)
qed

lemma canAdoptOnce_runs:
  assumes laws: "store_api rel a y v" and u: "unique_keys v w" and s: "service_scheme s" and m: "adopting svc s mgr"
    and svc: "svc \<in> sto_services v w" "om_DeletionTimestamp (svc_meta svc) = None"
  shows "runs (canAdoptOnce pr a mgr) w (\<lambda>r es w'. same_store v w w' \<and> (\<exists>m' e. r = Return (m', e)
     \<and> rm_schema m' = Some s \<and> (rel \<longrightarrow> e = None) \<and> (e = None \<longrightarrow> adopting svc s m')))"
proof -
  have once: "x = svc" if "x \<in> sto_services v w" "svc_key x = svc_key svc" for x
    by (rule unique_service [OF u that(1) svc(1) that(2)])
  have mgr: "rm_owner mgr = svc" "rm_schema mgr = Some s" using m by (simp_all add: adopting_def)
  show ?thesis
    unfolding canAdoptOnce_def canAdopt_def
    by (intro runs_rules runs_weaken [OF getOwner_runs [OF laws u s mgr(2)]])
      (use m svc in \<open>auto simp: adopting_def mgr(1) dest: once\<close>)
qed

text \<open>After a pod has been looked at it has a controller; nothing else has changed.\<close>

definition pod_settled :: "Service \<Rightarrow> Pod \<Rightarrow> 'w store \<Rightarrow> 'w \<Rightarrow> 'w \<Rightarrow> bool" where
  "pod_settled svc obj v w w' \<longleftrightarrow> unique_keys v w' \<and> sto_services v w' = sto_services v w
     \<and> (\<exists>p. pod_key p = pod_key obj \<and> mine svc p \<and> has_controller p \<and> (owned_by svc obj \<longrightarrow> owned_by svc p)
          \<and> sto_pods v w' = insert p {q \<in> sto_pods v w. pod_key q \<noteq> pod_key obj})"

lemma unique_insert:
  assumes "unique_keys v w" and "sto_valid v w'" "sto_services v w' = sto_services v w"
    "sto_pods v w' = insert p {q \<in> sto_pods v w. pod_key q \<noteq> pod_key obj}" "pod_key p = pod_key obj"
  shows "unique_keys v w'"
  using assms by (auto simp: unique_keys_def inj_on_def)

lemma pod_settled_same:
  assumes "unique_keys v w" and "same_store v w w'" and "obj \<in> sto_pods v w" "mine svc obj" "has_controller obj"
  shows "pod_settled svc obj v w w'"
  unfolding pod_settled_def
proof (intro conjI exI)
  show "unique_keys v w'" using assms(1,2) by (simp add: same_store_unique)
  show "sto_pods v w' = insert obj {q \<in> sto_pods v w. pod_key q \<noteq> pod_key obj}"
    using assms(2,3) unique_pod [OF assms(1) _ assms(3)] by (auto simp: same_store_def)
qed (use assms in \<open>simp_all add: same_store_def\<close>)

lemma adopted_mine:
  assumes "GVKForObject GoService (svc_TypeMeta svc) s = Inr gvk" and "mine svc obj" and "GetControllerOf (pod_meta obj) = None"
    and "SetControllerReference svc (pod_meta obj) (Some s) = Return (Inr m)" and p: "stored_pod (obj\<lparr>pod_meta := m\<rparr>) p"
  shows "pod_key p = pod_key obj" "mine svc p" "owned_by svc p" "has_controller p"
proof -
  have m: "m = upsertOwnerRef (controller_ref gvk (svc_meta svc)) (pod_meta obj)"
    using assms(1,3,4) by (auto simp: SetControllerReference_def Let_def split: option.splits if_splits)
  then have meta: "om_Name m = om_Name (pod_meta obj)" "om_Namespace m = om_Namespace (pod_meta obj)"
      "om_Labels m = om_Labels (pod_meta obj)" "om_DeletionTimestamp m = om_DeletionTimestamp (pod_meta obj)"
    by (simp_all add: upsertOwnerRef_def Let_def split: option.split)
  have "GetControllerOf m = Some (controller_ref gvk (svc_meta svc))"
    using assms(3) by (simp add: m GetControllerOf_upsertOwnerRef)
  then have "GetControllerOf (pod_meta p) = Some (controller_ref gvk (svc_meta svc))"
    using p by (simp add: stored_pod_def GetControllerOf_def)
  then show "owned_by svc p" "has_controller p" by (simp_all add: owned_by_def has_controller_def controller_ref_def)
  show "pod_key p = pod_key obj" using p meta by (simp add: stored_pod_def ObjectKeyFromMeta_def)
  then show "mine svc p" using p meta assms(2)
    by (auto simp: mine_def stored_pod_def IsPodActive_def meta_labels_def ObjectKeyFromMeta_def)
qed

lemma SetControllerReference_ok:
  assumes "GVKForObject GoService (svc_TypeMeta svc) s = Inr gvk" and "om_Namespace m = om_Namespace (svc_meta svc)" and "GetControllerOf m = None"
  shows "SetControllerReference svc m (Some s) = Return (Inr (upsertOwnerRef (controller_ref gvk (svc_meta svc)) m))"
  using assms by (simp add: SetControllerReference_def validateOwner_def Let_def)

lemma upsertOwnerRef_key [simp]: "ObjectKeyFromMeta (upsertOwnerRef ref m) = ObjectKeyFromMeta m"
  by (simp add: upsertOwnerRef_def ObjectKeyFromMeta_def Let_def split: option.split)

lemma claimObject_runs:
  assumes laws: "store_api rel a y v" and u: "unique_keys v w" and s: "service_scheme s" and m: "adopting svc s mgr"
    and svc: "svc \<in> sto_services v w" "om_DeletionTimestamp (svc_meta svc) = None"
    and obj: "obj \<in> sto_pods v w" "mine svc obj" "matches obj"
  shows "runs (claimObject pr a mgr obj matches) w (\<lambda>r es w'. \<exists>m' obj' c err. r = Return (m', obj', c, err)
     \<and> rm_schema m' = Some s \<and> (rel \<longrightarrow> err = None) \<and> (err = None \<longrightarrow> adopting svc s m' \<and> pod_settled svc obj v w w' \<and> (c \<longrightarrow> pod_serves v w' svc)))"
proof (cases "GetControllerOf (pod_meta obj)")
  case (Some ref)
  have mgr: "rm_owner mgr = svc" using m by (simp add: adopting_def)
  have ps: "pod_settled svc obj v w w" using pod_settled_same [OF u same_store_refl obj(1,2)] Some by (simp add: has_controller_def)
  show ?thesis
    unfolding claimObject_def Some option.case mgr
    by (intro runs_rules) (use m ps obj Some in \<open>auto simp: pod_serves_def owned_by_def adopting_def\<close>)
next
  case None
  have mgr: "rm_owner mgr = svc" using m by (simp add: adopting_def)
  from s obtain gvk where gvk: "\<And>tm. GVKForObject GoService tm s = Inr gvk" unfolding service_scheme_def by blast
  have alive: "om_DeletionTimestamp (pod_meta obj) = None" using obj(2) by (simp add: mine_def IsPodActive_def)
  have adopt: "claimObject pr a mgr obj matches = do { r \<leftarrow> adopt pr a mgr obj; case r of
       Panic p \<Rightarrow> ret (Panic p)
     | Return (mgr, obj, Some err) \<Rightarrow>
         (if IsNotFound err then ret (Return (mgr, obj, False, None)) else ret (Return (mgr, obj, False, Some err)))
     | Return (mgr, obj, None) \<Rightarrow> ret (Return (mgr, obj, True, None)) }"
    using None svc(2) obj(3) alive by (simp add: claimObject_def mgr)
  obtain om where om: "SetControllerReference svc (pod_meta obj) (Some s) = Return (Inr om)"
    using SetControllerReference_ok [OF gvk _ None, of svc] obj(2) by (auto simp: mine_def)
  have adopted: "pod_settled svc obj v w w' \<and> pod_serves v w' svc"
    if "same_store v w w1" "updated_pod rel v w1 (obj\<lparr>pod_meta := om\<rparr>) (Inr p, w')" for w1 p w'
  proof -
    have p: "stored_pod (obj\<lparr>pod_meta := om\<rparr>) p" "sto_valid v w'" "sto_services v w' = sto_services v w"
        and pods: "sto_pods v w' = insert p {q \<in> sto_pods v w. pod_key q \<noteq> ObjectKeyFromMeta om}"
      using that by (simp_all add: updated_pod_def same_store_def)
    note am = adopted_mine [OF gvk obj(2) None om p(1)]
    have "ObjectKeyFromMeta om = pod_key obj" using am(1) p(1) by (simp add: stored_pod_def)
    with pods have pods: "sto_pods v w' = insert p {q \<in> sto_pods v w. pod_key q \<noteq> pod_key obj}" by simp
    from unique_insert [OF u p(2,3) pods am(1)] am pods p(3) show ?thesis
      by (auto simp: pod_settled_def pod_serves_def)
  qed
  have same: "ObjectKeyFromMeta om = pod_key obj" "om_ResourceVersion om = om_ResourceVersion (pod_meta obj)"
    using om by (auto simp: SetControllerReference_def upsertOwnerRef_def ObjectKeyFromMeta_def Let_def split: option.splits if_splits sum.splits)
  have live: "\<not> rel" if "same_store v w w1" "updated_pod rel v w1 (obj\<lparr>pod_meta := om\<rparr>) (Inl err, w')" for err w1 w'
    using that obj(1) by (auto simp: updated_pod_def same_store_def same)
  have "runs (adopt pr a mgr obj) w (\<lambda>r es w'. \<exists>m' obj' e. r = Return (m', obj', e) \<and> rm_schema m' = Some s \<and> (rel \<longrightarrow> e = None)
     \<and> (\<forall>err. e = Some err \<longrightarrow> \<not> IsNotFound err) \<and> (e = None \<longrightarrow> adopting svc s m' \<and> pod_settled svc obj v w w' \<and> pod_serves v w' svc))"
    unfolding adopt_def updateOwner_def
    by (rule runs_bind_use [OF canAdoptOnce_runs [OF laws u s m svc]], intro runs_rules runs_Update_Pod [OF laws])
      (use om adopted live in \<open>auto simp: adopting_def same_store_unique u\<close>)
  then show ?thesis
    unfolding adopt by (rule runs_bind_use) (intro runs_rules; auto)
qed

text \<open>After all active pods have been looked at, each has a controller.\<close>

definition pods_settled :: "Service \<Rightarrow> 'w store \<Rightarrow> 'w \<Rightarrow> 'w \<Rightarrow> bool" where
  "pods_settled svc v w w' \<longleftrightarrow> unique_keys v w' \<and> sto_services v w' = sto_services v w
     \<and> (\<forall>p\<in>sto_pods v w'. mine svc p \<longrightarrow> has_controller p) \<and> (\<forall>p\<in>sto_pods v w. \<not> IsPodActive p \<longrightarrow> p \<in> sto_pods v w')
     \<and> pod_key ` sto_pods v w' = pod_key ` sto_pods v w \<and> (pod_serves v w svc \<longrightarrow> pod_serves v w' svc)"

lemma pod_settled_step:
  assumes st: "pod_settled svc obj v w w1" and u: "unique_keys v w" and obj: "obj \<in> sto_pods v w" "mine svc obj"
    and objs: "set objs \<subseteq> sto_pods v w" "obj \<notin> set objs"
    and rest: "\<forall>p\<in>sto_pods v w. mine svc p \<and> p \<notin> set (obj # objs) \<longrightarrow> has_controller p"
  shows "unique_keys v w1" "set objs \<subseteq> sto_pods v w1" "\<forall>p\<in>sto_pods v w1. mine svc p \<and> p \<notin> set objs \<longrightarrow> has_controller p"
    and "pods_settled svc v w1 w' \<Longrightarrow> pods_settled svc v w w'"
proof -
  from st obtain p where p: "pod_key p = pod_key obj" "mine svc p" "has_controller p" "owned_by svc obj \<longrightarrow> owned_by svc p"
    and pods: "sto_pods v w1 = insert p {q \<in> sto_pods v w. pod_key q \<noteq> pod_key obj}"
    and svcs: "sto_services v w1 = sto_services v w" and u1: "unique_keys v w1"
    unfolding pod_settled_def by blast
  have once: "q = obj" if "q \<in> sto_pods v w" "pod_key q = pod_key obj" for q
    by (rule unique_pod [OF u that(1) obj(1) that(2)])
  show "unique_keys v w1" by (rule u1)
  show "set objs \<subseteq> sto_pods v w1" using objs once by (auto simp: pods)
  show "\<forall>p\<in>sto_pods v w1. mine svc p \<and> p \<notin> set objs \<longrightarrow> has_controller p" using rest p(3) by (auto simp: pods)
  assume w': "pods_settled svc v w1 w'"
  have keys: "pod_key ` sto_pods v w1 = pod_key ` sto_pods v w" using p(1) obj(1) by (auto simp: pods)
  have "pod_serves v w1 svc" if pod_serves: "pod_serves v w svc"
  proof -
    from pod_serves obtain q where q: "q \<in> sto_pods v w" "mine svc q" "owned_by svc q" by (auto simp: pod_serves_def)
    show ?thesis
    proof (cases "q = obj")
      case True
      with p q(3) show ?thesis by (auto simp: pod_serves_def pods)
    next
      case False
      with once q show ?thesis by (auto simp: pod_serves_def pods)
    qed
  qed
  moreover have "q \<in> sto_pods v w1" if "q \<in> sto_pods v w" "\<not> IsPodActive q" for q
    using that once obj(2) by (auto simp: pods mine_def)
  ultimately show "pods_settled svc v w w'" using w' svcs keys by (auto simp: pods_settled_def)
qed

lemma claim_loop_runs:
  assumes laws: "store_api rel a y v" and s: "service_scheme s" and alive: "om_DeletionTimestamp (svc_meta svc) = None"
    and "unique_keys v w" "svc \<in> sto_services v w" "adopting svc s mgr" "distinct objs" "set objs \<subseteq> sto_pods v w"
    "\<forall>obj\<in>set objs. mine svc obj \<and> matches obj" "\<forall>p\<in>sto_pods v w. mine svc p \<and> p \<notin> set objs \<longrightarrow> has_controller p"
  shows "runs (claim_loop pr a matches mgr objs) w (\<lambda>r es w'. \<exists>m claimed errs. r = Return (m, claimed, errs)
     \<and> (rel \<longrightarrow> errs = []) \<and> (errs = [] \<longrightarrow> pods_settled svc v w w' \<and> (claimed \<noteq> [] \<longrightarrow> pod_serves v w' svc)))"
  using assms(4-10)
proof (induction objs arbitrary: mgr w)
  case Nil
  then show ?case by (simp add: runs_ret pods_settled_def)
next
  case (Cons obj objs)
  have knows: "knows_service (Some s)"
    using s unfolding service_scheme_def knows_service_def by blast
  have obj: "obj \<in> sto_pods v w" "mine svc obj" "matches obj" using Cons.prems by simp_all
  show ?case
    unfolding claim_loop.simps
  proof (rule runs_bind_use [OF claimObject_runs [where matches = matches, OF laws Cons.prems(1) s Cons.prems(3,2) alive obj]],
      elim exE conjE, goal_cases)
    case (1 r es w1 m1 obj' c err)
    have tail: "runs (claim_loop pr a matches m1 objs) w1 (\<lambda>r es w'. \<exists>m claimed errs. r = Return (m, claimed, errs)
       \<and> (err = None \<longrightarrow> (rel \<longrightarrow> errs = []) \<and> (errs = [] \<longrightarrow> pods_settled svc v w1 w' \<and> (claimed \<noteq> [] \<longrightarrow> pod_serves v w' svc))))"
    proof (cases err)
      case None
      with 1(4) have st: "adopting svc s m1" "pod_settled svc obj v w w1" by simp_all
      have "obj \<notin> set objs" "set objs \<subseteq> sto_pods v w" using Cons.prems by simp_all
      note step = pod_settled_step [OF st(2) Cons.prems(1) obj(1,2) this(2,1) Cons.prems(7)]
      have "svc \<in> sto_services v w1" using st(2) Cons.prems(2) by (simp add: pod_settled_def)
      from Cons.IH [OF step(1) this st(1) _ step(2) _ step(3)] Cons.prems(4,6) show ?thesis using None by simp
    next
      case (Some e)
      have "knows_service (rm_schema m1)" using knows 1(2) by simp
      from behaves_runs [OF claim_loop_returns [OF this]] show ?thesis
        by (rule runs_weaken) (use Some in \<open>auto simp: returns_def\<close>)
    qed
    have whole: "pods_settled svc v w w' \<and> (c \<longrightarrow> pod_serves v w' svc)" if "err = None" "pods_settled svc v w1 w'" for w'
    proof
      from 1(4) that(1) have "pod_settled svc obj v w w1" by simp
      from pod_settled_step(4) [OF this Cons.prems(1) obj(1,2) _ _ Cons.prems(7) that(2)] Cons.prems(4,5)
      show "pods_settled svc v w w'" by simp
      show "c \<longrightarrow> pod_serves v w' svc" using 1(4) that by (simp add: pods_settled_def)
    qed
    show ?case
      unfolding 1(1) outcome.case prod.case
      by (rule runs_bind_use [OF tail], elim exE conjE) (cases err; use 1(3) whole in \<open>auto intro!: runs_ret\<close>)
  qed
qed

lemma claimPods_runs:
  assumes laws: "store_api rel a y v" and u: "unique_keys v w" and s: "service_scheme s" "r_Scheme r = Some s"
    and svc: "svc \<in> sto_services v w" "om_DeletionTimestamp (svc_meta svc) = None"
    and items: "distinct items" "set items = listed v w (om_Namespace (svc_meta svc)) (pod_selector svc)"
  shows "runs (claimPods a r svc (filter IsPodActive items)) w (\<lambda>res es w'. \<exists>x. res = Return x \<and> (rel \<longrightarrow> \<not> isl x)
     \<and> (\<forall>claimed. x = Inr claimed \<longrightarrow> pods_settled svc v w w' \<and> (claimed \<noteq> [] \<longrightarrow> pod_serves v w' svc)))"
proof -
  let ?mgr = "new_manager (pod_selector svc) svc (Some s)"
  have mgr: "adopting svc s ?mgr" by (simp add: adopting_def)
  have act: "set (filter IsPodActive items) = {p \<in> sto_pods v w. mine svc p}"
    using items(2) by (auto simp: listed_def mine_def)
  have pre: "set (filter IsPodActive items) \<subseteq> sto_pods v w"
      "\<forall>obj\<in>set (filter IsPodActive items). mine svc obj \<and> match_obj ?mgr [] obj"
      "\<forall>p\<in>sto_pods v w. mine svc p \<and> p \<notin> set (filter IsPodActive items) \<longrightarrow> has_controller p"
    unfolding act by (auto simp: mine_def match_new)
  note loop = claim_loop_runs [OF laws s(1) svc(2) u svc(1) mgr distinct_filter [OF items(1)] pre]
  show ?thesis
    unfolding claimPods_def ClaimOwnedObjects_def new_manager_simps(1) sum.case s(2)
    by (intro runs_rules runs_weaken [OF loop]) (auto simp: NewAggregate_Some)
qed

section \<open>Deleting\<close>

text \<open>Deleting pods leaves the others, and what it leaves of the deleted ones is not active.\<close>

definition purged :: "Pod list \<Rightarrow> 'w store \<Rightarrow> 'w \<Rightarrow> 'w \<Rightarrow> bool" where
  "purged pods v w w' \<longleftrightarrow> unique_keys v w' \<and> sto_services v w' = sto_services v w
     \<and> (\<forall>q\<in>sto_pods v w'. q \<in> sto_pods v w \<or> \<not> IsPodActive q)
     \<and> (\<forall>q\<in>sto_pods v w. pod_key q \<notin> pod_key ` set pods \<longrightarrow> q \<in> sto_pods v w')
     \<and> pod_key ` sto_pods v w' \<subseteq> pod_key ` (sto_pods v w \<union> set pods)"

lemma purged_one:
  assumes u: "unique_keys v w" and d: "deleted_pod rel v w p (d, w')" "\<not> failed d"
  shows "purged [p] v w w'"
proof (cases d)
  case None
  with d(1) have v: "sto_valid v w'" "sto_services v w' = sto_services v w"
    and "\<exists>t. pod_key t = pod_key p \<and> \<not> IsPodActive t \<and> sto_pods v w' - {t} = {q \<in> sto_pods v w. pod_key q \<noteq> pod_key p}"
    unfolding deleted_pod_def prod.case None option.case by blast+
  then obtain t where t: "pod_key t = pod_key p" "\<not> IsPodActive t"
    and pods: "sto_pods v w' - {t} = {q \<in> sto_pods v w. pod_key q \<noteq> pod_key p}" by blast
  have iff: "q \<in> sto_pods v w' - {t} \<longleftrightarrow> q \<in> sto_pods v w \<and> pod_key q \<noteq> pod_key p" for q unfolding pods by simp
  have sub: "q \<in> sto_pods v w'" if "q \<in> sto_pods v w" "pod_key q \<noteq> pod_key p" for q using iff [of q] that by blast
  have sup: "q = t \<or> q \<in> sto_pods v w \<and> pod_key q \<noteq> pod_key p" if "q \<in> sto_pods v w'" for q using iff [of q] that by blast
  have "inj_on pod_key (sto_pods v w')"
  proof (rule inj_onI)
    fix q q' assume "q \<in> sto_pods v w'" "q' \<in> sto_pods v w'" and eq: "pod_key q = pod_key q'"
    with sup have "q = t \<and> q' = t \<or> q \<in> sto_pods v w \<and> q' \<in> sto_pods v w" using t(1) by metis
    then show "q = q'" using unique_pod [OF u _ _ eq] by blast
  qed
  then have "unique_keys v w'" using u v by (simp add: unique_keys_def)
  moreover have "q \<in> sto_pods v w \<or> \<not> IsPodActive q" if "q \<in> sto_pods v w'" for q using sup [OF that] t(2) by blast
  moreover have "pod_key ` sto_pods v w' \<subseteq> pod_key ` (sto_pods v w \<union> set [p])"
  proof
    fix k assume "k \<in> pod_key ` sto_pods v w'"
    then obtain q where "q \<in> sto_pods v w'" "k = pod_key q" by blast
    with sup t(1) show "k \<in> pod_key ` (sto_pods v w \<union> set [p])" by auto
  qed
  ultimately show ?thesis using v(2) sub by (simp add: purged_def)
next
  case (Some err)
  with d have same: "same_store v w w'" by (auto simp: deleted_pod_def failed_def)
  have "unique_keys v w'" using u same_store_unique [OF same] by simp
  then show ?thesis using same unfolding purged_def same_store_def by (simp add: image_Un subset_insertI)
qed

lemma purged_trans:
  assumes "purged ps v w w1" and "purged qs v w1 w2"
  shows "purged (ps @ qs) v w w2"
proof -
  have "pod_key ` sto_pods v w2 \<subseteq> pod_key ` (sto_pods v w \<union> set (ps @ qs))"
    using assms unfolding purged_def image_Un set_append by blast
  moreover have "q \<in> sto_pods v w \<or> \<not> IsPodActive q" if "q \<in> sto_pods v w2" for q
    using assms that unfolding purged_def by blast
  moreover have "q \<in> sto_pods v w2" if "q \<in> sto_pods v w" "pod_key q \<notin> pod_key ` set (ps @ qs)" for q
    using assms that unfolding purged_def set_append image_Un by blast
  ultimately show ?thesis using assms by (simp add: purged_def)
qed

text \<open>Deleting pods that are not active changes nothing for the active ones.\<close>

lemma purge_inactive:
  assumes p: "purged inactive v w w'" and u: "unique_keys v w" and inactive: "set inactive \<subseteq> {p \<in> sto_pods v w. \<not> IsPodActive p}"
  shows "unique_keys v w'" "sto_services v w' = sto_services v w" "pod_key ` sto_pods v w' \<subseteq> pod_key ` sto_pods v w"
    and "\<forall>q\<in>sto_pods v w. mine svc q \<longrightarrow> has_controller q \<Longrightarrow> \<forall>q\<in>sto_pods v w'. mine svc q \<longrightarrow> has_controller q"
    and "pod_serves v w svc \<Longrightarrow> pod_serves v w' svc"
proof -
  show "unique_keys v w'" "sto_services v w' = sto_services v w" using p by (simp_all add: purged_def)
  show "pod_key ` sto_pods v w' \<subseteq> pod_key ` sto_pods v w" using p inactive unfolding purged_def image_Un by blast
  show "\<forall>q\<in>sto_pods v w'. mine svc q \<longrightarrow> has_controller q" if "\<forall>q\<in>sto_pods v w. mine svc q \<longrightarrow> has_controller q"
    using p that unfolding purged_def mine_def by blast
  have keep: "q \<in> sto_pods v w'" if "q \<in> sto_pods v w" "IsPodActive q" for q
  proof -
    have "pod_key q \<noteq> pod_key i" if "i \<in> set inactive" for i
      using unique_pod [OF u, of q i] inactive that \<open>q \<in> sto_pods v w\<close> \<open>IsPodActive q\<close> by blast
    then have "pod_key q \<notin> pod_key ` set inactive" by blast
    with p that(1) show ?thesis unfolding purged_def by blast
  qed
  show "pod_serves v w' svc" if "pod_serves v w svc" using keep that unfolding pod_serves_def mine_def by blast
qed

lemma delete_pods_runs:
  assumes laws: "store_api rel a y v" and "unique_keys v w"
  shows "runs (delete_pods a wrap pods) w (\<lambda>errs es w'. (rel \<longrightarrow> errs = []) \<and> (errs = [] \<longrightarrow> purged pods v w w'))"
  using assms(2)
proof (induction pods arbitrary: w)
  case Nil
  then show ?case by (auto simp: purged_def intro!: runs_ret)
next
  case (Cons pod pods)
  show ?case
    unfolding delete_pods.simps
  proof (rule runs_bind, rule runs_Delete_Pod [OF laws Cons.prems])
    fix d w1 assume d: "deleted_pod rel v w pod (d, w1)"
    have ok: "rel \<longrightarrow> \<not> failed d" using d by (auto simp: deleted_pod_def failed_def split: option.splits)
    have tail: "runs (delete_pods a wrap pods) w1 (\<lambda>errs es w'. \<not> failed d \<longrightarrow> (rel \<longrightarrow> errs = [])
       \<and> (errs = [] \<longrightarrow> purged (pod # pods) v w w'))"
    proof (cases "failed d")
      case False
      from purged_one [OF Cons.prems d False] have p1: "purged [pod] v w w1" .
      then have "unique_keys v w1" by (simp add: purged_def)
      from Cons.IH [OF this] show ?thesis
        by (rule runs_weaken) (use purged_trans [OF p1] in auto)
    next
      case True
      from behaves_runs [OF delete_pods_behaves] show ?thesis by (rule runs_weaken) (use True in auto)
    qed
    show "runs (State_Monad.bind (delete_pods a wrap pods) (\<lambda>errsList. ret (case d of
         Some err \<Rightarrow> if \<not> IsNotFound err then wrap err # errsList else errsList | None \<Rightarrow> errsList))) w1
       (\<lambda>errs fs w'. (rel \<longrightarrow> errs = []) \<and> (errs = [] \<longrightarrow> purged (pod # pods) v w w'))"
      by (rule runs_bind_use [OF tail], rule runs_ret) (use ok in \<open>auto simp: failed_def split: option.splits\<close>)
  qed
qed

section \<open>The finalizer and the pod\<close>

text \<open>The service as it is stored after the finalizer has been taken care of.\<close>

definition same_service :: "Service \<Rightarrow> Service \<Rightarrow> bool" where
  "same_service svc svc' \<longleftrightarrow> svc_key svc' = svc_key svc \<and> om_UID (svc_meta svc') = om_UID (svc_meta svc)
     \<and> om_Annotations (svc_meta svc') = om_Annotations (svc_meta svc) \<and> svc_Type svc' = svc_Type svc
     \<and> om_DeletionTimestamp (svc_meta svc') = om_DeletionTimestamp (svc_meta svc)"

lemma same_service_same:
  assumes "same_service svc svc'"
  shows "pod_selector svc' = pod_selector svc" "mine svc' p = mine svc p" "owned_by svc' p = owned_by svc p"
    "pod_serves v w svc' = pod_serves v w svc" "needs_cleanup svc' = needs_cleanup svc"
proof -
  from assms have meta: "om_Name (svc_meta svc') = om_Name (svc_meta svc)" "om_Namespace (svc_meta svc') = om_Namespace (svc_meta svc)"
      "om_UID (svc_meta svc') = om_UID (svc_meta svc)" by (simp_all add: same_service_def ObjectKeyFromMeta_def)
  then show sel: "pod_selector svc' = pod_selector svc" by (simp add: pod_selector_def)
  show m: "mine svc' p = mine svc p" and o1: "owned_by svc' p = owned_by svc p" for p
    by (simp_all add: mine_def owned_by_def sel meta)
  show "pod_serves v w svc' = pod_serves v w svc" by (simp add: pod_serves_def m o1)
  show "needs_cleanup svc' = needs_cleanup svc" using assms by (simp add: needs_cleanup_def same_service_def)
qed

lemma ensure_finalizer_runs:
  assumes laws: "store_api rel a y v" and u: "unique_keys v w" and svc: "svc \<in> sto_services v w" "om_DeletionTimestamp (svc_meta svc) = None"
  shows "runs (ensure_finalizer a req svc) w (\<lambda>r es w'. (rel \<longrightarrow> \<not> isl r) \<and> (\<forall>svc'. r = Inr svc' \<longrightarrow> same_service svc svc'
     \<and> FinalizerName \<in> set (om_Finalizers (svc_meta svc')) \<and> svc' \<in> sto_services v w' \<and> unique_keys v w' \<and> sto_pods v w' = sto_pods v w))"
proof -
  have alive: "om_DeletionTimestamp (svc_meta (with_finalizer svc)) = None" and key: "svc_key (with_finalizer svc) = svc_key svc"
      and version: "om_ResourceVersion (svc_meta (with_finalizer svc)) = om_ResourceVersion (svc_meta svc)"
    using svc(2) by (simp_all add: with_finalizer_def ObjectKeyFromMeta_def)
  have added: "same_service svc svc' \<and> FinalizerName \<in> set (om_Finalizers (svc_meta svc')) \<and> svc' \<in> sto_services v w'
      \<and> unique_keys v w' \<and> sto_pods v w' = sto_pods v w" if up: "updated_service rel v w (with_finalizer svc) (Inr svc', w')" for svc' w'
  proof -
    from up have st: "stored_service (with_finalizer svc) svc'" and v: "sto_valid v w'" "sto_pods v w' = sto_pods v w"
      and svcs: "sto_services v w' = insert svc' {s \<in> sto_services v w. svc_key s \<noteq> svc_key svc}"
      unfolding updated_service_def by (simp_all add: key)
    have key': "svc_key svc' = svc_key svc" using st key by (simp add: stored_service_def)
    have "unique_keys v w'" using u v svcs key' by (auto simp: unique_keys_def inj_on_def)
    then show ?thesis using st v svcs key' svc(2)
      by (simp add: stored_service_def same_service_def with_finalizer_def)
  qed
  have live: "\<not> rel" if "updated_service rel v w (with_finalizer svc) (Inl err, w')" for err w'
    using that svc(1) by (auto simp: updated_service_def key version)
  show ?thesis
    unfolding ensure_finalizer_def
    by (intro runs_rules runs_Update_Service [OF laws u alive])
      (use added live svc u in \<open>auto simp: same_service_def\<close>)
qed

text \<open>What the creation of a pod needs: a template that parses, is active and belongs to nobody, and a name that is not taken.\<close>

definition template_ok :: "ServiceReconciler \<Rightarrow> bool" where
  "template_ok r \<longleftrightarrow> (\<exists>t. r_yaml r (r_PodTemplate r) = Inr t \<and> IsPodActive t \<and> GetControllerOf (pod_meta t) = None)"

definition base_name :: "ServiceReconciler \<Rightarrow> string" where
  "base_name r = (case r_yaml r (r_PodTemplate r) of Inl _ \<Rightarrow> defaultBaseName
     | Inr t \<Rightarrow> if om_Name (pod_meta t) \<noteq> [] then om_Name (pod_meta t) else defaultBaseName)"

definition new_key :: "'w sys \<Rightarrow> ServiceReconciler \<Rightarrow> Service \<Rightarrow> 'w \<Rightarrow> NamespacedName" where
  "new_key y r svc w = \<lparr>nn_Namespace = om_Namespace (svc_meta svc),
     nn_Name = GenerateName (base_name r @ ''-'' @ om_Name (svc_meta svc)) (fst (sys_rand y randomLength w))\<rparr>"

lemma generated_mine:
  assumes "pod_for svc suffix p" and "p = t\<lparr>pod_meta := pod_meta p\<rparr>" and "IsPodActive t"
    and "om_DeletionTimestamp (pod_meta p) = om_DeletionTimestamp (pod_meta t)"
  shows "mine svc p \<and> owned_by svc p"
proof -
  from arg_cong [OF assms(2), of pod_Phase] have "pod_Phase p = pod_Phase t" by simp
  with assms(1,3,4) show ?thesis by (simp add: mine_def pod_for_def IsPodActive_def)
qed

lemma generatePod_mine:
  assumes t: "r_yaml r (r_PodTemplate r) = Inr t" "IsPodActive t"
  shows "behaves (generatePod y r svc) (\<lambda>res es. \<forall>p. res = Return (Inr p) \<longrightarrow> mine svc p \<and> owned_by svc p)"
proof (rule behaves_weaken [OF generatePod_behaves], intro allI impI, elim conjE, drule spec, drule (1) mp, elim exE conjE)
  fix p suffix t' assume t': "r_yaml r (r_PodTemplate r) = Inr t'" and p: "pod_for svc suffix p" "p = t'\<lparr>pod_meta := pod_meta p\<rparr>"
    "om_DeletionTimestamp (pod_meta p) = om_DeletionTimestamp (pod_meta t')"
  have "t' = t" using t(1) t' by simp
  then have "IsPodActive t'" using t(2) by simp
  from generated_mine [OF p(1,2) this p(3)] show "mine svc p \<and> owned_by svc p" .
qed

lemma generatePod_runs:
  assumes laws: "store_api rel a y v" and u: "unique_keys v w" and s: "service_scheme s" "r_Scheme r = Some s" and t: "template_ok r"
  shows "runs (generatePod y r svc) w (\<lambda>res es w'. same_store v w w' \<and> (\<exists>p. res = Return (Inr p) \<and> pod_key p = new_key y r svc w
     \<and> mine svc p \<and> owned_by svc p))"
proof -
  from s(1) obtain gvk where gvk: "\<And>tm. GVKForObject GoService tm s = Inr gvk" unfolding service_scheme_def by blast
  from t obtain t where t: "r_yaml r (r_PodTemplate r) = Inr t" "IsPodActive t" "GetControllerOf (pod_meta t) = None"
    unfolding template_ok_def by blast
  define m where "m suffix = (let m = (if om_Labels (pod_meta t) = None then (pod_meta t)\<lparr>om_Labels := Some []\<rparr> else pod_meta t)
    in m\<lparr>om_Namespace := om_Namespace (svc_meta svc), om_Name := GenerateName (base_name r @ ''-'' @ om_Name (svc_meta svc)) suffix\<rparr>)" for suffix
  have refs: "om_OwnerReferences (m suffix) = om_OwnerReferences (pod_meta t)" "om_Namespace (m suffix) = om_Namespace (svc_meta svc)"
      "om_Name (m suffix) = GenerateName (base_name r @ ''-'' @ om_Name (svc_meta svc)) suffix" for suffix
    by (simp_all add: m_def)
  have ref: "SetControllerReference svc (m suffix) (Some s) = Return (Inr (upsertOwnerRef (controller_ref gvk (svc_meta svc)) (m suffix)))" for suffix
    using t(3) by (intro SetControllerReference_ok gvk refs) (simp add: GetControllerOf_def refs)
  have base: "(if om_Name (if om_Labels (pod_meta t) = None then (pod_meta t)\<lparr>om_Labels := Some []\<rparr> else pod_meta t) \<noteq> []
      then om_Name (if om_Labels (pod_meta t) = None then (pod_meta t)\<lparr>om_Labels := Some []\<rparr> else pod_meta t) else defaultBaseName) = base_name r"
    by (simp add: base_name_def t(1))
  have "runs (generatePod y r svc) w (\<lambda>res es w'. same_store v w w' \<and> (\<exists>p. res = Return (Inr p) \<and> pod_key p = new_key y r svc w))"
    unfolding generatePod_def t(1) sum.case Let_def base s(2) m_def [unfolded Let_def, symmetric] ref outcome.case
    by (intro runs_rules runs_Rand_String [OF laws u])
      (simp add: new_key_def ObjectKeyFromMeta_def refs upsertOwnerRef_def Let_def split: option.split)
  from runs_conj [OF this behaves_runs [OF generatePod_mine [OF t(1,2)]]] show ?thesis
    by (rule runs_weaken) blast
qed

lemma ensure_pod_runs:
  assumes laws: "store_api rel a y v" and u: "unique_keys v w" and s: "service_scheme s" "r_Scheme r = Some s" and t: "template_ok r"
    and pods: "\<forall>p\<in>sto_pods v w. mine svc p \<longrightarrow> has_controller p" "claimed \<noteq> [] \<longrightarrow> pod_serves v w svc"
  shows "runs (ensure_pod a y r svc claimed) w (\<lambda>res es w'. \<exists>x. res = Return x
     \<and> (rel \<and> new_key y r svc w \<notin> pod_key ` sto_pods v w \<longrightarrow> x = None)
     \<and> (x = None \<longrightarrow> unique_keys v w' \<and> sto_services v w' = sto_services v w \<and> pod_serves v w' svc
          \<and> (\<forall>p\<in>sto_pods v w'. mine svc p \<longrightarrow> has_controller p)))"
proof (cases "claimed = []")
  case False
  with u pods show ?thesis unfolding ensure_pod_def by (auto intro!: runs_ret)
next
  case True
  have created: "unique_keys v w' \<and> sto_services v w' = sto_services v w \<and> pod_serves v w' svc
      \<and> (\<forall>p\<in>sto_pods v w'. mine svc p \<longrightarrow> has_controller p)"
    if w1: "same_store v w w1" and p: "mine svc p" "owned_by svc p" and c: "created_pod rel v w1 p (Inr p', w')" for w1 p p' w'
  proof -
    from c w1 have c: "stored_pod p p'" "sto_valid v w'" "sto_services v w' = sto_services v w" "\<forall>q\<in>sto_pods v w. pod_key q \<noteq> pod_key p"
      "sto_pods v w' = insert p' (sto_pods v w)" by (simp_all add: created_pod_def same_store_def)
    have key: "pod_key p' = pod_key p" using c(1) by (simp add: stored_pod_def)
    with p c(1) have "mine svc p'" "owned_by svc p'"
      by (auto simp: mine_def owned_by_def stored_pod_def ObjectKeyFromMeta_def meta_labels_def GetControllerOf_def)
    moreover from this have "has_controller p'" by (auto simp: has_controller_def owned_by_def)
    moreover have "unique_keys v w'" using u c(2-5) key by (auto simp: unique_keys_def inj_on_def)
    ultimately show ?thesis using c pods(1) by (auto simp: pod_serves_def)
  qed
  have taken: "pod_key p \<in> pod_key ` sto_pods v w" if "same_store v w w1" "created_pod rel v w1 p (Inl err, w')" rel for w1 p err w'
  proof -
    from that obtain q where "q \<in> sto_pods v w" "pod_key p = pod_key q" by (auto simp: created_pod_def same_store_def)
    then show ?thesis by (rule rev_image_eqI)
  qed
  show ?thesis
    unfolding ensure_pod_def True
  proof (subst if_P, simp, rule runs_bind_use [OF generatePod_runs [OF laws u s t]], elim conjE exE, goal_cases)
    case (1 res es w1 p)
    then have w1: "same_store v w w1" and res: "res = Return (Inr p)" and key: "pod_key p = new_key y r svc w"
      and p: "mine svc p" "owned_by svc p" by blast+
    have full: "new_key y r svc w \<in> pod_key ` sto_pods v w" if "created_pod rel v w1 p (Inl err, w')" rel for err w'
      using taken [OF w1 that] key by simp
    have "unique_keys v w1" using u same_store_unique [OF w1] by simp
    then show ?case
      unfolding res outcome.case sum.case
      by (intro runs_rules runs_Create_Pod [OF laws])
        (use created [OF w1 p] full in auto)
  qed
qed

section \<open>A run settles the service\<close>

text \<open>Whatever the random suffix is, a new name is not one of those in use.\<close>

definition name_free :: "'w sys \<Rightarrow> 'w store \<Rightarrow> ServiceReconciler \<Rightarrow> Service \<Rightarrow> 'w \<Rightarrow> bool" where
  "name_free y v r svc w \<longleftrightarrow> (\<forall>w'. pod_key ` sto_pods v w' \<subseteq> pod_key ` sto_pods v w \<longrightarrow> new_key y r svc w' \<notin> pod_key ` sto_pods v w)"

lemma settledI:
  assumes "unique_keys v w" and "svc \<in> sto_services v w" "svc_key svc = req" "\<not> needs_cleanup svc"
    "FinalizerName \<in> set (om_Finalizers (svc_meta svc))" "\<forall>p\<in>sto_pods v w. mine svc p \<longrightarrow> has_controller p" "pod_serves v w svc"
  shows "settled v req w"
  unfolding settled_def using assms by blast

lemma reconcile_claimed_runs:
  assumes laws: "store_api rel a y v" and s: "service_scheme s" "r_Scheme r = Some s" and t: "template_ok r"
    and svc: "svc \<in> sto_services v w" "\<not> needs_cleanup svc" "svc_key svc = req" and u: "unique_keys v w"
    and claim: "pods_settled svc v w w1" "claimed \<noteq> [] \<longrightarrow> pod_serves v w1 svc"
    and inactive: "set inactive \<subseteq> {p \<in> sto_pods v w. \<not> IsPodActive p}"
  shows "runs (reconcile_claimed a y r req svc inactive claimed) w1 (\<lambda>res es w'. \<exists>x. res = Return x
     \<and> (rel \<and> name_free y v r svc w \<longrightarrow> x = None) \<and> (x = None \<longrightarrow> settled v req w'))"
proof -
  have alive: "om_DeletionTimestamp (svc_meta svc) = None" using svc(2) by (simp add: needs_cleanup_def)
  have w1: "unique_keys v w1" "sto_services v w1 = sto_services v w" "\<forall>p\<in>sto_pods v w1. mine svc p \<longrightarrow> has_controller p"
    "set inactive \<subseteq> sto_pods v w1" "pod_key ` sto_pods v w1 = pod_key ` sto_pods v w"
    using claim(1) inactive by (auto simp: pods_settled_def)
  show ?thesis
    unfolding reconcile_claimed_def
  proof (rule runs_bind_use [OF delete_pods_runs [OF laws w1(1)]], goal_cases)
    case (1 errs es w2)
    show ?case
    proof (cases "errs = []")
      case False
      with 1 show ?thesis by (auto intro!: runs_ret simp: NewAggregate_Some)
    next
      case True
      with 1 have p: "purged inactive v w1 w2" by simp
      have "set inactive \<subseteq> {p \<in> sto_pods v w1. \<not> IsPodActive p}" using w1(4) inactive by blast
      note gone = purge_inactive [OF p w1(1) this]
      have u2: "unique_keys v w2" and svc2: "svc \<in> sto_services v w2" using gone(1,2) svc(1) w1(2) by simp_all
      have c2: "\<forall>q\<in>sto_pods v w2. mine svc q \<longrightarrow> has_controller q" by (rule gone(4) [OF w1(3)])
      have serves2: "claimed \<noteq> [] \<longrightarrow> pod_serves v w2 svc" using claim(2) gone(5) by blast
      have keys2: "pod_key ` sto_pods v w2 \<subseteq> pod_key ` sto_pods v w" using gone(3) w1(5) by simp
      have pod: "runs (ensure_pod a y r svc' claimed) w3 (\<lambda>res es w'. \<exists>x. res = Return x
          \<and> (rel \<and> name_free y v r svc w \<longrightarrow> x = None) \<and> (x = None \<longrightarrow> settled v req w'))"
        if f: "same_service svc svc'" "FinalizerName \<in> set (om_Finalizers (svc_meta svc'))" "svc' \<in> sto_services v w3" "unique_keys v w3"
          "sto_pods v w3 = sto_pods v w2" for svc' w3
      proof -
        note same = same_service_same [OF f(1)]
        have "\<forall>q\<in>sto_pods v w3. mine svc' q \<longrightarrow> has_controller q" "claimed \<noteq> [] \<longrightarrow> pod_serves v w3 svc'"
          using c2 serves2 f(5) by (simp_all add: same pod_serves_def)
        from ensure_pod_runs [OF laws f(4) s t this] show ?thesis
        proof (rule runs_weaken, elim exE conjE, goal_cases)
          case (1 res es w' x)
          have "new_key y r svc' w3 \<notin> pod_key ` sto_pods v w3" if "name_free y v r svc w"
          proof -
            have "new_key y r svc' w3 = new_key y r svc w3" using f(1) by (simp add: new_key_def same_service_def ObjectKeyFromMeta_def)
            with that keys2 show ?thesis unfolding name_free_def f(5) by (metis f(5) subsetD)
          qed
          moreover have "settled v req w'" if "x = None"
          proof (rule settledI)
            show "unique_keys v w'" "svc' \<in> sto_services v w'" "pod_serves v w' svc'" "\<forall>q\<in>sto_pods v w'. mine svc' q \<longrightarrow> has_controller q"
              using 1 that f(3) by simp_all
            show "svc_key svc' = req" using f(1) svc(3) by (simp add: same_service_def)
            show "\<not> needs_cleanup svc'" "FinalizerName \<in> set (om_Finalizers (svc_meta svc'))" using svc(2) f(2) same(5) by simp_all
          qed
          ultimately show ?case using 1 by blast
        qed
      qed
      show ?thesis
        using True svc(2) by (simp, intro runs_rules runs_weaken [OF ensure_finalizer_runs [OF laws u2 svc2 alive]]) (auto intro!: pod)
    qed
  qed
qed

lemma settledE:
  assumes "settled v req w"
  obtains svc where "unique_keys v w" "svc \<in> sto_services v w" "svc_key svc = req" "\<not> needs_cleanup svc"
    "FinalizerName \<in> set (om_Finalizers (svc_meta svc))" "\<forall>p\<in>sto_pods v w. mine svc p \<longrightarrow> has_controller p" "pod_serves v w svc"
  using assms unfolding settled_def by blast

lemma listed_same: "same_store v w w' \<Longrightarrow> listed v w' ns sel = listed v w ns sel"
  by (simp add: listed_def same_store_def)

text \<open>The calls of a run that changes nothing of note: reads, and deletions of pods that are no longer active.\<close>

definition quiet :: "event \<Rightarrow> bool" where
  "quiet e = (case e of EvGetService _ _ \<Rightarrow> True | EvListPods _ _ _ \<Rightarrow> True | EvDeletePod p _ \<Rightarrow> \<not> IsPodActive p | _ \<Rightarrow> False)"

text \<open>The reads at the beginning of a run.\<close>

lemma Reconcile_reads:
  assumes laws: "store_api rel a y v" and u: "unique_keys v w" and svc: "svc \<in> sto_services v w" "svc_key svc = req"
    and failure: "\<And>err es w'. \<not> rel \<Longrightarrow> list_all quiet es \<Longrightarrow> Q (Return (Some err)) es w'"
    and claims: "\<And>items es w'. same_store v w w' \<Longrightarrow> distinct items \<Longrightarrow> set items = listed v w (om_Namespace (svc_meta svc)) (pod_selector svc)
      \<Longrightarrow> es = [EvGetService req (Inr svc), EvListPods (om_Namespace (svc_meta svc)) (pod_selector svc) (Inr items)]
      \<Longrightarrow> runs (State_Monad.bind (claimPods a r svc (filter IsPodActive items)) (\<lambda>c. case c of
             Panic p \<Rightarrow> ret (Panic p)
           | Return (Inl err) \<Rightarrow> ret (Return (Some err))
           | Return (Inr claimedPods) \<Rightarrow> reconcile_claimed a y r req svc (filter (\<lambda>p. \<not> IsPodActive p) items) claimedPods)) w'
           (\<lambda>b fs. Q b (es @ fs))"
  shows "runs (ServiceReconciler_Reconcile a y r req) w Q"
  unfolding ServiceReconciler_Reconcile_def Reconcile_with_def getOwnedPods_def
proof (rule runs_bind, rule runs_Get_Service [OF laws u], goal_cases)
  case (1 g w1)
  then have w1: "same_store v w w1" by (simp add: got_service_def)
  have u1: "unique_keys v w1" using u same_store_unique [OF w1] by simp
  show ?case
  proof (cases g)
    case (Inl err)
    with 1 svc have "\<not> rel" "\<not> IsNotFound err" by (auto simp: got_service_def)
    with failure Inl show ?thesis by (simp add: runs_ret quiet_def)
  next
    case (Inr x)
    with 1 have "x \<in> sto_services v w" "svc_key x = svc_key svc" using svc(2) by (simp_all add: got_service_def)
    then have x: "x = svc" using unique_service [OF u _ svc(1)] by blast
    show ?thesis
      unfolding Inr x sum.case
    proof (rule runs_bind, rule runs_bind, rule runs_List_Pods [OF laws u1], goal_cases)
      case (1 l w2)
      then have w2: "same_store v w w2" using same_store_trans [OF w1] by (simp add: listed_pods_def)
      show ?case
      proof (cases l)
        case (Inl err)
        with 1 failure show ?thesis by (auto simp: listed_pods_def quiet_def intro!: runs_ret)
      next
        case (Inr items)
        with 1 listed_same [OF w1] have "distinct items" "set items = listed v w (om_Namespace (svc_meta svc)) (pod_selector svc)"
          by (simp_all add: listed_pods_def)
        from claims [OF w2 this refl] Inr show ?thesis by (simp add: split_active_filter runs_ret)
      qed
    qed
  qed
qed

lemma Reconcile_settles:
  assumes laws: "store_api rel a y v" and s: "service_scheme s" "r_Scheme r = Some s" and t: "template_ok r"
    and u: "unique_keys v w" and svc: "svc \<in> sto_services v w" "svc_key svc = req" "\<not> needs_cleanup svc"
  shows "runs (ServiceReconciler_Reconcile a y r req) w (\<lambda>res es w'. \<exists>x. res = Return x
     \<and> (rel \<and> name_free y v r svc w \<longrightarrow> x = None) \<and> (x = None \<longrightarrow> settled v req w'))"
proof (rule Reconcile_reads [OF laws u svc(1,2)], simp, goal_cases)
  case (1 items es w1)
  have alive: "om_DeletionTimestamp (svc_meta svc) = None" using svc(3) by (simp add: needs_cleanup_def)
  have u1: "unique_keys v w1" using u same_store_unique [OF 1(1)] by simp
  have svc1: "svc \<in> sto_services v w1" using svc(1) 1(1) by (simp add: same_store_def)
  have items: "set items = listed v w1 (om_Namespace (svc_meta svc)) (pod_selector svc)" using 1(1,3) by (simp add: listed_same)
  have inactive: "set (filter (\<lambda>p. \<not> IsPodActive p) items) \<subseteq> {p \<in> sto_pods v w1. \<not> IsPodActive p}"
    unfolding set_filter items listed_def by blast
  have free: "name_free y v r svc w1 = name_free y v r svc w" using 1(1) by (simp add: name_free_def same_store_def)
  show ?case
  proof (rule runs_bind_use [OF claimPods_runs [OF laws u1 s svc1 alive 1(2) items]], elim exE conjE, goal_cases)
    case (1 c fs w2 x)
    show ?case
    proof (cases x)
      case (Inl err)
      with 1 show ?thesis by (simp add: runs_ret)
    next
      case (Inr claimed)
      with 1 have "pods_settled svc v w1 w2" "claimed \<noteq> [] \<longrightarrow> pod_serves v w2 svc" by simp_all
      from reconcile_claimed_runs [OF laws s t svc1 svc(3,2) u1 this inactive] 1(1) Inr show ?thesis
        by (simp add: free)
    qed
  qed
qed

section \<open>A settled service is left alone\<close>

lemma claimObject_settled:
  assumes "has_controller obj" and "matches obj"
  shows "claimObject pr a mgr obj matches = ret (Return (mgr, obj, owned_by (rm_owner mgr) obj, None))"
  using assms by (auto simp: claimObject_def has_controller_def owned_by_def)

lemma claim_loop_settled:
  assumes "\<forall>obj\<in>set objs. has_controller obj \<and> matches obj"
  shows "claim_loop pr a matches mgr objs = ret (Return (mgr, filter (owned_by (rm_owner mgr)) objs, []))"
  using assms by (induction objs) (simp_all add: claimObject_settled)

lemma claimPods_settled:
  assumes "\<forall>obj\<in>set objs. has_controller obj \<and> mine svc obj"
  shows "claimPods a r svc objs = ret (Return (Inr (filter (owned_by svc) objs)))"
proof -
  have "\<forall>obj\<in>set objs. has_controller obj \<and> match_obj (new_manager (pod_selector svc) svc (r_Scheme r)) [] obj"
    using assms by (simp add: mine_def match_new)
  from claim_loop_settled [OF this, of "r_printers r" a "new_manager (pod_selector svc) svc (r_Scheme r)"] show ?thesis
    by (simp add: claimPods_def ClaimOwnedObjects_def NewAggregate_def)
qed

lemma Reconcile_stays:
  assumes laws: "store_api rel a y v" and st: "settled v req w"
  shows "runs (ServiceReconciler_Reconcile a y r req) w (\<lambda>res es w'. list_all quiet es \<and> (\<exists>x. res = Return x
     \<and> (rel \<longrightarrow> x = None) \<and> (x = None \<longrightarrow> settled v req w')))"
proof -
  from st obtain svc where u: "unique_keys v w" and svc: "svc \<in> sto_services v w" "svc_key svc = req" "\<not> needs_cleanup svc"
    "FinalizerName \<in> set (om_Finalizers (svc_meta svc))" and ctl: "\<forall>p\<in>sto_pods v w. mine svc p \<longrightarrow> has_controller p" and sv: "pod_serves v w svc"
    by (rule settledE)
  show ?thesis
  proof (rule Reconcile_reads [OF laws u svc(1,2)], goal_cases)
    case (2 items es w1)
    have u1: "unique_keys v w1" using u same_store_unique [OF 2(1)] by simp
    have act: "p \<in> set (filter IsPodActive items) \<longleftrightarrow> p \<in> sto_pods v w \<and> mine svc p" for p
      using 2(3) by (auto simp: listed_def mine_def)
    let ?claimed = "filter (owned_by svc) (filter IsPodActive items)" and ?inactive = "filter (\<lambda>p. \<not> IsPodActive p) items"
    from sv act have claimed: "?claimed \<noteq> []" by (auto simp: pod_serves_def filter_empty_conv)
    have dels: "list_all quiet (map2 EvDeletePod ?inactive ds)" for ds
      unfolding list_all_iff by (fastforce simp: quiet_def dest: set_zip_leftD)
    have "runs (reconcile_claimed a y r req svc ?inactive ?claimed) w1 (\<lambda>res es w'. list_all quiet es \<and> (\<exists>x. res = Return x
        \<and> (rel \<longrightarrow> x = None) \<and> (x = None \<longrightarrow> settled v req w')))"
      unfolding reconcile_claimed_def
    proof (rule runs_bind_use [OF runs_conj [OF delete_pods_runs [OF laws u1] behaves_runs [OF delete_pods_behaves]]], elim conjE exE, goal_cases)
      case (1 errs fs w2 ds)
      have fs: "list_all quiet fs" unfolding 1(4) by (rule dels)
      show ?case
      proof (cases "errs = []")
        case False
        with 1 fs show ?thesis by (auto intro!: runs_ret simp: NewAggregate_Some)
      next
        case True
        with 1 have p: "purged ?inactive v w1 w2" by simp
        have "set ?inactive \<subseteq> {p \<in> sto_pods v w1. \<not> IsPodActive p}"
          using 2(1,3) by (auto simp: listed_def same_store_def)
        note gone = purge_inactive [OF p u1 this]
        have "\<forall>p\<in>sto_pods v w1. mine svc p \<longrightarrow> has_controller p" "pod_serves v w1 svc" "svc \<in> sto_services v w1"
          using ctl sv svc(1) 2(1) by (simp_all add: same_store_def pod_serves_def)
        with settledI [OF gone(1) _ svc(2-4) gone(4,5)] gone(2) have "settled v req w2" by simp
        then show ?thesis
          using True svc(3,4) claimed fs
          by (auto simp: ensure_finalizer_def ensure_pod_def intro!: runs_ret)
      qed
    qed
    then show ?case
      using claimPods_settled [of "filter IsPodActive items" svc a r] act ctl 2(4)
      by (simp add: quiet_def del: set_filter)
  qed simp
qed

section \<open>Reconciliation converges\<close>

lemma ex_scheme_service: "service_scheme ex_scheme"
  by (simp add: service_scheme_def ex_scheme_def Scheme_ObjectKinds_def Scheme_New_def GVKForObject_def)

lemma ex_template_ok: "template_ok ex_reconciler"
  by (simp add: template_ok_def ex_reconciler_def ex_defs IsPodActive_def PodSucceeded_def PodFailed_def GetControllerOf_def)



text \<open>A service with one pod, which has failed, on the cluster in memory.\<close>

definition ex_failed :: mem where
  "ex_failed = ex_mem [ex_service] [ex_orphan\<lparr>pod_Phase := PodFailed\<rparr>]"

lemma ex_failed_ok:
  "unique_keys mem_store ex_failed" "ex_service \<in> sto_services mem_store ex_failed" "svc_key ex_service = ex_key"
  "\<not> needs_cleanup ex_service" "name_free ex_sys mem_store ex_reconciler ex_service ex_failed"
  by (simp_all add: unique_keys_def mem_store_def ex_failed_def ex_defs ObjectKeyFromMeta_def needs_cleanup_def name_free_def new_key_def
      GenerateName_def base_name_def ex_reconciler_def defaultBaseName_def MaxGeneratedNameLength_def maxNameLength_def randomLength_def
      map_get_def)



end
