(* ===== verification/Go_Fmt.thy ===== *)
theory Go_Fmt
  imports Go_Errors
begin

text \<open>
  \<^verbatim>\<open>fmt.Errorf(format)\<close> with no operands, which the program applies to a text it received from
  the network.  The loop of \<^verbatim>\<open>fmt.doPrintf\<close> is followed byte by byte: every directive lacks its
  operand, so it is replaced by one of the \<^verbatim>\<open>%!\<close> markers.
\<close>

section \<open>UTF-8\<close>

definition in_range :: "nat \<Rightarrow> nat \<Rightarrow> char \<Rightarrow> bool" where
  "in_range lo hi c \<longleftrightarrow> lo \<le> of_char c \<and> of_char c \<le> hi"

definition is_cont :: "char \<Rightarrow> bool" where
  "is_cont = in_range 0x80 0xBF"

text \<open>\<^verbatim>\<open>utf8.DecodeRuneInString\<close>: the number of bytes of the first rune, and the bytes that are
  written for it (the replacement character for an invalid sequence).\<close>

definition utf8_len :: "string \<Rightarrow> nat option" where
  "utf8_len s = (case s of
     [] \<Rightarrow> None
   | a # t \<Rightarrow>
       if of_char a < (0x80 :: nat) then Some 1
       else if in_range 0xC2 0xDF a
         then (case t of b # _ \<Rightarrow> if is_cont b then Some 2 else None | _ \<Rightarrow> None)
       else if in_range 0xE0 0xEF a
         then (case t of b # c # _ \<Rightarrow>
                 if in_range (if a = CHR 0xE0 then 0xA0 else 0x80) (if a = CHR 0xED then 0x9F else 0xBF) b
                    \<and> is_cont c then Some 3 else None
               | _ \<Rightarrow> None)
       else if in_range 0xF0 0xF4 a
         then (case t of b # c # d # _ \<Rightarrow>
                 if in_range (if a = CHR 0xF0 then 0x90 else 0x80) (if a = CHR 0xF4 then 0x8F else 0xBF) b
                    \<and> is_cont c \<and> is_cont d then Some 4 else None
               | _ \<Rightarrow> None)
       else None)"

definition next_rune :: "string \<Rightarrow> string \<times> string" where
  "next_rune s = (case utf8_len s of
     Some n \<Rightarrow> (take n s, drop n s)
   | None \<Rightarrow> ([CHR 0xEF, CHR 0xBF, CHR 0xBD], drop 1 s))"

section \<open>Directives without operands\<close>

definition is_digit :: "char \<Rightarrow> bool" where
  "is_digit c = in_range 48 57 c"

definition is_flag :: "char \<Rightarrow> bool" where
  "is_flag c \<longleftrightarrow> c \<in> {CHR ''#'', CHR ''0'', CHR ''+'', CHR ''-'', CHR '' ''}"

definition starts :: "char \<Rightarrow> string \<Rightarrow> bool" where
  "starts c s \<longleftrightarrow> s \<noteq> [] \<and> hd s = c"

text \<open>\<^verbatim>\<open>parsenum\<close>: whether a number was read, and what follows it.  A number above a million
  that goes on swallows the rest of the format.\<close>

fun parsenum :: "nat \<Rightarrow> bool \<Rightarrow> string \<Rightarrow> bool \<times> string" where
  "parsenum num isnum [] = (isnum, [])"
| "parsenum num isnum (c # s) =
     (if is_digit c
      then if num > 1000000 then (False, []) else parsenum (num * 10 + (of_char c - 48)) True s
      else (isnum, c # s))"

text \<open>\<^verbatim>\<open>p.argNumber\<close> for an empty operand list: whether an index was found, what follows it, and
  whether the argument number is still good.\<close>

definition parse_index :: "string \<Rightarrow> bool \<times> string" where
  "parse_index s =
     (if length s < 3 then (False, drop 1 s)
      else let body = takeWhile (\<lambda>c. c \<noteq> CHR '']'') (tl s); rest = dropWhile (\<lambda>c. c \<noteq> CHR '']'') (tl s) in
        if rest = [] then (False, drop 1 s)
        else (parsenum 0 False body = (True, []), tl rest))"

definition arg_number :: "string \<Rightarrow> bool \<Rightarrow> bool \<times> string \<times> bool" where
  "arg_number s good =
     (if starts (CHR ''['') s then (let (found, rest) = parse_index s in (found, rest, False))
      else (False, s, good))"

definition bang :: "string \<Rightarrow> string \<Rightarrow> string" where
  "bang verb what = ''%!'' @ verb @ ''('' @ what @ '')''"

text \<open>Width and precision: what is printed, whether an index was read just before, what remains, and
  whether the argument number is good.\<close>

definition width_part :: "bool \<Rightarrow> string \<Rightarrow> bool \<Rightarrow> string \<times> bool \<times> string \<times> bool" where
  "width_part after s good =
     (if starts (CHR ''*'') s then (''%!(BADWIDTH)'', False, tl s, good)
      else let (widPresent, t) = parsenum 0 False s in
        ([], after, t, if after \<and> widPresent then False else good))"

definition prec_part :: "bool \<Rightarrow> string \<Rightarrow> bool \<Rightarrow> string \<times> bool \<times> string \<times> bool" where
  "prec_part after s good =
     (if starts (CHR ''.'') s
      then (let (after, u, good) = arg_number (tl s) (if after then False else good) in
        if starts (CHR ''*'') u then (''%!(BADPREC)'', False, tl u, good)
        else ([], after, snd (parsenum 0 False u), good))
      else ([], after, s, good))"

definition verb_part :: "string \<Rightarrow> bool \<Rightarrow> string \<times> string" where
  "verb_part s good =
     (if s = [] then (''%!(NOVERB)'', [])
      else let (verb, rest) = next_rune s in
        (if verb = ''%'' then ''%'' else if \<not> good then bang verb ''BADINDEX'' else bang verb ''MISSING'', rest))"

text \<open>One directive, from the byte after the \<^verbatim>\<open>%\<close>: what is printed and what remains.\<close>

definition directive :: "string \<Rightarrow> string \<times> string" where
  "directive s =
     (let (after, s, good) = arg_number (dropWhile is_flag s) True;
          (out_w, after, s, good) = width_part after s good;
          (out_p, after, s, good) = prec_part after s good;
          (after, s, good) = (if \<not> after then arg_number s good else (after, s, good));
          (out_v, s) = verb_part s good
      in (out_w @ out_p @ out_v, s))"

section \<open>Termination\<close>

lemma length_parsenum: "length (snd (parsenum num isnum s)) \<le> length s"
  by (induction num isnum s rule: parsenum.induct) auto

lemma length_parse_index: "length (snd (parse_index s)) \<le> length s"
proof -
  have "length (tl (dropWhile P (tl s))) \<le> length s" for P :: "char \<Rightarrow> bool"
    using length_dropWhile_le [of P "tl s"] by simp
  then show ?thesis by (simp add: parse_index_def Let_def)
qed

lemma length_arg_number: "length (fst (snd (arg_number s good))) \<le> length s"
  using length_parse_index [of s] by (auto simp: arg_number_def split: prod.splits)

lemma length_next_rune: "length (snd (next_rune s)) \<le> length s"
  by (simp add: next_rune_def split: option.split)

lemma length_width_part: "length (fst (snd (snd (width_part after s good)))) \<le> length s"
  using length_parsenum [of 0 False s]
  by (auto simp: width_part_def split: prod.split)

lemma length_prec_part: "length (fst (snd (snd (prec_part after s good)))) \<le> length s"
proof -
  obtain a u g where n: "arg_number (tl s) (if after then False else good) = (a, u, g)" by (metis prod_cases3)
  then have "length u \<le> length s" using length_arg_number [of "tl s" "if after then False else good"] by simp
  moreover have "length (snd (parsenum 0 False u)) \<le> length u" by (rule length_parsenum)
  ultimately show ?thesis using n by (auto simp: prec_part_def)
qed

lemma length_verb_part: "length (snd (verb_part s good)) \<le> length s"
  using length_next_rune [of s] by (auto simp: verb_part_def split: prod.split)

lemma length_directive: "length (snd (directive s)) \<le> length s"
proof -
  obtain a1 s1 g1 where 1: "arg_number (dropWhile is_flag s) True = (a1, s1, g1)" by (metis prod_cases3)
  obtain o2 a2 s2 g2 where 2: "width_part a1 s1 g1 = (o2, a2, s2, g2)" by (metis prod_cases4)
  obtain o3 a3 s3 g3 where 3: "prec_part a2 s2 g2 = (o3, a3, s3, g3)" by (metis prod_cases4)
  obtain a4 s4 g4 where 4: "(if \<not> a3 then arg_number s3 g3 else (a3, s3, g3)) = (a4, s4, g4)" by (metis prod_cases3)
  have "length s1 \<le> length s"
    using length_arg_number [of "dropWhile is_flag s" True] length_dropWhile_le [of is_flag s] 1 by simp
  moreover have "length s2 \<le> length s1" using length_width_part [of a1 s1 g1] 2 by simp
  moreover have "length s3 \<le> length s2" using length_prec_part [of a2 s2 g2] 3 by simp
  moreover have "length s4 \<le> length s3" using length_arg_number [of s3 g3] 4 by (auto split: if_splits)
  moreover have "length (snd (verb_part s4 g4)) \<le> length s4" by (rule length_verb_part)
  ultimately have "length (snd (verb_part s4 g4)) \<le> length s" by linarith
  then show ?thesis using 1 2 3 4 by (auto simp: directive_def split: prod.split)
qed

section \<open>The loop\<close>

function Sprintf0 :: "string \<Rightarrow> string" where
  "Sprintf0 [] = []"
| "Sprintf0 (c # s) =
     (if c = CHR ''%'' then fst (directive s) @ Sprintf0 (snd (directive s)) else c # Sprintf0 s)"
  by pat_completeness auto
termination
  by (relation "measure length") (auto simp: length_directive le_imp_less_Suc)

definition Errorf0 :: "string \<Rightarrow> go_error" where
  "Errorf0 format = ErrorString (Sprintf0 format)"

text \<open>A text without a percent sign is reported as it is.\<close>

lemma Sprintf0_plain: "CHR ''%'' \<notin> set s \<Longrightarrow> Sprintf0 s = s"
  by (induction s) auto

end
