(* ===== verification/Frp_Client.thy ===== *)
theory Frp_Client
  imports Mem_Cluster Go_Fmt
begin

text \<open>
  \<^verbatim>\<open>pkg/utils/frpclient/validate.go\<close>: the health check of an frp server.  The spec is turned into
  a client configuration, TLS material is written to temporary files, and one login is
  exchanged with the server.  Deferred calls are made explicit by \<open>finally\<close>, which also runs
  them when the body panics, in the reverse order of their registration.
\<close>

section \<open>Ports and configuration\<close>

definition ValidatePort :: "int \<Rightarrow> go_error option" where
  "ValidatePort port =
     (if 0 \<le> port \<and> port \<le> 65535 then None
      else Some (ErrorString (''port number '' @ itoa port @ '' must be in the range 0..65535'')))"

definition oidc_config :: "FrpServerAuthOIDC \<Rightarrow> AuthOIDCClientConfig" where
  "oidc_config c = \<lparr>oc_ClientID = oidc_ClientID c, oc_ClientSecret = oidc_ClientSecret c,
     oc_Audience = oidc_Audience c, oc_Scope = oidc_Scope c,
     oc_TokenEndpointURL = oidc_TokenEndpointURL c,
     oc_AdditionalEndpointParams = oidc_AdditionalEndpointParams c\<rparr>"

definition auth_config :: "FrpServerAuth \<Rightarrow> AuthClientConfig" where
  "auth_config c = \<lparr>ac_Method = auth_Method c, ac_AdditionalScopes = auth_AdditionalScopes c,
     ac_Token = auth_Token c,
     ac_OIDC = (case auth_OIDC c of None \<Rightarrow> zero_OIDC | Some oidc \<Rightarrow> oidc_config oidc)\<rparr>"

definition transport_config :: "FrpServerTransport \<Rightarrow> ClientTransportConfig" where
  "transport_config t = \<lparr>ct_Protocol = tr_Protocol t, ct_DialServerTimeout = tr_DialServerTimeout t,
     ct_DialServerKeepAlive = tr_DialServerKeepAlive t,
     ct_ConnectServerLocalIP = tr_ConnectServerLocalIP t, ct_ProxyURL = tr_ProxyURL t,
     ct_PoolCount = tr_PoolCount t, ct_TCPMux = tr_TCPMux t,
     ct_TCPMuxKeepaliveInterval = tr_TCPMuxKeepaliveInterval t,
     ct_QUIC = (case tr_QUIC t of None \<Rightarrow> zero_QUIC
        | Some q \<Rightarrow> \<lparr>qo_KeepalivePeriod = quic_KeepalivePeriod q, qo_MaxIdleTimeout = quic_MaxIdleTimeout q,
                     qo_MaxIncomingStreams = quic_MaxIncomingStreams q\<rparr>),
     ct_HeartbeatInterval = tr_HeartbeatInterval t, ct_HeartbeatTimeout = tr_HeartbeatTimeout t,
     ct_TLS = \<lparr>tcc_Enable = Some (tls_SecretRef (tr_TLS t) \<noteq> None),
        tcc_DisableCustomTLSFirstByte = tls_DisableCustomTLSFirstByte (tr_TLS t),
        tcc_TLSConfig = \<lparr>tc_CertFile = [], tc_KeyFile = [], tc_TrustedCaFile = [],
           tc_ServerName = tls_ServerName (tr_TLS t)\<rparr>\<rparr>\<rparr>"

definition common_config :: "FrpServerSpec \<Rightarrow> ClientCommonConfig" where
  "common_config s = \<lparr>cc_Auth = auth_config (spec_Auth s), cc_User = spec_User s,
     cc_ServerAddr = spec_ServerAddr s, cc_ServerPort = spec_ServerPort s,
     cc_NatHoleSTUNServer = spec_NatHoleSTUNServer s, cc_DNSServer = spec_DNSServer s,
     cc_LoginFailExit = spec_LoginFailExit s, cc_Start = [], cc_Log = zero_Log,
     cc_WebServer = zero_WebServer, cc_Transport = transport_config (spec_Transport s),
     cc_UDPPacketSize = spec_UDPPacketSize s, cc_Metadatas = spec_Metadatas s,
     cc_IncludeConfigFiles = []\<rparr>"

definition update_tls :: "(TLSConfig \<Rightarrow> TLSConfig) \<Rightarrow> ClientCommonConfig \<Rightarrow> ClientCommonConfig" where
  "update_tls f c = (let t = cc_Transport c; tls = ct_TLS t in
     c\<lparr>cc_Transport := t\<lparr>ct_TLS := tls\<lparr>tcc_TLSConfig := f (tcc_TLSConfig tls)\<rparr>\<rparr>\<rparr>)"

definition enable_tls :: "ClientCommonConfig \<Rightarrow> ClientCommonConfig" where
  "enable_tls c = (let t = cc_Transport c in
     c\<lparr>cc_Transport := t\<lparr>ct_TLS := (ct_TLS t)\<lparr>tcc_Enable := Some True\<rparr>\<rparr>\<rparr>)"

section \<open>Authentication (vendored frp/pkg/auth)\<close>

datatype Setter =
    TokenAuthSetterVerifier "string list" string
  | OidcAuthProvider "string list" credentials_Config

definition NewOidcAuthSetter :: "string list \<Rightarrow> AuthOIDCClientConfig \<Rightarrow> Setter" where
  "NewOidcAuthSetter scopes cfg =
     (let eps = map (\<lambda>(k, v). (k, [v])) (case oc_AdditionalEndpointParams cfg of None \<Rightarrow> [] | Some m \<Rightarrow> m);
          eps = (if oc_Audience cfg \<noteq> [] then AList.update ''audience'' [oc_Audience cfg] eps else eps)
      in OidcAuthProvider scopes \<lparr>cr_ClientID = oc_ClientID cfg, cr_ClientSecret = oc_ClientSecret cfg,
           cr_Scopes = [oc_Scope cfg], cr_TokenURL = oc_TokenEndpointURL cfg, cr_EndpointParams = eps\<rparr>)"

definition NewAuthSetter :: "AuthClientConfig \<Rightarrow> Setter outcome" where
  "NewAuthSetter cfg =
     (if ac_Method cfg = ''token'' then Return (TokenAuthSetterVerifier (ac_AdditionalScopes cfg) (ac_Token cfg))
      else if ac_Method cfg = ''oidc'' then Return (NewOidcAuthSetter (ac_AdditionalScopes cfg) (ac_OIDC cfg))
      else Panic (''wrong method: '' @ quoted (ac_Method cfg)))"

definition GetAuthKey :: "'w sys \<Rightarrow> string \<Rightarrow> int \<Rightarrow> string" where
  "GetAuthKey y token timestamp = sys_md5_hex y (token @ itoa timestamp)"

definition generateAccessToken :: "'w sys \<Rightarrow> credentials_Config \<Rightarrow> ('w, go_error + string) act" where
  "generateAccessToken y gen = do {
     r \<leftarrow> Token y gen;
     case r of
       Inl err \<Rightarrow> ret (Inl (ErrorString (''couldn't generate OIDC token for login: '' @ Error err)))
     | Inr tok \<Rightarrow> ret (Inr tok) }"

text \<open>\<^verbatim>\<open>SetLogin\<close> returns the login message with its key, or the error.\<close>

definition SetLogin :: "'w sys \<Rightarrow> Setter \<Rightarrow> Login \<Rightarrow> ('w, go_error + Login) act" where
  "SetLogin y setter loginMsg = (case setter of
     TokenAuthSetterVerifier _ token \<Rightarrow>
       ret (Inr (loginMsg\<lparr>lg_PrivilegeKey := GetAuthKey y token (lg_Timestamp loginMsg)\<rparr>))
   | OidcAuthProvider _ gen \<Rightarrow> do {
       r \<leftarrow> generateAccessToken y gen;
       case r of
         Inl err \<Rightarrow> ret (Inl err)
       | Inr tok \<Rightarrow> ret (Inr (loginMsg\<lparr>lg_PrivilegeKey := tok\<rparr>)) })"

section \<open>The exchange\<close>

definition finally_do :: "('w, 'a) act \<Rightarrow> ('w, 'b) act \<Rightarrow> ('w, 'a) act" where
  "finally_do body cleanup = do { r \<leftarrow> body; cleanup; ret r }"

text \<open>From the hostname to the verdict.  \<open>SetReadDeadline y conn True\<close> sets a deadline ten seconds
  ahead, \<open>False\<close> clears it.\<close>

definition login_exchange ::
    "'w sys \<Rightarrow> ClientCommonConfig \<Rightarrow> Setter \<Rightarrow> nat \<Rightarrow> ('w, go_error option outcome) act" where
  "login_exchange y cfg authSetter conn = do {
     h \<leftarrow> Hostname y;
     case h of
       Inl err \<Rightarrow> ret (Return (Some err))
     | Inr hostname \<Rightarrow> do {
         now \<leftarrow> Now y;
         let loginMsg = \<lparr>lg_Version = frp_version, lg_Hostname = hostname, lg_Os = sys_GOOS y,
               lg_Arch = sys_GOARCH y, lg_User = cc_User cfg, lg_PrivilegeKey = [], lg_Timestamp = now,
               lg_RunID = [], lg_Metas = None,
               lg_ClientSpec = \<lparr>csp_Type = [], csp_AlwaysAuthPass = False\<rparr>,
               lg_PoolCount = ct_PoolCount (cc_Transport cfg)\<rparr>;
         s \<leftarrow> SetLogin y authSetter loginMsg;
         case s of
           Inl err \<Rightarrow> ret (Return (Some err))
         | Inr loginMsg \<Rightarrow> do {
             w \<leftarrow> WriteMsg y conn loginMsg;
             case w of
               Some err \<Rightarrow> ret (Return (Some err))
             | None \<Rightarrow> do {
                 SetReadDeadline y conn True;
                 m \<leftarrow> ReadMsgInto y conn;
                 case m of
                   Inl err \<Rightarrow> ret (Return (Some err))
                 | Inr loginRespMsg \<Rightarrow> do {
                     SetReadDeadline y conn False;
                     if lr_Error loginRespMsg \<noteq> [] then ret (Return (Some (Errorf0 (lr_Error loginRespMsg))))
                     else ret (Return None) } } } } }"

text \<open>From \<^verbatim>\<open>commonConfig.Complete()\<close> on.\<close>

definition check_config :: "'w sys \<Rightarrow> ClientCommonConfig \<Rightarrow> ('w, go_error option outcome) act" where
  "check_config y c =
     (let cfg = ClientCommonConfig_Complete (sys_http_proxy y) c in
      case snd (ValidateClientCommonConfig (sys_include_error y) cfg) of
        Some err \<Rightarrow> ret (Return (Some err))
      | None \<Rightarrow> (case NewAuthSetter (cc_Auth cfg) of
          Panic p \<Rightarrow> ret (Panic p)
        | Return authSetter \<Rightarrow>
            finally_do (do {
              opened \<leftarrow> Connector_Open y cfg;
              case opened of
                Some err \<Rightarrow> ret (Return (Some err))
              | None \<Rightarrow> do {
                  r \<leftarrow> Connector_Connect y;
                  case r of
                    Inl err \<Rightarrow> ret (Return (Some err))
                  | Inr conn \<Rightarrow> finally_do (login_exchange y cfg authSetter conn) (Conn_Close y conn) } })
              (Connector_Close y)))"

section \<open>TLS material\<close>

text \<open>A temporary file that is closed and removed when the body is done.\<close>

definition close_and_remove :: "'w sys \<Rightarrow> string \<Rightarrow> ('w, go_error option) act" where
  "close_and_remove y f = do { File_Close y f; File_Remove y f }"

definition temp_error :: "go_error \<Rightarrow> go_error" where
  "temp_error err = WrapError (''unable create temp file, got: '' @ quoted (Error err)) err"

text \<open>The error for a missing entry formats a nil error with \<^verbatim>\<open>%w\<close>.\<close>

definition missing_error :: "string \<Rightarrow> NamespacedName \<Rightarrow> go_error" where
  "missing_error name key = ErrorString (''file '' @ quoted name @ '' not found on secret ''
     @ quoted (nn_String key) @ '', got: %!w(<nil>)'')"

definition content_error :: "string \<Rightarrow> NamespacedName \<Rightarrow> go_error \<Rightarrow> go_error" where
  "content_error name key err = WrapError (''file '' @ quoted name @ '' has incorrect content on secret ''
     @ quoted (nn_String key) @ '', got: '' @ Error err) err"

definition with_ca ::
    "'w sys \<Rightarrow> NamespacedName \<Rightarrow> Secret \<Rightarrow> ClientCommonConfig \<Rightarrow> ('w, go_error option outcome) act" where
  "with_ca y key secretObj c =
     (case map_of (sec_Data secretObj) DefaultCaFileName of
        None \<Rightarrow> check_config y c
      | Some caData \<Rightarrow> do {
          f \<leftarrow> CreateTemp y ''ca'';
          case f of
            Inl err \<Rightarrow> ret (Return (Some (temp_error err)))
          | Inr caFile \<Rightarrow> finally_do (do {
              w \<leftarrow> File_Write y caFile caData;
              case w of
                Some err \<Rightarrow> ret (Return (Some (content_error DefaultCaFileName key err)))
              | None \<Rightarrow> check_config y (update_tls (\<lambda>t. t\<lparr>tc_TrustedCaFile := caFile\<rparr>) c) })
              (close_and_remove y caFile) })"

definition with_key ::
    "'w sys \<Rightarrow> NamespacedName \<Rightarrow> Secret \<Rightarrow> ClientCommonConfig \<Rightarrow> ('w, go_error option outcome) act" where
  "with_key y key secretObj c = do {
     f \<leftarrow> CreateTemp y ''key'';
     case f of
       Inl err \<Rightarrow> ret (Return (Some (temp_error err)))
     | Inr keyFile \<Rightarrow> finally_do
         (case map_of (sec_Data secretObj) DefaultKeyFileName of
            None \<Rightarrow> ret (Return (Some (missing_error DefaultKeyFileName key)))
          | Some keyData \<Rightarrow> do {
              w \<leftarrow> File_Write y keyFile keyData;
              case w of
                Some err \<Rightarrow> ret (Return (Some (content_error DefaultCertFileName key err)))
              | None \<Rightarrow> with_ca y key secretObj (update_tls (\<lambda>t. t\<lparr>tc_KeyFile := keyFile\<rparr>) c) })
         (close_and_remove y keyFile) }"

definition with_cert ::
    "'w sys \<Rightarrow> NamespacedName \<Rightarrow> Secret \<Rightarrow> ClientCommonConfig \<Rightarrow> ('w, go_error option outcome) act" where
  "with_cert y key secretObj c = do {
     f \<leftarrow> CreateTemp y ''cert'';
     case f of
       Inl err \<Rightarrow> ret (Return (Some (temp_error err)))
     | Inr certFile \<Rightarrow> finally_do
         (case map_of (sec_Data secretObj) DefaultCertFileName of
            None \<Rightarrow> ret (Return (Some (missing_error DefaultCertFileName key)))
          | Some certData \<Rightarrow> do {
              w \<leftarrow> File_Write y certFile certData;
              case w of
                Some err \<Rightarrow> ret (Return (Some (content_error DefaultCertFileName key err)))
              | None \<Rightarrow> with_key y key secretObj (update_tls (\<lambda>t. t\<lparr>tc_CertFile := certFile\<rparr>) c) })
         (close_and_remove y certFile) }"

definition ValidateFrpServerConfig ::
    "'w api \<Rightarrow> 'w sys \<Rightarrow> FrpServer \<Rightarrow> ('w, go_error option outcome) act" where
  "ValidateFrpServerConfig a y obj =
     (let c = common_config (fs_Spec obj) in
      case tls_SecretRef (tr_TLS (spec_Transport (fs_Spec obj))) of
        None \<Rightarrow> check_config y c
      | Some sref \<Rightarrow> do {
          let key = \<lparr>nn_Namespace = sr_Namespace sref, nn_Name = sr_Name sref\<rparr>;
          let c = enable_tls c;
          s \<leftarrow> Get_Secret a key;
          case s of
            Inl err \<Rightarrow> ret (Return (Some (WrapError (''unable get secret '' @ quoted (nn_String key)
              @ '', got: '' @ quoted (Error err)) err)))
          | Inr secretObj \<Rightarrow> with_cert y key secretObj c })"

section \<open>Resources\<close>

text \<open>The resources a run holds, as a stack: temporary files, the connector and a connection.  A call
  on a resource is possible only while it is held, and only the last one can be given back.\<close>

datatype resource = TempFile string | ConnectorRes | Conn nat

definition holding :: "resource \<Rightarrow> resource list \<Rightarrow> resource list option" where
  "holding r st = (if r \<in> set st then Some st else None)"

definition give_back :: "resource \<Rightarrow> resource list \<Rightarrow> resource list option" where
  "give_back r st = (if st \<noteq> [] \<and> hd st = r then Some (tl st) else None)"

definition resource_step :: "resource list \<Rightarrow> event \<Rightarrow> resource list option" where
  "resource_step st e = (case e of
     EvCreateTemp _ (Inr f) \<Rightarrow> Some (TempFile f # st)
   | EvWrite f _ _ \<Rightarrow> holding (TempFile f) st
   | EvClose f _ \<Rightarrow> holding (TempFile f) st
   | EvRemove f _ \<Rightarrow> give_back (TempFile f) st
   | EvOpen _ _ \<Rightarrow> Some (ConnectorRes # st)
   | EvConnect (Inr c) \<Rightarrow> Option.bind (holding ConnectorRes st) (\<lambda>st. Some (Conn c # st))
   | EvConnect (Inl _) \<Rightarrow> holding ConnectorRes st
   | EvWriteMsg c _ _ \<Rightarrow> holding (Conn c) st
   | EvReadDeadline c _ \<Rightarrow> holding (Conn c) st
   | EvReadMsg c _ \<Rightarrow> holding (Conn c) st
   | EvCloseConn c \<Rightarrow> give_back (Conn c) st
   | EvCloseConnector \<Rightarrow> give_back ConnectorRes st
   | _ \<Rightarrow> Some st)"

fun run_resources :: "resource list \<Rightarrow> event list \<Rightarrow> resource list option" where
  "run_resources st [] = Some st"
| "run_resources st (e # es) = Option.bind (resource_step st e) (\<lambda>st. run_resources st es)"

text \<open>Calls that leave the stack as they found it, whatever is on it, and calls that do so on top of
  a resource.\<close>

definition balanced :: "event list \<Rightarrow> bool" where
  "balanced es \<longleftrightarrow> (\<forall>st. run_resources st es = Some st)"

definition within :: "resource \<Rightarrow> event list \<Rightarrow> bool" where
  "within r es \<longleftrightarrow> (\<forall>st. run_resources (r # st) es = Some (r # st))"

lemma run_resources_append [simp]:
  "run_resources st (xs @ ys) = Option.bind (run_resources st xs) (\<lambda>st. run_resources st ys)"
  by (induction xs arbitrary: st) (auto split: Option.bind_split)

lemma balanced_within: "balanced es \<Longrightarrow> within r es"
  by (simp add: balanced_def within_def)

lemma balanced_file:
  "within (TempFile f) es \<Longrightarrow> balanced (EvCreateTemp pat (Inr f) # es @ [EvClose f c, EvRemove f d])"
  by (simp add: balanced_def within_def resource_step_def holding_def give_back_def)

lemma within_write: "within (TempFile f) es \<Longrightarrow> within (TempFile f) (EvWrite f d w # es)"
  by (simp add: within_def resource_step_def holding_def)

section \<open>What the health check does\<close>

definition accepted :: "event list \<Rightarrow> bool" where
  "accepted es \<longleftrightarrow> (\<exists>c resp. EvReadMsg c (Inr resp) \<in> set es \<and> lr_Error resp = [])"

lemma accepted_simps [simp]:
  "\<not> accepted []" "accepted (xs @ ys) \<longleftrightarrow> accepted xs \<or> accepted ys"
  "accepted (e # es) \<longleftrightarrow> (\<exists>c resp. e = EvReadMsg c (Inr resp) \<and> lr_Error resp = []) \<or> accepted es"
  by (auto simp: accepted_def)

definition login_for :: "'w sys \<Rightarrow> ClientCommonConfig \<Rightarrow> Login \<Rightarrow> bool" where
  "login_for y cfg m \<longleftrightarrow> lg_User m = cc_User cfg \<and> lg_PoolCount m = ct_PoolCount (cc_Transport cfg)
     \<and> lg_Version m = frp_version \<and> lg_Metas m = None
     \<and> (ac_Method (cc_Auth cfg) = ''token''
          \<longrightarrow> lg_PrivilegeKey m = sys_md5_hex y (ac_Token (cc_Auth cfg) @ itoa (lg_Timestamp m)))"

definition call_ok :: "'w sys \<Rightarrow> (ClientCommonConfig \<Rightarrow> bool) \<Rightarrow> event \<Rightarrow> bool" where
  "call_ok y P e = (case e of
     EvOpen cfg _ \<Rightarrow> P cfg \<and> snd (ValidateClientCommonConfig (sys_include_error y) cfg) = None
   | EvWriteMsg _ m _ \<Rightarrow> \<exists>cfg. P cfg \<and> login_for y cfg m
   | _ \<Rightarrow> True)"

lemma call_ok_mono: "call_ok y P e \<Longrightarrow> (\<And>cfg. P cfg \<Longrightarrow> Q cfg) \<Longrightarrow> call_ok y Q e"
  by (cases e) (auto simp: call_ok_def)

definition check_post ::
    "'w sys \<Rightarrow> (ClientCommonConfig \<Rightarrow> bool) \<Rightarrow> go_error option outcome \<Rightarrow> event list \<Rightarrow> bool" where
  "check_post y P r es \<longleftrightarrow> (\<exists>e. r = Return e) \<and> balanced es \<and> (r = Return None \<longleftrightarrow> accepted es)
     \<and> list_all (call_ok y P) es"

lemma login_exchange_behaves:
  assumes "NewAuthSetter (cc_Auth cfg) = Return setter"
  shows "behaves (login_exchange y cfg setter conn) (\<lambda>r es. (\<exists>e. r = Return e) \<and> within (Conn conn) es
     \<and> (r = Return None \<longleftrightarrow> accepted es) \<and> list_all (call_ok y (\<lambda>c. c = cfg)) es)"
proof -
  have key: "behaves (SetLogin y setter m) (\<lambda>r es. list_all (\<lambda>e. \<exists>c x. e = EvToken c x) es
     \<and> (\<forall>m'. r = Inr m' \<longrightarrow> (\<exists>k. m' = m\<lparr>lg_PrivilegeKey := k\<rparr>
         \<and> (ac_Method (cc_Auth cfg) = ''token''
              \<longrightarrow> k = sys_md5_hex y (ac_Token (cc_Auth cfg) @ itoa (lg_Timestamp m))))))" for m
    using assms unfolding SetLogin_def generateAccessToken_def NewAuthSetter_def NewOidcAuthSetter_def Let_def
    by (cases setter) (auto simp: GetAuthKey_def split: if_splits intro!: behaves_rules)
  have tok: "run_resources st es = Some st" "\<not> accepted es" "list_all (call_ok y P) es"
    if "list_all (\<lambda>e. \<exists>c x. e = EvToken c x) es" for es P st
    using that by (induction es) (auto simp: resource_step_def call_ok_def)
  show ?thesis
    unfolding login_exchange_def Let_def
    by (intro behaves_rules behaves_weaken [OF key])
      (auto simp: tok within_def resource_step_def holding_def call_ok_def login_for_def)
qed

lemma NewAuthSetter_supported:
  "ac_Method cfg \<in> set SupportedAuthMethods \<Longrightarrow> \<exists>setter. NewAuthSetter cfg = Return setter"
  by (auto simp: NewAuthSetter_def SupportedAuthMethods_def)

lemma check_config_behaves:
  "behaves (check_config y c) (check_post y (\<lambda>cfg. cfg = ClientCommonConfig_Complete (sys_http_proxy y) c))"
proof (cases "snd (ValidateClientCommonConfig (sys_include_error y) (ClientCommonConfig_Complete (sys_http_proxy y) c))")
  case (Some err)
  then show ?thesis
    by (simp add: check_config_def) (rule behaves_ret, simp add: check_post_def balanced_def)
next
  case None
  let ?cfg = "ClientCommonConfig_Complete (sys_http_proxy y) c"
  from None have "ac_Method (cc_Auth ?cfg) \<in> set SupportedAuthMethods"
    by (simp add: ValidateClientCommonConfig_ok_iff)
  from NewAuthSetter_supported [OF this] obtain setter where setter: "NewAuthSetter (cc_Auth ?cfg) = Return setter" ..
  show ?thesis
    unfolding check_config_def Let_def None setter finally_do_def
    by (simp, intro behaves_rules behaves_weaken [OF login_exchange_behaves [OF setter]])
      (auto simp: check_post_def balanced_def within_def resource_step_def holding_def give_back_def call_ok_def None)
qed

lemma check_post_mono:
  "check_post y P r es \<Longrightarrow> (\<And>cfg. P cfg \<Longrightarrow> Q cfg) \<Longrightarrow> check_post y Q r es"
  by (auto simp: check_post_def list_all_iff intro: call_ok_mono)

text \<open>A run on top of a temporary file, and one that fails.\<close>

lemma check_post_file:
  assumes "check_post y P r es"
  shows "check_post y P r (EvCreateTemp pat (Inr f) # EvWrite f d w # es @ [EvClose f c, EvRemove f x])"
  using assms balanced_file [OF within_write [OF balanced_within], of es pat f d w c x]
  by (simp add: check_post_def call_ok_def)

lemma check_post_fails:
  "check_post y P (Return (Some e)) []"
  "check_post y P (Return (Some e)) [EvCreateTemp pat (Inl err)]"
  "check_post y P (Return (Some e)) [EvCreateTemp pat (Inr f), EvClose f c, EvRemove f x]"
  "check_post y P (Return (Some e)) [EvCreateTemp pat (Inr f), EvWrite f d w, EvClose f c, EvRemove f x]"
  by (simp_all add: check_post_def balanced_def resource_step_def holding_def give_back_def call_ok_def)

text \<open>The configuration up to the names of the TLS files.\<close>

definition forget_files :: "ClientCommonConfig \<Rightarrow> ClientCommonConfig" where
  "forget_files = update_tls (\<lambda>t. t\<lparr>tc_CertFile := [], tc_KeyFile := [], tc_TrustedCaFile := []\<rparr>)"

definition completes :: "'w sys \<Rightarrow> ClientCommonConfig \<Rightarrow> ClientCommonConfig \<Rightarrow> bool" where
  "completes y c cfg \<longleftrightarrow> forget_files cfg = forget_files (ClientCommonConfig_Complete (sys_http_proxy y) c)"

lemma completes_refl: "completes y c (ClientCommonConfig_Complete (sys_http_proxy y) c)"
  by (simp add: completes_def)

lemma completes_files:
  "completes y (update_tls (\<lambda>t. t\<lparr>tc_CertFile := f\<rparr>) c) = completes y c"
  "completes y (update_tls (\<lambda>t. t\<lparr>tc_KeyFile := f\<rparr>) c) = completes y c"
  "completes y (update_tls (\<lambda>t. t\<lparr>tc_TrustedCaFile := f\<rparr>) c) = completes y c"
  by (simp_all add: fun_eq_iff completes_def forget_files_def update_tls_def ClientCommonConfig_Complete_def
      ClientTransportConfig_Complete_def TLSClientConfig_Complete_def Let_def)

lemma check_config_completes: "behaves (check_config y c) (check_post y (completes y c))"
  by (rule behaves_weaken [OF check_config_behaves], erule check_post_mono) (simp add: completes_refl)

lemma with_ca_behaves: "behaves (with_ca y key sec c) (check_post y (completes y c))"
  unfolding with_ca_def finally_do_def close_and_remove_def
  by (intro behaves_rules behaves_weaken [OF check_config_completes])
    (auto simp: completes_files intro: check_post_file check_post_fails)

lemma with_key_behaves: "behaves (with_key y key sec c) (check_post y (completes y c))"
  unfolding with_key_def finally_do_def close_and_remove_def
  by (intro behaves_rules behaves_weaken [OF with_ca_behaves])
    (auto simp: completes_files intro: check_post_file check_post_fails)

lemma with_cert_behaves: "behaves (with_cert y key sec c) (check_post y (completes y c))"
  unfolding with_cert_def finally_do_def close_and_remove_def
  by (intro behaves_rules behaves_weaken [OF with_key_behaves])
    (auto simp: completes_files intro: check_post_file check_post_fails)

lemma enable_tls_id: "tls_SecretRef (tr_TLS (spec_Transport s)) \<noteq> None \<Longrightarrow> enable_tls (common_config s) = common_config s"
  by (simp add: enable_tls_def common_config_def transport_config_def)

lemma ValidateFrpServerConfig_behaves:
  "behaves (ValidateFrpServerConfig a y obj) (check_post y (completes y (common_config (fs_Spec obj))))"
proof (cases "tls_SecretRef (tr_TLS (spec_Transport (fs_Spec obj)))")
  case None
  then show ?thesis by (simp add: ValidateFrpServerConfig_def check_config_completes)
next
  case (Some sref)
  have get: "check_post y P r (EvGetSecret k s # es)" if "check_post y P r es" for P r k s es
    using that by (auto simp: check_post_def balanced_def resource_step_def call_ok_def)
  from Some show ?thesis
    unfolding ValidateFrpServerConfig_def
    by (simp add: enable_tls_id, intro behaves_rules behaves_weaken [OF with_cert_behaves])
      (auto intro!: get check_post_fails(1))
qed

section \<open>The TLS files\<close>

abbreviation tls_files :: "ClientCommonConfig \<Rightarrow> TLSConfig" where
  "tls_files c \<equiv> tcc_TLSConfig (ct_TLS (cc_Transport c))"

lemma tls_files_Complete [simp]: "tls_files (ClientCommonConfig_Complete p c) = tls_files c"
  by (simp add: ClientCommonConfig_Complete_def ClientTransportConfig_Complete_def TLSClientConfig_Complete_def)

lemma tls_files_update [simp]: "tls_files (update_tls f c) = f (tls_files c)"
  by (simp add: update_tls_def Let_def)

text \<open>The entry \<open>name\<close> of the secret is in the file \<open>f\<close>.\<close>

definition stored :: "Secret \<Rightarrow> string \<Rightarrow> string \<Rightarrow> event list \<Rightarrow> bool" where
  "stored sec name f es \<longleftrightarrow> (\<exists>d. map_of (sec_Data sec) name = Some d \<and> EvWrite f d None \<in> set es)"

definition opens :: "(TLSConfig \<Rightarrow> event list \<Rightarrow> bool) \<Rightarrow> event list \<Rightarrow> bool" where
  "opens P es \<longleftrightarrow> (\<forall>cfg x. EvOpen cfg x \<in> set es \<longrightarrow> P (tls_files cfg) es)"

definition ca_ok :: "Secret \<Rightarrow> string \<Rightarrow> TLSConfig \<Rightarrow> event list \<Rightarrow> bool" where
  "ca_ok sec old t es \<longleftrightarrow> (if map_of (sec_Data sec) DefaultCaFileName = None then tc_TrustedCaFile t = old
     else stored sec DefaultCaFileName (tc_TrustedCaFile t) es)"

lemma stored_Cons: "stored sec name f es \<Longrightarrow> stored sec name f (e # es)"
  by (auto simp: stored_def)

lemma ca_ok_Cons: "ca_ok sec old t es \<Longrightarrow> ca_ok sec old t (e # es)"
  by (auto simp: ca_ok_def stored_Cons)

lemma login_no_open: "behaves (login_exchange y cfg setter conn) (\<lambda>r es. \<forall>c x. EvOpen c x \<notin> set es)"
  unfolding login_exchange_def SetLogin_def generateAccessToken_def Let_def
  by (cases setter; simp; intro behaves_rules; simp)

lemma check_config_opens: "behaves (check_config y c) (\<lambda>r es. opens (\<lambda>t _. t = tls_files c) es)"
  unfolding check_config_def finally_do_def Let_def
  by (intro behaves_rules behaves_weaken [OF login_no_open]) (auto simp: opens_def)

lemma with_ca_opens: "behaves (with_ca y key sec c) (\<lambda>r es. opens (\<lambda>t es.
    tc_CertFile t = tc_CertFile (tls_files c) \<and> tc_KeyFile t = tc_KeyFile (tls_files c)
    \<and> ca_ok sec (tc_TrustedCaFile (tls_files c)) t es) es)"
  unfolding with_ca_def finally_do_def close_and_remove_def
  by (intro behaves_rules behaves_weaken [OF check_config_opens])
    (auto simp: opens_def ca_ok_def stored_def)

lemma with_key_opens: "behaves (with_key y key sec c) (\<lambda>r es. opens (\<lambda>t es.
    tc_CertFile t = tc_CertFile (tls_files c) \<and> stored sec DefaultKeyFileName (tc_KeyFile t) es
    \<and> ca_ok sec (tc_TrustedCaFile (tls_files c)) t es) es)"
  unfolding with_key_def finally_do_def close_and_remove_def
  by (intro behaves_rules behaves_weaken [OF with_ca_opens])
    (auto simp: opens_def ca_ok_def stored_def)

lemma with_cert_opens: "behaves (with_cert y key sec c) (\<lambda>r es. opens (\<lambda>t es.
    stored sec DefaultCertFileName (tc_CertFile t) es \<and> stored sec DefaultKeyFileName (tc_KeyFile t) es
    \<and> ca_ok sec (tc_TrustedCaFile (tls_files c)) t es) es)"
  unfolding with_cert_def finally_do_def close_and_remove_def
  by (intro behaves_rules behaves_weaken [OF with_key_opens])
    (auto simp: opens_def ca_ok_def stored_def)

section \<open>Nothing is read without a connection\<close>

definition only_files :: "resource list \<Rightarrow> bool" where
  "only_files st \<longleftrightarrow> (\<forall>r\<in>set st. \<exists>f. r = TempFile f)"

lemma resource_step_files:
  assumes "resource_step st e = Some st'" and "only_files st" and "\<forall>c x. e \<noteq> EvOpen c x"
  shows "only_files st'" and "\<forall>c m. e \<noteq> EvReadMsg c m"
  using assms unfolding only_files_def
  by (auto simp: resource_step_def holding_def give_back_def
      split: event.splits sum.splits if_splits Option.bind_splits dest: list.set_sel(2))

lemma not_accepted_files:
  "run_resources st es = Some st' \<Longrightarrow> only_files st \<Longrightarrow> \<forall>e\<in>set es. \<forall>c x. e \<noteq> EvOpen c x
    \<Longrightarrow> \<not> accepted es"
proof (induction es arbitrary: st)
  case (Cons e es)
  from Cons.prems(1) obtain st1 where st1: "resource_step st e = Some st1" "run_resources st1 es = Some st'"
    by (auto split: Option.bind_splits)
  from Cons.prems(3) have "\<forall>c x. e \<noteq> EvOpen c x" by simp
  from resource_step_files [OF st1(1) Cons.prems(2) this] Cons.IH [OF st1(2)] Cons.prems(3)
  show ?case by auto
qed simp

lemma Validate_forget_files:
  "snd (ValidateClientCommonConfig ie (forget_files c)) = snd (ValidateClientCommonConfig ie c)"
  by (simp add: ValidateClientCommonConfig_def forget_files_def update_tls_def Let_def)

lemma completes_valid:
  assumes "completes y c cfg"
  shows "snd (ValidateClientCommonConfig ie cfg)
     = snd (ValidateClientCommonConfig ie (ClientCommonConfig_Complete (sys_http_proxy y) c))"
  using assms Validate_forget_files unfolding completes_def by metis

lemma invalid_spec_behaves:
  assumes "snd (ValidateClientCommonConfig (sys_include_error y)
     (ClientCommonConfig_Complete (sys_http_proxy y) (common_config (fs_Spec obj)))) \<noteq> None"
  shows "behaves (ValidateFrpServerConfig a y obj)
     (\<lambda>r es. r \<noteq> Return None \<and> list_all (\<lambda>e. case e of EvOpen _ _ \<Rightarrow> False | _ \<Rightarrow> True) es)"
proof (rule behaves_weaken [OF ValidateFrpServerConfig_behaves])
  fix r es assume post: "check_post y (completes y (common_config (fs_Spec obj))) r es"
  have "\<not> call_ok y (completes y (common_config (fs_Spec obj))) (EvOpen cfg x)" for cfg x
    using assms completes_valid [of y "common_config (fs_Spec obj)" cfg "sys_include_error y"]
    by (auto simp: call_ok_def)
  with post have none: "\<forall>e\<in>set es. \<forall>c x. e \<noteq> EvOpen c x"
    by (auto simp: check_post_def list_all_iff)
  moreover have "run_resources [] es = Some []" using post by (simp add: check_post_def balanced_def)
  ultimately have "\<not> accepted es" by (intro not_accepted_files) (auto simp: only_files_def)
  with none post show "r \<noteq> Return None \<and> list_all (\<lambda>e. case e of EvOpen _ _ \<Rightarrow> False | _ \<Rightarrow> True) es"
    by (auto simp: check_post_def list_all_iff split: event.splits)
qed

section \<open>A sample server\<close>

definition ex_spec :: "string \<Rightarrow> SecretReference option \<Rightarrow> FrpServerSpec" where
  "ex_spec protocol sref = \<lparr>
     spec_Auth = \<lparr>auth_Method = ''token'', auth_AdditionalScopes = [], auth_Token = ''s3cret'', auth_OIDC = None\<rparr>,
     spec_User = ''team'', spec_ServerAddr = ''frp.example.com'', spec_ServerPort = 7000, spec_ExternalIPs = [],
     spec_NatHoleSTUNServer = [], spec_DNSServer = [], spec_LoginFailExit = None,
     spec_Transport = \<lparr>tr_Protocol = protocol, tr_DialServerTimeout = 0, tr_DialServerKeepAlive = 0,
       tr_ConnectServerLocalIP = [], tr_ProxyURL = [], tr_PoolCount = 0, tr_TCPMux = None,
       tr_TCPMuxKeepaliveInterval = 0, tr_QUIC = None, tr_HeartbeatInterval = 0, tr_HeartbeatTimeout = 0,
       tr_TLS = \<lparr>tls_SecretRef = sref, tls_ServerName = [], tls_DisableCustomTLSFirstByte = None\<rparr>\<rparr>,
     spec_UDPPacketSize = 0, spec_Metadatas = None\<rparr>"

definition ex_server :: "string \<Rightarrow> SecretReference option \<Rightarrow> FrpServer" where
  "ex_server protocol sref = \<lparr>fs_meta = (ex_meta ''edge'' ''uid-edge'')\<lparr>om_Namespace := []\<rparr>,
     fs_Spec = ex_spec protocol sref,
     fs_Status = \<lparr>st_Phase = [], st_Conditions = [], st_Reason = [], st_ServiceReferences = []\<rparr>\<rparr>"

section \<open>Properties\<close>

text \<open>
  (C27) The health check always returns: on no path does it panic, although the authentication
  package panics on an unknown method, because such a method is rejected before.
\<close>

theorem health_check_never_panics:
  "behaves (ValidateFrpServerConfig a y obj) (\<lambda>r es. \<exists>e. r = Return e)"
  by (rule behaves_weaken [OF ValidateFrpServerConfig_behaves]) (simp add: check_post_def)


text \<open>
  (C5) The check succeeds exactly when the frp server answered the login without an error.
\<close>

theorem healthy_iff_login_accepted:
  "behaves (ValidateFrpServerConfig a y obj) (\<lambda>r es. r = Return None \<longleftrightarrow> accepted es)"
  by (rule behaves_weaken [OF ValidateFrpServerConfig_behaves]) (simp add: check_post_def)

text \<open>
  A connection is opened only with the completed translation of the spec (up to the names of
  the TLS files) and only when it passes validation, and the login that is sent carries the
  user and pool count of that configuration, no metadata, and for token authentication the digest of the
  token and the timestamp.
\<close>

lemma health_check_calls:
  "behaves (ValidateFrpServerConfig a y obj)
     (\<lambda>r es. list_all (call_ok y (completes y (common_config (fs_Spec obj)))) es)"
  by (rule behaves_weaken [OF ValidateFrpServerConfig_behaves]) (simp add: check_post_def)

text \<open>
  A spec whose completed configuration is invalid (an unsupported authentication method, scope or
  protocol, or a heartbeat timeout below the interval) is never healthy, and no connection is
  attempted for it.
\<close>

lemma invalid_spec_unhealthy:
  assumes "snd (ValidateClientCommonConfig (sys_include_error y)
     (ClientCommonConfig_Complete (sys_http_proxy y) (common_config (fs_Spec obj)))) \<noteq> None"
  shows "behaves (ValidateFrpServerConfig a y obj)
     (\<lambda>r es. r \<noteq> Return None \<and> list_all (\<lambda>e. case e of EvOpen _ _ \<Rightarrow> False | _ \<Rightarrow> True) es)"
  using assms by (rule invalid_spec_behaves)

lemma invalid_spec_unhealthy_witness:
  "behaves (ValidateFrpServerConfig mem_api ex_sys (ex_server ''udp'' None))
     (\<lambda>r es. r \<noteq> Return None \<and> list_all (\<lambda>e. case e of EvOpen _ _ \<Rightarrow> False | _ \<Rightarrow> True) es)"
proof (rule invalid_spec_unhealthy)
  show "snd (ValidateClientCommonConfig (sys_include_error ex_sys) (ClientCommonConfig_Complete
      (sys_http_proxy ex_sys) (common_config (fs_Spec (ex_server ''udp'' None))))) \<noteq> None"
    by code_simp
qed



end
