(* ===== verification/Frp_Validator.thy ===== *)
theory Frp_Validator
  imports Frp_Client
begin

text \<open>
  \<^verbatim>\<open>pkg/controller/frpserver_validator.go\<close>: the admission webhook of \<^verbatim>\<open>FrpServer\<close>, which fills in
  defaults and validates on create and update.  The list of warnings is always nil and is left
  out.  Enumerations print like strings.
\<close>

section \<open>Default\<close>

definition default_transport :: "FrpServerTransport \<Rightarrow> FrpServerTransport" where
  "default_transport t = t\<lparr>
     tr_Protocol := EmptyOr_str (tr_Protocol t) FrpServerTransportProtocolTCP,
     tr_DialServerTimeout := EmptyOr_int (tr_DialServerTimeout t) 10,
     tr_DialServerKeepAlive := EmptyOr_int (tr_DialServerKeepAlive t) 7200,
     tr_PoolCount := EmptyOr_int (tr_PoolCount t) 1,
     tr_TCPMux := EmptyOr_ptr (tr_TCPMux t) (Some True),
     tr_TCPMuxKeepaliveInterval := EmptyOr_int (tr_TCPMuxKeepaliveInterval t) 60,
     tr_HeartbeatInterval := EmptyOr_int (tr_HeartbeatInterval t) 30,
     tr_HeartbeatTimeout := EmptyOr_int (tr_HeartbeatTimeout t) 90,
     tr_TLS := (tr_TLS t)\<lparr>tls_DisableCustomTLSFirstByte :=
       EmptyOr_ptr (tls_DisableCustomTLSFirstByte (tr_TLS t)) (Some True)\<rparr>\<rparr>"

definition default_spec :: "FrpServerSpec \<Rightarrow> FrpServerSpec" where
  "default_spec s = s\<lparr>
     spec_Auth := (spec_Auth s)\<lparr>auth_Method := EmptyOr_str (auth_Method (spec_Auth s)) FrpServerAuthMethodToken\<rparr>,
     spec_ServerPort := EmptyOr_int (spec_ServerPort s) 7000,
     spec_LoginFailExit := EmptyOr_ptr (spec_LoginFailExit s) (Some True),
     spec_NatHoleSTUNServer := EmptyOr_str (spec_NatHoleSTUNServer s) DefaultNatHoleSTUNAddr,
     spec_UDPPacketSize := EmptyOr_int (spec_UDPPacketSize s) 1500,
     spec_Transport := default_transport (spec_Transport s)\<rparr>"

definition default_quic :: "FrpServerTransportQUIC \<Rightarrow> FrpServerTransportQUIC" where
  "default_quic q = q\<lparr>quic_KeepalivePeriod := EmptyOr_int (quic_KeepalivePeriod q) 10,
     quic_MaxIdleTimeout := EmptyOr_int (quic_MaxIdleTimeout q) 30,
     quic_MaxIncomingStreams := EmptyOr_int (quic_MaxIncomingStreams q) 100000\<rparr>"

text \<open>\<open>ctx_err\<close> is what \<^verbatim>\<open>ctx.Err()\<close> returns.  With the QUIC protocol the options are
  dereferenced whether they are set or not.\<close>

definition FrpServerValidator_Default ::
    "go_error option \<Rightarrow> FrpServer \<Rightarrow> (FrpServer \<times> go_error option) outcome" where
  "FrpServerValidator_Default ctx_err r =
     (let s = default_spec (fs_Spec r); t = spec_Transport s in
      if tr_Protocol t = FrpServerTransportProtocolQUIC
      then (case tr_QUIC t of
          None \<Rightarrow> Panic ''invalid memory address or nil pointer dereference''
        | Some q \<Rightarrow> Return (r\<lparr>fs_Spec := s\<lparr>spec_Transport := t\<lparr>tr_QUIC := Some (default_quic q)\<rparr>\<rparr>\<rparr>, ctx_err))
      else Return (r\<lparr>fs_Spec := s\<rparr>, ctx_err))"

section \<open>Validation\<close>

definition join_if :: "bool \<Rightarrow> go_error \<Rightarrow> go_error option \<Rightarrow> go_error option" where
  "join_if b e errs = (if b then errors_Join [errs, Some e] else errs)"

text \<open>The checks both validators share: before and after the check of the port.\<close>

definition auth_errors :: "FrpServerSpec \<Rightarrow> go_error option" where
  "auth_errors s =
     (let errs = None;
        errs = join_if (\<not> lo_Contains FrpServerAuthMethods (auth_Method (spec_Auth s)))
          (ErrorString (''invalid spec.auth.method, optional values are '' @ fmt_slice FrpServerAuthMethods)) errs;
        errs = join_if (\<not> lo_Every FrpServerAuthScopes (auth_AdditionalScopes (spec_Auth s)))
          (ErrorString (''invalid spec.auth.authScopes, optional values are '' @ fmt_slice FrpServerAuthScopes)) errs;
        errs = join_if (auth_Method (spec_Auth s) = FrpServerAuthMethodToken \<and> auth_Token (spec_Auth s) = [])
          (ErrorString ''field spec.auth.token should not be empty'') errs;
        errs = join_if (spec_ServerAddr s = [])
          (ErrorString ''field spec.serverAddr should not be empty'') errs
      in errs)"

definition secret_errors :: "FrpServerSpec \<Rightarrow> go_error option \<Rightarrow> go_error option" where
  "secret_errors s errs = (case tls_SecretRef (tr_TLS (spec_Transport s)) of
     None \<Rightarrow> errs
   | Some ref \<Rightarrow>
       (let errs = join_if (sr_Name ref \<noteq> [] \<and> sr_Namespace ref = [])
            (ErrorString ''field spec.transport.tls.secretRef.namespace should not be empty when spec.transport.tls.secretRef.name is not empty'') errs;
          errs = join_if (sr_Name ref = [] \<and> sr_Namespace ref \<noteq> [])
            (ErrorString ''field spec.transport.tls.secretRef.name should not be empty when spec.transport.tls.secretRef.namespace is not empty'') errs;
          errs = join_if (\<not> lo_Contains FrpServerTransportProtocols (tr_Protocol (spec_Transport s)))
            (ErrorString (''invalid spec.transport.protocol, optional values are '' @ fmt_slice FrpServerTransportProtocols)) errs
        in errs))"

definition network_errors :: "FrpServerSpec \<Rightarrow> go_error option \<Rightarrow> go_error option" where
  "network_errors s errs =
     (let t = spec_Transport s;
        errs = join_if (length (spec_ExternalIPs s) = 0)
          (ErrorString ''field spec.externalIPs should not be empty'') errs;
        errs = join_if (tr_HeartbeatTimeout t > 0 \<and> tr_HeartbeatInterval t > 0
             \<and> tr_HeartbeatTimeout t < tr_HeartbeatInterval t)
          (ErrorString ''invalid spec.transport.heartbeatTimeout, spec.transport.heartbeatTimeout should not less than spec.transport.heartbeatInterval'') errs
      in secret_errors s errs)"

definition create_errors :: "FrpServerSpec \<Rightarrow> go_error option" where
  "create_errors s =
     (let errs = auth_errors s;
        errs = (case ValidatePort (spec_ServerPort s) of
            None \<Rightarrow> errs
          | Some err \<Rightarrow> errors_Join [errs, Some (WrapError (''invalid field spec.serverPort, got: '' @ Error err) err)])
      in network_errors s errs)"

definition update_errors :: "FrpServerSpec \<Rightarrow> go_error option" where
  "update_errors s =
     (let errs = auth_errors s;
        errs = join_if (spec_ServerPort s \<le> 0) (ErrorString ''field spec.serverPort should not be empty'') errs
      in network_errors s errs)"

definition check_server ::
    "'w api \<Rightarrow> 'w sys \<Rightarrow> FrpServer \<Rightarrow> go_error option \<Rightarrow> ('w, go_error option outcome) act" where
  "check_server a y obj errs =
     (if errs = None then do {
        r \<leftarrow> ValidateFrpServerConfig a y obj;
        case r of
          Panic p \<Rightarrow> ret (Panic p)
        | Return None \<Rightarrow> ret (Return errs)
        | Return (Some err) \<Rightarrow> ret (Return (errors_Join [errs,
            Some (WrapError (''failed to validate frp config, got: '' @ Error err) err)])) }
      else ret (Return errs))"

definition ValidateCreate :: "'w api \<Rightarrow> 'w sys \<Rightarrow> FrpServer \<Rightarrow> ('w, go_error option outcome) act" where
  "ValidateCreate a y obj = check_server a y obj (create_errors (fs_Spec obj))"

definition ValidateUpdate :: "'w api \<Rightarrow> 'w sys \<Rightarrow> FrpServer \<Rightarrow> FrpServer \<Rightarrow> ('w, go_error option outcome) act" where
  "ValidateUpdate a y old obj = check_server a y obj (update_errors (fs_Spec obj))"

definition ValidateDelete :: "FrpServer \<Rightarrow> ('w, go_error option outcome) act" where
  "ValidateDelete obj = ret (Return None)"

section \<open>Lemmas\<close>

lemma join_if_None [simp]: "join_if b e errs = None \<longleftrightarrow> \<not> b \<and> errs = None"
  by (simp add: join_if_def)

text \<open>The checks that do not depend on the operation.\<close>

definition static_ok :: "FrpServerSpec \<Rightarrow> bool" where
  "static_ok s \<longleftrightarrow> auth_Method (spec_Auth s) \<in> set FrpServerAuthMethods
     \<and> set (auth_AdditionalScopes (spec_Auth s)) \<subseteq> set FrpServerAuthScopes
     \<and> (auth_Method (spec_Auth s) = FrpServerAuthMethodToken \<longrightarrow> auth_Token (spec_Auth s) \<noteq> [])
     \<and> spec_ServerAddr s \<noteq> [] \<and> spec_ExternalIPs s \<noteq> []
     \<and> \<not> (0 < tr_HeartbeatInterval (spec_Transport s) \<and> 0 < tr_HeartbeatTimeout (spec_Transport s)
          \<and> tr_HeartbeatTimeout (spec_Transport s) < tr_HeartbeatInterval (spec_Transport s))
     \<and> (case tls_SecretRef (tr_TLS (spec_Transport s)) of None \<Rightarrow> True
        | Some ref \<Rightarrow> (sr_Name ref = [] \<longleftrightarrow> sr_Namespace ref = [])
            \<and> tr_Protocol (spec_Transport s) \<in> set FrpServerTransportProtocols)"

lemma create_errors_None: "create_errors s = None \<longleftrightarrow> static_ok s \<and> 0 \<le> spec_ServerPort s \<and> spec_ServerPort s \<le> 65535"
  by (auto simp: create_errors_def auth_errors_def network_errors_def secret_errors_def static_ok_def ValidatePort_def
      Let_def split: option.splits)

lemma update_errors_None: "update_errors s = None \<longleftrightarrow> static_ok s \<and> 0 < spec_ServerPort s"
  by (auto simp: update_errors_def auth_errors_def network_errors_def secret_errors_def static_ok_def
      Let_def split: option.splits)

lemma check_server_behaves:
  "behaves (check_server a y obj errs) (\<lambda>r es. (\<exists>e. r = Return e) \<and> (r = Return None \<longleftrightarrow> errs = None \<and> accepted es)
     \<and> (errs \<noteq> None \<longrightarrow> es = []))"
  unfolding check_server_def
  by (intro behaves_rules behaves_weaken [OF ValidateFrpServerConfig_behaves])
    (auto simp: check_post_def)

section \<open>Defaulting\<close>

definition spec_complete :: "FrpServerSpec \<Rightarrow> bool" where
  "spec_complete s \<longleftrightarrow> (let t = spec_Transport s in
     auth_Method (spec_Auth s) \<noteq> [] \<and> spec_ServerPort s \<noteq> 0 \<and> spec_LoginFailExit s \<noteq> None
     \<and> spec_NatHoleSTUNServer s \<noteq> [] \<and> spec_UDPPacketSize s \<noteq> 0
     \<and> tr_Protocol t \<noteq> [] \<and> tr_DialServerTimeout t \<noteq> 0 \<and> tr_DialServerKeepAlive t \<noteq> 0
     \<and> tr_PoolCount t \<noteq> 0 \<and> tr_TCPMux t \<noteq> None \<and> tr_TCPMuxKeepaliveInterval t \<noteq> 0
     \<and> tr_HeartbeatInterval t \<noteq> 0 \<and> tr_HeartbeatTimeout t \<noteq> 0
     \<and> tls_DisableCustomTLSFirstByte (tr_TLS t) \<noteq> None)"

interpretation webhook: defaulter_after default_spec spec_complete "ClientCommonConfig_Complete p" common_config for p
proof
  show "spec_complete (default_spec s)" for s
    by (auto simp: spec_complete_def default_spec_def default_transport_def go_strings Let_def)
  show "default_spec s = s" if "spec_complete s" for s
    using that by (simp add: spec_complete_def default_spec_def default_transport_def Let_def)
  show "ClientCommonConfig_Complete p (common_config (default_spec s)) = ClientCommonConfig_Complete p (common_config s)" for s
    by (simp add: Complete_defs common_config_def auth_config_def transport_config_def default_spec_def
        default_transport_def go_strings)
qed

interpretation quic: defaulter default_quic
  "\<lambda>q. quic_KeepalivePeriod q \<noteq> 0 \<and> quic_MaxIdleTimeout q \<noteq> 0 \<and> quic_MaxIncomingStreams q \<noteq> 0"
  by unfold_locales (auto simp: default_quic_def)

text \<open>The QUIC options are completed by frp in the same way.\<close>

lemma quic_agrees:
  "tr_QUIC (spec_Transport s) = Some q \<Longrightarrow>
    ClientCommonConfig_Complete p (common_config (s\<lparr>spec_Transport := (spec_Transport s)\<lparr>tr_QUIC := Some (default_quic q)\<rparr>\<rparr>))
    = ClientCommonConfig_Complete p (common_config s)"
  by (simp add: Complete_defs common_config_def transport_config_def default_quic_def)

lemma default_spec_protocol [simp]:
  "tr_Protocol (spec_Transport (default_spec s)) = FrpServerTransportProtocolQUIC \<longleftrightarrow>
     tr_Protocol (spec_Transport s) = FrpServerTransportProtocolQUIC"
  by (auto simp: default_spec_def default_transport_def EmptyOr_def go_strings)

lemma default_spec_quic [simp]: "tr_QUIC (spec_Transport (default_spec s)) = tr_QUIC (spec_Transport s)"
  by (simp add: default_spec_def default_transport_def)

lemma default_spec_again [simp]:
  "default_spec (default_spec s\<lparr>spec_Transport := spec_Transport (default_spec s)\<lparr>tr_QUIC := q\<rparr>\<rparr>)
     = default_spec s\<lparr>spec_Transport := spec_Transport (default_spec s)\<lparr>tr_QUIC := q\<rparr>\<rparr>"
  by (rule webhook.keeps) (use webhook.completes [of s] in \<open>simp add: spec_complete_def Let_def\<close>)

section \<open>Properties\<close>





text \<open>
  (C29) Defaulting panics exactly on a spec that asks for the QUIC protocol and leaves the QUIC
  options unset, which the API allows: \<^verbatim>\<open>spec.transport.quic\<close> is an optional field.
\<close>

theorem default_panics_iff:
  "(\<exists>p. FrpServerValidator_Default e obj = Panic p) \<longleftrightarrow>
     tr_Protocol (spec_Transport (fs_Spec obj)) = FrpServerTransportProtocolQUIC
     \<and> tr_QUIC (spec_Transport (fs_Spec obj)) = None"
  by (auto simp: FrpServerValidator_Default_def Let_def split: option.split)



text \<open>
  An admitted server has a configuration that frp accepts, whether or not it refers to a secret:
  the protocol is supported although the static check looks at it only for specs with a secret.
\<close>

lemma admitted_config_valid:
  "behaves (ValidateUpdate a y old obj) (\<lambda>r es. if r = Return None
     then tr_Protocol (spec_Transport (fs_Spec obj)) \<in> insert [] (set FrpServerTransportProtocols)
     else True)"
proof (cases "snd (ValidateClientCommonConfig (sys_include_error y)
     (ClientCommonConfig_Complete (sys_http_proxy y) (common_config (fs_Spec obj))))")
  case (Some err)
  have "behaves (ValidateUpdate a y old obj) (\<lambda>r es. r \<noteq> Return None)"
    unfolding ValidateUpdate_def check_server_def
    by (intro behaves_rules behaves_weaken [OF invalid_spec_behaves]) (use Some in auto)
  then show ?thesis by (rule behaves_weaken) simp
next
  case None
  then have "tr_Protocol (spec_Transport (fs_Spec obj)) \<in> insert [] (set FrpServerTransportProtocols)"
    by (auto simp: ValidateClientCommonConfig_ok_iff Complete_defs common_config_def transport_config_def EmptyOr_def
        SupportedTransportProtocols_def FrpServerTransportProtocols_def go_strings split: if_splits)
  then show ?thesis unfolding ValidateUpdate_def
    by (intro behaves_weaken [OF check_server_behaves]) simp
qed

end
