(* ===== verification/Frp_Reconciler.thy ===== *)
theory Frp_Reconciler
  imports Frp_Validator
begin

text \<open>
  \<^verbatim>\<open>pkg/controller/frpserver_controller.go\<close>: the reconciler that keeps the status of an \<^verbatim>\<open>FrpServer\<close>
  in step with the health check.  The error of a run is its result; \<^verbatim>\<open>ctrl.Result{}\<close> is always
  empty.
\<close>

section \<open>The reconciler\<close>

definition initialized_condition :: "string \<Rightarrow> string \<Rightarrow> go_time \<Rightarrow> Condition" where
  "initialized_condition reason message now = \<lparr>cond_Type = ''Initialized'', cond_Status = ConditionTrue,
     cond_ObservedGeneration = 0, cond_LastTransitionTime = Some now, cond_Reason = reason, cond_Message = message\<rparr>"

definition set_status :: "string \<Rightarrow> string \<Rightarrow> string \<Rightarrow> go_time \<Rightarrow> FrpServer \<Rightarrow> FrpServer" where
  "set_status phase cond_reason message now obj = obj\<lparr>fs_Status := (fs_Status obj)\<lparr>
     st_Conditions := fst (SetStatusCondition now (st_Conditions (fs_Status obj))
        (initialized_condition cond_reason message now)),
     st_Phase := phase, st_Reason := message\<rparr>\<rparr>"

definition healthy_message :: string where "healthy_message = ''FrpServer is healthy''"
definition unhealthy_message :: "go_error \<Rightarrow> string" where
  "unhealthy_message err = ''Invalid frp config: '' @ Error err"

definition FrpServerReconciler_Reconcile ::
    "'w api \<Rightarrow> 'w sys \<Rightarrow> NamespacedName \<Rightarrow> ('w, go_error option outcome) act" where
  "FrpServerReconciler_Reconcile a y req = do {
     g \<leftarrow> Get_FrpServer a req;
     case g of
       Inl err \<Rightarrow> (if IsNotFound err then ret (Return None) else ret (Return None))
     | Inr obj \<Rightarrow>
         (if st_Phase (fs_Status obj) = FrpServerPhaseUnknown
          then do {
            u \<leftarrow> Update_Status a (obj\<lparr>fs_Status := (fs_Status obj)\<lparr>st_Phase := FrpServerPhasePending\<rparr>\<rparr>);
            ret (Return (NewAggregate [None, u])) }
          else do {
            r \<leftarrow> ValidateFrpServerConfig a y obj;
            case r of
              Panic p \<Rightarrow> ret (Panic p)
            | Return (Some err) \<Rightarrow> do {
                now \<leftarrow> Now y;
                u \<leftarrow> Update_Status a (set_status FrpServerPhaseUnhealthy ReasonInitializeFailed
                       (unhealthy_message err) now obj);
                ret (Return (NewAggregate [Some err, u])) }
            | Return None \<Rightarrow> do {
                now \<leftarrow> Now y;
                u \<leftarrow> Update_Status a (set_status FrpServerPhaseHealthy ReasonInitialized healthy_message now obj);
                ret (Return (NewAggregate [None, u])) } }) }"

section \<open>Conditions\<close>

lemma SetStatusCondition_types:
  "map cond_Type (fst (SetStatusCondition now cs c)) =
     (if cond_Type c \<in> cond_Type ` set cs then map cond_Type cs else map cond_Type cs @ [cond_Type c])"
proof (cases "FindStatusCondition cs (cond_Type c)")
  case None
  then have "cond_Type c \<notin> cond_Type ` set cs" by (simp add: FindStatusCondition_None)
  with None show ?thesis by (auto simp: SetStatusCondition_def split: option.split)
next
  case (Some i)
  obtain ex ch where u: "update_condition now c (cs ! i) = (ex, ch)" by fastforce
  from Some have i: "i < length cs" "cond_Type (cs ! i) = cond_Type c" by (auto dest: FindStatusCondition_Some)
  with u have "cond_Type ex = cond_Type (cs ! i)" by (auto dest: update_condition_fields)
  then have "(map cond_Type cs)[i := cond_Type ex] = map cond_Type cs" using i by (simp add: list_update_same_conv)
  moreover from i have "cond_Type c \<in> cond_Type ` set cs" by (metis imageI nth_mem)
  ultimately show ?thesis using Some u by (simp add: SetStatusCondition_def map_update)
qed

text \<open>An existing condition with the same status keeps its transition time.\<close>

lemma SetStatusCondition_same_status:
  assumes "FindStatusCondition cs (cond_Type c) = Some i" and "cond_Status (cs ! i) = cond_Status c"
  shows "map cond_LastTransitionTime (fst (SetStatusCondition now cs c)) = map cond_LastTransitionTime cs"
proof -
  obtain ex ch where u: "update_condition now c (cs ! i) = (ex, ch)" by fastforce
  with assms have "cond_LastTransitionTime ex = cond_LastTransitionTime (cs ! i)"
    by (auto dest: update_condition_fields)
  then have "(map cond_LastTransitionTime cs)[i := cond_LastTransitionTime ex] = map cond_LastTransitionTime cs"
    using assms(1) by (auto simp: list_update_same_conv dest: FindStatusCondition_Some)
  with assms u show ?thesis by (simp add: SetStatusCondition_def map_update)
qed

section \<open>What a run writes\<close>

text \<open>A call of the health check: it neither reads nor writes an \<^verbatim>\<open>FrpServer\<close>.\<close>

definition check_call :: "event \<Rightarrow> bool" where
  "check_call e = (case e of EvGetFrpServer _ _ \<Rightarrow> False | EvUpdateStatus _ _ \<Rightarrow> False | _ \<Rightarrow> True)"

lemma check_call_EvNow [simp]: "check_call (EvNow t)"
  by (simp add: check_call_def)

lemma check_calls: "behaves (ValidateFrpServerConfig a y obj) (\<lambda>r es. list_all check_call es)"
proof -
  have login: "behaves (login_exchange y cfg setter conn) (\<lambda>r es. list_all check_call es)" for cfg setter conn
    unfolding login_exchange_def SetLogin_def generateAccessToken_def Let_def
    by (cases setter; simp; intro behaves_rules; simp add: check_call_def)
  have check: "behaves (check_config y c) (\<lambda>r es. list_all check_call es)" for c
    unfolding check_config_def finally_do_def Let_def
    by (intro behaves_rules behaves_weaken [OF login]) (auto simp: check_call_def)
  show ?thesis
    unfolding ValidateFrpServerConfig_def with_cert_def with_key_def with_ca_def finally_do_def close_and_remove_def Let_def
    by (intro behaves_rules behaves_weaken [OF check]) (auto simp: check_call_def)
qed

definition status_after :: "FrpServer \<Rightarrow> event list \<Rightarrow> FrpServer \<Rightarrow> bool" where
  "status_after obj es obj' \<longleftrightarrow>
     (if st_Phase (fs_Status obj) = FrpServerPhaseUnknown
      then obj' = obj\<lparr>fs_Status := (fs_Status obj)\<lparr>st_Phase := FrpServerPhasePending\<rparr>\<rparr>
      else if accepted es
      then \<exists>now. obj' = set_status FrpServerPhaseHealthy ReasonInitialized healthy_message now obj
      else \<exists>now err. obj' = set_status FrpServerPhaseUnhealthy ReasonInitializeFailed (unhealthy_message err) now obj)"

lemma FrpServerReconciler_behaves:
  "behaves (FrpServerReconciler_Reconcile a y req) (\<lambda>r es. \<exists>g rest. es = EvGetFrpServer req g # rest
     \<and> (case g of Inl err \<Rightarrow> r = Return None \<and> rest = []
        | Inr obj \<Rightarrow> \<exists>mid obj' u e. rest = mid @ [EvUpdateStatus obj' u] \<and> r = Return e
            \<and> status_after obj mid obj' \<and> list_all check_call mid
            \<and> (e = None \<longleftrightarrow> u = None \<and> (st_Phase (fs_Status obj) = FrpServerPhaseUnknown \<or> accepted mid))
            \<and> (if st_Phase (fs_Status obj) = FrpServerPhaseUnknown then mid = [] else True)))"
  unfolding FrpServerReconciler_Reconcile_def
  by (intro behaves_rules behaves_weaken [OF behaves_conj [OF ValidateFrpServerConfig_behaves check_calls]])
    (auto simp: check_post_def status_after_def)

section \<open>Phases\<close>

text \<open>One step of the phase of a server: a run that reads it in phase \<open>p\<close> and writes phase \<open>p'\<close>.\<close>

inductive phase_step :: "'w api \<Rightarrow> 'w sys \<Rightarrow> NamespacedName \<Rightarrow> string \<Rightarrow> string \<Rightarrow> bool"
  for a :: "'w api" and y :: "'w sys" and req :: NamespacedName where
  run: "run_state (FrpServerReconciler_Reconcile a y req) s = (r, s') \<Longrightarrow> trace s' = trace s @ es
    \<Longrightarrow> EvGetFrpServer req (Inr obj) \<in> set es \<Longrightarrow> EvUpdateStatus obj' u \<in> set es
    \<Longrightarrow> phase_step a y req (st_Phase (fs_Status obj)) (st_Phase (fs_Status obj'))"

lemma phase_step_cases:
  assumes "phase_step a y req p p'"
  shows "if p = FrpServerPhaseUnknown then p' = FrpServerPhasePending
     else p' \<in> {FrpServerPhaseHealthy, FrpServerPhaseUnhealthy}"
  using assms
proof cases
  case (run s r s' es obj obj' u)
  from behavesD [OF FrpServerReconciler_behaves run(3)] run(4)
  obtain g rest where es: "es = EvGetFrpServer req g # rest"
    and g: "case g of Inl err \<Rightarrow> r = Return None \<and> rest = []
        | Inr obj \<Rightarrow> \<exists>mid obj' u e. rest = mid @ [EvUpdateStatus obj' u] \<and> r = Return e
            \<and> status_after obj mid obj' \<and> list_all check_call mid
            \<and> (e = None \<longleftrightarrow> u = None \<and> (st_Phase (fs_Status obj) = FrpServerPhaseUnknown \<or> accepted mid))
            \<and> (if st_Phase (fs_Status obj) = FrpServerPhaseUnknown then mid = [] else True)"
    by auto
  from es g run(6) obtain obj1 mid obj2 u2 where 1: "g = Inr obj1" "rest = mid @ [EvUpdateStatus obj2 u2]"
    "status_after obj1 mid obj2" "list_all check_call mid"
    by (cases g) auto
  with es run(5,6) have "obj1 = obj" "obj2 = obj'" by (auto simp: list_all_iff check_call_def)
  with 1 run(1,2) show ?thesis by (auto simp: status_after_def set_status_def split: if_splits)
qed

section \<open>Properties\<close>

text \<open>
  (C8) A run reads the server and, when it is there, ends with one status update: \<^verbatim>\<open>Pending\<close> for a server in phase
  \<^verbatim>\<open>Unknown\<close>, without a health check; otherwise \<^verbatim>\<open>Healthy\<close> exactly when the login
  was accepted and \<^verbatim>\<open>Unhealthy\<close> when not.  It succeeds when the status was stored and the
  server is not unhealthy.  When the server cannot be read, for whatever reason, it does nothing and
  reports success.
\<close>

theorem status_follows_health_check:
  "behaves (FrpServerReconciler_Reconcile a y req) (\<lambda>r es. \<exists>g rest. es = EvGetFrpServer req g # rest
     \<and> (case g of Inl err \<Rightarrow> r = Return None \<and> rest = []
        | Inr obj \<Rightarrow> \<exists>mid obj' u e. rest = mid @ [EvUpdateStatus obj' u] \<and> r = Return e
            \<and> status_after obj mid obj' \<and> list_all check_call mid
            \<and> (e = None \<longleftrightarrow> u = None \<and> (st_Phase (fs_Status obj) = FrpServerPhaseUnknown \<or> accepted mid))
            \<and> (if st_Phase (fs_Status obj) = FrpServerPhaseUnknown then mid = [] else True)))"
  by (rule FrpServerReconciler_behaves)

text \<open>
  (C39) A new server, whose phase is the empty string, is never \<^verbatim>\<open>Pending\<close>: whatever the cluster
  answers, along every sequence of runs its phase is empty, \<^verbatim>\<open>Healthy\<close> or \<^verbatim>\<open>Unhealthy\<close>.
\<close>

theorem new_server_never_pending:
  assumes "(phase_step a y req)\<^sup>*\<^sup>* [] p"
  shows "p \<in> {[], FrpServerPhaseHealthy, FrpServerPhaseUnhealthy}"
  using assms
proof induction
  case (step p p')
  then have "p \<noteq> FrpServerPhaseUnknown" by (auto simp: go_strings)
  with phase_step_cases [OF step.hyps(2)] show ?case by simp
qed simp

definition ex_req :: NamespacedName where
  "ex_req = \<lparr>nn_Namespace = [], nn_Name = ''edge''\<rparr>"

definition ex_servers :: mem where
  "ex_servers = \<lparr>mem_services = [], mem_pods = [], mem_servers = [ex_server ''udp'' None], mem_secrets = []\<rparr>"

lemma ex_unhealthy: "\<exists>err. \<forall>s. run_state (ValidateFrpServerConfig mem_api ex_sys (ex_server ''udp'' None)) s = (Return (Some err), s)"
proof -
  have "snd (ValidateClientCommonConfig (sys_include_error ex_sys) (ClientCommonConfig_Complete
      (sys_http_proxy ex_sys) (common_config (fs_Spec (ex_server ''udp'' None))))) \<noteq> None"
    by code_simp
  moreover have "tls_SecretRef (tr_TLS (spec_Transport (fs_Spec (ex_server ''udp'' None)))) = None"
    by (simp add: ex_server_def ex_spec_def)
  ultimately show ?thesis by (auto simp: ValidateFrpServerConfig_def check_config_def)
qed

theorem new_server_never_pending_witness:
  "(phase_step mem_api ex_sys ex_req)\<^sup>*\<^sup>* [] FrpServerPhaseUnhealthy
     \<and> FrpServerPhaseUnhealthy \<in> {[], FrpServerPhaseHealthy, FrpServerPhaseUnhealthy}"
proof -
  have get: "api_get_frpserver mem_api ex_req ex_servers = (Inr (ex_server ''udp'' None), ex_servers)"
    and phase: "st_Phase (fs_Status (ex_server ''udp'' None)) = []" "[] \<noteq> FrpServerPhaseUnknown"
    by (simp_all add: mem_api_def mem_get_def has_key_def ex_servers_def ex_req_def ex_server_def ex_meta_def go_strings)
  have now: "sys_now ex_sys ex_servers = (42, ex_servers)"
    by (simp add: ex_sys_def calm_sys_def)
  from ex_unhealthy obtain err where
    check: "\<forall>s. run_state (ValidateFrpServerConfig mem_api ex_sys (ex_server ''udp'' None)) s = (Return (Some err), s)" ..
  define obj' where "obj' = set_status FrpServerPhaseUnhealthy ReasonInitializeFailed (unhealthy_message err) 42
    (ex_server ''udp'' None)"
  have "phase_step mem_api ex_sys ex_req (st_Phase (fs_Status (ex_server ''udp'' None))) (st_Phase (fs_Status obj'))"
    by (rule phase_step.run [where s = "start ex_servers" and u = "fst (api_update_status mem_api obj' ex_servers)"
          and es = "[EvGetFrpServer ex_req (Inr (ex_server ''udp'' None)), EvNow 42,
              EvUpdateStatus obj' (fst (api_update_status mem_api obj' ex_servers))]"])
      (simp_all add: FrpServerReconciler_Reconcile_def api_defs sys_defs get phase check now start_def obj'_def, simp)
  then have "phase_step mem_api ex_sys ex_req [] FrpServerPhaseUnhealthy"
    by (simp add: obj'_def set_status_def ex_server_def)
  then have "(phase_step mem_api ex_sys ex_req)\<^sup>*\<^sup>* [] FrpServerPhaseUnhealthy" by blast
  with new_server_never_pending [OF this] show ?thesis by blast
qed

text \<open>
  (C40) Health changes leave no trace in the transition time: once the condition \<^verbatim>\<open>Initialized\<close> is
  there, every status a run writes keeps its \<^verbatim>\<open>lastTransitionTime\<close>, because the condition has status
  \<^verbatim>\<open>True\<close> both for a healthy and for an unhealthy server.
\<close>

theorem transition_time_frozen:
  assumes "FindStatusCondition (st_Conditions (fs_Status obj)) ''Initialized'' = Some i"
    and "cond_Status (st_Conditions (fs_Status obj) ! i) = ConditionTrue"
  shows "map cond_LastTransitionTime (st_Conditions (fs_Status (set_status phase reason message now obj)))
     = map cond_LastTransitionTime (st_Conditions (fs_Status obj))"
  using SetStatusCondition_same_status [of "st_Conditions (fs_Status obj)" "initialized_condition reason message now" i now] assms
  by (simp add: set_status_def initialized_condition_def)

definition ex_condition :: Condition where
  "ex_condition = initialized_condition ReasonInitialized healthy_message 1600000000"

definition ex_healthy :: FrpServer where
  "ex_healthy = (ex_server ''tcp'' None)\<lparr>fs_Status := \<lparr>st_Phase = FrpServerPhaseHealthy, st_Conditions = [ex_condition],
     st_Reason = healthy_message, st_ServiceReferences = []\<rparr>\<rparr>"

theorem transition_time_frozen_witness:
  "map cond_LastTransitionTime (st_Conditions (fs_Status
      (set_status FrpServerPhaseUnhealthy ReasonInitializeFailed ''down'' 1700000000 ex_healthy))) = [Some 1600000000]"
  using transition_time_frozen [of ex_healthy 0 FrpServerPhaseUnhealthy ReasonInitializeFailed "''down''" 1700000000]
  by (simp add: ex_healthy_def ex_condition_def initialized_condition_def)

text \<open>
  Conditions stay unique: if no two conditions have the same type then the same holds of the
  status a run writes, and it has the condition \<^verbatim>\<open>Initialized\<close>.
\<close>

lemma conditions_stay_unique:
  assumes "distinct (map cond_Type (st_Conditions (fs_Status obj)))"
  shows "distinct (map cond_Type (st_Conditions (fs_Status (set_status phase reason message now obj))))
     \<and> ''Initialized'' \<in> set (map cond_Type (st_Conditions (fs_Status (set_status phase reason message now obj))))"
proof -
  let ?cs = "st_Conditions (fs_Status obj)" and ?c = "initialized_condition reason message now"
  have types: "map cond_Type (fst (SetStatusCondition now ?cs ?c)) =
     (if ''Initialized'' \<in> cond_Type ` set ?cs then map cond_Type ?cs else map cond_Type ?cs @ [''Initialized''])"
    using SetStatusCondition_types [of now ?cs ?c] by (simp add: initialized_condition_def)
  have stored: "st_Conditions (fs_Status (set_status phase reason message now obj)) = fst (SetStatusCondition now ?cs ?c)"
    by (simp add: set_status_def)
  show ?thesis unfolding stored types using assms by auto
qed

lemma conditions_stay_unique_witness:
  "distinct (map cond_Type (st_Conditions (fs_Status
      (set_status FrpServerPhaseUnhealthy ReasonInitializeFailed ''down'' 1700000000 ex_healthy))))"
  using conditions_stay_unique [of ex_healthy FrpServerPhaseUnhealthy ReasonInitializeFailed "''down''" 1700000000]
  by (simp add: ex_healthy_def)

end
