(* ===== verification/Step_System.thy ===== *)
theory Step_System
  imports Main
begin

text \<open>Transition systems with an inductive invariant, and sets of states that are never left.\<close>

locale step_system =
  fixes init :: "'s \<Rightarrow> bool" and step :: "'s \<Rightarrow> 's \<Rightarrow> bool" and inv :: "'s \<Rightarrow> bool"
  assumes init_inv: "init s \<Longrightarrow> inv s"
    and step_inv: "inv s \<Longrightarrow> step s s' \<Longrightarrow> inv s'"
begin

definition reachable :: "'s \<Rightarrow> bool" where
  "reachable s \<longleftrightarrow> (\<exists>s0. init s0 \<and> step\<^sup>*\<^sup>* s0 s)"

lemma steps_inv: "step\<^sup>*\<^sup>* s s' \<Longrightarrow> inv s \<Longrightarrow> inv s'"
  by (induction rule: rtranclp_induct) (auto intro: step_inv)

lemma reachable_inv: "init s0 \<Longrightarrow> step\<^sup>*\<^sup>* s0 s \<Longrightarrow> inv s"
  using init_inv steps_inv by blast

text \<open>A property that holds of a state and is kept by every step from a state with the invariant holds
  of everything that can be reached from it.\<close>

lemma stays:
  assumes "step\<^sup>*\<^sup>* s s'" and "inv s" and "P s"
    and "\<And>t t'. inv t \<Longrightarrow> P t \<Longrightarrow> step t t' \<Longrightarrow> P t'"
  shows "P s'"
proof -
  have "inv s' \<and> P s'"
    using assms(1)
  proof (induction rule: rtranclp_induct)
    case base
    show ?case using assms(2,3) by simp
  next
    case (step t t')
    then show ?case using assms(4) step_inv by blast
  qed
  then show ?thesis by simp
qed

end

end
