(* ===== verification/Safe_Tasks.thy ===== *)
theory Safe_Tasks
  imports Step_System
begin

text \<open>
  \<^verbatim>\<open>pkg/safe/groutine.go\<close>: the task manager, as a transition system of goroutines.  A goroutine is a program
  counter into the methods it is executing; one that is \<open>Idle\<close> runs code of its own and may at
  any time call \<^verbatim>\<open>GoCtx\<close> or \<^verbatim>\<open>Close\<close>, and, when the manager started it, finish or panic.  Every step is one
  access to the shared state: the mutex, the context, the wait group.
\<close>

section \<open>State\<close>

datatype pc =
    Idle
  | GoLock | GoAdd | GoSpawn | GoUnlock
  | CloseLock | CloseCancel | CloseWait | CloseUnlock
  | TaskDone | TaskPanic | Recovering | Exited

record goroutine =
  g_pc :: pc
  g_task :: bool

record taskManager =
  tm_lock :: "nat option"
  tm_cancelled :: bool
  tm_waitGroup :: int
  tm_gs :: "goroutine list"
  tm_crashed :: bool

definition at :: "taskManager \<Rightarrow> nat \<Rightarrow> pc" where
  "at s i = g_pc (tm_gs s ! i)"

definition goto :: "nat \<Rightarrow> pc \<Rightarrow> taskManager \<Rightarrow> taskManager" where
  "goto i p s = s\<lparr>tm_gs := (tm_gs s)[i := (tm_gs s ! i)\<lparr>g_pc := p\<rparr>]\<rparr>"

text \<open>\<^verbatim>\<open>NewTaskManager\<close>, with \<open>n\<close> goroutines that know the manager.\<close>

definition NewTaskManager :: "nat \<Rightarrow> taskManager" where
  "NewTaskManager n = \<lparr>tm_lock = None, tm_cancelled = False, tm_waitGroup = 0,
     tm_gs = replicate n \<lparr>g_pc = Idle, g_task = False\<rparr>, tm_crashed = False\<rparr>"

section \<open>Methods\<close>

text \<open>The next step of goroutine \<open>i\<close> inside a method; \<^const>\<open>None\<close> when it has to wait.\<close>

definition GoCtx_step :: "nat \<Rightarrow> taskManager \<Rightarrow> taskManager option" where
  "GoCtx_step i s = (case at s i of
     GoLock \<Rightarrow> if tm_lock s = None then Some (goto i GoAdd (s\<lparr>tm_lock := Some i\<rparr>)) else None
   | GoAdd \<Rightarrow> Some (goto i GoSpawn (s\<lparr>tm_waitGroup := tm_waitGroup s + 1\<rparr>))
   | GoSpawn \<Rightarrow> (let s = goto i GoUnlock s in
       Some (s\<lparr>tm_gs := tm_gs s @ [\<lparr>g_pc = Idle, g_task = True\<rparr>]\<rparr>))
   | GoUnlock \<Rightarrow> Some (goto i Idle (s\<lparr>tm_lock := None\<rparr>))
   | _ \<Rightarrow> None)"

definition Close_step :: "nat \<Rightarrow> taskManager \<Rightarrow> taskManager option" where
  "Close_step i s = (case at s i of
     CloseLock \<Rightarrow> if tm_lock s = None then Some (goto i CloseCancel (s\<lparr>tm_lock := Some i\<rparr>)) else None
   | CloseCancel \<Rightarrow> Some (goto i CloseWait (s\<lparr>tm_cancelled := True\<rparr>))
   | CloseWait \<Rightarrow> if tm_waitGroup s = 0 then Some (goto i CloseUnlock s) else None
   | CloseUnlock \<Rightarrow> Some (goto i Idle (s\<lparr>tm_lock := None\<rparr>))
   | _ \<Rightarrow> None)"

text \<open>\<^verbatim>\<open>waitGroup.Done()\<close> panics when the counter would become negative.\<close>

definition wg_done :: "taskManager \<Rightarrow> taskManager" where
  "wg_done s = (if tm_waitGroup s - 1 < 0 then s\<lparr>tm_crashed := True\<rparr>
     else s\<lparr>tm_waitGroup := tm_waitGroup s - 1\<rparr>)"

text \<open>The deferred calls of a task: \<^verbatim>\<open>Done\<close>, and after a panic the recovery function of
  \<^verbatim>\<open>GoWithRecovery\<close>.  \<open>repanics\<close> tells whether that function panics itself.\<close>

definition task_step :: "bool \<Rightarrow> nat \<Rightarrow> taskManager \<Rightarrow> taskManager option" where
  "task_step repanics i s = (case at s i of
     TaskDone \<Rightarrow> Some (goto i Exited (wg_done s))
   | TaskPanic \<Rightarrow> Some (goto i Recovering (wg_done s))
   | Recovering \<Rightarrow> Some (if repanics then (goto i Exited s)\<lparr>tm_crashed := True\<rparr> else goto i Exited s)
   | _ \<Rightarrow> None)"

text \<open>What an idle goroutine may do.\<close>

datatype move = CallGoCtx | CallClose | Finish | Fail | Proceed

definition idle_step :: "move \<Rightarrow> nat \<Rightarrow> taskManager \<Rightarrow> taskManager option" where
  "idle_step m i s =
     (if at s i \<noteq> Idle then None
      else case m of
        CallGoCtx \<Rightarrow> Some (goto i GoLock s)
      | CallClose \<Rightarrow> Some (goto i CloseLock s)
      | Finish \<Rightarrow> if g_task (tm_gs s ! i) then Some (goto i TaskDone s) else None
      | Fail \<Rightarrow> if g_task (tm_gs s ! i) then Some (goto i TaskPanic s) else None
      | Proceed \<Rightarrow> None)"

definition advance :: "bool \<Rightarrow> move \<Rightarrow> nat \<Rightarrow> taskManager \<Rightarrow> taskManager option" where
  "advance repanics m i s =
     (if tm_crashed s \<or> length (tm_gs s) \<le> i then None
      else if m \<noteq> Proceed then idle_step m i s
      else if at s i \<in> {GoLock, GoAdd, GoSpawn, GoUnlock} then GoCtx_step i s
      else if at s i \<in> {CloseLock, CloseCancel, CloseWait, CloseUnlock} then Close_step i s
      else task_step repanics i s)"

inductive tm_step :: "bool \<Rightarrow> taskManager \<Rightarrow> taskManager \<Rightarrow> bool" for repanics where
  move: "advance repanics m i s = Some s' \<Longrightarrow> tm_step repanics s s'"
| parent_cancelled: "\<not> tm_crashed s \<Longrightarrow> tm_step repanics s (s\<lparr>tm_cancelled := True\<rparr>)"

text \<open>A schedule: which goroutine makes which move.\<close>

fun run_schedule :: "bool \<Rightarrow> (move \<times> nat) list \<Rightarrow> taskManager \<Rightarrow> taskManager option" where
  "run_schedule repanics [] s = Some s"
| "run_schedule repanics ((m, i) # ms) s = Option.bind (advance repanics m i s) (run_schedule repanics ms)"

text \<open>\<^verbatim>\<open>Go\<close> uses the logger's \<^verbatim>\<open>Panic\<close> as recovery function, which logs and panics.\<close>

definition Go_repanics :: bool where "Go_repanics = True"

section \<open>The invariant\<close>

definition in_section :: "pc \<Rightarrow> bool" where
  "in_section p \<longleftrightarrow> p \<in> {GoAdd, GoSpawn, GoUnlock, CloseCancel, CloseWait, CloseUnlock}"

definition live :: "goroutine \<Rightarrow> bool" where
  "live g \<longleftrightarrow> g_task g \<and> g_pc g \<noteq> Exited \<and> g_pc g \<noteq> Recovering"

text \<open>What a goroutine contributes to the wait group: one for itself as a task that has not run
  \<^verbatim>\<open>Done\<close>, one for a task it has announced and not started.\<close>

definition weight :: "goroutine \<Rightarrow> int" where
  "weight g = (if live g then 1 else 0) + (if g_pc g = GoSpawn then 1 else 0)"

definition tm_inv :: "bool \<Rightarrow> taskManager \<Rightarrow> bool" where
  "tm_inv repanics s \<longleftrightarrow>
     (\<forall>i. tm_lock s = Some i \<longleftrightarrow> i < length (tm_gs s) \<and> in_section (at s i))
     \<and> tm_waitGroup s = sum_list (map weight (tm_gs s))
     \<and> (\<forall>g\<in>set (tm_gs s). g_pc g \<in> {TaskDone, TaskPanic, Recovering, Exited} \<longrightarrow> g_task g)
     \<and> (tm_crashed s \<longrightarrow> repanics)"

lemma weight_nonneg: "0 \<le> weight g"
  by (simp add: weight_def)

lemma sum_list_update_int:
  fixes xs :: "int list"
  shows "i < length xs \<Longrightarrow> sum_list (xs[i := x]) = sum_list xs - xs ! i + x"
proof (induction xs arbitrary: i)
  case (Cons y ys)
  then show ?case by (cases i) auto
qed simp

lemma weight_sum_ge: "i < length gs \<Longrightarrow> weight (gs ! i) \<le> sum_list (map weight gs)"
proof (induction gs arbitrary: i)
  case (Cons g gs)
  have "0 \<le> sum_list (map weight gs)" by (rule sum_list_nonneg) (auto simp: weight_nonneg)
  with Cons weight_nonneg [of g] show ?case by (cases i) force+
qed simp

lemma weight_sum_goto:
  "i < length (tm_gs s) \<Longrightarrow> sum_list (map weight (tm_gs (goto i p s)))
     = sum_list (map weight (tm_gs s)) - weight (tm_gs s ! i) + weight ((tm_gs s ! i)\<lparr>g_pc := p\<rparr>)"
  by (simp add: goto_def map_update sum_list_update_int)

lemma goto_simps [simp]:
  "tm_lock (goto i p s) = tm_lock s" "tm_waitGroup (goto i p s) = tm_waitGroup s"
  "tm_cancelled (goto i p s) = tm_cancelled s" "tm_crashed (goto i p s) = tm_crashed s"
  "length (tm_gs (goto i p s)) = length (tm_gs s)"
  by (simp_all add: goto_def)

lemma at_goto: "i < length (tm_gs s) \<Longrightarrow> at (goto i p s) j = (if j = i then p else at s j)"
  by (simp add: goto_def at_def)

lemma at_frame [simp]:
  "at (s\<lparr>tm_lock := l\<rparr>) i = at s i" "at (s\<lparr>tm_waitGroup := n\<rparr>) i = at s i"
  "at (s\<lparr>tm_cancelled := c\<rparr>) i = at s i" "at (s\<lparr>tm_crashed := d\<rparr>) i = at s i"
  by (simp_all add: at_def)

text \<open>A step of goroutine \<open>i\<close> to \<open>p\<close> keeps the invariant when the lock and the wait group follow.\<close>

lemma tm_inv_goto:
  assumes inv: "tm_inv r s" and i: "i < length (tm_gs s)"
    and lock: "in_section p = in_section (at s i) \<and> tm_lock t = tm_lock s
       \<or> in_section p \<and> tm_lock s = None \<and> tm_lock t = Some i
       \<or> \<not> in_section p \<and> in_section (at s i) \<and> tm_lock t = None"
    and gs: "tm_gs t = tm_gs s"
    and wg: "tm_waitGroup t = tm_waitGroup s - weight (tm_gs s ! i) + weight ((tm_gs s ! i)\<lparr>g_pc := p\<rparr>)"
    and task: "p \<in> {TaskDone, TaskPanic, Recovering, Exited} \<Longrightarrow> g_task (tm_gs s ! i)"
    and crash: "tm_crashed t \<Longrightarrow> r"
  shows "tm_inv r (goto i p t)"
proof -
  have at: "at (goto i p t) j = (if j = i then p else at s j)" for j
    using i gs by (simp add: goto_def at_def)
  have holder: "tm_lock s = Some j \<longleftrightarrow> j < length (tm_gs s) \<and> in_section (at s j)" for j
    using inv by (simp add: tm_inv_def)
  have "tm_lock t = Some j \<longleftrightarrow> j < length (tm_gs s) \<and> in_section (if j = i then p else at s j)" for j
    using lock holder [of j] holder [of i] i by (cases "tm_lock s"; cases "j = i") auto
  moreover have "tm_waitGroup t = sum_list (map weight (tm_gs (goto i p t)))"
    using weight_sum_goto [of i t p] i gs wg inv by (simp add: tm_inv_def)
  moreover have "\<forall>g\<in>set (tm_gs (goto i p t)). g_pc g \<in> {TaskDone, TaskPanic, Recovering, Exited} \<longrightarrow> g_task g"
    using inv task i gs unfolding tm_inv_def goto_def
    by (auto simp: set_update_distinct dest!: set_update_subset_insert [THEN subsetD])
  ultimately show ?thesis using crash gs by (simp add: tm_inv_def at)
qed

lemma tm_inv_append:
  assumes "tm_inv r s"
  shows "tm_inv r (s\<lparr>tm_gs := tm_gs s @ [\<lparr>g_pc = Idle, g_task = True\<rparr>], tm_waitGroup := tm_waitGroup s + 1\<rparr>)"
  using assms by (auto simp: tm_inv_def at_def nth_append weight_def live_def in_section_def less_Suc_eq)

lemma goto_append:
  "i < length (tm_gs s) \<Longrightarrow> (goto i p s)\<lparr>tm_gs := tm_gs (goto i p s) @ [g]\<rparr> = goto i p (s\<lparr>tm_gs := tm_gs s @ [g]\<rparr>)"
  by (simp add: goto_def nth_append list_update_append)

lemma weight_at:
  "at s i = GoSpawn \<Longrightarrow> weight (tm_gs s ! i) = (if g_task (tm_gs s ! i) then 2 else 1)"
  "at s i \<notin> {GoSpawn, Exited, Recovering} \<Longrightarrow> weight (tm_gs s ! i) = (if g_task (tm_gs s ! i) then 1 else 0)"
  "at s i \<in> {Exited, Recovering} \<Longrightarrow> weight (tm_gs s ! i) = 0"
  by (auto simp: weight_def live_def at_def)

lemma weight_pc:
  "weight (g\<lparr>g_pc := p\<rparr>) = (if p = GoSpawn then (if g_task g then 2 else 1)
     else if p \<in> {Exited, Recovering} then 0 else if g_task g then 1 else 0)"
  by (auto simp: weight_def live_def)

lemma GoCtx_step_inv:
  assumes inv: "tm_inv r s" and i: "i < length (tm_gs s)" and nc: "\<not> tm_crashed s" and step: "GoCtx_step i s = Some s'"
  shows "tm_inv r s'"
proof (cases "at s i")
  case GoSpawn
  let ?n = "\<lparr>g_pc = Idle, g_task = True\<rparr>"
  let ?s1 = "s\<lparr>tm_gs := tm_gs s @ [?n], tm_waitGroup := tm_waitGroup s + 1\<rparr>"
  have "tm_inv r (goto i GoUnlock (s\<lparr>tm_gs := tm_gs s @ [?n]\<rparr>))"
    by (rule tm_inv_goto [OF tm_inv_append [OF inv]])
      (use GoSpawn i nc in \<open>auto simp: at_def nth_append in_section_def weight_def live_def\<close>)
  with GoSpawn step i show ?thesis by (simp add: GoCtx_step_def Let_def goto_append)
qed (use step inv i nc in \<open>auto simp: GoCtx_step_def in_section_def weight_at weight_pc
    split: if_splits intro!: tm_inv_goto [OF inv i]\<close>)

lemma Close_step_inv:
  assumes inv: "tm_inv r s" and i: "i < length (tm_gs s)" and nc: "\<not> tm_crashed s" and step: "Close_step i s = Some s'"
  shows "tm_inv r s'"
  using step inv i nc
  by (cases "at s i") (auto simp: Close_step_def in_section_def weight_at weight_pc
    split: if_splits intro!: tm_inv_goto [OF inv i])

lemma wg_done_ok:
  assumes inv: "tm_inv r s" and i: "i < length (tm_gs s)" and "at s i \<in> {TaskDone, TaskPanic}"
  shows "wg_done s = s\<lparr>tm_waitGroup := tm_waitGroup s - 1\<rparr>"
proof -
  have "g_task (tm_gs s ! i)" using inv i assms(3) by (auto simp: tm_inv_def at_def)
  then have "weight (tm_gs s ! i) = 1" using assms(3) by (auto simp: weight_at)
  then have "1 \<le> tm_waitGroup s" using weight_sum_ge [OF i] inv by (simp add: tm_inv_def)
  then show ?thesis by (simp add: wg_done_def)
qed

lemma task_step_inv:
  assumes inv: "tm_inv r s" and i: "i < length (tm_gs s)" and nc: "\<not> tm_crashed s" and step: "task_step r i s = Some s'"
  shows "tm_inv r s'"
proof -
  have task: "g_task (tm_gs s ! i)" if "at s i \<in> {TaskDone, TaskPanic, Recovering}"
    using inv i that by (auto simp: tm_inv_def at_def)
  have crashed: "(goto i p s)\<lparr>tm_crashed := True\<rparr> = goto i p (s\<lparr>tm_crashed := True\<rparr>)" for p
    by (simp add: goto_def)
  have recovered: "tm_inv r (goto i Exited (if r then s\<lparr>tm_crashed := True\<rparr> else s))" if "at s i = Recovering"
    by (rule tm_inv_goto [OF inv i]) (use that task inv nc in \<open>auto simp: in_section_def weight_at weight_pc split: if_splits\<close>)
  show ?thesis
  proof (cases "at s i = Recovering")
    case True
    with step recovered show ?thesis by (auto simp: task_step_def crashed split: if_splits)
  next
    case False
    with step task inv i nc show ?thesis
      by (cases "at s i") (auto simp: task_step_def wg_done_ok [OF inv i] in_section_def weight_at weight_pc
        intro!: tm_inv_goto [OF inv i])
  qed
qed

lemma idle_step_inv:
  assumes inv: "tm_inv r s" and i: "i < length (tm_gs s)" and nc: "\<not> tm_crashed s" and step: "idle_step m i s = Some s'"
  shows "tm_inv r s'"
  using step inv i nc
  by (cases m) (auto simp: idle_step_def in_section_def weight_at weight_pc
    split: if_splits intro!: tm_inv_goto [OF inv i])

lemma tm_step_inv: "tm_inv r s \<Longrightarrow> tm_step r s s' \<Longrightarrow> tm_inv r s'"
proof (erule tm_step.cases)
  fix t assume "tm_inv r s" "s = t" "s' = t\<lparr>tm_cancelled := True\<rparr>"
  then show "tm_inv r s'" by (simp add: tm_inv_def)
qed (auto simp: advance_def not_le split: if_splits intro: idle_step_inv GoCtx_step_inv Close_step_inv task_step_inv)

interpretation tm: step_system "\<lambda>s. \<exists>n. s = NewTaskManager n" "tm_step r" "tm_inv r" for r
proof
  show "tm_inv r s" if "\<exists>n. s = NewTaskManager n" for s
    using that by (auto simp: tm_inv_def NewTaskManager_def at_def in_section_def weight_def live_def sum_list_replicate)
qed (rule tm_step_inv)

section \<open>Runs\<close>

lemma advance_live: "advance r m i s = Some s' \<Longrightarrow> i < length (tm_gs s) \<and> \<not> tm_crashed s"
  by (auto simp: advance_def split: if_splits)

lemmas method_defs = idle_step_def GoCtx_step_def Close_step_def task_step_def wg_done_def

lemma run_schedule_steps: "run_schedule r ms s = Some s' \<Longrightarrow> (tm_step r)\<^sup>*\<^sup>* s s'"
proof (induction r ms s rule: run_schedule.induct)
  case (2 r m i ms s)
  then obtain t where t: "advance r m i s = Some t" "run_schedule r ms t = Some s'"
    by (auto simp: bind_eq_Some_conv)
  from tm_step.move [OF t(1)] 2(1) [OF t] show ?case by (rule converse_rtranclp_into_rtranclp)
qed simp

text \<open>Every move is a change of the mover's program counter, or starts a task; nothing else happens
  to the other goroutines.\<close>

lemma advance_others:
  assumes "advance r m i s = Some s'" and "j < length (tm_gs s)" and "j \<noteq> i"
  shows "j < length (tm_gs s') \<and> tm_gs s' ! j = tm_gs s ! j"
proof -
  have g: "tm_gs (goto i p t) ! j = tm_gs t ! j" for p t
    using assms(3) by (simp add: goto_def)
  show ?thesis
    using assms by (auto simp: advance_def method_defs Let_def nth_append g split: if_splits pc.splits move.splits)
qed

lemma holder: "tm_inv r s \<Longrightarrow> i < length (tm_gs s) \<Longrightarrow> in_section (at s i) \<Longrightarrow> tm_lock s = Some i"
  by (simp add: tm_inv_def)

lemma counted: "tm_inv r s \<Longrightarrow> i < length (tm_gs s) \<Longrightarrow> live (tm_gs s ! i) \<Longrightarrow> 0 < tm_waitGroup s"
  using weight_sum_ge [of i "tm_gs s"] by (simp add: tm_inv_def weight_def split: if_splits)

section \<open>Waiting for the tasks\<close>

text \<open>A second invariant: past the wait the counter is zero, and from the wait on the context is
  cancelled.\<close>

definition close_inv :: "taskManager \<Rightarrow> bool" where
  "close_inv s \<longleftrightarrow> (\<forall>i<length (tm_gs s). (at s i = CloseUnlock \<longrightarrow> tm_waitGroup s = 0)
     \<and> (at s i \<in> {CloseWait, CloseUnlock} \<longrightarrow> tm_cancelled s))"

lemma close_inv_goto:
  assumes "close_inv s" and "i < length (tm_gs s)" and "tm_gs t = tm_gs s"
    and "tm_cancelled s \<Longrightarrow> tm_cancelled t" and "p \<in> {CloseWait, CloseUnlock} \<Longrightarrow> tm_cancelled t"
    and "p = CloseUnlock \<Longrightarrow> tm_waitGroup t = 0"
    and "\<And>j. j < length (tm_gs s) \<Longrightarrow> j \<noteq> i \<Longrightarrow> at s j = CloseUnlock \<Longrightarrow> tm_waitGroup t = tm_waitGroup s"
  shows "close_inv (goto i p t)"
proof -
  have at: "at (goto i p t) j = (if j = i then p else at s j)" for j
    using assms(2,3) by (simp add: goto_def at_def)
  show ?thesis
    unfolding close_inv_def
  proof (intro allI impI)
    fix j assume "j < length (tm_gs (goto i p t))"
    then have j: "j < length (tm_gs s)" using assms(3) by simp
    with assms(1) have "at s j = CloseUnlock \<longrightarrow> tm_waitGroup s = 0"
      "at s j \<in> {CloseWait, CloseUnlock} \<longrightarrow> tm_cancelled s" by (simp_all add: close_inv_def)
    with j assms(4-7) show "(at (goto i p t) j = CloseUnlock \<longrightarrow> tm_waitGroup (goto i p t) = 0)
        \<and> (at (goto i p t) j \<in> {CloseWait, CloseUnlock} \<longrightarrow> tm_cancelled (goto i p t))"
      by (cases "j = i") (auto simp: at)
  qed
qed

lemma alone: "tm_inv r s \<Longrightarrow> i < length (tm_gs s) \<Longrightarrow> in_section (at s i)
    \<Longrightarrow> j < length (tm_gs s) \<Longrightarrow> in_section (at s j) \<Longrightarrow> i = j"
  using holder [of r s i] holder [of r s j] by simp

lemma close_inv_advance:
  assumes adv: "advance r m i s = Some s'" and inv: "tm_inv r s" and c: "close_inv s"
  shows "close_inv s'"
proof -
  have i: "i < length (tm_gs s)" using adv by (simp add: advance_live)
  have others: "\<forall>j<length (tm_gs s). j \<noteq> i \<longrightarrow> at s j \<noteq> CloseUnlock" if "at s i = GoAdd"
    using alone [OF inv i] that by (fastforce simp: in_section_def)
  have finished: "\<forall>j<length (tm_gs s). j \<noteq> i \<longrightarrow> at s j \<noteq> CloseUnlock" if "at s i \<in> {TaskDone, TaskPanic}"
  proof -
    have "live (tm_gs s ! i)" using that inv i by (auto simp: tm_inv_def live_def at_def)
    then show ?thesis using counted [OF inv i] c by (auto simp: close_inv_def)
  qed
  have cancelled: "tm_cancelled s" if "at s i = CloseWait" using that c i by (auto simp: close_inv_def)
  have spawn: "close_inv ((goto i GoUnlock s)\<lparr>tm_gs := tm_gs (goto i GoUnlock s) @ [\<lparr>g_pc = Idle, g_task = True\<rparr>]\<rparr>)"
    using close_inv_goto [OF c i, of s GoUnlock] by (auto simp: close_inv_def at_def nth_append less_Suc_eq)
  have crash: "close_inv ((goto i Exited s)\<lparr>tm_crashed := True\<rparr>)"
    using close_inv_goto [OF c i, of s Exited] by (simp add: close_inv_def)
  show ?thesis
    using adv cancelled others finished
    by (cases "at s i"; cases m) (auto simp: advance_def method_defs Let_def spawn crash
        intro!: close_inv_goto [OF c i] split: if_splits)
qed

lemma close_inv_step: "tm_inv r s \<Longrightarrow> close_inv s \<Longrightarrow> tm_step r s s' \<Longrightarrow> close_inv s'"
proof (erule tm_step.cases)
  fix t assume "close_inv s" "s = t" "s' = t\<lparr>tm_cancelled := True\<rparr>"
  then show "close_inv s'" by (simp add: close_inv_def)
qed (auto intro: close_inv_advance)

lemma close_inv_new: "close_inv (NewTaskManager n)"
  by (simp add: close_inv_def NewTaskManager_def at_def)

lemma reachable_invs:
  assumes "(tm_step r)\<^sup>*\<^sup>* (NewTaskManager n) s"
  shows "tm_inv r s" and "close_inv s"
proof -
  show inv: "tm_inv r s" using tm.reachable_inv [OF _ assms] by blast
  have new: "tm_inv r (NewTaskManager n)" using tm.init_inv by blast
  show "close_inv s"
    by (rule tm.stays [where P = close_inv, OF assms new close_inv_new]) (rule close_inv_step)
qed

section \<open>Deadlock\<close>

text \<open>Goroutine \<open>i\<close> waits for the tasks while task \<open>j\<close> waits for the lock.\<close>

definition deadlocked :: "nat \<Rightarrow> nat \<Rightarrow> taskManager \<Rightarrow> bool" where
  "deadlocked i j s \<longleftrightarrow> i < length (tm_gs s) \<and> j < length (tm_gs s)
     \<and> at s i = CloseWait \<and> at s j = GoLock \<and> g_task (tm_gs s ! j)"

lemma deadlocked_step:
  assumes inv: "tm_inv r s" and d: "deadlocked i j s" and step: "tm_step r s s'"
  shows "deadlocked i j s'"
  using step
proof cases
  case (move m k)
  have "live (tm_gs s ! j)" using d by (auto simp: deadlocked_def live_def at_def)
  then have wg: "0 < tm_waitGroup s" using counted [OF inv] d by (auto simp: deadlocked_def)
  have lock: "tm_lock s = Some i" using holder [OF inv] d by (simp add: deadlocked_def in_section_def)
  have "k \<noteq> i" using move d wg
    by (auto simp: deadlocked_def advance_def method_defs split: if_splits)
  moreover have "k \<noteq> j" using move d lock
    by (auto simp: deadlocked_def advance_def method_defs split: if_splits)
  ultimately show ?thesis using d advance_others [OF move] by (auto simp: deadlocked_def at_def)
next
  case parent_cancelled
  with d show ?thesis by (simp add: deadlocked_def)
qed

lemma deadlocked_forever:
  assumes "tm_inv r s" and "deadlocked i j s" and "(tm_step r)\<^sup>*\<^sup>* s s'"
  shows "deadlocked i j s'"
  using tm.stays [where P = "deadlocked i j", OF assms(3,1,2)] deadlocked_step by blast

section \<open>Progress\<close>

text \<open>\<open>i\<close> waits in \<^verbatim>\<open>Close\<close> and no task is inside a method of the manager.\<close>

definition draining :: "nat \<Rightarrow> taskManager \<Rightarrow> bool" where
  "draining i s \<longleftrightarrow> i < length (tm_gs s) \<and> at s i = CloseWait \<and> \<not> tm_crashed s
     \<and> list_all (\<lambda>g. \<not> live g \<or> g_pc g \<in> {Idle, TaskDone, TaskPanic}) (tm_gs s)"

lemma draining_goto:
  assumes "draining i s" and "j < length (tm_gs s)" and "j \<noteq> i" and "tm_gs t = tm_gs s" and "\<not> tm_crashed t"
    and "p \<in> {TaskDone, Exited, Recovering}"
  shows "draining i (goto j p t)"
  using assms by (auto simp: draining_def goto_def at_def live_def list_all_length nth_list_update)

lemma draining_task:
  assumes inv: "tm_inv r s" and d: "draining i s" and "0 < tm_waitGroup s"
  obtains j where "j < length (tm_gs s)" "j \<noteq> i" "g_task (tm_gs s ! j)" "at s j \<in> {Idle, TaskDone, TaskPanic}"
proof -
  have "\<exists>g\<in>set (tm_gs s). weight g \<noteq> 0"
  proof (rule ccontr)
    assume "\<not> ?thesis"
    then have "sum_list (map weight (tm_gs s)) = 0" by (subst sum_list_nonneg_eq_0_iff) (auto simp: weight_nonneg)
    with inv \<open>0 < tm_waitGroup s\<close> show False by (simp add: tm_inv_def)
  qed
  then obtain j where j: "j < length (tm_gs s)" "weight (tm_gs s ! j) \<noteq> 0" by (metis in_set_conv_nth)
  have "at s j \<noteq> GoSpawn"
    using alone [OF inv, of i j] j(1) d by (auto simp: draining_def in_section_def)
  with j(2) have "live (tm_gs s ! j)" by (auto simp: weight_def at_def split: if_splits)
  with j d have "g_task (tm_gs s ! j)" "at s j \<in> {Idle, TaskDone, TaskPanic}"
    by (auto simp: draining_def live_def at_def list_all_length)
  moreover from this d have "j \<noteq> i" by (auto simp: draining_def)
  ultimately show thesis using that j(1) by blast
qed

lemma draining_step:
  assumes inv: "tm_inv r s" and d: "draining i s" and wg: "0 < tm_waitGroup s"
  shows "\<exists>s'. (tm_step r)\<^sup>*\<^sup>* s s' \<and> draining i s' \<and> tm_waitGroup s' = tm_waitGroup s - 1"
proof -
  from draining_task [OF assms] obtain j where j: "j < length (tm_gs s)" "j \<noteq> i" "g_task (tm_gs s ! j)"
    and pc: "at s j \<in> {Idle, TaskDone, TaskPanic}" .
  have nc: "\<not> tm_crashed s" using d by (simp add: draining_def)
  have finish: "\<exists>t'. tm_step r t t' \<and> draining i t' \<and> tm_waitGroup t' = tm_waitGroup t - 1"
    if "draining i t" "length (tm_gs t) = length (tm_gs s)" "at t j \<in> {TaskDone, TaskPanic}" "0 < tm_waitGroup t" for t
  proof -
    let ?p = "if at t j = TaskDone then Exited else Recovering"
    let ?t' = "goto j ?p (t\<lparr>tm_waitGroup := tm_waitGroup t - 1\<rparr>)"
    have "advance r Proceed j t = Some ?t'"
      using that j(1) by (auto simp: advance_def task_step_def wg_done_def draining_def)
    moreover have "draining i ?t'"
      using draining_goto [OF that(1), of j _ ?p] that j by (auto simp: draining_def)
    ultimately show ?thesis using tm_step.move by fastforce
  qed
  show ?thesis
  proof (cases "at s j = Idle")
    case True
    let ?t = "goto j TaskDone s"
    have "advance r Finish j s = Some ?t" using True j nc by (simp add: advance_def idle_step_def)
    then have s: "tm_step r s ?t" by (rule tm_step.move)
    have "draining i ?t" using draining_goto [OF d j(1,2), of s] nc by simp
    from finish [OF this] j(1) wg obtain t' where "tm_step r ?t t'" "draining i t'" "tm_waitGroup t' = tm_waitGroup s - 1"
      by (auto simp: at_goto)
    with s show ?thesis by (meson converse_rtranclp_into_rtranclp r_into_rtranclp)
  next
    case False
    with finish [OF d] pc wg show ?thesis by blast
  qed
qed

lemma draining_completes:
  assumes "tm_inv r s" and "draining i s"
  shows "\<exists>s'. (tm_step r)\<^sup>*\<^sup>* s s' \<and> at s' i = CloseUnlock"
  using assms
proof (induction "nat (tm_waitGroup s)" arbitrary: s rule: less_induct)
  case less
  show ?case
  proof (cases "0 < tm_waitGroup s")
    case True
    from draining_step [OF less.prems True] obtain t
      where t: "(tm_step r)\<^sup>*\<^sup>* s t" "draining i t" "tm_waitGroup t = tm_waitGroup s - 1" by blast
    with less.hyps [of t] True tm.steps_inv [OF t(1) less.prems(1)] show ?thesis
      by (auto intro: rtranclp_trans)
  next
    case False
    have "0 \<le> sum_list (map weight (tm_gs s))" by (rule sum_list_nonneg) (auto simp: weight_nonneg)
    with False less.prems(1) have "tm_waitGroup s = 0" by (simp add: tm_inv_def)
    then have "advance r Proceed i s = Some (goto i CloseUnlock s)"
      using less.prems(2) by (simp add: draining_def advance_def Close_step_def)
    then have "tm_step r s (goto i CloseUnlock s)" by (rule tm_step.move)
    with less.prems(2) show ?thesis by (auto simp: at_goto draining_def)
  qed
qed

section \<open>Properties\<close>

text \<open>
  (C23) However the goroutines are interleaved, at most one is inside the locked part of \<^verbatim>\<open>GoCtx\<close> or
  \<^verbatim>\<open>Close\<close>, the wait group counts exactly the tasks that are announced or running, and
  \<^verbatim>\<open>Done\<close> never takes it below zero: the program can only crash through a recovery function
  that panics.
\<close>

theorem task_accounting:
  assumes "(tm_step r)\<^sup>*\<^sup>* (NewTaskManager n) s"
  shows "(i < length (tm_gs s) \<and> in_section (at s i) \<and> j < length (tm_gs s) \<and> in_section (at s j) \<longrightarrow> i = j)
     \<and> tm_waitGroup s = int (length (filter live (tm_gs s))) + int (length (filter (\<lambda>g. g_pc g = GoSpawn) (tm_gs s)))
     \<and> (tm_crashed s \<longrightarrow> r)"
proof -
  have inv: "tm_inv r s" by (rule reachable_invs(1) [OF assms])
  have sum: "sum_list (map weight gs) = int (length (filter live gs)) + int (length (filter (\<lambda>g. g_pc g = GoSpawn) gs))" for gs
    by (induction gs) (auto simp: weight_def)
  show ?thesis using alone [OF inv, of i j] inv sum by (auto simp: tm_inv_def)
qed

definition ex_tasks :: "(move \<times> nat) list" where
  "ex_tasks = [(CallGoCtx, 0), (Proceed, 0), (Proceed, 0), (Proceed, 0), (Proceed, 0)]"

definition ex_closing :: "(move \<times> nat) list" where
  "ex_closing = ex_tasks @ [(CallClose, 0), (Proceed, 0), (Proceed, 0)]"

lemmas ex_run_defs = ex_tasks_def ex_closing_def NewTaskManager_def advance_def method_defs goto_def at_def Let_def

definition ex_waiting :: "pc \<Rightarrow> taskManager" where
  "ex_waiting p = \<lparr>tm_lock = Some 0, tm_cancelled = True, tm_waitGroup = 1,
     tm_gs = [\<lparr>g_pc = CloseWait, g_task = False\<rparr>, \<lparr>g_pc = p, g_task = True\<rparr>], tm_crashed = False\<rparr>"

lemma ex_closing_run: "run_schedule r ex_closing (NewTaskManager 1) = Some (ex_waiting Idle)"
  by (simp add: ex_run_defs ex_waiting_def)

lemma ex_closing_steps: "(tm_step r)\<^sup>*\<^sup>* (NewTaskManager 1) (ex_waiting Idle)"
  by (rule run_schedule_steps [OF ex_closing_run])

theorem task_accounting_witness:
  "tm_waitGroup (ex_waiting Idle) = int (length (filter live (tm_gs (ex_waiting Idle))))
     + int (length (filter (\<lambda>g. g_pc g = GoSpawn) (tm_gs (ex_waiting Idle))))"
  using task_accounting [OF ex_closing_steps] by blast

text \<open>
  (C15) When \<^verbatim>\<open>Close\<close> gets past its wait, the context is cancelled and no task started by the manager
  is still running: every one has run its \<^verbatim>\<open>Done\<close>.
\<close>

theorem close_waits_for_tasks:
  assumes "(tm_step r)\<^sup>*\<^sup>* (NewTaskManager n) s" and "i < length (tm_gs s)" and "at s i = CloseUnlock"
  shows "tm_cancelled s \<and> list_all (\<lambda>g. \<not> live g) (tm_gs s)"
proof -
  have wg: "tm_waitGroup s = 0" "tm_cancelled s"
    using reachable_invs(2) [OF assms(1)] assms(2,3) by (auto simp: close_inv_def)
  have "\<not> live (tm_gs s ! j)" if "j < length (tm_gs s)" for j
    using counted [OF reachable_invs(1) [OF assms(1)] that] wg by auto
  with wg show ?thesis by (simp add: list_all_length)
qed

definition ex_closed :: taskManager where
  "ex_closed = \<lparr>tm_lock = Some 0, tm_cancelled = True, tm_waitGroup = 0,
     tm_gs = [\<lparr>g_pc = CloseUnlock, g_task = False\<rparr>, \<lparr>g_pc = Exited, g_task = True\<rparr>], tm_crashed = False\<rparr>"

theorem close_waits_for_tasks_witness:
  "list_all (\<lambda>g. \<not> live g) (tm_gs ex_closed)"
proof -
  have "run_schedule False (ex_closing @ [(Finish, 1), (Proceed, 1), (Proceed, 0)]) (NewTaskManager 1) = Some ex_closed"
    by (simp add: ex_run_defs ex_closed_def)
  from close_waits_for_tasks [OF run_schedule_steps [OF this], of 0] show ?thesis
    by (simp add: ex_closed_def at_def)
qed

text \<open>
  (C24) \<^verbatim>\<open>Close\<close> can always finish when the running tasks only have to return: from every reachable state in
  which it waits and no task is inside a method of the manager, some continuation takes it past the wait.
\<close>

theorem close_can_complete:
  assumes "(tm_step r)\<^sup>*\<^sup>* (NewTaskManager n) s" and "draining i s"
  shows "\<exists>s'. (tm_step r)\<^sup>*\<^sup>* s s' \<and> at s' i = CloseUnlock"
  by (rule draining_completes [OF reachable_invs(1) [OF assms(1)] assms(2)])

theorem close_can_complete_witness:
  "\<exists>s'. (tm_step False)\<^sup>*\<^sup>* (ex_waiting Idle) s' \<and> at s' 0 = CloseUnlock"
  by (rule close_can_complete [OF ex_closing_steps]) (simp add: draining_def ex_waiting_def at_def live_def)


text \<open>
  Nothing refuses a task once the manager is closed: \<^verbatim>\<open>GoCtx\<close> after \<^verbatim>\<open>Close\<close> has returned starts a task that
  nobody waits for.
\<close>

lemma task_after_close:
  "\<exists>s. run_schedule r ([(CallClose, 0), (Proceed, 0), (Proceed, 0), (Proceed, 0), (Proceed, 0)] @ ex_tasks)
         (NewTaskManager 1) = Some s
     \<and> tm_cancelled s \<and> tm_lock s = None \<and> at s 0 = Idle \<and> list_ex live (tm_gs s)"
  by (simp add: ex_run_defs live_def)

text \<open>
  With the recovery function of \<^verbatim>\<open>Go\<close>, which panics itself, a task that panics takes the
  program down, although it has run \<^verbatim>\<open>Done\<close>.
\<close>

lemma panicking_task_crashes:
  "\<exists>s. run_schedule Go_repanics (ex_tasks @ [(Fail, 1), (Proceed, 1), (Proceed, 1)]) (NewTaskManager 1) = Some s
     \<and> tm_crashed s \<and> tm_waitGroup s = 0"
  by (simp add: ex_run_defs Go_repanics_def)

end
