(* ===== verification/Go_Strconv.thy ===== *)
theory Go_Strconv
  imports Go_Fmt
begin

text \<open>
  What the sources use of \<^verbatim>\<open>strconv\<close>, \<^verbatim>\<open>time.ParseDuration\<close> and \<^verbatim>\<open>net.SplitHostPort\<close>.  Two things of the
  Go runtime are parameters, gathered in a record: the tables that say which runes above U+00FF are
  printable, and the product of two \<^verbatim>\<open>float64\<close> with which the fraction of a duration is scaled.
\<close>

record runtime =
  rt_IsPrint :: "nat \<Rightarrow> bool"
  rt_fraction :: "nat \<Rightarrow> nat \<Rightarrow> nat \<Rightarrow> nat"

section \<open>Quoting\<close>

definition hex_digit :: "nat \<Rightarrow> char" where
  "hex_digit d = (if d < 10 then char_of (48 + d) else char_of (87 + d))"

fun hex_digits :: "nat \<Rightarrow> nat \<Rightarrow> string" where
  "hex_digits 0 n = []"
| "hex_digits (Suc k) n = hex_digits k (n div 16) @ [hex_digit (n mod 16)]"

definition backslash :: char where "backslash = CHR 0x5C"

definition IsPrint :: "runtime \<Rightarrow> nat \<Rightarrow> bool" where
  "IsPrint rt r = (if r \<le> 0xFF then 0x20 \<le> r \<and> r < 0x7F \<or> 0xA1 \<le> r \<and> r \<noteq> 0xAD else rt_IsPrint rt r)"

text \<open>The code point of a valid UTF-8 sequence.\<close>

definition rune_of :: "string \<Rightarrow> nat" where
  "rune_of s = (case s of
     [a] \<Rightarrow> of_char a
   | [a, b] \<Rightarrow> (of_char a mod 32) * 64 + of_char b mod 64
   | [a, b, c] \<Rightarrow> ((of_char a mod 16) * 64 + of_char b mod 64) * 64 + of_char c mod 64
   | [a, b, c, d] \<Rightarrow> (((of_char a mod 8) * 64 + of_char b mod 64) * 64 + of_char c mod 64) * 64 + of_char d mod 64
   | _ \<Rightarrow> 0)"

text \<open>\<^verbatim>\<open>appendEscapedRune\<close> of a rune with its bytes.\<close>

definition escape_rune :: "runtime \<Rightarrow> char \<Rightarrow> nat \<Rightarrow> string \<Rightarrow> string" where
  "escape_rune rt q r bytes =
     (if r = of_char q \<or> r = of_char backslash then backslash # bytes
      else if IsPrint rt r then bytes
      else if r = 7 then backslash # ''a'' else if r = 8 then backslash # ''b''
      else if r = 12 then backslash # ''f'' else if r = 10 then backslash # ''n''
      else if r = 13 then backslash # ''r'' else if r = 9 then backslash # ''t''
      else if r = 11 then backslash # ''v''
      else if r < 32 \<or> r = 127 then backslash # ''x'' @ hex_digits 2 r
      else if r < 0x10000 then backslash # ''u'' @ hex_digits 4 r
      else backslash # ''U'' @ hex_digits 8 r)"

lemma utf8_len_bounds: "utf8_len s = Some n \<Longrightarrow> 0 < n \<and> n \<le> length s"
  by (auto simp: utf8_len_def split: list.splits if_splits)

function quote_body :: "runtime \<Rightarrow> string \<Rightarrow> string" where
  "quote_body rt [] = []"
| "quote_body rt (c # s) = (case utf8_len (c # s) of
     None \<Rightarrow> backslash # ''x'' @ hex_digits 2 (of_char c) @ quote_body rt s
   | Some n \<Rightarrow> escape_rune rt (CHR 0x22) (rune_of (take n (c # s))) (take n (c # s))
       @ quote_body rt (drop n (c # s)))"
  by pat_completeness auto
termination
  by (relation "measure (\<lambda>(rt, s). length s)") (auto dest: utf8_len_bounds)

definition Quote :: "runtime \<Rightarrow> string \<Rightarrow> string" where
  "Quote rt s = [CHR 0x22] @ quote_body rt s @ [CHR 0x22]"

text \<open>\<^verbatim>\<open>%q\<close> of a byte.\<close>

definition quote_byte :: "runtime \<Rightarrow> char \<Rightarrow> string" where
  "quote_byte rt c = (let r = of_char c; bytes = (if r < 128 then [c]
       else [char_of (192 + r div 64), char_of (128 + r mod 64 :: nat)]) in
     [CHR 0x27] @ escape_rune rt (CHR 0x27) r bytes @ [CHR 0x27])"

section \<open>Numbers and booleans\<close>

definition NumError :: "runtime \<Rightarrow> string \<Rightarrow> string \<Rightarrow> string \<Rightarrow> go_error" where
  "NumError rt f num why = WrapError (''strconv.'' @ f @ '': parsing '' @ Quote rt num @ '': '' @ why) (ErrorString why)"

definition ErrSyntax :: string where "ErrSyntax = ''invalid syntax''"
definition ErrRange :: string where "ErrRange = ''value out of range''"

definition ParseBool :: "runtime \<Rightarrow> string \<Rightarrow> bool \<times> go_error option" where
  "ParseBool rt s =
     (if s \<in> set [''1'', ''t'', ''T'', ''true'', ''TRUE'', ''True''] then (True, None)
      else if s \<in> set [''0'', ''f'', ''F'', ''false'', ''FALSE'', ''False''] then (False, None)
      else (False, Some (NumError rt ''ParseBool'' s ErrSyntax)))"

definition lower :: "char \<Rightarrow> nat" where
  "lower c = (if of_char c mod 64 < (32 :: nat) then of_char c + 32 else of_char c)"

datatype number = Number nat | Syntax | Range

text \<open>The digit loop of \<^verbatim>\<open>ParseUint\<close> for 64 bits; \<open>us\<close> tells whether underscores are skipped.\<close>

definition digit_value :: "char \<Rightarrow> nat option" where
  "digit_value c =
     (if is_digit c then Some (of_char c - 48)
      else if 97 \<le> lower c \<and> lower c \<le> 122 then Some (lower c - 97 + 10) else None)"

fun digits_loop :: "nat \<Rightarrow> bool \<Rightarrow> nat \<Rightarrow> string \<Rightarrow> number" where
  "digits_loop base us n [] = Number n"
| "digits_loop base us n (c # s) =
     (if c = CHR ''_'' \<and> us then digits_loop base us n s
      else case digit_value c of
        None \<Rightarrow> Syntax
      | Some d \<Rightarrow>
          if d \<ge> base then Syntax
          else if n * base + d \<ge> 2 ^ 64 then Range
          else digits_loop base us (n * base + d) s)"

text \<open>\<^verbatim>\<open>underscoreOK\<close>: what was seen last, and the rest of the number.\<close>

datatype saw = Begin | Digit | Underscore | Other

fun underscore_loop :: "bool \<Rightarrow> saw \<Rightarrow> string \<Rightarrow> bool" where
  "underscore_loop hex prev [] = (prev \<noteq> Underscore)"
| "underscore_loop hex prev (c # s) =
     (if is_digit c \<or> hex \<and> 97 \<le> lower c \<and> lower c \<le> 102 then underscore_loop hex Digit s
      else if c = CHR ''_'' then prev = Digit \<and> underscore_loop hex Underscore s
      else prev \<noteq> Underscore \<and> underscore_loop hex Other s)"

definition base_prefix :: "string \<Rightarrow> (nat \<times> string) option" where
  "base_prefix s = (case s of
     z # c # rest \<Rightarrow>
       if z \<noteq> CHR ''0'' then None
       else if lower c = of_char (CHR ''b'') then Some (2, rest)
       else if lower c = of_char (CHR ''o'') then Some (8, rest)
       else if lower c = of_char (CHR ''x'') then Some (16, rest) else None
   | _ \<Rightarrow> None)"

definition underscoreOK :: "string \<Rightarrow> bool" where
  "underscoreOK s =
     (let s = (if s \<noteq> [] \<and> (hd s = CHR ''-'' \<or> hd s = CHR ''+'') then tl s else s) in
      case base_prefix s of
        Some (b, rest) \<Rightarrow> underscore_loop (b = 16) Digit rest
      | None \<Rightarrow> underscore_loop False Begin s)"

text \<open>\<^verbatim>\<open>ParseUint(s, base, 64)\<close> for the bases 0 and 10.\<close>

definition ParseUint :: "nat \<Rightarrow> string \<Rightarrow> number" where
  "ParseUint base s =
     (if s = [] then Syntax
      else let (b, rest) =
          (if base = 0 \<and> hd s = CHR ''0''
           then (case base_prefix s of Some (b, r) \<Rightarrow> if r = [] then (8, tl s) else (b, r) | None \<Rightarrow> (8, tl s))
           else if base = 0 then (10, s) else (base, s)) in
        case digits_loop b (base = 0) 0 rest of
          Number n \<Rightarrow> if base = 0 \<and> CHR ''_'' \<in> set rest \<and> \<not> underscoreOK s then Syntax else Number n
        | r \<Rightarrow> r)"

definition ParseInt :: "runtime \<Rightarrow> string \<Rightarrow> nat \<Rightarrow> string \<Rightarrow> int \<times> go_error option" where
  "ParseInt rt f base s =
     (let syntax = (0, Some (NumError rt f s ErrSyntax));
          range = Some (NumError rt f s ErrRange);
          neg = (s \<noteq> [] \<and> hd s = CHR ''-'');
          body = (if s \<noteq> [] \<and> (hd s = CHR ''-'' \<or> hd s = CHR ''+'') then tl s else s) in
      if s = [] then syntax
      else case ParseUint base body of
        Syntax \<Rightarrow> syntax
      | Range \<Rightarrow> (if neg then - (2 ^ 63) else 2 ^ 63 - 1, range)
      | Number n \<Rightarrow>
          if \<not> neg \<and> n \<ge> 2 ^ 63 then (2 ^ 63 - 1, range)
          else if neg \<and> n > 2 ^ 63 then (- (2 ^ 63), range)
          else (if neg then - int n else int n, None))"

definition Atoi :: "runtime \<Rightarrow> string \<Rightarrow> int \<times> go_error option" where
  "Atoi rt s = ParseInt rt ''Atoi'' 10 s"

text \<open>A parsed number fits into 64 bits, also when an error is returned with it.\<close>

lemma ParseInt_int64: "fst (ParseInt rt f base s) \<in> {- (2 ^ 63) ..< 2 ^ 63}"
  by (auto simp: ParseInt_def Let_def split: number.splits)

lemma Atoi_empty: "Atoi rt [] = (0, Some (NumError rt ''Atoi'' [] ErrSyntax))"
  by (simp add: Atoi_def ParseInt_def Let_def)

section \<open>Durations\<close>

text \<open>\<^verbatim>\<open>quote\<close> of package \<^verbatim>\<open>time\<close>: every byte of a character that is not printable ASCII is written in
  hexadecimal.\<close>

definition time_quote :: "string \<Rightarrow> string" where
  "time_quote s = [CHR 0x22] @ concat (map (\<lambda>c.
     if of_char c \<ge> (128 :: nat) \<or> of_char c < (32 :: nat) then backslash # ''x'' @ hex_digits 2 (of_char c)
     else if c = CHR 0x22 \<or> c = backslash then [backslash, c] else [c]) s) @ [CHR 0x22]"

definition digits_value :: "string \<Rightarrow> nat" where
  "digits_value ds = foldl (\<lambda>x c. x * 10 + (of_char c - 48)) 0 ds"

text \<open>\<^verbatim>\<open>leadingInt\<close>: the value of the leading digits, if it does not exceed \<^term>\<open>2 ^ 63\<close>, and the rest.\<close>

definition leadingInt :: "string \<Rightarrow> (nat \<times> string) option" where
  "leadingInt s = (let ds = takeWhile is_digit s in
     if digits_value ds > 2 ^ 63 then None else Some (digits_value ds, dropWhile is_digit s))"

text \<open>\<^verbatim>\<open>leadingFraction\<close>: the value of as many digits as fit, how many these are, and what follows
  all of them.\<close>

fun fraction_loop :: "nat \<Rightarrow> nat \<Rightarrow> string \<Rightarrow> nat \<times> nat" where
  "fraction_loop x k [] = (x, k)"
| "fraction_loop x k (c # ds) =
     (if x > (2 ^ 63 - 1) div 10 \<or> x * 10 + (of_char c - 48) > 2 ^ 63 then (x, k)
      else fraction_loop (x * 10 + (of_char c - 48)) (Suc k) ds)"

definition leadingFraction :: "string \<Rightarrow> nat \<times> nat \<times> string" where
  "leadingFraction s = (let (f, k) = fraction_loop 0 0 (takeWhile is_digit s) in (f, k, dropWhile is_digit s))"

definition unitMap :: "(string \<times> nat) list" where
  "unitMap = [(''ns'', 1), (''us'', 10 ^ 3), ([CHR 0xC2, CHR 0xB5, CHR ''s''], 10 ^ 3),
     ([CHR 0xCE, CHR 0xBC, CHR ''s''], 10 ^ 3), (''ms'', 10 ^ 6), (''s'', 10 ^ 9), (''m'', 60 * 10 ^ 9),
     (''h'', 3600 * 10 ^ 9)]"

definition number_char :: "char \<Rightarrow> bool" where
  "number_char c \<longleftrightarrow> c = CHR ''.'' \<or> is_digit c"

text \<open>One number with its unit: the nanoseconds and the rest, or the message of the error.\<close>

definition duration_term :: "runtime \<Rightarrow> string \<Rightarrow> string \<Rightarrow> string + nat \<times> string" where
  "duration_term rt orig s =
     (let invalid = Inl (''time: invalid duration '' @ time_quote orig) in
      if s = [] \<or> \<not> number_char (hd s) then invalid
      else case leadingInt s of
        None \<Rightarrow> invalid
      | Some (v, s1) \<Rightarrow>
          let pre = (length s1 \<noteq> length s);
              point = (s1 \<noteq> [] \<and> hd s1 = CHR ''.'');
              (f, k, s2) = (if point then leadingFraction (tl s1) else (0, 0, s1));
              post = (point \<and> length s2 \<noteq> length (tl s1));
              u = takeWhile (\<lambda>c. \<not> number_char c) s2;
              rest = dropWhile (\<lambda>c. \<not> number_char c) s2 in
          if \<not> pre \<and> \<not> post then invalid
          else if u = [] then Inl (''time: missing unit in duration '' @ time_quote orig)
          else case map_of unitMap u of
            None \<Rightarrow> Inl (''time: unknown unit '' @ time_quote u @ '' in duration '' @ time_quote orig)
          | Some unit \<Rightarrow>
              if v > 2 ^ 63 div unit then invalid
              else let v' = v * unit + (if f > 0 then rt_fraction rt f k unit else 0) in
                if f > 0 \<and> v' > 2 ^ 63 then invalid else Inr (v', rest))"

text \<open>Consuming a number makes the text shorter, so the loop ends.\<close>

lemma duration_term_shorter:
  assumes "duration_term rt orig s = Inr (v, rest)"
  shows "length rest < length s"
proof -
  have d: "length (dropWhile P xs) \<le> length xs" for P and xs :: string
    by (rule length_dropWhile_le)
  have nonempty: "length (dropWhile P xs) < length xs" if "takeWhile P xs \<noteq> []" for P and xs :: string
    using that by (metis add_diff_cancel_left' append_eq_conv_conj length_append length_greater_0_conv
        less_add_same_cancel2 takeWhile_dropWhile_id)
  from assms show ?thesis
    using d [of is_digit s] d [of is_digit "tl (dropWhile is_digit s)"] nonempty
    by (fastforce simp: duration_term_def Let_def leadingInt_def leadingFraction_def
        split: if_splits option.splits prod.splits)
qed

function duration_loop :: "runtime \<Rightarrow> string \<Rightarrow> nat \<Rightarrow> string \<Rightarrow> string + nat" where
  "duration_loop rt orig d s =
     (if s = [] then Inr d
      else case duration_term rt orig s of
        Inl e \<Rightarrow> Inl e
      | Inr (v, rest) \<Rightarrow>
          if d + v > 2 ^ 63 then Inl (''time: invalid duration '' @ time_quote orig)
          else duration_loop rt orig (d + v) rest)"
  by pat_completeness auto
termination
  by (relation "measure (\<lambda>(rt, orig, d, s). length s)") (auto dest: duration_term_shorter)

declare duration_loop.simps [simp del]

definition ParseDuration :: "runtime \<Rightarrow> string \<Rightarrow> int \<times> go_error option" where
  "ParseDuration rt s =
     (let sign = (s \<noteq> [] \<and> (hd s = CHR ''-'' \<or> hd s = CHR ''+''));
          neg = (sign \<and> hd s = CHR ''-'');
          body = (if sign then tl s else s);
          invalid = (0, Some (ErrorString (''time: invalid duration '' @ time_quote s))) in
      if body = ''0'' then (0, None)
      else if body = [] then invalid
      else case duration_loop rt s 0 body of
        Inl e \<Rightarrow> (0, Some (ErrorString e))
      | Inr d \<Rightarrow> if neg then (- int d, None) else if d > 2 ^ 63 - 1 then invalid else (int d, None))"

section \<open>Addresses\<close>

definition AddrError :: "string \<Rightarrow> string \<Rightarrow> go_error" where
  "AddrError addr why = ErrorString (if addr = [] then why else ''address '' @ addr @ '': '' @ why)"

definition IndexByte :: "string \<Rightarrow> char \<Rightarrow> nat option" where
  "IndexByte s c = (if c \<in> set s then Some (length (takeWhile (\<lambda>x. x \<noteq> c) s)) else None)"

definition LastIndexByte :: "string \<Rightarrow> char \<Rightarrow> nat option" where
  "LastIndexByte s c = map_option (\<lambda>i. length s - 1 - i) (IndexByte (rev s) c)"

definition host_part :: "string \<Rightarrow> nat \<Rightarrow> string + string \<times> nat \<times> nat" where
  "host_part hostport i =
     (if hd hostport = CHR ''['' then
        (case IndexByte hostport (CHR '']'') of
           None \<Rightarrow> Inl (''missing '' @ quoted '']'' @ '' in address'')
         | Some close \<Rightarrow>
             if close + 1 = length hostport then Inl ''missing port in address''
             else if close + 1 = i then Inr (take (close - 1) (drop 1 hostport), 1, close + 1)
             else if hostport ! (close + 1) = CHR '':'' then Inl ''too many colons in address''
             else Inl ''missing port in address'')
      else if CHR '':'' \<in> set (take i hostport) then Inl ''too many colons in address''
      else Inr (take i hostport, 0, 0))"

definition SplitHostPort :: "string \<Rightarrow> go_error + string \<times> string" where
  "SplitHostPort hostport =
     (case LastIndexByte hostport (CHR '':'') of
        None \<Rightarrow> Inl (AddrError hostport ''missing port in address'')
      | Some i \<Rightarrow>
          case host_part hostport i of
            Inl why \<Rightarrow> Inl (AddrError hostport why)
          | Inr (host, j, k) \<Rightarrow>
              if CHR ''['' \<in> set (drop j hostport)
              then Inl (AddrError hostport (''unexpected '' @ quoted ''['' @ '' in address''))
              else if CHR '']'' \<in> set (drop k hostport)
              then Inl (AddrError hostport (''unexpected '' @ quoted '']'' @ '' in address''))
              else Inr (host, drop (i + 1) hostport))"

lemma LastIndexByte_append:
  "c \<notin> set port \<Longrightarrow> LastIndexByte (host @ [c] @ port) c = Some (length host)"
  by (simp add: LastIndexByte_def IndexByte_def takeWhile_append takeWhile_eq_all_conv [THEN iffD2])

text \<open>An address of a host and a port without the special characters is taken apart as it was put
  together.\<close>

lemma SplitHostPort_join:
  assumes "set (host @ port) \<inter> {CHR '':'', CHR ''['', CHR '']''} = {}"
  shows "SplitHostPort (host @ [CHR '':''] @ port) = Inr (host, port)"
proof -
  have "LastIndexByte (host @ [CHR '':''] @ port) (CHR '':'') = Some (length host)"
    using assms by (intro LastIndexByte_append) auto
  moreover have "hd (host @ [CHR '':''] @ port) \<noteq> CHR ''[''" using assms by (cases host) auto
  ultimately show ?thesis using assms by (auto simp: SplitHostPort_def host_part_def)
qed

end
