(* ===== verification/Zap_Level.thy ===== *)
theory Zap_Level
  imports Go_Strconv
begin

text \<open>
  The log levels of zap (\<^verbatim>\<open>zapcore/level.go\<close>): an eight-bit number with a text form.
\<close>

type_synonym Level = int

definition DebugLevel :: Level where "DebugLevel = -1"
definition InfoLevel :: Level where "InfoLevel = 0"
definition WarnLevel :: Level where "WarnLevel = 1"
definition ErrorLevel :: Level where "ErrorLevel = 2"
definition DPanicLevel :: Level where "DPanicLevel = 3"
definition PanicLevel :: Level where "PanicLevel = 4"
definition FatalLevel :: Level where "FatalLevel = 5"

lemmas level_defs = DebugLevel_def InfoLevel_def WarnLevel_def ErrorLevel_def DPanicLevel_def
  PanicLevel_def FatalLevel_def

definition Level_String :: "Level \<Rightarrow> string" where
  "Level_String l =
     (if l = DebugLevel then ''debug'' else if l = InfoLevel then ''info''
      else if l = WarnLevel then ''warn'' else if l = ErrorLevel then ''error''
      else if l = DPanicLevel then ''dpanic'' else if l = PanicLevel then ''panic''
      else if l = FatalLevel then ''fatal'' else ''Level('' @ itoa l @ '')'')"

definition unmarshalText :: "string \<Rightarrow> Level option" where
  "unmarshalText text =
     (if text = ''debug'' \<or> text = ''DEBUG'' then Some DebugLevel
      else if text = ''info'' \<or> text = ''INFO'' \<or> text = [] then Some InfoLevel
      else if text = ''warn'' \<or> text = ''WARN'' then Some WarnLevel
      else if text = ''error'' \<or> text = ''ERROR'' then Some ErrorLevel
      else if text = ''dpanic'' \<or> text = ''DPANIC'' then Some DPanicLevel
      else if text = ''panic'' \<or> text = ''PANIC'' then Some PanicLevel
      else if text = ''fatal'' \<or> text = ''FATAL'' then Some FatalLevel
      else None)"

text \<open>\<^verbatim>\<open>bytes.ToLower\<close>, as far as the result may be ASCII: besides the capital letters, the dotted capital I and
  the Kelvin sign become ASCII letters; every other character above ASCII stays above it.\<close>

fun ToLower :: "string \<Rightarrow> string" where
  "ToLower [] = []"
| "ToLower (c # s) =
     (if in_range 65 90 c then char_of (of_char c + 32 :: nat) # ToLower s
      else if c = CHR 0xC4 \<and> starts (CHR 0xB0) s then CHR ''i'' # ToLower (drop 1 s)
      else if c = CHR 0xE2 \<and> starts (CHR 0x84) s \<and> starts (CHR 0xAA) (drop 1 s)
      then CHR ''k'' # ToLower (drop 2 s)
      else c # ToLower s)"

definition UnmarshalText :: "runtime \<Rightarrow> string \<Rightarrow> go_error + Level" where
  "UnmarshalText rt text = (case unmarshalText text of
     Some l \<Rightarrow> Inr l
   | None \<Rightarrow> (case unmarshalText (ToLower text) of
       Some l \<Rightarrow> Inr l
     | None \<Rightarrow> Inl (ErrorString (''unrecognized level: '' @ Quote rt text))))"

definition ParseLevel :: "runtime \<Rightarrow> string \<Rightarrow> go_error + Level" where
  "ParseLevel rt text = UnmarshalText rt text"

section \<open>Round trip\<close>

definition levels :: "Level list" where
  "levels = [DebugLevel, InfoLevel, WarnLevel, ErrorLevel, DPanicLevel, PanicLevel, FatalLevel]"

lemma ParseLevel_String: "l \<in> set levels \<Longrightarrow> ParseLevel rt (Level_String l) = Inr l"
  by (auto simp: levels_def level_defs ParseLevel_def UnmarshalText_def unmarshalText_def Level_String_def)

lemma ParseLevel_range: "ParseLevel rt text = Inr l \<Longrightarrow> l \<in> set levels"
  by (auto simp: levels_def ParseLevel_def UnmarshalText_def unmarshalText_def split: option.splits if_splits)

end
