(* ===== verification/Flag_Set.thy ===== *)
theory Flag_Set
  imports Zap_Level
begin

text \<open>
  The command line flags of \<^verbatim>\<open>github.com/spf13/pflag\<close>.  A flag holds a pointer to a variable of the
  program, here a pair of functions that read and write that variable inside the configuration
  \<open>'c\<close>; a flag set is the list of its flags.  All flag sets of the program use
  \<^verbatim>\<open>ContinueOnError\<close> and no name normalisation, deprecation or whitelist.  Usage texts, which are
  printed to standard error, are left out.
\<close>

section \<open>Values\<close>

datatype kind = KBool | KString | KInt | KDuration | KStringArray | KLevel

datatype val = VBool bool | VString string | VInt int | VStrings "string list"

definition has_kind :: "kind \<Rightarrow> val \<Rightarrow> bool" where
  "has_kind k v = (case v of
     VBool _ \<Rightarrow> k = KBool
   | VString _ \<Rightarrow> k = KString
   | VInt _ \<Rightarrow> k \<in> {KInt, KDuration, KLevel}
   | VStrings _ \<Rightarrow> k = KStringArray)"

text \<open>The \<^verbatim>\<open>Set\<close> methods: what is stored and the error.  Most kinds store the result of the conversion also
  when it failed; a level is only stored when it is valid; a string array is replaced by the
  first value and extended by the following ones.\<close>

definition boolValue_Set :: "runtime \<Rightarrow> string \<Rightarrow> val \<times> go_error option" where
  [simp]: "boolValue_Set rt s = (let (b, e) = ParseBool rt s in (VBool b, e))"

definition intValue_Set :: "runtime \<Rightarrow> string \<Rightarrow> val \<times> go_error option" where
  [simp]: "intValue_Set rt s = (let (i, e) = ParseInt rt ''ParseInt'' 0 s in (VInt i, e))"

definition durationValue_Set :: "runtime \<Rightarrow> string \<Rightarrow> val \<times> go_error option" where
  [simp]: "durationValue_Set rt s = (let (d, e) = ParseDuration rt s in (VInt d, e))"

definition stringArrayValue_Set :: "bool \<Rightarrow> string \<Rightarrow> val \<Rightarrow> val \<times> go_error option" where
  [simp]: "stringArrayValue_Set changed s old =
     (VStrings (if changed then (case old of VStrings xs \<Rightarrow> xs | _ \<Rightarrow> []) @ [s] else [s]), None)"

definition atomicLevel_Set :: "runtime \<Rightarrow> string \<Rightarrow> val \<Rightarrow> val \<times> go_error option" where
  [simp]: "atomicLevel_Set rt s old = (case ParseLevel rt s of Inl e \<Rightarrow> (old, Some e) | Inr l \<Rightarrow> (VInt l, None))"

definition Value_Set :: "runtime \<Rightarrow> kind \<Rightarrow> bool \<Rightarrow> string \<Rightarrow> val \<Rightarrow> val \<times> go_error option" where
  "Value_Set rt k changed s old = (case k of
     KBool \<Rightarrow> boolValue_Set rt s
   | KString \<Rightarrow> (VString s, None)
   | KInt \<Rightarrow> intValue_Set rt s
   | KDuration \<Rightarrow> durationValue_Set rt s
   | KStringArray \<Rightarrow> stringArrayValue_Set changed s old
   | KLevel \<Rightarrow> atomicLevel_Set rt s old)"

section \<open>Flags and flag sets\<close>

record 'c flag =
  fl_Name :: string
  fl_Shorthand :: string
  fl_Kind :: kind
  fl_get :: "'c \<Rightarrow> val"
  fl_put :: "val \<Rightarrow> 'c \<Rightarrow> 'c"

definition NoOptDefVal :: "'c flag \<Rightarrow> string" where
  "NoOptDefVal f = (if fl_Kind f = KBool then ''true'' else [])"

type_synonym 'c flagset = "'c flag list"

definition Lookup :: "'c flagset \<Rightarrow> string \<Rightarrow> 'c flag option" where
  "Lookup fs name = find (\<lambda>f. fl_Name f = name) fs"

definition ShorthandLookup :: "'c flagset \<Rightarrow> char \<Rightarrow> 'c flag option" where
  "ShorthandLookup fs c = find (\<lambda>f. fl_Shorthand f = [c]) fs"

text \<open>\<^verbatim>\<open>AddFlag\<close> panics when a name or a shorthand is taken, or a shorthand is too long.\<close>

definition AddFlag :: "runtime \<Rightarrow> string \<Rightarrow> 'c flag \<Rightarrow> 'c flagset \<Rightarrow> 'c flagset outcome" where
  "AddFlag rt set_name f fs =
     (if Lookup fs (fl_Name f) \<noteq> None then Panic (set_name @ '' flag redefined: '' @ fl_Name f)
      else case fl_Shorthand f of
        [] \<Rightarrow> Return (fs @ [f])
      | [c] \<Rightarrow> (case ShorthandLookup fs c of
          None \<Rightarrow> Return (fs @ [f])
        | Some used \<Rightarrow> Panic (''unable to redefine '' @ quote_byte rt c @ '' shorthand in '' @ Quote rt set_name
            @ '' flagset: it'' @ [CHR 0x27] @ ''s already used for '' @ Quote rt (fl_Name used) @ '' flag''))
      | _ \<Rightarrow> Panic (Quote rt (fl_Shorthand f) @ '' shorthand is more than one ASCII character''))"

fun add_all :: "runtime \<Rightarrow> string \<Rightarrow> 'c flag list \<Rightarrow> 'c flagset \<Rightarrow> 'c flagset outcome" where
  "add_all rt set_name [] fs = Return fs"
| "add_all rt set_name (f # rest) fs = (case AddFlag rt set_name f fs of
     Panic p \<Rightarrow> Panic p
   | Return fs \<Rightarrow> add_all rt set_name rest fs)"

section \<open>Parsing\<close>

text \<open>The state of a flag set while it is parsed: the configuration its flags point into and the flags that have
  been set.\<close>

record 'c setting =
  st_config :: 'c
  st_actual :: "string list"

definition ErrHelp :: go_error where "ErrHelp = ErrorString ''pflag: help requested''"

definition flag_title :: "'c flag \<Rightarrow> string" where
  "flag_title f = (if fl_Shorthand f \<noteq> [] then ''-'' @ fl_Shorthand f @ '', --'' @ fl_Name f else ''--'' @ fl_Name f)"

text \<open>\<^verbatim>\<open>FlagSet.Set\<close>, for a flag of the set.\<close>

definition flag_Set :: "runtime \<Rightarrow> 'c flag \<Rightarrow> string \<Rightarrow> 'c setting \<Rightarrow> 'c setting \<times> go_error option" where
  "flag_Set rt f value ps =
     (let (v, err) = Value_Set rt (fl_Kind f) (fl_Name f \<in> set (st_actual ps)) value (fl_get f (st_config ps));
          ps = ps\<lparr>st_config := fl_put f v (st_config ps)\<rparr> in
      case err of
        Some e \<Rightarrow> (ps, Some (ErrorString (''invalid argument '' @ Quote rt value @ '' for ''
          @ Quote rt (flag_title f) @ '' flag: '' @ Error e)))
      | None \<Rightarrow> (if fl_Name f \<in> set (st_actual ps) then ps else ps\<lparr>st_actual := st_actual ps @ [fl_Name f]\<rparr>, None))"

text \<open>\<^verbatim>\<open>strings.SplitN(name, "=", 2)\<close>.\<close>

definition split_eq :: "string \<Rightarrow> string \<times> string option" where
  "split_eq s = (let name = takeWhile (\<lambda>c. c \<noteq> CHR ''='') s in
     if CHR ''='' \<in> set s then (name, Some (drop (length name + 1) s)) else (s, None))"

text \<open>The value of a flag in the long form: what follows the equals sign, the value a flag has by itself, or the
  next argument.  The result has the value and the remaining arguments.\<close>

definition long_value :: "'c flag \<Rightarrow> string option \<Rightarrow> string list \<Rightarrow> (string \<times> string list) option" where
  "long_value f given a = (case given of
     Some v \<Rightarrow> Some (v, a)
   | None \<Rightarrow>
       if NoOptDefVal f \<noteq> [] then Some (NoOptDefVal f, a)
       else (case a of v # a' \<Rightarrow> Some (v, a') | [] \<Rightarrow> None))"

text \<open>The parser hands every flag it finds with its value to a function \<open>fn\<close>, which works on a state of its own.\<close>

type_synonym ('c, 's) parseFunc = "'c flag \<Rightarrow> string \<Rightarrow> 's \<Rightarrow> 's \<times> go_error option"

definition parseLongArg ::
    "('c, 's) parseFunc \<Rightarrow> 'c flagset \<Rightarrow> string \<Rightarrow> string list \<Rightarrow> 's
     \<Rightarrow> 's \<times> string list \<times> go_error option" where
  "parseLongArg fn fs s a st =
     (let name = drop 2 s in
      if name = [] \<or> hd name = CHR ''-'' \<or> hd name = CHR ''=''
      then (st, a, Some (ErrorString (''bad flag syntax: '' @ s)))
      else let (name, given) = split_eq name in
        case Lookup fs name of
          None \<Rightarrow>
            if name = ''help'' then (st, a, Some ErrHelp)
            else (st, a, Some (ErrorString (''unknown flag: --'' @ name)))
        | Some f \<Rightarrow>
            case long_value f given a of
              None \<Rightarrow> (st, a, Some (ErrorString (''flag needs an argument: '' @ s)))
            | Some (value, a) \<Rightarrow> (let (st, err) = fn f value st in (st, a, err)))"

text \<open>The value of a shorthand flag, with the shorthands and the arguments that remain.\<close>

definition short_value ::
    "'c flag \<Rightarrow> string \<Rightarrow> string list \<Rightarrow> (string \<times> string \<times> string list) option" where
  "short_value f shorthands args =
     (if length shorthands > 2 \<and> shorthands ! 1 = CHR ''='' then Some (drop 2 shorthands, [], args)
      else if NoOptDefVal f \<noteq> [] then Some (NoOptDefVal f, drop 1 shorthands, args)
      else if length shorthands > 1 then Some (drop 1 shorthands, [], args)
      else case args of v # args' \<Rightarrow> Some (v, drop 1 shorthands, args') | [] \<Rightarrow> None)"

definition parseSingleShortArg ::
    "runtime \<Rightarrow> ('c, 's) parseFunc \<Rightarrow> 'c flagset \<Rightarrow> string \<Rightarrow> string list \<Rightarrow> 's
     \<Rightarrow> 's \<times> string \<times> string list \<times> go_error option" where
  "parseSingleShortArg rt fn fs shorthands args st =
     (if take 5 shorthands = ''test.'' then (st, [], args, None)
      else let c = hd shorthands in
        case ShorthandLookup fs c of
          None \<Rightarrow>
            if c = CHR ''h'' then (st, drop 1 shorthands, args, Some ErrHelp)
            else (st, drop 1 shorthands, args,
              Some (ErrorString (''unknown shorthand flag: '' @ quote_byte rt c @ '' in -'' @ shorthands)))
        | Some f \<Rightarrow>
            case short_value f shorthands args of
              None \<Rightarrow> (st, drop 1 shorthands, args,
                Some (ErrorString (''flag needs an argument: '' @ quote_byte rt c @ '' in -'' @ shorthands)))
            | Some (value, shorts, args) \<Rightarrow> (let (st, err) = fn f value st in (st, shorts, args, err)))"

lemma parseSingleShortArg_shorter:
  "parseSingleShortArg rt fn fs s args st = (st', s', args', e) \<Longrightarrow> s \<noteq> []
     \<Longrightarrow> length s' < length s \<and> length args' \<le> length args"
  by (auto simp: parseSingleShortArg_def short_value_def Let_def
      split: if_splits option.splits prod.splits list.splits)

text \<open>Every shorthand of an argument is parsed with the arguments after it; the remaining ones are those the last
  shorthand left.\<close>

function parseShortArg ::
    "runtime \<Rightarrow> ('c, 's) parseFunc \<Rightarrow> 'c flagset \<Rightarrow> string \<Rightarrow> string list \<Rightarrow> string list \<Rightarrow> 's
     \<Rightarrow> 's \<times> string list \<times> go_error option" where
  "parseShortArg rt fn fs shorthands args a st =
     (if shorthands = [] then (st, a, None)
      else case parseSingleShortArg rt fn fs shorthands args st of (st, shorthands, a, err) \<Rightarrow>
        if err \<noteq> None then (st, a, err) else parseShortArg rt fn fs shorthands args a st)"
  by pat_completeness auto
termination
  by (relation "measure (\<lambda>(rt, fn, fs, s, args, a, st). length s)") (auto dest: parseSingleShortArg_shorter [OF sym])

declare parseShortArg.simps [simp del]

lemma parseShortArg_args:
  "length a \<le> length args \<Longrightarrow> parseShortArg rt fn fs s args a st = (st', a', e) \<Longrightarrow> length a' \<le> length args"
proof (induction rt fn fs s args a st rule: parseShortArg.induct)
  case (1 rt fn fs s args a st)
  show ?case
  proof (cases "s = []")
    case True
    with 1 show ?thesis by (simp add: parseShortArg.simps)
  next
    case False
    obtain st1 s1 a1 e1 where p: "parseSingleShortArg rt fn fs s args st = (st1, s1, a1, e1)"
      by (cases "parseSingleShortArg rt fn fs s args st")
    with parseSingleShortArg_shorter [OF p False] 1 False show ?thesis
      by (auto simp: parseShortArg.simps [of rt fn fs s] split: if_splits)
  qed
qed

lemma parseLongArg_args: "parseLongArg fn fs s a st = (st', a', e) \<Longrightarrow> length a' \<le> length a"
  by (auto simp: parseLongArg_def long_value_def Let_def split: if_splits option.splits prod.splits list.splits)

text \<open>\<^verbatim>\<open>parseArgs\<close>, with flags and other arguments interspersed: the state of \<open>fn\<close>, the arguments that are not flags and
  the error.\<close>

definition is_flag_arg :: "string \<Rightarrow> bool" where
  "is_flag_arg s \<longleftrightarrow> length s > 1 \<and> hd s = CHR ''-''"

definition parse_one ::
    "runtime \<Rightarrow> ('c, 's) parseFunc \<Rightarrow> 'c flagset \<Rightarrow> string \<Rightarrow> string list \<Rightarrow> 's
     \<Rightarrow> 's \<times> string list \<times> go_error option" where
  "parse_one rt fn fs s args st =
     (if s ! 1 = CHR ''-'' then parseLongArg fn fs s args st
      else parseShortArg rt fn fs (drop 1 s) args args st)"

lemma parse_one_args: "parse_one rt fn fs s a st = (st', a', e) \<Longrightarrow> length a' \<le> length a"
  by (auto simp: parse_one_def split: if_splits dest: parseLongArg_args parseShortArg_args [rotated])

function parseArgs ::
    "runtime \<Rightarrow> ('c, 's) parseFunc \<Rightarrow> 'c flagset \<Rightarrow> string list \<Rightarrow> string list \<Rightarrow> 's
     \<Rightarrow> 's \<times> string list \<times> go_error option" where
  "parseArgs rt fn fs rest [] st = (st, rest, None)"
| "parseArgs rt fn fs rest (s # args) st =
     (if \<not> is_flag_arg s then parseArgs rt fn fs (rest @ [s]) args st
      else if s = ''--'' then (st, rest @ args, None)
      else case parse_one rt fn fs s args st of (st, args, err) \<Rightarrow>
        if err \<noteq> None then (st, rest, err) else parseArgs rt fn fs rest args st)"
  by pat_completeness auto
termination
  by (relation "measure (\<lambda>(rt, fn, fs, rest, args, st). length args)") (auto dest!: parse_one_args [OF sym])

text \<open>\<^verbatim>\<open>Parse\<close> on a new flag set over the configuration \<open>c\<close>.\<close>

definition Parse ::
    "runtime \<Rightarrow> 'c flagset \<Rightarrow> string list \<Rightarrow> 'c \<Rightarrow> 'c setting \<times> string list \<times> go_error option" where
  "Parse rt fs arguments c = parseArgs rt (flag_Set rt) fs [] arguments \<lparr>st_config = c, st_actual = []\<rparr>"

section \<open>The flags of a command line\<close>

text \<open>
  Which flags a command line sets, and to what text, does not depend on the configuration: it is what the
  parser finds when it only collects.  A successful parse is the same as carrying out
  these assignments one after the other.
\<close>

type_synonym 'c assignment = "'c flag \<times> string"

definition collect :: "('c, 'c assignment list) parseFunc" where
  "collect f v ops = (ops @ [(f, v)], None)"

definition command_line ::
    "runtime \<Rightarrow> 'c flagset \<Rightarrow> string list \<Rightarrow> 'c assignment list \<times> string list \<times> go_error option" where
  "command_line rt fs args = parseArgs rt collect fs [] args []"

fun assign_all :: "('c, 's) parseFunc \<Rightarrow> 'c assignment list \<Rightarrow> 's \<Rightarrow> 's \<times> go_error option" where
  "assign_all fn [] st = (st, None)"
| "assign_all fn ((f, v) # ops) st = (case fn f v st of
     (st, Some e) \<Rightarrow> (st, Some e)
   | (st, None) \<Rightarrow> assign_all fn ops st)"

lemma assign_all_append:
  "assign_all fn (xs @ ys) st = (case assign_all fn xs st of
     (st, Some e) \<Rightarrow> (st, Some e) | (st, None) \<Rightarrow> assign_all fn ys st)"
  by (induction fn xs st rule: assign_all.induct) (auto split: prod.splits option.splits)

lemma Lookup_in: "Lookup fs name = Some f \<Longrightarrow> f \<in> set fs \<and> fl_Name f = name"
  by (auto simp: Lookup_def find_Some_iff)

lemma ShorthandLookup_in: "ShorthandLookup fs c = Some f \<Longrightarrow> f \<in> set fs"
  by (auto simp: ShorthandLookup_def find_Some_iff)

lemma parseLongArg_collect:
  assumes "parseLongArg fn fs s a st = (st', a', None)"
  shows "\<exists>new. parseLongArg collect fs s a ops = (ops @ new, a', None)
     \<and> assign_all fn new st = (st', None) \<and> fst ` set new \<subseteq> set fs"
  using assms unfolding parseLongArg_def Let_def
  by (auto simp: collect_def dest: Lookup_in split: if_splits option.splits prod.splits
      intro!: exI [of _ "[(f, v)]" for f v])

lemma parseSingleShortArg_collect:
  assumes "parseSingleShortArg rt fn fs s a st = (st', s', a', None)"
  shows "\<exists>new. parseSingleShortArg rt collect fs s a ops = (ops @ new, s', a', None)
     \<and> assign_all fn new st = (st', None) \<and> fst ` set new \<subseteq> set fs"
proof (cases "take 5 s = ''test.''")
  case True
  with assms show ?thesis by (auto simp: parseSingleShortArg_def intro!: exI [of _ "[]"])
next
  case False
  with assms show ?thesis unfolding parseSingleShortArg_def Let_def
    by (auto simp: collect_def dest: ShorthandLookup_in split: if_splits option.splits prod.splits
        intro!: exI [of _ "[(f, v)]" for f v])
qed

lemma parseShortArg_collect:
  "parseShortArg rt fn fs s args a st = (st', a', None)
     \<Longrightarrow> \<exists>new. parseShortArg rt collect fs s args a ops = (ops @ new, a', None)
           \<and> assign_all fn new st = (st', None) \<and> fst ` set new \<subseteq> set fs"
proof (induction rt fn fs s args a st arbitrary: ops rule: parseShortArg.induct)
  case (1 rt fn fs s args a st)
  show ?case
  proof (cases "s = []")
    case True
    with "1.prems" show ?thesis by (auto simp: parseShortArg.simps)
  next
    case False
    obtain st1 s1 a1 e1 where p: "parseSingleShortArg rt fn fs s args st = (st1, s1, a1, e1)"
      by (cases "parseSingleShortArg rt fn fs s args st")
    with "1.prems" False have e1: "e1 = None" and rec: "parseShortArg rt fn fs s1 args a1 st1 = (st', a', None)"
      by (auto simp: parseShortArg.simps [of rt fn fs s] split: if_splits)
    from parseSingleShortArg_collect [OF p [unfolded e1], of ops] obtain n1 where
      n1: "parseSingleShortArg rt collect fs s args ops = (ops @ n1, s1, a1, None)"
        "assign_all fn n1 st = (st1, None)" "fst ` set n1 \<subseteq> set fs" by blast
    from "1.IH" [OF False p [symmetric] refl refl _ rec, of "ops @ n1"] e1 obtain n2 where
      "parseShortArg rt collect fs s1 args a1 (ops @ n1) = ((ops @ n1) @ n2, a', None)"
        "assign_all fn n2 st1 = (st', None)" "fst ` set n2 \<subseteq> set fs" by blast
    with n1 False show ?thesis
      by (auto simp: parseShortArg.simps [of rt collect fs s] assign_all_append intro!: exI [of _ "n1 @ n2"])
  qed
qed

lemma parse_one_collect:
  assumes "parse_one rt fn fs s a st = (st', a', None)"
  shows "\<exists>new. parse_one rt collect fs s a ops = (ops @ new, a', None)
     \<and> assign_all fn new st = (st', None) \<and> fst ` set new \<subseteq> set fs"
  using assms parseLongArg_collect [of fn fs s a st st' a' ops]
    parseShortArg_collect [of rt fn fs "drop 1 s" a a st st' a' ops]
  unfolding parse_one_def by (auto split: if_splits)

lemma parseArgs_collect:
  "parseArgs rt fn fs rest args st = (st', rest', None)
     \<Longrightarrow> \<exists>new. parseArgs rt collect fs rest args ops = (ops @ new, rest', None)
           \<and> assign_all fn new st = (st', None) \<and> fst ` set new \<subseteq> set fs"
proof (induction rt fn fs rest args st arbitrary: ops rule: parseArgs.induct)
  case (2 rt fn fs rest s args st)
  consider "\<not> is_flag_arg s" | "is_flag_arg s" "s = ''--''" | "is_flag_arg s" "s \<noteq> ''--''" by blast
  then show ?case
  proof cases
    case 3
    obtain st1 a1 e1 where p: "parse_one rt fn fs s args st = (st1, a1, e1)"
      by (cases "parse_one rt fn fs s args st")
    with "2.prems" 3 have e1: "e1 = None" and rec: "parseArgs rt fn fs rest a1 st1 = (st', rest', None)"
      by (auto split: if_splits)
    from parse_one_collect [OF p [unfolded e1], of ops] obtain n1 where
      n1: "parse_one rt collect fs s args ops = (ops @ n1, a1, None)"
        "assign_all fn n1 st = (st1, None)" "fst ` set n1 \<subseteq> set fs" by blast
    from "2.IH"(2) [OF _ 3(2) p [symmetric] refl _ rec, of "ops @ n1"] 3(1) e1 obtain n2 where
      "parseArgs rt collect fs rest a1 (ops @ n1) = ((ops @ n1) @ n2, rest', None)"
        "assign_all fn n2 st1 = (st', None)" "fst ` set n2 \<subseteq> set fs" by blast
    with n1 3 show ?thesis by (auto simp: assign_all_append intro!: exI [of _ "n1 @ n2"])
  qed (use "2.prems" "2.IH"(1) in auto)
qed simp

lemma Parse_assigns:
  assumes "Parse rt fs args c = (st, rest, None)"
  obtains ops where "command_line rt fs args = (ops, rest, None)" "fst ` set ops \<subseteq> set fs"
    "assign_all (flag_Set rt) ops \<lparr>st_config = c, st_actual = []\<rparr> = (st, None)"
  using parseArgs_collect [OF assms [unfolded Parse_def], of "[]"] by (auto simp: command_line_def)

section \<open>Flags that point to different variables\<close>

text \<open>The values given for a flag, and what they leave in its variable.\<close>

definition values_for :: "'c flag \<Rightarrow> 'c assignment list \<Rightarrow> string list" where
  "values_for f ops = map snd (filter (\<lambda>(g, v). fl_Name g = fl_Name f) ops)"

definition value_after :: "runtime \<Rightarrow> kind \<Rightarrow> string list \<Rightarrow> val \<Rightarrow> val" where
  "value_after rt k vs old =
     (if vs = [] then old
      else if k = KStringArray then VStrings vs
      else fst (Value_Set rt k False (last vs) old))"

lemma values_for_simps [simp]:
  "values_for f [] = []"
  "values_for f (ops @ [(g, v)]) = values_for f ops @ (if fl_Name g = fl_Name f then [v] else [])"
  by (simp_all add: values_for_def)

lemma values_for_eq_Nil: "values_for f ops = [] \<longleftrightarrow> fl_Name f \<notin> fl_Name ` fst ` set ops"
  by (induction ops rule: rev_induct) (auto simp del: values_for_simps(2) simp add: values_for_def)

lemma Value_Set_kind: "has_kind k old \<Longrightarrow> has_kind k (fst (Value_Set rt k ch s old))"
  by (cases k) (auto simp: Value_Set_def has_kind_def split: prod.splits val.splits sum.splits)

lemma Value_Set_scalar:
  "k \<noteq> KStringArray \<Longrightarrow> snd (Value_Set rt k ch s old) = None
     \<Longrightarrow> fst (Value_Set rt k ch s old) = fst (Value_Set rt k False s old')"
  by (cases k) (auto simp: Value_Set_def split: prod.splits sum.splits)

lemma value_after_snoc:
  assumes "snd (Value_Set rt k (vs \<noteq> []) v (value_after rt k vs old)) = None"
  shows "value_after rt k (vs @ [v]) old = fst (Value_Set rt k (vs \<noteq> []) v (value_after rt k vs old))"
proof (cases "k = KStringArray")
  case True
  then show ?thesis by (auto simp: value_after_def Value_Set_def)
next
  case False
  from Value_Set_scalar [OF this assms, of old] False show ?thesis by (simp add: value_after_def)
qed

locale pointers =
  fixes flags :: "'c flag list"
  assumes distinct_names: "distinct (map fl_Name flags)"
    and get_kind: "f \<in> set flags \<Longrightarrow> has_kind (fl_Kind f) (fl_get f c)"
    and get_put: "f \<in> set flags \<Longrightarrow> has_kind (fl_Kind f) v \<Longrightarrow> fl_get f (fl_put f v c) = v"
    and get_put_other: "f \<in> set flags \<Longrightarrow> g \<in> set flags \<Longrightarrow> fl_Name f \<noteq> fl_Name g
      \<Longrightarrow> has_kind (fl_Kind g) v \<Longrightarrow> fl_get f (fl_put g v c) = fl_get f c"
begin

lemma same_name: "f \<in> set flags \<Longrightarrow> g \<in> set flags \<Longrightarrow> fl_Name f = fl_Name g \<longleftrightarrow> f = g"
  using distinct_names by (auto simp: distinct_map inj_on_def)

lemma Lookup_flag: "f \<in> set flags \<Longrightarrow> Lookup flags (fl_Name f) = Some f"
proof (cases "Lookup flags (fl_Name f)")
  case None
  moreover assume "f \<in> set flags"
  ultimately show ?thesis unfolding Lookup_def find_None_iff by blast
next
  case (Some g)
  moreover assume "f \<in> set flags"
  ultimately show ?thesis using same_name [of f g] Lookup_in [OF Some] by simp
qed

lemma assign_all_fields:
  assumes "assign_all (flag_Set rt) ops \<lparr>st_config = c, st_actual = []\<rparr> = (st, None)"
    and "fst ` set ops \<subseteq> set flags"
  shows "set (st_actual st) = fl_Name ` fst ` set ops
    \<and> (\<forall>f\<in>set flags. fl_get f (st_config st) = value_after rt (fl_Kind f) (values_for f ops) (fl_get f c))"
  using assms
proof (induction ops arbitrary: st rule: rev_induct)
  case Nil
  then show ?case by (auto simp: value_after_def)
next
  case (snoc op ops)
  obtain g v where op: "op = (g, v)" by fastforce
  obtain st1 e1 where 1: "assign_all (flag_Set rt) ops \<lparr>st_config = c, st_actual = []\<rparr> = (st1, e1)"
    by fastforce
  with snoc.prems op have e1: "e1 = None" and set: "flag_Set rt g v st1 = (st, None)"
    by (auto simp: assign_all_append split: option.splits prod.splits)
  have g: "g \<in> set flags" using snoc.prems(2) op by simp
  from snoc.IH [OF 1 [unfolded e1]] snoc.prems(2) have
    act: "set (st_actual st1) = fl_Name ` fst ` set ops" and
    fields: "\<And>f. f \<in> set flags \<Longrightarrow> fl_get f (st_config st1) = value_after rt (fl_Kind f) (values_for f ops) (fl_get f c)"
    by auto
  let ?ch = "fl_Name g \<in> set (st_actual st1)"
  let ?vs = "Value_Set rt (fl_Kind g) ?ch v (fl_get g (st_config st1))"
  have ok: "snd ?vs = None" and st: "st_config st = fl_put g (fst ?vs) (st_config st1)"
    and act': "set (st_actual st) = insert (fl_Name g) (set (st_actual st1))"
    using set by (auto simp: flag_Set_def Let_def split: prod.splits option.splits if_splits)
  have ch: "?ch \<longleftrightarrow> values_for g ops \<noteq> []" using act by (simp add: values_for_eq_Nil)
  have new: "fst ?vs = value_after rt (fl_Kind g) (values_for g ops @ [v]) (fl_get g c)"
    using value_after_snoc [of rt "fl_Kind g" "values_for g ops" v "fl_get g c"] ok fields [OF g] ch by simp
  have kind: "has_kind (fl_Kind g) (fst ?vs)" by (rule Value_Set_kind [OF get_kind [OF g]])
  have "fl_get f (st_config st) = value_after rt (fl_Kind f) (values_for f (ops @ [op])) (fl_get f c)"
    if f: "f \<in> set flags" for f
  proof (cases "fl_Name f = fl_Name g")
    case True
    then have "f = g" using same_name [OF f g] by simp
    with new kind st g show ?thesis by (simp add: get_put op)
  next
    case False
    with get_put_other [OF f g False kind] st fields [OF f] show ?thesis by (simp add: op)
  qed
  with act act' show ?case by (auto simp: op)
qed

text \<open>A successful parse leaves in the variable of every flag what the command line says, or what was there.\<close>

lemma parse_fields:
  assumes "Parse rt flags args c = (st, rest, None)"
  shows "\<exists>ops. command_line rt flags args = (ops, rest, None)
    \<and> set (st_actual st) = fl_Name ` fst ` set ops
    \<and> (\<forall>f\<in>set flags. fl_get f (st_config st) = value_after rt (fl_Kind f) (values_for f ops) (fl_get f c))"
proof -
  from Parse_assigns [OF assms] obtain ops where "command_line rt flags args = (ops, rest, None)"
    "fst ` set ops \<subseteq> set flags" "assign_all (flag_Set rt) ops \<lparr>st_config = c, st_actual = []\<rparr> = (st, None)" .
  with assign_all_fields show ?thesis by blast
qed

end

text \<open>Flags with different names are added to a set without panic.\<close>

lemma add_all_ok:
  assumes "distinct (map fl_Name (fs @ new))" and "list_all (\<lambda>f. fl_Shorthand f = []) new"
  shows "add_all rt set_name new fs = Return (fs @ new)"
  using assms
proof (induction new arbitrary: fs)
  case (Cons f new)
  have "Lookup fs (fl_Name f) = None"
    using Cons.prems(1) by (simp add: Lookup_def find_None_iff) (metis image_eqI)
  with Cons.prems Cons.IH [of "fs @ [f]"] show ?case by (simp add: AddFlag_def)
qed simp

section \<open>Constructing flags\<close>

text \<open>\<^verbatim>\<open>BoolVar\<close>, \<^verbatim>\<open>StringVar\<close>, \<^verbatim>\<open>IntVar\<close>, \<^verbatim>\<open>DurationVar\<close> and \<^verbatim>\<open>StringArrayVar\<close> for a variable that is read and
  updated by two functions.\<close>

definition BoolVar :: "('c \<Rightarrow> bool) \<Rightarrow> ((bool \<Rightarrow> bool) \<Rightarrow> 'c \<Rightarrow> 'c) \<Rightarrow> string \<Rightarrow> 'c flag" where
  "BoolVar get upd name = \<lparr>fl_Name = name, fl_Shorthand = [], fl_Kind = KBool, fl_get = \<lambda>c. VBool (get c),
     fl_put = \<lambda>v. upd (\<lambda>old. case v of VBool b \<Rightarrow> b | _ \<Rightarrow> old)\<rparr>"

definition StringVar :: "('c \<Rightarrow> string) \<Rightarrow> ((string \<Rightarrow> string) \<Rightarrow> 'c \<Rightarrow> 'c) \<Rightarrow> string \<Rightarrow> 'c flag" where
  "StringVar get upd name = \<lparr>fl_Name = name, fl_Shorthand = [], fl_Kind = KString, fl_get = \<lambda>c. VString (get c),
     fl_put = \<lambda>v. upd (\<lambda>old. case v of VString s \<Rightarrow> s | _ \<Rightarrow> old)\<rparr>"

definition NumVar :: "kind \<Rightarrow> ('c \<Rightarrow> int) \<Rightarrow> ((int \<Rightarrow> int) \<Rightarrow> 'c \<Rightarrow> 'c) \<Rightarrow> string \<Rightarrow> 'c flag" where
  "NumVar k get upd name = \<lparr>fl_Name = name, fl_Shorthand = [], fl_Kind = k, fl_get = \<lambda>c. VInt (get c),
     fl_put = \<lambda>v. upd (\<lambda>old. case v of VInt i \<Rightarrow> i | _ \<Rightarrow> old)\<rparr>"

definition StringArrayVar :: "('c \<Rightarrow> string list) \<Rightarrow> ((string list \<Rightarrow> string list) \<Rightarrow> 'c \<Rightarrow> 'c) \<Rightarrow> string \<Rightarrow> 'c flag" where
  "StringArrayVar get upd name = \<lparr>fl_Name = name, fl_Shorthand = [], fl_Kind = KStringArray,
     fl_get = \<lambda>c. VStrings (get c), fl_put = \<lambda>v. upd (\<lambda>old. case v of VStrings xs \<Rightarrow> xs | _ \<Rightarrow> old)\<rparr>"

abbreviation IntVar :: "('c \<Rightarrow> int) \<Rightarrow> ((int \<Rightarrow> int) \<Rightarrow> 'c \<Rightarrow> 'c) \<Rightarrow> string \<Rightarrow> 'c flag" where
  "IntVar \<equiv> NumVar KInt"

abbreviation DurationVar :: "('c \<Rightarrow> int) \<Rightarrow> ((int \<Rightarrow> int) \<Rightarrow> 'c \<Rightarrow> 'c) \<Rightarrow> string \<Rightarrow> 'c flag" where
  "DurationVar \<equiv> NumVar KDuration"

lemmas var_defs = BoolVar_def StringVar_def NumVar_def StringArrayVar_def

text \<open>The flags of a part of the configuration, in the whole of it.\<close>

definition inside :: "('c \<Rightarrow> 'a) \<Rightarrow> ('a \<Rightarrow> 'c \<Rightarrow> 'c) \<Rightarrow> 'a flag \<Rightarrow> 'c flag" where
  "inside get put f = \<lparr>fl_Name = fl_Name f, fl_Shorthand = fl_Shorthand f, fl_Kind = fl_Kind f,
     fl_get = \<lambda>c. fl_get f (get c), fl_put = \<lambda>v c. put (fl_put f v (get c)) c\<rparr>"

lemma inside_simps [simp]:
  "fl_Name (inside get put f) = fl_Name f" "fl_Shorthand (inside get put f) = fl_Shorthand f"
  "fl_Kind (inside get put f) = fl_Kind f" "fl_get (inside get put f) c = fl_get f (get c)"
  "fl_put (inside get put f) v c = put (fl_put f v (get c)) c"
  by (simp_all add: inside_def)

section \<open>Independent flags\<close>

definition ok_flag :: "'c flag \<Rightarrow> bool" where
  "ok_flag f \<longleftrightarrow> (\<forall>c. has_kind (fl_Kind f) (fl_get f c))
     \<and> (\<forall>v c. has_kind (fl_Kind f) v \<longrightarrow> fl_get f (fl_put f v c) = v)"

definition independent :: "'c flag \<Rightarrow> 'c flag \<Rightarrow> bool" where
  "independent f g \<longleftrightarrow> (\<forall>v c. has_kind (fl_Kind g) v \<longrightarrow> fl_get f (fl_put g v c) = fl_get f c)
     \<and> (\<forall>v c. has_kind (fl_Kind f) v \<longrightarrow> fl_get g (fl_put f v c) = fl_get g c)"

fun pairwise_independent :: "'c flag list \<Rightarrow> bool" where
  "pairwise_independent [] \<longleftrightarrow> True"
| "pairwise_independent (f # fs) \<longleftrightarrow> list_all (independent f) fs \<and> pairwise_independent fs"

lemma pairwise_independentD:
  "pairwise_independent fs \<Longrightarrow> f \<in> set fs \<Longrightarrow> g \<in> set fs \<Longrightarrow> f \<noteq> g \<Longrightarrow> independent f g"
  by (induction fs) (auto simp: list_all_iff independent_def)

lemma pairwise_independent_append:
  "pairwise_independent (fs @ gs)
     \<longleftrightarrow> pairwise_independent fs \<and> pairwise_independent gs \<and> list_all (\<lambda>f. list_all (independent f) gs) fs"
  by (induction fs) auto

lemma pointersI:
  assumes "distinct (map fl_Name fs)" and "list_all ok_flag fs" and "pairwise_independent fs"
  shows "pointers fs"
proof
  fix f g v c assume "f \<in> set fs" "g \<in> set fs" "fl_Name f \<noteq> fl_Name g" "has_kind (fl_Kind g) v"
  with pairwise_independentD [OF assms(3), of f g] show "fl_get f (fl_put g v c) = fl_get f c"
    by (auto simp: independent_def)
qed (use assms in \<open>auto simp: list_all_iff ok_flag_def\<close>)

text \<open>Variables of a record are independent when their fields are.\<close>

lemma ok_var [intro]:
  "(\<And>h c. get (upd h c) = h (get c)) \<Longrightarrow> ok_flag (BoolVar get upd n)"
  "(\<And>h c. get' (upd' h c) = h (get' c)) \<Longrightarrow> ok_flag (StringVar get' upd' n)"
  "(\<And>h c. get'' (upd'' h c) = h (get'' c)) \<Longrightarrow> k \<in> {KInt, KDuration, KLevel} \<Longrightarrow> ok_flag (NumVar k get'' upd'' n)"
  "(\<And>h c. get3 (upd3 h c) = h (get3 c)) \<Longrightarrow> ok_flag (StringArrayVar get3 upd3 n)"
  by (auto simp: ok_flag_def var_defs has_kind_def split: val.splits)

lemma ok_inside:
  assumes "ok_flag f" and "\<And>a c. get (put a c) = a"
  shows "ok_flag (inside get put f)"
  using assms by (simp add: ok_flag_def)

lemma ok_inside_all:
  assumes "list_all ok_flag fs" and "\<And>a c. get (put a c) = a"
  shows "list_all ok_flag (map (inside get put) fs)"
  using assms by (simp add: list_all_iff ok_inside)

lemma pairwise_inside:
  assumes "pairwise_independent fs" and "\<And>a c. get (put a c) = a"
  shows "pairwise_independent (map (inside get put) fs)"
  using assms by (induction fs) (auto simp: list_all_iff independent_def)

text \<open>Parts of a configuration that do not touch each other.\<close>

lemma independent_parts:
  assumes "\<And>a c. get1 (put2 a c) = get1 c" and "\<And>a c. get2 (put1 a c) = get2 c"
  shows "list_all (\<lambda>f. list_all (independent f) (map (inside get2 put2) gs)) (map (inside get1 put1) fs)"
  using assms by (simp add: list_all_iff independent_def)

lemma var_names [simp]:
  "fl_Name (BoolVar g1 u1 n) = n" "fl_Name (StringVar g2 u2 n) = n"
  "fl_Name (NumVar k g3 u3 n) = n" "fl_Name (StringArrayVar g4 u4 n) = n"
  "fl_Shorthand (BoolVar g1 u1 n) = []" "fl_Shorthand (StringVar g2 u2 n) = []"
  "fl_Shorthand (NumVar k g3 u3 n) = []" "fl_Shorthand (StringArrayVar g4 u4 n) = []"
  "fl_Kind (BoolVar g1 u1 n) = KBool" "fl_Kind (StringVar g2 u2 n) = KString"
  "fl_Kind (NumVar k g3 u3 n) = k" "fl_Kind (StringArrayVar g4 u4 n) = KStringArray"
  by (simp_all add: var_defs)

lemma var_get [simp]:
  "fl_get (BoolVar g1 u1 n) c = VBool (g1 c)" "fl_get (StringVar g2 u2 n) c = VString (g2 c)"
  "fl_get (NumVar k g3 u3 n) c = VInt (g3 c)" "fl_get (StringArrayVar g4 u4 n) c = VStrings (g4 c)"
  by (simp_all add: var_defs)

lemma var_put:
  "fl_put (BoolVar g1 u1 n) v = u1 (\<lambda>old. case v of VBool b \<Rightarrow> b | _ \<Rightarrow> old)"
  "fl_put (StringVar g2 u2 n) v = u2 (\<lambda>old. case v of VString b \<Rightarrow> b | _ \<Rightarrow> old)"
  "fl_put (NumVar k g3 u3 n) v = u3 (\<lambda>old. case v of VInt b \<Rightarrow> b | _ \<Rightarrow> old)"
  "fl_put (StringArrayVar g4 u4 n) v = u4 (\<lambda>old. case v of VStrings b \<Rightarrow> b | _ \<Rightarrow> old)"
  by (simp_all add: var_defs)

end
