(* ===== verification/Log_Options.thy ===== *)
theory Log_Options
  imports Flag_Set Defaulting K8s_Lib
begin

text \<open>
  \<^verbatim>\<open>pkg/log\<close>: the options of the zap logger, their defaults, flags and validation (\<^verbatim>\<open>options.go\<close>), and the logger
  in a context (\<^verbatim>\<open>factory.go\<close>).  The encoders, options and hooks of zap are functions; they are only passed on
  and are known here by their names.  A nil pointer is \<^const>\<open>None\<close>, also the one inside an
  \<^verbatim>\<open>AtomicLevel\<close> that has not been created by a constructor.
\<close>

section \<open>Options\<close>

record SamplingConfig =
  sc_Initial :: int
  sc_Thereafter :: int
  sc_Hook :: "string option"

record EncoderConfig =
  ec_MessageKey :: string
  ec_LevelKey :: string
  ec_TimeKey :: string
  ec_NameKey :: string
  ec_CallerKey :: string
  ec_FunctionKey :: string
  ec_StacktraceKey :: string
  ec_SkipLineEnding :: bool
  ec_LineEnding :: string
  ec_EncodeLevel :: "string option"
  ec_EncodeTime :: "string option"
  ec_EncodeDuration :: "string option"
  ec_EncodeCaller :: "string option"
  ec_EncodeName :: "string option"
  ec_NewReflectedEncoder :: "string option"
  ec_ConsoleSeparator :: string

record Options =
  opt_Options :: "string list"
  opt_Level :: "Level option"
  opt_Development :: bool
  opt_DisableCaller :: bool
  opt_DisableStacktrace :: bool
  opt_Sampling :: "SamplingConfig option"
  opt_Encoding :: string
  opt_EncoderConfig :: EncoderConfig
  opt_OutputPaths :: "string list"
  opt_ErrorOutputPaths :: "string list"
  opt_InitialFields :: "(string \<times> string) list"

definition zero_EncoderConfig :: EncoderConfig where
  "zero_EncoderConfig = \<lparr>ec_MessageKey = [], ec_LevelKey = [], ec_TimeKey = [], ec_NameKey = [],
     ec_CallerKey = [], ec_FunctionKey = [], ec_StacktraceKey = [], ec_SkipLineEnding = False,
     ec_LineEnding = [], ec_EncodeLevel = None, ec_EncodeTime = None, ec_EncodeDuration = None,
     ec_EncodeCaller = None, ec_EncodeName = None, ec_NewReflectedEncoder = None, ec_ConsoleSeparator = []\<rparr>"

definition zero_SamplingConfig :: SamplingConfig where
  "zero_SamplingConfig = \<lparr>sc_Initial = 0, sc_Thereafter = 0, sc_Hook = None\<rparr>"

definition NewOptions :: Options where
  "NewOptions = \<lparr>opt_Options = [], opt_Level = None, opt_Development = False, opt_DisableCaller = False,
     opt_DisableStacktrace = False, opt_Sampling = Some zero_SamplingConfig, opt_Encoding = [],
     opt_EncoderConfig = zero_EncoderConfig, opt_OutputPaths = [], opt_ErrorOutputPaths = [],
     opt_InitialFields = []\<rparr>"

section \<open>Defaults\<close>

definition default_encoder :: "EncoderConfig \<Rightarrow> EncoderConfig" where
  "default_encoder e = e\<lparr>ec_TimeKey := ''ts'', ec_LevelKey := ''level'', ec_NameKey := ''logger'',
     ec_CallerKey := ''caller'', ec_FunctionKey := [], ec_MessageKey := ''msg'',
     ec_StacktraceKey := ''stacktrace'', ec_LineEnding := [CHR 0x0A],
     ec_EncodeLevel := Some ''CapitalLevelEncoder'', ec_EncodeTime := Some ''RFC3339NanoTimeEncoder'',
     ec_EncodeDuration := Some ''StringDurationEncoder'', ec_EncodeCaller := Some ''ShortCallerEncoder''\<rparr>"

definition default_sampling :: "SamplingConfig option \<Rightarrow> SamplingConfig" where
  "default_sampling s = (case s of None \<Rightarrow> zero_SamplingConfig | Some c \<Rightarrow> c)\<lparr>sc_Initial := 100, sc_Thereafter := 100\<rparr>"

definition Options_SetDefaults :: "Options \<Rightarrow> Options" where
  "Options_SetDefaults o1 = o1\<lparr>opt_Options := [], opt_Level := Some DebugLevel, opt_Encoding := ''console'',
     opt_Sampling := Some (default_sampling (opt_Sampling o1)),
     opt_EncoderConfig := default_encoder (opt_EncoderConfig o1),
     opt_OutputPaths := [''stderr''], opt_ErrorOutputPaths := [''stderr'']\<rparr>"

section \<open>Validation\<close>

definition require :: "bool \<Rightarrow> string \<Rightarrow> go_error option \<Rightarrow> go_error option" where
  "require ok msg err = (if ok then err else errors_Join [err, Some (ErrorString msg)])"

lemma require_None [simp]: "require ok msg err = None \<longleftrightarrow> ok \<and> err = None"
  by (auto simp: require_def)

definition Options_Validate :: "Options \<Rightarrow> go_error option" where
  "Options_Validate o1 =
     (let err = require (opt_Encoding o1 \<noteq> []) ''log.encoding is required'' None;
          err = require (opt_OutputPaths o1 \<noteq> []) ''log.outputPaths is required'' err
      in require (opt_ErrorOutputPaths o1 \<noteq> []) ''log.errorOutputPaths is required'' err)"

section \<open>Flags\<close>

text \<open>The variables behind the level and the sampling flags exist whenever the flags do.\<close>

definition level_var :: "Options flag" where
  "level_var = NumVar KLevel (\<lambda>o1. case opt_Level o1 of Some l \<Rightarrow> l | None \<Rightarrow> 0)
     (\<lambda>f. opt_Level_update (\<lambda>l. Some (f (case l of Some l \<Rightarrow> l | None \<Rightarrow> 0)))) ''log.level''"

definition sampling_part :: "SamplingConfig flag \<Rightarrow> Options flag" where
  "sampling_part = inside (\<lambda>o1. case opt_Sampling o1 of Some c \<Rightarrow> c | None \<Rightarrow> zero_SamplingConfig)
     (\<lambda>c. opt_Sampling_update (\<lambda>_. Some c))"

definition sampling_flags :: "Options flag list" where
  "sampling_flags = [sampling_part (IntVar sc_Initial sc_Initial_update ''log.sampling.initial''),
     sampling_part (IntVar sc_Thereafter sc_Thereafter_update ''log.sampling.thereafter'')]"

definition Options_flags :: "Options \<Rightarrow> Options flag list" where
  "Options_flags o1 =
     [level_var,
      BoolVar opt_Development opt_Development_update ''log.development'',
      BoolVar opt_DisableCaller opt_DisableCaller_update ''log.disable-caller'',
      BoolVar opt_DisableStacktrace opt_DisableStacktrace_update ''log.disable-stacktrace'']
     @ (if opt_Sampling o1 \<noteq> None then sampling_flags else [])
     @ [StringVar opt_Encoding opt_Encoding_update ''log.encoding'',
        StringArrayVar opt_OutputPaths opt_OutputPaths_update ''log.output-paths'']"

text \<open>\<^verbatim>\<open>AddFlags\<close> prints the current level as the default of its flag, which dereferences the level.\<close>

definition nil_dereference :: string where
  "nil_dereference = ''invalid memory address or nil pointer dereference''"

definition Options_AddFlags :: "Options option \<Rightarrow> Options flag list outcome" where
  "Options_AddFlags p = (case p of
     None \<Rightarrow> Panic nil_dereference
   | Some o1 \<Rightarrow> if opt_Level o1 = None then Panic nil_dereference else Return (Options_flags o1))"

section \<open>Loggers\<close>

record zap_Config =
  zc_Level :: "Level option"
  zc_Development :: bool
  zc_DisableCaller :: bool
  zc_DisableStacktrace :: bool
  zc_Sampling :: "SamplingConfig option"
  zc_Encoding :: string
  zc_EncoderConfig :: EncoderConfig
  zc_OutputPaths :: "string list"
  zc_ErrorOutputPaths :: "string list"
  zc_InitialFields :: "(string \<times> string) list"

definition zap_config :: "Options \<Rightarrow> zap_Config" where
  "zap_config opt = \<lparr>zc_Level = opt_Level opt, zc_Development = opt_Development opt,
     zc_DisableCaller = opt_DisableCaller opt, zc_DisableStacktrace = opt_DisableStacktrace opt,
     zc_Sampling = opt_Sampling opt, zc_Encoding = opt_Encoding opt,
     zc_EncoderConfig = opt_EncoderConfig opt, zc_OutputPaths = opt_OutputPaths opt,
     zc_ErrorOutputPaths = opt_ErrorOutputPaths opt, zc_InitialFields = opt_InitialFields opt\<rparr>"

text \<open>\<open>build\<close> is \<^verbatim>\<open>zap.Config.Build\<close>, \<open>ctx_err\<close> what \<^verbatim>\<open>ctx.Err()\<close> returns.\<close>

definition NewLogger ::
    "(zap_Config \<Rightarrow> string list \<Rightarrow> ('w, 'e, go_error + 'l) go) \<Rightarrow> go_error option \<Rightarrow> Options
     \<Rightarrow> ('w, 'e, go_error + 'l) go" where
  "NewLogger build ctx_err opt = (case ctx_err of
     Some err \<Rightarrow> ret (Inl err)
   | None \<Rightarrow> build (zap_config opt) (opt_Options opt))"

text \<open>The loggers a context carries, innermost first; \<open>global\<close> is the logger that \<^verbatim>\<open>ReplaceGlobals\<close> sets.\<close>

definition NewContext :: "'l list \<Rightarrow> 'l \<Rightarrow> 'l list" where
  "NewContext ctx logger = logger # ctx"

definition FromContext :: "'l list option \<Rightarrow> 'l \<Rightarrow> 'l" where
  "FromContext ctx global = (case ctx of
     None \<Rightarrow> global
   | Some [] \<Rightarrow> global
   | Some (l # _) \<Rightarrow> l)"

definition WithoutContext :: "'l \<Rightarrow> 'l" where
  "WithoutContext global = FromContext (Some []) global"

section \<open>Lemmas\<close>

lemma FromContext_NewContext: "FromContext (Some (NewContext ctx l)) global = l"
  by (simp add: FromContext_def NewContext_def)

lemma WithoutContext_global: "WithoutContext global = global"
  by (simp add: WithoutContext_def FromContext_def)

definition options_complete :: "Options \<Rightarrow> bool" where
  "options_complete o1 \<longleftrightarrow> opt_Options o1 = [] \<and> opt_Level o1 = Some DebugLevel \<and> opt_Encoding o1 = ''console''
     \<and> opt_Sampling o1 = Some (default_sampling (opt_Sampling o1))
     \<and> opt_EncoderConfig o1 = default_encoder (opt_EncoderConfig o1)
     \<and> opt_OutputPaths o1 = [''stderr''] \<and> opt_ErrorOutputPaths o1 = [''stderr'']"

interpretation log_options: defaulter Options_SetDefaults options_complete
  by unfold_locales
    (simp_all add: options_complete_def Options_SetDefaults_def default_sampling_def default_encoder_def
      split: option.splits)

lemma Options_defaults_valid: "options_complete o1 \<Longrightarrow> Options_Validate o1 = None"
  by (simp add: options_complete_def Options_Validate_def Let_def)

lemma Options_AddFlags_Return:
  "Options_AddFlags p = Return fs \<longleftrightarrow> (\<exists>o1. p = Some o1 \<and> opt_Level o1 \<noteq> None \<and> fs = Options_flags o1)"
  by (auto simp: Options_AddFlags_def split: option.splits)

lemma Options_flags_names:
  "map fl_Name (Options_flags o1) = [''log.level'', ''log.development'', ''log.disable-caller'', ''log.disable-stacktrace'']
     @ (if opt_Sampling o1 \<noteq> None then [''log.sampling.initial'', ''log.sampling.thereafter''] else [])
     @ [''log.encoding'', ''log.output-paths'']"
  by (simp add: Options_flags_def level_var_def sampling_flags_def sampling_part_def)

lemma Options_flags_ok:
  "list_all ok_flag (Options_flags o1)" "list_all (\<lambda>f. fl_Shorthand f = []) (Options_flags o1)"
  by (auto simp: Options_flags_def level_var_def sampling_flags_def sampling_part_def intro!: ok_inside)

lemma Options_flags_independent: "pairwise_independent (Options_flags o1)"
  by (cases "opt_Sampling o1")
    (simp_all add: Options_flags_def level_var_def sampling_flags_def sampling_part_def independent_def var_put)

lemma Options_flags_distinct: "distinct (map fl_Name (Options_flags o1))"
  by (cases "opt_Sampling o1") (simp_all add: Options_flags_names del: set_map)

interpretation log_flags: pointers "Options_flags o1" for o1
  by (rule pointersI [OF Options_flags_distinct Options_flags_ok(1) Options_flags_independent])

end
