(* ===== verification/Manager_Config.thy ===== *)
theory Manager_Config
  imports Log_Options
begin

text \<open>
  \<^verbatim>\<open>pkg/config\<close>: the options of the controller manager with their defaults, validation and flags
  (\<^verbatim>\<open>manager.go\<close>), and the configurations of the two programs (\<^verbatim>\<open>config.go\<close>, \<^verbatim>\<open>agent.go\<close>).  A duration is its
  number of nanoseconds.
\<close>

section \<open>Paths\<close>

text \<open>\<^verbatim>\<open>filepath.Join\<close> on Unix: the non-empty elements joined by slashes and cleaned.\<close>

definition split_slash :: "string \<Rightarrow> string list" where
  "split_slash s = foldr (\<lambda>c acc. if c = CHR ''/'' then [] # acc
     else case acc of w # ws \<Rightarrow> (c # w) # ws | [] \<Rightarrow> [[c]]) s [[]]"

fun clean_elems :: "bool \<Rightarrow> string list \<Rightarrow> string list \<Rightarrow> string list" where
  "clean_elems rooted out [] = out"
| "clean_elems rooted out (e # es) =
     (if e = [] \<or> e = ''.'' then clean_elems rooted out es
      else if e = ''..'' then
        (if out \<noteq> [] \<and> last out \<noteq> ''..'' then clean_elems rooted (butlast out) es
         else if rooted then clean_elems rooted out es
         else clean_elems rooted (out @ [e]) es)
      else clean_elems rooted (out @ [e]) es)"

definition filepath_Clean :: "string \<Rightarrow> string" where
  "filepath_Clean path =
     (if path = [] then ''.''
      else let rooted = (hd path = CHR ''/''); body = join_with ''/'' (clean_elems rooted [] (split_slash path)) in
        if rooted then ''/'' @ body else if body = [] then ''.'' else body)"

definition filepath_Join :: "string list \<Rightarrow> string" where
  "filepath_Join es = (let es = filter (\<lambda>e. e \<noteq> []) es in
     if es = [] then [] else filepath_Clean (join_with ''/'' es))"

lemma filepath_Clean_nonempty [simp]: "filepath_Clean path \<noteq> []"
  by (simp add: filepath_Clean_def Let_def)

text \<open>\<^verbatim>\<open>os.TempDir()\<close>, from the environment variable \<^verbatim>\<open>TMPDIR\<close>.\<close>

definition TempDir :: "string \<Rightarrow> string" where
  "TempDir tmpdir = (if tmpdir = [] then ''/tmp'' else tmpdir)"

section \<open>Manager options\<close>

definition Second :: int where "Second = 10 ^ 9"

definition defaultLeaderElectionResourceLock :: string where "defaultLeaderElectionResourceLock = ''leases''"
definition defaultLeaderElectionID :: string where "defaultLeaderElectionID = ''frp-provisioner''"
definition defaultLeaseDuration :: int where "defaultLeaseDuration = 15 * Second"
definition defaultRenewDeadline :: int where "defaultRenewDeadline = 10 * Second"
definition defaultRetryPeriod :: int where "defaultRetryPeriod = 2 * Second"
definition defaultGracefulShutdownPeriod :: int where "defaultGracefulShutdownPeriod = 30 * Second"
definition defaultWebhookBindAddress :: string where "defaultWebhookBindAddress = '':9443''"
definition defaultWebhookCertName :: string where "defaultWebhookCertName = ''tls.crt''"
definition defaultWebhookKeyName :: string where "defaultWebhookKeyName = ''tls.key''"

definition defaultPodTemplate :: string where
  "defaultPodTemplate = [CHR 0x0A] @ concat (map (\<lambda>line. line @ [CHR 0x0A])
     [''metadata:'', '' labels:'', ''   app: frp-client'', '' name: frp-client'', ''spec:'', '' containers:'',
      '' - image: busybox:latest'', ''   imagePullPolicy: Always'', ''   name: frp-client'', ''   resources:'',
      ''     limits:'', ''       cpu: 500m'', ''       memory: 1Gi'', ''     requests:'', ''       cpu: 100m'',
      ''       memory: 128Mi'', ''   command:'', ''   - tail'', ''   - '' @ [CHR 0x22] @ ''-f'' @ [CHR 0x22]])"

lemmas manager_defaults = defaultLeaderElectionResourceLock_def defaultLeaderElectionID_def
  defaultLeaseDuration_def defaultRenewDeadline_def defaultRetryPeriod_def defaultGracefulShutdownPeriod_def
  defaultWebhookBindAddress_def defaultWebhookCertName_def defaultWebhookKeyName_def defaultPodTemplate_def Second_def

record ManagerOptions =
  mo_LeaderElection :: bool
  mo_LeaderElectionResourceLock :: string
  mo_LeaderElectionNamespace :: string
  mo_LeaderElectionID :: string
  mo_LeaderElectionReleaseOnCancel :: bool
  mo_LeaseDuration :: int
  mo_RenewDeadline :: int
  mo_RetryPeriod :: int
  mo_MetricsSecureServing :: bool
  mo_MetricsBindAddress :: string
  mo_MetricsCertDir :: string
  mo_MetricsCertName :: string
  mo_MetricsKeyName :: string
  mo_WebhookBindAddress :: string
  mo_WebhookCertDir :: string
  mo_WebhookCertName :: string
  mo_WebhookKeyName :: string
  mo_WebhookClientCAName :: string
  mo_HealthProbeBindAddress :: string
  mo_PprofBindAddress :: string
  mo_GracefulShutdownTimeout :: int
  mo_PodTemplate :: string

definition zero_ManagerOptions :: ManagerOptions where
  "zero_ManagerOptions = \<lparr>mo_LeaderElection = False, mo_LeaderElectionResourceLock = [],
     mo_LeaderElectionNamespace = [], mo_LeaderElectionID = [], mo_LeaderElectionReleaseOnCancel = False,
     mo_LeaseDuration = 0, mo_RenewDeadline = 0, mo_RetryPeriod = 0, mo_MetricsSecureServing = False,
     mo_MetricsBindAddress = [], mo_MetricsCertDir = [], mo_MetricsCertName = [], mo_MetricsKeyName = [],
     mo_WebhookBindAddress = [], mo_WebhookCertDir = [], mo_WebhookCertName = [], mo_WebhookKeyName = [],
     mo_WebhookClientCAName = [], mo_HealthProbeBindAddress = [], mo_PprofBindAddress = [],
     mo_GracefulShutdownTimeout = 0, mo_PodTemplate = []\<rparr>"

definition ManagerOptions_SetDefaults :: "string \<Rightarrow> ManagerOptions \<Rightarrow> ManagerOptions" where
  "ManagerOptions_SetDefaults tmpdir o1 = o1\<lparr>
     mo_LeaderElectionID := EmptyOr_str (mo_LeaderElectionID o1) defaultLeaderElectionID,
     mo_LeaderElectionResourceLock := EmptyOr_str (mo_LeaderElectionResourceLock o1) defaultLeaderElectionResourceLock,
     mo_LeaseDuration := EmptyOr_int (mo_LeaseDuration o1) defaultLeaseDuration,
     mo_RenewDeadline := EmptyOr_int (mo_RenewDeadline o1) defaultRenewDeadline,
     mo_RetryPeriod := EmptyOr_int (mo_RetryPeriod o1) defaultRetryPeriod,
     mo_MetricsBindAddress := EmptyOr_str (mo_MetricsBindAddress o1) '':8080'',
     mo_GracefulShutdownTimeout := EmptyOr_int (mo_GracefulShutdownTimeout o1) defaultGracefulShutdownPeriod,
     mo_WebhookBindAddress := EmptyOr_str (mo_WebhookBindAddress o1) defaultWebhookBindAddress,
     mo_WebhookCertDir := EmptyOr_str (mo_WebhookCertDir o1)
       (filepath_Join [TempDir tmpdir, ''k8s-webhook-server'', ''serving-certs'']),
     mo_WebhookCertName := EmptyOr_str (mo_WebhookCertName o1) defaultWebhookCertName,
     mo_WebhookKeyName := EmptyOr_str (mo_WebhookKeyName o1) defaultWebhookKeyName,
     mo_PodTemplate := EmptyOr_str (mo_PodTemplate o1) defaultPodTemplate,
     mo_MetricsCertDir := EmptyOr_str (mo_MetricsCertDir o1)
       (filepath_Join [TempDir tmpdir, ''k8s-metrics-server'', ''serving-certs''])\<rparr>"

text \<open>
  \<open>yaml\<close> is \<^verbatim>\<open>yaml.Unmarshal\<close> into a pod.  The error of the checks before it is kept in the variable that
  then receives the error of parsing the template.
\<close>

definition template_errors :: "(string \<Rightarrow> go_error + Pod) \<Rightarrow> string \<Rightarrow> go_error option" where
  "template_errors yaml template = (case yaml template of
     Inl e \<Rightarrow> errors_Join [Some e, Some (ErrorString (''unable parse podTemplate with yaml: '' @ template))]
   | Inr p \<Rightarrow>
       if pod_Containers p = [] then errors_Join [None, Some (ErrorString ''podTemplate does not specify any container'')]
       else None)"

definition required_errors :: "ManagerOptions \<Rightarrow> go_error option" where
  "required_errors o1 =
     (let err = require (mo_LeaderElectionID o1 \<noteq> []) ''leaderElectionID is required'' None;
          err = require (mo_LeaseDuration o1 \<noteq> 0) ''leaseDuration is required'' err;
          err = require (mo_LeaderElectionResourceLock o1 \<noteq> []) ''leaderElectionResourceLock is required'' err;
          err = require (mo_RenewDeadline o1 \<noteq> 0) ''renewDeadline is required'' err;
          err = require (mo_RetryPeriod o1 \<noteq> 0) ''retryPeriod is required'' err;
          err = require (mo_MetricsBindAddress o1 \<noteq> []) ''metricsBindAddress is required'' err;
          err = require (mo_GracefulShutdownTimeout o1 \<noteq> 0) ''gracefulShutdownTimeout is required'' err
      in require (mo_PodTemplate o1 \<noteq> []) ''PodTemplate is required'' err)"

definition ManagerOptions_Validate :: "(string \<Rightarrow> go_error + Pod) \<Rightarrow> ManagerOptions \<Rightarrow> go_error option" where
  "ManagerOptions_Validate yaml o1 =
     (let err = required_errors o1; err = template_errors yaml (mo_PodTemplate o1) in err)"

definition ManagerOptions_flags :: "ManagerOptions flag list" where
  "ManagerOptions_flags =
     [BoolVar mo_LeaderElection mo_LeaderElection_update ''manager.leader-election'',
      StringVar mo_LeaderElectionResourceLock mo_LeaderElectionResourceLock_update ''manager.leader-election-resource-lock'',
      StringVar mo_LeaderElectionNamespace mo_LeaderElectionNamespace_update ''manager.leader-election-namespace'',
      StringVar mo_LeaderElectionID mo_LeaderElectionID_update ''manager.leader-election-id'',
      BoolVar mo_LeaderElectionReleaseOnCancel mo_LeaderElectionReleaseOnCancel_update
        ''manager.leader-election-release-on-cancel'',
      DurationVar mo_LeaseDuration mo_LeaseDuration_update ''manager.leader-election-lease-duration'',
      DurationVar mo_RenewDeadline mo_RenewDeadline_update ''manager.leader-election-renew-deadline'',
      DurationVar mo_RetryPeriod mo_RetryPeriod_update ''manager.leader-election-retry-period'',
      StringVar mo_HealthProbeBindAddress mo_HealthProbeBindAddress_update ''manager.health-probe-bind-address'',
      BoolVar mo_MetricsSecureServing mo_MetricsSecureServing_update ''manager.MetricsSecureServing'',
      StringVar mo_MetricsBindAddress mo_MetricsBindAddress_update ''manager.metrics-bind-address'',
      StringVar mo_PprofBindAddress mo_PprofBindAddress_update ''manager.pprof-bind-address'',
      StringVar mo_WebhookClientCAName mo_WebhookClientCAName_update ''manager.webhook-client-ca-name'',
      StringVar mo_WebhookKeyName mo_WebhookKeyName_update ''manager.webhook-key-name'',
      StringVar mo_WebhookCertName mo_WebhookCertName_update ''manager.webhook-cert-name'',
      StringVar mo_WebhookCertDir mo_WebhookCertDir_update ''manager.webhook-cert-dir'',
      StringVar mo_WebhookBindAddress mo_WebhookBindAddress_update ''manager.webhook-bind-address'',
      StringVar mo_MetricsKeyName mo_MetricsKeyName_update ''manager.metrics-key-name'',
      StringVar mo_MetricsCertDir mo_MetricsCertDir_update ''manager.metrics-cert-dir'',
      StringVar mo_MetricsCertName mo_MetricsCertName_update ''manager.metrics-cert-name'',
      DurationVar mo_GracefulShutdownTimeout mo_GracefulShutdownTimeout_update ''manager.graceful-shutdown-timeout'']"

definition ManagerOptions_AddFlags :: "ManagerOptions option \<Rightarrow> ManagerOptions flag list outcome" where
  "ManagerOptions_AddFlags p = (case p of
     None \<Rightarrow> Panic nil_dereference
   | Some _ \<Rightarrow> Return ManagerOptions_flags)"

section \<open>Configurations\<close>

record Configuration =
  cfg_Log :: "Options option"
  cfg_Manager :: "ManagerOptions option"

definition NewConfiguration :: Configuration where
  "NewConfiguration = \<lparr>cfg_Log = Some NewOptions, cfg_Manager = Some zero_ManagerOptions\<rparr>"

text \<open>A method on a nil pointer panics at its first field.\<close>

definition deref :: "'a option \<Rightarrow> ('a \<Rightarrow> 'b outcome) \<Rightarrow> 'b outcome" where
  "deref p f = (case p of None \<Rightarrow> Panic nil_dereference | Some a \<Rightarrow> f a)"

definition Configuration_SetDefaults :: "string \<Rightarrow> Configuration \<Rightarrow> Configuration outcome" where
  "Configuration_SetDefaults tmpdir c =
     deref (cfg_Log c) (\<lambda>l. deref (cfg_Manager c) (\<lambda>m.
       Return \<lparr>cfg_Log = Some (Options_SetDefaults l), cfg_Manager = Some (ManagerOptions_SetDefaults tmpdir m)\<rparr>))"

definition part_errors :: "string \<Rightarrow> go_error option \<Rightarrow> go_error option \<Rightarrow> go_error option" where
  "part_errors part err errs = (case err of
     None \<Rightarrow> errs
   | Some e \<Rightarrow> errors_Join [errs, Some (WrapError (''invalid '' @ part @ '' config, got: '' @ quoted (Error e)) e)])"

definition Configuration_Validate ::
    "(string \<Rightarrow> go_error + Pod) \<Rightarrow> Configuration \<Rightarrow> go_error option outcome" where
  "Configuration_Validate yaml c =
     deref (cfg_Log c) (\<lambda>l. let errs = part_errors ''log'' (Options_Validate l) None in
       deref (cfg_Manager c) (\<lambda>m. Return (part_errors ''manager'' (ManagerOptions_Validate yaml m) errs)))"

definition log_part :: "Options flag \<Rightarrow> Configuration flag" where
  "log_part = inside (\<lambda>c. case cfg_Log c of Some l \<Rightarrow> l | None \<Rightarrow> NewOptions) (\<lambda>l. cfg_Log_update (\<lambda>_. Some l))"

definition manager_part :: "ManagerOptions flag \<Rightarrow> Configuration flag" where
  "manager_part = inside (\<lambda>c. case cfg_Manager c of Some m \<Rightarrow> m | None \<Rightarrow> zero_ManagerOptions)
     (\<lambda>m. cfg_Manager_update (\<lambda>_. Some m))"

definition Configuration_AddFlags :: "Configuration \<Rightarrow> Configuration flag list outcome" where
  "Configuration_AddFlags c = (case Options_AddFlags (cfg_Log c) of
     Panic p \<Rightarrow> Panic p
   | Return ls \<Rightarrow> (case ManagerOptions_AddFlags (cfg_Manager c) of
       Panic p \<Rightarrow> Panic p
     | Return ms \<Rightarrow> Return (map log_part ls @ map manager_part ms)))"

record AgentConfiguration =
  acfg_Log :: "Options option"

definition NewAgentConfiguration :: AgentConfiguration where
  "NewAgentConfiguration = \<lparr>acfg_Log = Some NewOptions\<rparr>"

definition AgentConfiguration_SetDefaults :: "AgentConfiguration \<Rightarrow> AgentConfiguration outcome" where
  "AgentConfiguration_SetDefaults c = deref (acfg_Log c) (\<lambda>l. Return \<lparr>acfg_Log = Some (Options_SetDefaults l)\<rparr>)"

definition AgentConfiguration_Validate :: "AgentConfiguration \<Rightarrow> go_error option outcome" where
  "AgentConfiguration_Validate c = deref (acfg_Log c) (\<lambda>l. Return (part_errors ''log'' (Options_Validate l) None))"

definition agent_log_part :: "Options flag \<Rightarrow> AgentConfiguration flag" where
  "agent_log_part = inside (\<lambda>c. case acfg_Log c of Some l \<Rightarrow> l | None \<Rightarrow> NewOptions) (\<lambda>l. acfg_Log_update (\<lambda>_. Some l))"

definition AgentConfiguration_AddFlags :: "AgentConfiguration \<Rightarrow> AgentConfiguration flag list outcome" where
  "AgentConfiguration_AddFlags c = (case Options_AddFlags (acfg_Log c) of
     Panic p \<Rightarrow> Panic p
   | Return ls \<Rightarrow> Return (map agent_log_part ls))"

section \<open>Defaulting\<close>

definition manager_complete :: "ManagerOptions \<Rightarrow> bool" where
  "manager_complete o1 \<longleftrightarrow> mo_LeaderElectionID o1 \<noteq> [] \<and> mo_LeaderElectionResourceLock o1 \<noteq> []
     \<and> mo_LeaseDuration o1 \<noteq> 0 \<and> mo_RenewDeadline o1 \<noteq> 0 \<and> mo_RetryPeriod o1 \<noteq> 0
     \<and> mo_MetricsBindAddress o1 \<noteq> [] \<and> mo_GracefulShutdownTimeout o1 \<noteq> 0 \<and> mo_WebhookBindAddress o1 \<noteq> []
     \<and> mo_WebhookCertDir o1 \<noteq> [] \<and> mo_WebhookCertName o1 \<noteq> [] \<and> mo_WebhookKeyName o1 \<noteq> []
     \<and> mo_PodTemplate o1 \<noteq> [] \<and> mo_MetricsCertDir o1 \<noteq> []"

lemma EmptyOr_eq_zero: "EmptyOr zero v fallback = zero \<longleftrightarrow> v = zero \<and> fallback = zero"
  by (auto simp: EmptyOr_def)

lemma EmptyOr_keeps: "v \<noteq> zero \<Longrightarrow> EmptyOr zero v fallback = v"
  by (simp add: EmptyOr_def)

lemma filepath_Join_nonempty: "e \<noteq> [] \<Longrightarrow> filepath_Join (e # es) \<noteq> []"
  by (simp add: filepath_Join_def Let_def)

lemma TempDir_nonempty [simp]: "TempDir tmpdir \<noteq> []"
  by (simp add: TempDir_def)

interpretation manager_options: defaulter "ManagerOptions_SetDefaults tmpdir" manager_complete for tmpdir
proof
  show "manager_complete (ManagerOptions_SetDefaults tmpdir o1)" for o1
    by (simp add: manager_complete_def ManagerOptions_SetDefaults_def EmptyOr_eq_zero filepath_Join_nonempty manager_defaults)
  show "ManagerOptions_SetDefaults tmpdir o1 = o1" if "manager_complete o1" for o1
    using that by (simp add: manager_complete_def ManagerOptions_SetDefaults_def EmptyOr_keeps)
qed

lemma required_errors_complete: "manager_complete o1 \<Longrightarrow> required_errors o1 = None"
  by (simp add: manager_complete_def required_errors_def Let_def)

section \<open>Flags\<close>

lemma ManagerOptions_flags_ok:
  "list_all ok_flag ManagerOptions_flags" "list_all (\<lambda>f. fl_Shorthand f = []) ManagerOptions_flags"
  by (auto simp: ManagerOptions_flags_def)

lemma ManagerOptions_flags_independent: "pairwise_independent ManagerOptions_flags"
  by (simp add: ManagerOptions_flags_def independent_def var_put)

definition manager_flag_names :: "string list" where
  "manager_flag_names = map fl_Name ManagerOptions_flags"

lemma manager_flag_names [code]: "manager_flag_names =
    map (\<lambda>s. ''manager.'' @ s) [''leader-election'', ''leader-election-resource-lock'', ''leader-election-namespace'',
     ''leader-election-id'', ''leader-election-release-on-cancel'', ''leader-election-lease-duration'',
     ''leader-election-renew-deadline'', ''leader-election-retry-period'', ''health-probe-bind-address'',
     ''MetricsSecureServing'', ''metrics-bind-address'', ''pprof-bind-address'', ''webhook-client-ca-name'',
     ''webhook-key-name'', ''webhook-cert-name'', ''webhook-cert-dir'', ''webhook-bind-address'',
     ''metrics-key-name'', ''metrics-cert-dir'', ''metrics-cert-name'', ''graceful-shutdown-timeout'']"
  by (simp add: manager_flag_names_def ManagerOptions_flags_def)

lemma manager_flags_distinct: "distinct manager_flag_names"
  by code_simp

interpretation manager_flags: pointers ManagerOptions_flags
  by (rule pointersI [OF manager_flags_distinct [unfolded manager_flag_names_def]
      ManagerOptions_flags_ok(1) ManagerOptions_flags_independent])

text \<open>The flags of the whole configuration.\<close>

definition Configuration_flags :: "Options \<Rightarrow> Configuration flag list" where
  "Configuration_flags l = map log_part (Options_flags l) @ map manager_part ManagerOptions_flags"

lemma Configuration_AddFlags_Return:
  "Configuration_AddFlags c = Return fs \<longleftrightarrow>
     (\<exists>l m. cfg_Log c = Some l \<and> opt_Level l \<noteq> None \<and> cfg_Manager c = Some m \<and> fs = Configuration_flags l)"
  by (auto simp: Configuration_AddFlags_def Options_AddFlags_def ManagerOptions_AddFlags_def Configuration_flags_def
      split: option.splits outcome.splits)

lemma names_disjoint: "set (map fl_Name (Options_flags l)) \<inter> set manager_flag_names = {}"
proof -
  have "\<forall>n\<in>set (map fl_Name (Options_flags l)). hd n = CHR ''l''" by (auto simp: Options_flags_names simp del: set_map)
  moreover have "\<forall>n\<in>set manager_flag_names. hd n = CHR ''m''" by (simp add: manager_flag_names)
  ultimately show ?thesis by fastforce
qed

lemma part_names [simp]:
  "map fl_Name (map log_part fs) = map fl_Name fs" "map fl_Name (map manager_part gs) = map fl_Name gs"
  by (simp_all add: log_part_def manager_part_def comp_def)

lemma Configuration_flags_names: "map fl_Name (Configuration_flags l) = map fl_Name (Options_flags l) @ manager_flag_names"
  by (simp only: Configuration_flags_def map_append part_names manager_flag_names_def)

lemma Configuration_flags_distinct: "distinct (map fl_Name (Configuration_flags l))"
  using Options_flags_distinct [of l] manager_flags_distinct names_disjoint [of l]
  unfolding Configuration_flags_names by simp

lemma Configuration_flags_ok: "list_all ok_flag (Configuration_flags l)"
  unfolding Configuration_flags_def log_part_def manager_part_def list_all_append
  by (intro conjI ok_inside_all Options_flags_ok ManagerOptions_flags_ok) simp_all

lemma Configuration_flags_independent: "pairwise_independent (Configuration_flags l)"
  unfolding Configuration_flags_def pairwise_independent_append log_part_def manager_part_def
  by (intro conjI pairwise_inside Options_flags_independent ManagerOptions_flags_independent independent_parts)
    simp_all

interpretation config_flags: pointers "Configuration_flags l" for l
  by (rule pointersI [OF Configuration_flags_distinct Configuration_flags_ok Configuration_flags_independent])

lemma agent_part_names [simp]: "map fl_Name (map agent_log_part fs) = map fl_Name fs"
  by (simp add: agent_log_part_def comp_def)

interpretation agent_flags: pointers "map agent_log_part (Options_flags l)" for l
proof (rule pointersI)
  show "distinct (map fl_Name (map agent_log_part (Options_flags l)))"
    using Options_flags_distinct [of l] by (simp only: agent_part_names)
qed (unfold agent_log_part_def, (rule ok_inside_all [OF Options_flags_ok(1)] pairwise_inside [OF Options_flags_independent], simp)+)

section \<open>Properties\<close>

text \<open>
  (C32) The validation of the manager options only looks at the pod template.  It succeeds exactly when the template
  can be parsed and has a container; the errors of the required fields are overwritten before they
  are returned, so the result is the one for options in which all of them are missing.
\<close>

theorem validation_ignores_fields:
  "(ManagerOptions_Validate yaml o1 = None \<longleftrightarrow> (\<exists>p. yaml (mo_PodTemplate o1) = Inr p \<and> pod_Containers p \<noteq> []))
     \<and> ManagerOptions_Validate yaml o1
       = ManagerOptions_Validate yaml (zero_ManagerOptions\<lparr>mo_PodTemplate := mo_PodTemplate o1\<rparr>)"
  by (auto simp: ManagerOptions_Validate_def template_errors_def split: sum.splits)

text \<open>
  The defaults of the manager options fill in every required field and change nothing that is set: defaulted
  options have no required field missing, options are left alone exactly when they are complete, and
  defaulting again changes nothing.
\<close>

lemma manager_defaults_complete:
  "manager_complete (ManagerOptions_SetDefaults tmpdir o1)
     \<and> required_errors (ManagerOptions_SetDefaults tmpdir o1) = None
     \<and> (ManagerOptions_SetDefaults tmpdir o1 = o1 \<longleftrightarrow> manager_complete o1)
     \<and> ManagerOptions_SetDefaults tmpdir (ManagerOptions_SetDefaults tmpdir o1) = ManagerOptions_SetDefaults tmpdir o1"
  using required_errors_complete [OF manager_options.completes]
  by (intro conjI manager_options.completes manager_options.fixpoint manager_options.idem)

end
