(* ===== verification/Program_Env.thy ===== *)
theory Program_Env
  imports Manager_Config Frp_Config
begin

text \<open>
  The outside world of the two programs: files, the printing of help and version, zap, and the controller-runtime
  manager.  As for the controllers, every call may answer anything and is recorded with its
  answer.  Loggers, REST configurations and managers are known by numbers.
\<close>

record webhook_Options =
  wo_Host :: string
  wo_Port :: int
  wo_CertDir :: string
  wo_CertName :: string
  wo_KeyName :: string
  wo_ClientCAName :: string

record metrics_Options =
  me_CertDir :: string
  me_CertName :: string
  me_KeyName :: string
  me_SecureServing :: bool
  me_BindAddress :: string

text \<open>The fields of \<^verbatim>\<open>ctrl.Options\<close> that are set; the webhook server is given by its options.\<close>

record ctrl_Options =
  co_LeaderElection :: bool
  co_LeaderElectionResourceLock :: string
  co_LeaderElectionNamespace :: string
  co_LeaderElectionID :: string
  co_LeaderElectionReleaseOnCancel :: bool
  co_LeaseDuration :: int
  co_RenewDeadline :: int
  co_RetryPeriod :: int
  co_Metrics :: metrics_Options
  co_WebhookServer :: webhook_Options
  co_HealthProbeBindAddress :: string
  co_PprofBindAddress :: string
  co_GracefulShutdownTimeout :: int

record Info =
  vi_GitVersion :: string
  vi_GitCommit :: string
  vi_BuildDate :: string
  vi_GoVersion :: string
  vi_Compiler :: string
  vi_Platform :: string
  vi_FrpVersion :: string

datatype prog_event =
    EvHelp
  | EvVersion Info
  | EvStat string "go_error option"
  | EvReadFile string "go_error + string"
  | EvCtxErr "go_error option"
  | EvBuildLogger zap_Config "string list" "go_error + nat"
  | EvReplaceGlobals nat
  | EvSetLogger nat
  | EvGetConfig "go_error + nat"
  | EvNewManager nat ctrl_Options "go_error + nat"
  | EvIndexField gotype string "go_error option"
  | EvController string gotype "gotype list" "go_error option"
  | EvWebhook string gotype "go_error option"
  | EvHealthzCheck string "go_error option"
  | EvReadyzCheck string "go_error option"
  | EvStart nat "go_error option"
  | EvError go_error
  | EvUsage
  | EvCompletions "string list"
  | EvLog nat string

type_synonym ('w, 'a) prog = "('w, prog_event, 'a) go"

text \<open>
  \<open>ho_yaml\<close> is \<^verbatim>\<open>yaml.Unmarshal\<close> into a pod, \<open>ho_load\<close> and \<open>ho_load_agent\<close> are \<^verbatim>\<open>yaml.UnmarshalStrict\<close> of a text
  into a configuration that already has values.
\<close>

record 'w host =
  ho_runtime :: runtime
  ho_TMPDIR :: string
  ho_GOOS :: string
  ho_GOARCH :: string
  ho_GoVersion :: string
  ho_Compiler :: string
  ho_yaml :: "string \<Rightarrow> go_error + Pod"
  ho_load :: "string \<Rightarrow> Configuration \<Rightarrow> go_error + Configuration"
  ho_load_agent :: "string \<Rightarrow> AgentConfiguration \<Rightarrow> go_error + AgentConfiguration"
  ho_output :: "prog_event \<Rightarrow> 'w \<Rightarrow> 'w"
  ho_stat :: "string \<Rightarrow> 'w \<Rightarrow> go_error option \<times> 'w"
  ho_read_file :: "string \<Rightarrow> 'w \<Rightarrow> (go_error + string) \<times> 'w"
  ho_ctx_err :: "'w \<Rightarrow> go_error option \<times> 'w"
  ho_build :: "zap_Config \<Rightarrow> string list \<Rightarrow> 'w \<Rightarrow> (go_error + nat) \<times> 'w"
  ho_get_config :: "'w \<Rightarrow> (go_error + nat) \<times> 'w"
  ho_new_manager :: "nat \<Rightarrow> ctrl_Options \<Rightarrow> 'w \<Rightarrow> (go_error + nat) \<times> 'w"
  ho_index_field :: "gotype \<Rightarrow> string \<Rightarrow> 'w \<Rightarrow> go_error option \<times> 'w"
  ho_controller :: "string \<Rightarrow> gotype \<Rightarrow> gotype list \<Rightarrow> 'w \<Rightarrow> go_error option \<times> 'w"
  ho_webhook :: "string \<Rightarrow> gotype \<Rightarrow> 'w \<Rightarrow> go_error option \<times> 'w"
  ho_healthz :: "string \<Rightarrow> 'w \<Rightarrow> go_error option \<times> 'w"
  ho_readyz :: "string \<Rightarrow> 'w \<Rightarrow> go_error option \<times> 'w"
  ho_start :: "nat \<Rightarrow> 'w \<Rightarrow> go_error option \<times> 'w"

definition Output :: "'w host \<Rightarrow> prog_event \<Rightarrow> ('w, unit) prog" where
  "Output h e = perform (\<lambda>w. ((), ho_output h e w)) (\<lambda>_. e)"
definition Stat :: "'w host \<Rightarrow> string \<Rightarrow> ('w, go_error option) prog" where
  "Stat h f = perform (ho_stat h f) (EvStat f)"
definition ReadFile :: "'w host \<Rightarrow> string \<Rightarrow> ('w, go_error + string) prog" where
  "ReadFile h f = perform (ho_read_file h f) (EvReadFile f)"
definition Ctx_Err :: "'w host \<Rightarrow> ('w, go_error option) prog" where
  "Ctx_Err h = perform (ho_ctx_err h) EvCtxErr"
definition Build :: "'w host \<Rightarrow> zap_Config \<Rightarrow> string list \<Rightarrow> ('w, go_error + nat) prog" where
  "Build h z os = perform (ho_build h z os) (EvBuildLogger z os)"
definition GetConfig :: "'w host \<Rightarrow> ('w, go_error + nat) prog" where
  "GetConfig h = perform (ho_get_config h) EvGetConfig"
definition NewManager :: "'w host \<Rightarrow> nat \<Rightarrow> ctrl_Options \<Rightarrow> ('w, go_error + nat) prog" where
  "NewManager h k os = perform (ho_new_manager h k os) (EvNewManager k os)"
definition IndexField :: "'w host \<Rightarrow> gotype \<Rightarrow> string \<Rightarrow> ('w, go_error option) prog" where
  "IndexField h t n = perform (ho_index_field h t n) (EvIndexField t n)"
definition Complete_Controller :: "'w host \<Rightarrow> string \<Rightarrow> gotype \<Rightarrow> gotype list \<Rightarrow> ('w, go_error option) prog" where
  "Complete_Controller h r t ts = perform (ho_controller h r t ts) (EvController r t ts)"
definition Complete_Webhook :: "'w host \<Rightarrow> string \<Rightarrow> gotype \<Rightarrow> ('w, go_error option) prog" where
  "Complete_Webhook h v t = perform (ho_webhook h v t) (EvWebhook v t)"
definition AddHealthzCheck :: "'w host \<Rightarrow> string \<Rightarrow> ('w, go_error option) prog" where
  "AddHealthzCheck h n = perform (ho_healthz h n) (EvHealthzCheck n)"
definition AddReadyzCheck :: "'w host \<Rightarrow> string \<Rightarrow> ('w, go_error option) prog" where
  "AddReadyzCheck h n = perform (ho_readyz h n) (EvReadyzCheck n)"
definition Manager_Start :: "'w host \<Rightarrow> nat \<Rightarrow> ('w, go_error option) prog" where
  "Manager_Start h m = perform (ho_start h m) (EvStart m)"

lemmas host_defs = Output_def Stat_def ReadFile_def Ctx_Err_def Build_def GetConfig_def NewManager_def IndexField_def
  Complete_Controller_def Complete_Webhook_def AddHealthzCheck_def AddReadyzCheck_def Manager_Start_def

lemma behaves_host [behaves_rules]:
  "Q0 () [e] \<Longrightarrow> behaves (Output h e) Q0"
  "(\<And>r. Q1 r [EvStat f r]) \<Longrightarrow> behaves (Stat h f) Q1"
  "(\<And>r. Q2 r [EvReadFile f r]) \<Longrightarrow> behaves (ReadFile h f) Q2"
  "(\<And>r. Q1 r [EvCtxErr r]) \<Longrightarrow> behaves (Ctx_Err h) Q1"
  "(\<And>r. Q3 r [EvBuildLogger z os r]) \<Longrightarrow> behaves (Build h z os) Q3"
  "(\<And>r. Q3 r [EvGetConfig r]) \<Longrightarrow> behaves (GetConfig h) Q3"
  "(\<And>r. Q3 r [EvNewManager k cs r]) \<Longrightarrow> behaves (NewManager h k cs) Q3"
  "(\<And>r. Q1 r [EvIndexField t n r]) \<Longrightarrow> behaves (IndexField h t n) Q1"
  "(\<And>r. Q1 r [EvController n t ts r]) \<Longrightarrow> behaves (Complete_Controller h n t ts) Q1"
  "(\<And>r. Q1 r [EvWebhook n t r]) \<Longrightarrow> behaves (Complete_Webhook h n t) Q1"
  "(\<And>r. Q1 r [EvHealthzCheck n r]) \<Longrightarrow> behaves (AddHealthzCheck h n) Q1"
  "(\<And>r. Q1 r [EvReadyzCheck n r]) \<Longrightarrow> behaves (AddReadyzCheck h n) Q1"
  "(\<And>r. Q1 r [EvStart k r]) \<Longrightarrow> behaves (Manager_Start h k) Q1"
  by (simp_all add: host_defs behaves_perform)

end
