(* ===== verification/Manager_Server.thy ===== *)
theory Manager_Server
  imports Program_Env
begin

text \<open>
  \<^verbatim>\<open>pkg/server\<close> and \<^verbatim>\<open>pkg/utils/fieldindex\<close>: creating and starting the controller manager with its indexes,
  controllers, webhook and health checks.  The server is known by its manager.
\<close>

section \<open>Field indexes\<close>

definition IndexNameForOwnerRefUID :: string where "IndexNameForOwnerRefUID = ''ownerRefUID''"
definition IndexNameForFrpServerPhase :: string where "IndexNameForFrpServerPhase = ''status.phase''"

text \<open>An object of the cache: an \<^verbatim>\<open>FrpServer\<close> or anything else, of which only the metadata matter.\<close>

datatype client_object = FrpServerObject FrpServer | OtherObject ObjectMeta

definition GetOwnerReferences :: "client_object \<Rightarrow> OwnerReference list" where
  "GetOwnerReferences obj = (case obj of
     FrpServerObject s \<Rightarrow> om_OwnerReferences (fs_meta s)
   | OtherObject m \<Rightarrow> om_OwnerReferences m)"

fun owner_uids :: "OwnerReference list \<Rightarrow> string list \<Rightarrow> string list" where
  "owner_uids [] owners = owners"
| "owner_uids (r # refs) owners = owner_uids refs (owners @ [or_UID r])"

definition ownerIndexFunc :: "client_object \<Rightarrow> string list" where
  "ownerIndexFunc obj = owner_uids (GetOwnerReferences obj) []"

definition phaseIndexFunc :: "client_object \<Rightarrow> string list" where
  "phaseIndexFunc obj = (case obj of
     OtherObject _ \<Rightarrow> []
   | FrpServerObject srv \<Rightarrow>
       if length (st_Phase (fs_Status srv)) = 0 then [] else [st_Phase (fs_Status srv)])"

definition RegisterFieldIndexes :: "'w host \<Rightarrow> ('w, go_error option) prog" where
  "RegisterFieldIndexes h = do {
     e \<leftarrow> IndexField h GoPod IndexNameForOwnerRefUID;
     case e of
       Some err \<Rightarrow> ret (Some err)
     | None \<Rightarrow> do {
         e \<leftarrow> IndexField h GoFrpServer IndexNameForFrpServerPhase;
         case e of Some err \<Rightarrow> ret (Some err) | None \<Rightarrow> ret None } }"

section \<open>Creating the server\<close>

definition DefaultPort :: int where "DefaultPort = 9443"

text \<open>The port is converted when it is empty.\<close>

definition webhook_port :: "runtime \<Rightarrow> string \<Rightarrow> go_error + int" where
  "webhook_port rt port =
     (if port = [] then
        (case Atoi rt port of
           (_, Some err) \<Rightarrow> Inl (WrapError (''unable to convert port to number, got: '' @ quoted (Error err)) err)
         | (n, None) \<Rightarrow> Inr n)
      else Inr DefaultPort)"

definition webhook_options :: "ManagerOptions \<Rightarrow> string \<Rightarrow> int \<Rightarrow> webhook_Options" where
  "webhook_options m host port = \<lparr>wo_Host = host, wo_Port = port, wo_CertDir = mo_WebhookCertDir m,
     wo_CertName = mo_WebhookCertName m, wo_KeyName = mo_WebhookKeyName m, wo_ClientCAName = mo_WebhookClientCAName m\<rparr>"

definition metrics_options :: "ManagerOptions \<Rightarrow> metrics_Options" where
  "metrics_options m = \<lparr>me_CertDir = mo_MetricsCertDir m, me_CertName = mo_MetricsCertName m,
     me_KeyName = mo_MetricsKeyName m, me_SecureServing = mo_MetricsSecureServing m,
     me_BindAddress = mo_MetricsBindAddress m\<rparr>"

definition ctrl_options :: "ManagerOptions \<Rightarrow> webhook_Options \<Rightarrow> ctrl_Options" where
  "ctrl_options m w = \<lparr>co_LeaderElection = mo_LeaderElection m,
     co_LeaderElectionResourceLock = mo_LeaderElectionResourceLock m,
     co_LeaderElectionNamespace = mo_LeaderElectionNamespace m, co_LeaderElectionID = mo_LeaderElectionID m,
     co_LeaderElectionReleaseOnCancel = mo_LeaderElectionReleaseOnCancel m,
     co_LeaseDuration = mo_LeaseDuration m, co_RenewDeadline = mo_RenewDeadline m, co_RetryPeriod = mo_RetryPeriod m,
     co_Metrics = metrics_options m, co_WebhookServer = w,
     co_HealthProbeBindAddress = mo_HealthProbeBindAddress m, co_PprofBindAddress = mo_PprofBindAddress m,
     co_GracefulShutdownTimeout = mo_GracefulShutdownTimeout m\<rparr>"

definition wrapped :: "string \<Rightarrow> go_error \<Rightarrow> go_error" where
  "wrapped msg e = WrapError (msg @ Error e) e"

definition wrapped_quoted :: "string \<Rightarrow> go_error \<Rightarrow> go_error" where
  "wrapped_quoted msg e = WrapError (msg @ quoted (Error e)) e"

text \<open>A step of the setup: its error, wrapped, ends the setup.\<close>

definition step_or :: "('w, go_error option) prog \<Rightarrow> (go_error \<Rightarrow> go_error) \<Rightarrow> ('w, go_error + 'a) prog \<Rightarrow> ('w, go_error + 'a) prog" where
  "step_or m wrap k = do {
     e \<leftarrow> m;
     case e of Some err \<Rightarrow> ret (Inl (wrap err)) | None \<Rightarrow> k }"

definition ServiceReconciler_SetupWithManager :: "'w host \<Rightarrow> ('w, go_error option) prog" where
  "ServiceReconciler_SetupWithManager h = Complete_Controller h ''ServiceReconciler'' GoService [GoPod]"

definition FrpServerReconciler_SetupWithManager :: "'w host \<Rightarrow> ('w, go_error option) prog" where
  "FrpServerReconciler_SetupWithManager h = Complete_Controller h ''FrpServerReconciler'' GoFrpServer []"

definition SetupWebhookWithManager :: "'w host \<Rightarrow> ('w, go_error option) prog" where
  "SetupWebhookWithManager h = Complete_Webhook h ''FrpServerValidator'' GoFrpServer"

definition setup_manager :: "'w host \<Rightarrow> nat \<Rightarrow> ('w, go_error + nat) prog" where
  "setup_manager h mgr =
     step_or (RegisterFieldIndexes h) (wrapped_quoted ''unable  RegisterFieldIndexes to cache got: '')
     (step_or (ServiceReconciler_SetupWithManager h) (wrapped ''unable to setup server reconciler, got: '')
     (step_or (FrpServerReconciler_SetupWithManager h) (wrapped ''unable to setup frpserver reconciler, got: '')
     (step_or (SetupWebhookWithManager h) (wrapped ''unable to setup FrpServerValidator webhook, got: '')
     (step_or (AddHealthzCheck h ''healthz'') (wrapped ''unable to set up health check, got: '')
     (step_or (AddReadyzCheck h ''readyz'') (wrapped ''unable to set up ready check, got: '')
     (ret (Inr mgr)))))))"

definition start_manager :: "'w host \<Rightarrow> ctrl_Options \<Rightarrow> ('w, go_error + nat) prog" where
  "start_manager h os = do {
     k \<leftarrow> GetConfig h;
     case k of
       Inl err \<Rightarrow> ret (Inl (wrapped_quoted ''unable to get kubernetes config, got: '' err))
     | Inr kubeConfig \<Rightarrow> do {
         m \<leftarrow> NewManager h kubeConfig os;
         case m of
           Inl err \<Rightarrow> ret (Inl (wrapped_quoted ''unable to start manager, got: '' err))
         | Inr mgr \<Rightarrow> setup_manager h mgr } }"

definition NewManagerServer :: "'w host \<Rightarrow> Configuration \<Rightarrow> ('w, (go_error + nat) outcome) prog" where
  "NewManagerServer h cfg = (case cfg_Manager cfg of
     None \<Rightarrow> ret (Panic nil_dereference)
   | Some m \<Rightarrow>
       (case SplitHostPort (mo_WebhookBindAddress m) of
          Inl err \<Rightarrow> ret (Return (Inl (wrapped_quoted ''unable to split host and port, got: '' err)))
        | Inr (webhookHost, port) \<Rightarrow>
            (case webhook_port (ho_runtime h) port of
               Inl err \<Rightarrow> ret (Return (Inl err))
             | Inr webhookPort \<Rightarrow> do {
                 r \<leftarrow> start_manager h (ctrl_options m (webhook_options m webhookHost webhookPort));
                 ret (Return r) })))"

definition ManagerServer_Start :: "'w host \<Rightarrow> nat \<Rightarrow> ('w, go_error option) prog" where
  "ManagerServer_Start h mgr = do {
     e \<leftarrow> Manager_Start h mgr;
     case e of
       Some err \<Rightarrow> ret (Some (wrapped ''unable running frp-provisioner controller, got: '' err))
     | None \<Rightarrow> ret None }"

text \<open>The server of the agent does nothing.\<close>

definition NewAgentServer :: "'w host \<Rightarrow> AgentConfiguration \<Rightarrow> ('w, go_error + unit) prog" where
  "NewAgentServer h cfg = ret (Inr ())"

definition AgentServer_Start :: "'w host \<Rightarrow> unit \<Rightarrow> ('w, go_error option) prog" where
  "AgentServer_Start h s = ret None"

section \<open>Lemmas\<close>

lemma owner_uids_map: "owner_uids refs owners = owners @ map or_UID refs"
  by (induction refs arbitrary: owners) simp_all

text \<open>The index of owners finds an object under the identifier of each of its owners, the index of phases an
  \<^verbatim>\<open>FrpServer\<close> under its phase once it has one.\<close>

lemma ownerIndexFunc_iff: "uid \<in> set (ownerIndexFunc obj) \<longleftrightarrow> (\<exists>r\<in>set (GetOwnerReferences obj). or_UID r = uid)"
  by (auto simp: ownerIndexFunc_def owner_uids_map)

lemma phaseIndexFunc_iff:
  "p \<in> set (phaseIndexFunc obj) \<longleftrightarrow> p \<noteq> [] \<and> (\<exists>srv. obj = FrpServerObject srv \<and> st_Phase (fs_Status srv) = p)"
  by (auto simp: phaseIndexFunc_def split: client_object.splits)

lemma webhook_port_empty: "\<exists>err. webhook_port rt [] = Inl err"
  by (simp add: webhook_port_def Atoi_empty)

lemma webhook_port_given: "port \<noteq> [] \<Longrightarrow> webhook_port rt port = Inr DefaultPort"
  by (simp add: webhook_port_def)

text \<open>What went wrong, and the name of a step.\<close>

definition failed :: "prog_event \<Rightarrow> bool" where
  "failed e = (case e of
     EvStat f r \<Rightarrow> r \<noteq> None
   | EvReadFile f r \<Rightarrow> isl r
   | EvCtxErr r \<Rightarrow> r \<noteq> None
   | EvBuildLogger z os r \<Rightarrow> isl r
   | EvGetConfig r \<Rightarrow> isl r
   | EvNewManager k os r \<Rightarrow> isl r
   | EvIndexField t n r \<Rightarrow> r \<noteq> None
   | EvController n t ts r \<Rightarrow> r \<noteq> None
   | EvWebhook n t r \<Rightarrow> r \<noteq> None
   | EvHealthzCheck n r \<Rightarrow> r \<noteq> None
   | EvReadyzCheck n r \<Rightarrow> r \<noteq> None
   | EvStart k r \<Rightarrow> r \<noteq> None
   | _ \<Rightarrow> False)"

definition step_name :: "prog_event \<Rightarrow> string" where
  "step_name e = (case e of
     EvGetConfig r \<Rightarrow> ''config''
   | EvNewManager k os r \<Rightarrow> ''manager''
   | EvIndexField t n r \<Rightarrow> n
   | EvController n t ts r \<Rightarrow> n
   | EvWebhook n t r \<Rightarrow> n
   | EvHealthzCheck n r \<Rightarrow> n
   | EvReadyzCheck n r \<Rightarrow> n
   | _ \<Rightarrow> [])"

definition setup_order :: "string list" where
  "setup_order = [''config'', ''manager'', IndexNameForOwnerRefUID, IndexNameForFrpServerPhase,
     ''ServiceReconciler'', ''FrpServerReconciler'', ''FrpServerValidator'', ''healthz'', ''readyz'']"

definition in_order :: "string list \<Rightarrow> (go_error + nat) \<Rightarrow> prog_event list \<Rightarrow> bool" where
  "in_order names r es \<longleftrightarrow> map step_name es = take (length es) names
     \<and> (if isl r then es \<noteq> [] \<and> failed (last es) \<and> list_all (\<lambda>e. \<not> failed e) (butlast es)
        else length es = length names \<and> list_all (\<lambda>e. \<not> failed e) es)"

lemma in_order_step:
  "failed e \<Longrightarrow> step_name e = n \<Longrightarrow> in_order (n # names) (Inl x) [e]"
  "\<not> failed e \<Longrightarrow> step_name e = n \<Longrightarrow> in_order names r es \<Longrightarrow> in_order (n # names) r (e # es)"
  "in_order [] (Inr m) []"
  by (auto simp: in_order_def)

text \<open>A step that makes one call, named \<open>n\<close>.\<close>

definition one_call :: "string \<Rightarrow> ('w, go_error option) prog \<Rightarrow> bool" where
  "one_call n m \<longleftrightarrow> behaves m (\<lambda>r es. \<exists>e. es = [e] \<and> step_name e = n \<and> failed e = (r \<noteq> None))"

lemma step_or_order:
  assumes "one_call n m" and "behaves k (in_order names)"
  shows "behaves (step_or m wrap k) (in_order (n # names))"
  unfolding step_or_def
  by (intro behaves_rules behaves_weaken [OF assms(1) [unfolded one_call_def]])
    (auto split: option.splits intro!: behaves_rules behaves_weaken [OF assms(2)] intro: in_order_step)

lemma setup_calls:
  "one_call IndexNameForOwnerRefUID (IndexField h t IndexNameForOwnerRefUID)"
  "one_call IndexNameForFrpServerPhase (IndexField h t IndexNameForFrpServerPhase)"
  "one_call ''ServiceReconciler'' (ServiceReconciler_SetupWithManager h)"
  "one_call ''FrpServerReconciler'' (FrpServerReconciler_SetupWithManager h)"
  "one_call ''FrpServerValidator'' (SetupWebhookWithManager h)"
  "one_call n (AddHealthzCheck h n)"
  "one_call n (AddReadyzCheck h n)"
  by (simp_all add: one_call_def ServiceReconciler_SetupWithManager_def FrpServerReconciler_SetupWithManager_def
      SetupWebhookWithManager_def behaves_host step_name_def failed_def)

lemma step_or_indexes:
  "step_or (RegisterFieldIndexes h) wrap k =
     step_or (IndexField h GoPod IndexNameForOwnerRefUID) wrap
       (step_or (IndexField h GoFrpServer IndexNameForFrpServerPhase) wrap k)"
  unfolding RegisterFieldIndexes_def step_or_def
  by (simp add: State_Monad.bind_assoc cong: option.case_cong)
    (rule arg_cong [where f = "State_Monad.bind _"], auto simp: fun_eq_iff split: option.splits
      intro!: arg_cong [where f = "State_Monad.bind _"])

lemma setup_manager_order:
  "behaves (setup_manager h mgr) (in_order (drop 2 setup_order))"
  unfolding setup_manager_def step_or_indexes setup_order_def
  by (simp add: step_or_order setup_calls behaves_ret in_order_step)

lemma start_manager_order: "behaves (start_manager h os) (in_order setup_order)"
proof -
  have *: "setup_order = ''config'' # ''manager'' # drop 2 setup_order" by (simp add: setup_order_def)
  show ?thesis
    unfolding start_manager_def
    by (subst *, intro behaves_rules)
      (auto intro!: behaves_rules behaves_weaken [OF setup_manager_order] in_order_step
        simp: step_name_def failed_def split: sum.splits)
qed

lemma NewManagerServer_order:
  "behaves (NewManagerServer h cfg) (\<lambda>r es. case r of
     Panic p \<Rightarrow> cfg_Manager cfg = None \<and> es = []
   | Return x \<Rightarrow> in_order setup_order x es \<or> es = [] \<and> isl x)"
  unfolding NewManagerServer_def
  by (auto split: option.splits sum.splits prod.splits
      intro!: behaves_rules behaves_weaken [OF start_manager_order])

definition manager_options_are :: "ctrl_Options \<Rightarrow> prog_event \<Rightarrow> bool" where
  "manager_options_are os e = (case e of EvNewManager k os' r \<Rightarrow> os' = os | _ \<Rightarrow> True)"

lemma step_or_options:
  assumes "behaves m (\<lambda>r es. list_all P es)" and "behaves k (\<lambda>r es. list_all P es)"
  shows "behaves (step_or m wrap k) (\<lambda>r es. list_all P es)"
  unfolding step_or_def
  by (intro behaves_rules behaves_weaken [OF assms(1)])
    (auto split: option.splits intro!: behaves_rules behaves_weaken [OF assms(2)])

lemma start_manager_options: "behaves (start_manager h os) (\<lambda>r es. list_all (manager_options_are os) es)"
proof -
  have "behaves (setup_manager h mgr) (\<lambda>r es. list_all (manager_options_are os) es)" for mgr
    unfolding setup_manager_def step_or_indexes ServiceReconciler_SetupWithManager_def
      FrpServerReconciler_SetupWithManager_def SetupWebhookWithManager_def
    by (intro step_or_options behaves_rules) (simp_all add: manager_options_are_def)
  note steps = this
  show ?thesis
    unfolding start_manager_def
    by (intro behaves_rules)
      (auto intro!: behaves_rules behaves_weaken [OF steps] simp: manager_options_are_def split: sum.splits)
qed

text \<open>The options of the manager for a configuration.\<close>

definition created_for :: "Configuration \<Rightarrow> prog_event \<Rightarrow> bool" where
  "created_for cfg e = (case e of
     EvNewManager k os a \<Rightarrow> (case cfg_Manager cfg of
         None \<Rightarrow> False
       | Some m \<Rightarrow> \<exists>host port. SplitHostPort (mo_WebhookBindAddress m) = Inr (host, port) \<and> port \<noteq> []
           \<and> os = ctrl_options m (webhook_options m host 9443))
   | _ \<Rightarrow> True)"

lemma NewManagerServer_options: "behaves (NewManagerServer h cfg) (\<lambda>r es. list_all (created_for cfg) es)"
  unfolding NewManagerServer_def
  by (auto split: option.splits sum.splits prod.splits if_splits
      intro!: behaves_rules behaves_weaken [OF start_manager_options]
      simp: webhook_port_def Atoi_empty DefaultPort_def manager_options_are_def created_for_def list_all_iff
      split: prog_event.splits) blast

section \<open>Properties\<close>

text \<open>
  (C19) The setup of the manager makes its nine calls in a fixed order: the client configuration, the manager,
  two indexes, two controllers, the webhook, two checks.  It stops at the first that fails and reports an
  error; it returns a server exactly when all nine have succeeded; an unusable webhook address
  is reported before any call.
\<close>

theorem setup_in_order:
  "behaves (NewManagerServer h cfg) (\<lambda>r es. case r of
     Panic p \<Rightarrow> cfg_Manager cfg = None \<and> es = []
   | Return x \<Rightarrow> in_order setup_order x es \<or> es = [] \<and> isl x)"
  by (rule NewManagerServer_order)


end
