(* ===== verification/Commands.thy ===== *)
theory Commands
  imports Manager_Server
begin

text \<open>
  \<^verbatim>\<open>cmd/manager/app\<close>, \<^verbatim>\<open>cmd/agent/app\<close> and \<^verbatim>\<open>Get\<close> of \<^verbatim>\<open>pkg/version\<close>: the command lines of the two programs.  A command parses its
  arguments, loads the configuration file, parses the arguments again on top of it, validates,
  and starts its server.  \<^verbatim>\<open>RunE\<close> is what cobra calls with the arguments; \<^verbatim>\<open>cmd.Help()\<close> only prints.
\<close>

section \<open>Version\<close>

definition gitVersion :: string where "gitVersion = ''v0.0.0''"
definition buildDate :: string where "buildDate = ''unknown''"
definition gitCommit :: string where "gitCommit = ''unknown''"

definition version_Get :: "'w host \<Rightarrow> Info" where
  "version_Get h = \<lparr>vi_GitVersion = gitVersion, vi_GitCommit = gitCommit, vi_BuildDate = buildDate,
     vi_GoVersion = ho_GoVersion h, vi_Compiler = ho_Compiler h, vi_Platform = ho_GOOS h @ ''/'' @ ho_GOARCH h,
     vi_FrpVersion = frp_version\<rparr>"

section \<open>Flags of the commands\<close>

record ManagerFlags =
  mf_ConfigFile :: string
  mf_ShowVersion :: bool

definition NewManagerFlags :: ManagerFlags where
  "NewManagerFlags = \<lparr>mf_ConfigFile = [], mf_ShowVersion = False\<rparr>"

definition manager_defaultConfigFile :: string where "manager_defaultConfigFile = ''/etc/manager/config.yaml''"

definition ManagerFlags_SetDefaults :: "ManagerFlags \<Rightarrow> ManagerFlags" where
  "ManagerFlags_SetDefaults f = f\<lparr>mf_ConfigFile := EmptyOr_str (mf_ConfigFile f) manager_defaultConfigFile\<rparr>"

definition ManagerFlags_AddFlags :: "ManagerFlags flag list" where
  "ManagerFlags_AddFlags = [BoolVar mf_ShowVersion mf_ShowVersion_update ''version'',
     StringVar mf_ConfigFile mf_ConfigFile_update ''config'']"

definition ManagerFlags_Validate :: "'w host \<Rightarrow> ManagerFlags \<Rightarrow> ('w, go_error option) prog" where
  "ManagerFlags_Validate h f =
     (if mf_ConfigFile f = [] then ret (Some (ErrorString ''config file required''))
      else Stat h (mf_ConfigFile f))"

record AgentFlags =
  af_ShowVersion :: bool
  af_ConfigFile :: string

definition NewAgentFlags :: AgentFlags where
  "NewAgentFlags = \<lparr>af_ShowVersion = False, af_ConfigFile = []\<rparr>"

definition agent_defaultConfigFile :: string where
  "agent_defaultConfigFile = ''/etc/frp-provisioner/agent-config.yaml''"

definition AgentFlags_SetDefaults :: "AgentFlags \<Rightarrow> AgentFlags" where
  "AgentFlags_SetDefaults f = f\<lparr>af_ConfigFile := EmptyOr_str (af_ConfigFile f) agent_defaultConfigFile\<rparr>"

definition AgentFlags_AddFlags :: "AgentFlags flag list" where
  "AgentFlags_AddFlags = [BoolVar af_ShowVersion af_ShowVersion_update ''version'',
     StringVar af_ConfigFile af_ConfigFile_update ''config'']"

definition AgentFlags_Validate :: "'w host \<Rightarrow> AgentFlags \<Rightarrow> ('w, go_error option) prog" where
  "AgentFlags_Validate h f =
     (if af_ConfigFile f = [] then ret (Some (ErrorString ''config file required''))
      else Stat h (af_ConfigFile f))"

section \<open>Configuration files\<close>

definition flags_part :: "'f flag \<Rightarrow> ('f \<times> 'c) flag" where
  "flags_part = inside fst (\<lambda>f (_, c). (f, c))"

definition config_part :: "'c flag \<Rightarrow> ('f \<times> 'c) flag" where
  "config_part = inside snd (\<lambda>c (f, _). (f, c))"

text \<open>The arguments are parsed with the flags of a new flags structure, which is dropped, and of the
  configuration.\<close>

definition FlagPrecedence ::
    "runtime \<Rightarrow> string list \<Rightarrow> Configuration \<Rightarrow> (Configuration \<times> go_error option) outcome" where
  "FlagPrecedence rt args c = (case Configuration_AddFlags c of
     Panic p \<Rightarrow> Panic p
   | Return cfs \<Rightarrow> (case add_all rt [] (map flags_part ManagerFlags_AddFlags @ map config_part cfs) [] of
       Panic p \<Rightarrow> Panic p
     | Return cleanFlags \<Rightarrow> (case Parse rt cleanFlags args (NewManagerFlags, c) of
         (st, _, err) \<Rightarrow> Return (snd (st_config st), err))))"

definition LoadConfigFile ::
    "'w host \<Rightarrow> string \<Rightarrow> Configuration \<Rightarrow> ('w, go_error + Configuration) prog" where
  "LoadConfigFile h filename c = do {
     d \<leftarrow> ReadFile h filename;
     case d of
       Inl err \<Rightarrow> ret (Inl err)
     | Inr data \<Rightarrow> ret (ho_load h data c) }"

definition agent_FlagPrecedence ::
    "runtime \<Rightarrow> string list \<Rightarrow> AgentConfiguration \<Rightarrow> (AgentConfiguration \<times> go_error option) outcome" where
  "agent_FlagPrecedence rt args c = (case AgentConfiguration_AddFlags c of
     Panic p \<Rightarrow> Panic p
   | Return cfs \<Rightarrow> (case add_all rt [] (map flags_part AgentFlags_AddFlags @ map config_part cfs) [] of
       Panic p \<Rightarrow> Panic p
     | Return cleanFlags \<Rightarrow> (case Parse rt cleanFlags args (NewAgentFlags, c) of
         (st, _, err) \<Rightarrow> Return (snd (st_config st), err))))"

definition agent_LoadConfigFile ::
    "'w host \<Rightarrow> string \<Rightarrow> AgentConfiguration \<Rightarrow> ('w, go_error + AgentConfiguration) prog" where
  "agent_LoadConfigFile h filename c = do {
     d \<leftarrow> ReadFile h filename;
     case d of
       Inl err \<Rightarrow> ret (Inl err)
     | Inr data \<Rightarrow> ret (ho_load_agent h data c) }"

section \<open>Commands\<close>

text \<open>The variables of a command: whether help is asked for, its flags and its configuration.\<close>

definition help_flag :: "(bool \<times> 'f \<times> 'c) flag" where
  "help_flag = (inside fst (\<lambda>b (_, r). (b, r)) (BoolVar id (\<lambda>f b. f b) ''help''))\<lparr>fl_Shorthand := ''h''\<rparr>"

definition rest_part :: "('f \<times> 'c) flag \<Rightarrow> (bool \<times> 'f \<times> 'c) flag" where
  "rest_part = inside snd (\<lambda>r (b, _). (b, r))"

text \<open>\<^verbatim>\<open>NewManagerCommand\<close>: the flag set of the command and the values of its variables before any argument is read.\<close>

definition NewManagerCommand ::
    "'w host \<Rightarrow> ((bool \<times> ManagerFlags \<times> Configuration) flagset \<times> bool \<times> ManagerFlags \<times> Configuration) outcome" where
  "NewManagerCommand h =
     (let managerFlags = ManagerFlags_SetDefaults NewManagerFlags in
      case Configuration_SetDefaults (ho_TMPDIR h) NewConfiguration of
        Panic p \<Rightarrow> Panic p
      | Return cfg \<Rightarrow> (case Configuration_AddFlags cfg of
          Panic p \<Rightarrow> Panic p
        | Return cfs \<Rightarrow>
            (case add_all (ho_runtime h) ''frp-provisioner-manager'' (help_flag
                 # map rest_part (map flags_part ManagerFlags_AddFlags @ map config_part cfs)) [] of
               Panic p \<Rightarrow> Panic p
             | Return fs \<Rightarrow> Return (fs, False, managerFlags, cfg))))"

text \<open>From a loaded configuration to the running server.\<close>

definition start_manager_server ::
    "'w host \<Rightarrow> Configuration \<Rightarrow> ('w, go_error option outcome) prog" where
  "start_manager_server h cfg = (case cfg_Log cfg of
     None \<Rightarrow> ret (Panic nil_dereference)
   | Some l \<Rightarrow> do {
       ctx_err \<leftarrow> Ctx_Err h;
       r \<leftarrow> NewLogger (Build h) ctx_err l;
       case r of
         Inl err \<Rightarrow> ret (Return (Some (ErrorString (''cannot create logger: '' @ Error err))))
       | Inr logger \<Rightarrow> do {
           _ \<leftarrow> Output h (EvReplaceGlobals logger);
           _ \<leftarrow> Output h (EvSetLogger logger);
           s \<leftarrow> NewManagerServer h cfg;
           case s of
             Panic p \<Rightarrow> ret (Panic p)
           | Return (Inl err) \<Rightarrow>
               ret (Return (Some (ErrorString (''cannot create frp-provisioner server: '' @ Error err))))
           | Return (Inr srv) \<Rightarrow> do {
               e \<leftarrow> ManagerServer_Start h srv;
               ret (Return e) } } })"

definition run_configured ::
    "'w host \<Rightarrow> string list \<Rightarrow> Configuration \<Rightarrow> ('w, go_error option outcome) prog" where
  "run_configured h args cfg = (case FlagPrecedence (ho_runtime h) args cfg of
     Panic p \<Rightarrow> ret (Panic p)
   | Return (cfg, Some err) \<Rightarrow> ret (Return (Some err))
   | Return (cfg, None) \<Rightarrow> (case Configuration_Validate (ho_yaml h) cfg of
       Panic p \<Rightarrow> ret (Panic p)
     | Return (Some err) \<Rightarrow> ret (Return (Some (ErrorString (''config file is incorrect: '' @ Error err))))
     | Return None \<Rightarrow> start_manager_server h cfg))"

definition manager_RunE ::
    "'w host \<Rightarrow> (bool \<times> ManagerFlags \<times> Configuration) flagset \<times> bool \<times> ManagerFlags \<times> Configuration
     \<Rightarrow> string list \<Rightarrow> ('w, go_error option outcome) prog" where
  "manager_RunE h cmd args = (case Parse (ho_runtime h) (fst cmd) args (snd cmd) of
     (st, restArgs, Some err) \<Rightarrow> ret (Return (Some err))
   | (st, restArgs, None) \<Rightarrow>
       (let (help, managerFlags, cfg) = st_config st in
        if length restArgs > 0 then ret (Return (Some (ErrorString (''unknown command: '' @ hd restArgs))))
        else if help then do { _ \<leftarrow> Output h EvHelp; ret (Return None) }
        else if mf_ShowVersion managerFlags then do { _ \<leftarrow> Output h (EvVersion (version_Get h)); ret (Return None) }
        else do {
          e \<leftarrow> ManagerFlags_Validate h managerFlags;
          case e of
            Some err \<Rightarrow> ret (Return (Some err))
          | None \<Rightarrow> do {
              l \<leftarrow> LoadConfigFile h (mf_ConfigFile managerFlags) cfg;
              case l of
                Inl err \<Rightarrow> ret (Return (Some (ErrorString (''config file '' @ mf_ConfigFile managerFlags
                  @ '' contains errors: '' @ Error err))))
              | Inr cfg \<Rightarrow> run_configured h args cfg } }))"

text \<open>The agent goes the same way.\<close>

definition NewAgentCommand ::
    "'w host \<Rightarrow> ((bool \<times> AgentFlags \<times> AgentConfiguration) flagset \<times> bool \<times> AgentFlags \<times> AgentConfiguration) outcome" where
  "NewAgentCommand h =
     (let agentFlags = AgentFlags_SetDefaults NewAgentFlags in
      case AgentConfiguration_SetDefaults NewAgentConfiguration of
        Panic p \<Rightarrow> Panic p
      | Return cfg \<Rightarrow> (case AgentConfiguration_AddFlags cfg of
          Panic p \<Rightarrow> Panic p
        | Return cfs \<Rightarrow>
            (case add_all (ho_runtime h) ''frp-provisioner-agent'' (help_flag
                 # map rest_part (map flags_part AgentFlags_AddFlags @ map config_part cfs)) [] of
               Panic p \<Rightarrow> Panic p
             | Return fs \<Rightarrow> Return (fs, False, agentFlags, cfg))))"

definition start_agent_server ::
    "'w host \<Rightarrow> AgentConfiguration \<Rightarrow> ('w, go_error option outcome) prog" where
  "start_agent_server h cfg = (case acfg_Log cfg of
     None \<Rightarrow> ret (Panic nil_dereference)
   | Some l \<Rightarrow> do {
       ctx_err \<leftarrow> Ctx_Err h;
       r \<leftarrow> NewLogger (Build h) ctx_err l;
       case r of
         Inl err \<Rightarrow> ret (Return (Some (ErrorString (''cannot create logger: '' @ Error err))))
       | Inr logger \<Rightarrow> do {
           _ \<leftarrow> Output h (EvReplaceGlobals logger);
           s \<leftarrow> NewAgentServer h cfg;
           case s of
             Inl err \<Rightarrow> ret (Return (Some (ErrorString (''cannot create frp-provisioner agent server: '' @ Error err))))
           | Inr srv \<Rightarrow> do {
               e \<leftarrow> AgentServer_Start h srv;
               ret (Return e) } } })"

definition run_configured_agent ::
    "'w host \<Rightarrow> string list \<Rightarrow> AgentConfiguration \<Rightarrow> ('w, go_error option outcome) prog" where
  "run_configured_agent h args cfg = (case agent_FlagPrecedence (ho_runtime h) args cfg of
     Panic p \<Rightarrow> ret (Panic p)
   | Return (cfg, Some err) \<Rightarrow> ret (Return (Some err))
   | Return (cfg, None) \<Rightarrow> (case AgentConfiguration_Validate cfg of
       Panic p \<Rightarrow> ret (Panic p)
     | Return (Some err) \<Rightarrow> ret (Return (Some (ErrorString (''config file is incorrect: '' @ Error err))))
     | Return None \<Rightarrow> start_agent_server h cfg))"

definition agent_RunE ::
    "'w host \<Rightarrow> (bool \<times> AgentFlags \<times> AgentConfiguration) flagset \<times> bool \<times> AgentFlags \<times> AgentConfiguration
     \<Rightarrow> string list \<Rightarrow> ('w, go_error option outcome) prog" where
  "agent_RunE h cmd args = (case Parse (ho_runtime h) (fst cmd) args (snd cmd) of
     (st, restArgs, Some err) \<Rightarrow> ret (Return (Some err))
   | (st, restArgs, None) \<Rightarrow>
       (let (help, agentFlags, cfg) = st_config st in
        if length restArgs > 0 then ret (Return (Some (ErrorString (''unknown command: '' @ hd restArgs))))
        else if help then do { _ \<leftarrow> Output h EvHelp; ret (Return None) }
        else if af_ShowVersion agentFlags then do { _ \<leftarrow> Output h (EvVersion (version_Get h)); ret (Return None) }
        else do {
          e \<leftarrow> AgentFlags_Validate h agentFlags;
          case e of
            Some err \<Rightarrow> ret (Return (Some err))
          | None \<Rightarrow> do {
              l \<leftarrow> agent_LoadConfigFile h (af_ConfigFile agentFlags) cfg;
              case l of
                Inl err \<Rightarrow> ret (Return (Some (ErrorString (''config file '' @ af_ConfigFile agentFlags
                  @ '' contains errors: '' @ Error err))))
              | Inr cfg \<Rightarrow> run_configured_agent h args cfg } }))"

section \<open>The flags that are parsed on top of the file\<close>

definition precedence_flags :: "Options \<Rightarrow> (ManagerFlags \<times> Configuration) flagset" where
  "precedence_flags l = map flags_part ManagerFlags_AddFlags @ map config_part (Configuration_flags l)"

lemma command_part_names [simp]:
  "map fl_Name (map flags_part fs) = map fl_Name fs" "map fl_Name (map config_part gs) = map fl_Name gs"
  "map fl_Name (map rest_part hs) = map fl_Name hs"
  by (simp_all add: flags_part_def config_part_def rest_part_def comp_def)

lemma config_part_simps [simp]:
  "fl_Name (config_part f) = fl_Name f" "fl_Kind (config_part f) = fl_Kind f"
  "fl_get (config_part f) s = fl_get f (snd s)"
  by (simp_all add: config_part_def)

lemma precedence_flags_names: "map fl_Name (precedence_flags l) = [''version'', ''config''] @ map fl_Name (Configuration_flags l)"
  unfolding precedence_flags_def map_append command_part_names by (simp add: ManagerFlags_AddFlags_def)

lemma config_names_start: "\<forall>n\<in>set (map fl_Name (Configuration_flags l)). hd n = CHR ''l'' \<or> hd n = CHR ''m''"
  unfolding Configuration_flags_names set_append
  by (auto simp: Options_flags_names manager_flag_names simp del: set_map)

lemma precedence_flags_distinct: "distinct (map fl_Name (precedence_flags l))"
proof -
  have "n \<notin> set (map fl_Name (Configuration_flags l))" if "n = ''version'' \<or> n = ''config''" for n
    using config_names_start [of l] that by fastforce
  then show ?thesis using Configuration_flags_distinct [of l] by (simp add: precedence_flags_names del: set_map)
qed

lemma ManagerFlags_flags:
  "list_all ok_flag ManagerFlags_AddFlags" "pairwise_independent ManagerFlags_AddFlags"
  by (auto simp: ManagerFlags_AddFlags_def independent_def var_put)

interpretation precedence: pointers "precedence_flags l" for l
proof (rule pointersI [OF precedence_flags_distinct])
  show "list_all ok_flag (precedence_flags l)"
    unfolding precedence_flags_def flags_part_def config_part_def list_all_append
    by (intro conjI ok_inside_all ManagerFlags_flags Configuration_flags_ok) auto
  show "pairwise_independent (precedence_flags l)"
    unfolding precedence_flags_def pairwise_independent_append flags_part_def config_part_def
    by (intro conjI pairwise_inside ManagerFlags_flags Configuration_flags_independent independent_parts) auto
qed

lemma precedence_flags_shorthands: "list_all (\<lambda>f. fl_Shorthand f = []) (precedence_flags l)"
  using Options_flags_ok(2) [of l] ManagerOptions_flags_ok(2)
  by (auto simp: precedence_flags_def flags_part_def config_part_def ManagerFlags_AddFlags_def
      Configuration_flags_def log_part_def manager_part_def list_all_iff)

lemma precedence_flags_added:
  "add_all rt n (precedence_flags l) [] = Return (precedence_flags l)"
  using add_all_ok [of "[]" "precedence_flags l"] precedence_flags_distinct precedence_flags_shorthands by simp

text \<open>What the arguments say about the flag of a name.\<close>

definition given :: "runtime \<Rightarrow> 'c flagset \<Rightarrow> string list \<Rightarrow> string \<Rightarrow> string list" where
  "given rt fs args name = map snd (filter (\<lambda>(g, v). fl_Name g = name) (fst (command_line rt fs args)))"

lemma FlagPrecedence_eq:
  assumes "cfg_Log c = Some l" and "opt_Level l \<noteq> None" and "cfg_Manager c = Some m"
  shows "FlagPrecedence rt args c =
    (case Parse rt (precedence_flags l) args (NewManagerFlags, c) of (st, _, e) \<Rightarrow> Return (snd (st_config st), e))"
proof -
  have "Configuration_AddFlags c = Return (Configuration_flags l)"
    using assms by (simp add: Configuration_AddFlags_Return)
  then show ?thesis by (simp add: FlagPrecedence_def precedence_flags_def [symmetric] precedence_flags_added)
qed

lemma FlagPrecedence_Return:
  assumes "FlagPrecedence rt args c = Return (c', e)"
  obtains l m st rest where "cfg_Log c = Some l" "cfg_Manager c = Some m"
    "Parse rt (precedence_flags l) args (NewManagerFlags, c) = (st, rest, e)" "c' = snd (st_config st)"
proof -
  from assms have "\<exists>fs. Configuration_AddFlags c = Return fs"
    by (auto simp: FlagPrecedence_def split: outcome.splits)
  then obtain l m where lm: "cfg_Log c = Some l" "opt_Level l \<noteq> None" "cfg_Manager c = Some m"
    by (auto simp: Configuration_AddFlags_Return)
  obtain st rest e' where p: "Parse rt (precedence_flags l) args (NewManagerFlags, c) = (st, rest, e')"
    by (cases "Parse rt (precedence_flags l) args (NewManagerFlags, c)")
  with assms FlagPrecedence_eq [OF lm, of rt args] that [OF lm(1,3), of st rest] show thesis by simp
qed

section \<open>Properties\<close>

text \<open>
  (C9) What is given on the command line takes precedence over the file.  When the arguments have been parsed on
  top of a loaded configuration, the variable of every flag of the configuration has the
  value of its last occurrence among the arguments (all of them, for the flag that collects its
  values), and the value of the file when it does not occur.
\<close>

theorem flags_override_file:
  assumes "FlagPrecedence rt args c = Return (c', None)"
  shows "\<exists>l. cfg_Log c = Some l \<and> list_all (\<lambda>f. fl_get f c' =
     value_after rt (fl_Kind f) (given rt (precedence_flags l) args (fl_Name f)) (fl_get f c)) (Configuration_flags l)"
proof -
  from FlagPrecedence_Return [OF assms] obtain l m st rest where l: "cfg_Log c = Some l"
    and p: "Parse rt (precedence_flags l) args (NewManagerFlags, c) = (st, rest, None)" and c': "c' = snd (st_config st)" .
  from precedence.parse_fields [OF p] obtain ops where ops: "command_line rt (precedence_flags l) args = (ops, rest, None)"
    and fields: "\<forall>f\<in>set (precedence_flags l). fl_get f (st_config st)
      = value_after rt (fl_Kind f) (values_for f ops) (fl_get f (NewManagerFlags, c))" by (elim exE conjE)
  have given: "given rt (precedence_flags l) args (fl_Name f) = values_for (config_part f) ops" for f :: "Configuration flag"
    by (simp add: given_def values_for_def ops)
  have "fl_get f c' = value_after rt (fl_Kind f) (given rt (precedence_flags l) args (fl_Name f)) (fl_get f c)"
    if "f \<in> set (Configuration_flags l)" for f
  proof -
    have "config_part f \<in> set (precedence_flags l)" using that by (simp add: precedence_flags_def)
    from bspec [OF fields this] show ?thesis by (simp add: c' given)
  qed
  with l show ?thesis by (auto simp: list_all_iff)
qed

definition ex_runtime :: runtime where
  "ex_runtime = \<lparr>rt_IsPrint = \<lambda>_. False, rt_fraction = \<lambda>_ _ _. 0\<rparr>"

definition ex_log :: Options where "ex_log = Options_SetDefaults NewOptions"
definition ex_manager :: ManagerOptions where "ex_manager = ManagerOptions_SetDefaults [] zero_ManagerOptions"
definition ex_config :: Configuration where
  "ex_config = \<lparr>cfg_Log = Some ex_log, cfg_Manager = Some ex_manager\<rparr>"

definition ex_bind :: "Configuration flag" where
  "ex_bind = manager_part (StringVar mo_WebhookBindAddress mo_WebhookBindAddress_update ''manager.webhook-bind-address'')"

definition ex_args :: "string list" where
  "ex_args = [''--manager.webhook-bind-address=:7000'']"

lemma ex_bind_flag: "ex_bind \<in> set (Configuration_flags l)" "fl_Name ex_bind = ''manager.webhook-bind-address''"
  "fl_Kind ex_bind = KString"
  by (simp_all add: ex_bind_def Configuration_flags_def ManagerOptions_flags_def manager_part_def)

lemma ex_bind_lookup: "Lookup (precedence_flags l) ''manager.webhook-bind-address'' = Some (config_part ex_bind)"
proof -
  have "config_part ex_bind \<in> set (precedence_flags l)" by (simp add: precedence_flags_def ex_bind_flag)
  from precedence.Lookup_flag [OF this] show ?thesis by (simp add: ex_bind_flag)
qed

lemma ex_split: "split_eq ''manager.webhook-bind-address=:7000'' = (''manager.webhook-bind-address'', Some '':7000'')"
  by (simp add: split_eq_def)

lemma ex_parse:
  "parseArgs rt fn (precedence_flags l) [] ex_args st = (case fn (config_part ex_bind) '':7000'' st of (st, e) \<Rightarrow> (st, [], e))"
  by (simp add: ex_args_def is_flag_arg_def parse_one_def parseLongArg_def ex_split ex_bind_lookup long_value_def
      split: prod.splits)

lemma ex_given: "given rt (precedence_flags l) ex_args ''manager.webhook-bind-address'' = ['':7000'']"
  by (simp add: given_def command_line_def ex_parse collect_def ex_bind_flag)

lemma ex_precedence: "\<exists>c'. FlagPrecedence rt ex_args ex_config = Return (c', None)"
proof -
  have "FlagPrecedence rt ex_args ex_config = (case Parse rt (precedence_flags ex_log) ex_args (NewManagerFlags, ex_config) of
      (st, _, e) \<Rightarrow> Return (snd (st_config st), e))"
    by (rule FlagPrecedence_eq) (simp_all add: ex_config_def ex_log_def Options_SetDefaults_def)
  then show ?thesis by (simp add: Parse_def ex_parse flag_Set_def Value_Set_def ex_bind_flag)
qed

theorem flags_override_file_witness:
  "\<exists>c'. FlagPrecedence ex_runtime ex_args ex_config = Return (c', None) \<and> fl_get ex_bind c' = VString '':7000''"
proof -
  from ex_precedence obtain c' where c': "FlagPrecedence ex_runtime ex_args ex_config = Return (c', None)" by blast
  from flags_override_file [OF this] obtain l where "list_all (\<lambda>f. fl_get f c' = value_after ex_runtime (fl_Kind f)
      (given ex_runtime (precedence_flags l) ex_args (fl_Name f)) (fl_get f ex_config)) (Configuration_flags l)"
    by (elim exE conjE)
  then have "fl_get ex_bind c' = value_after ex_runtime (fl_Kind ex_bind)
      (given ex_runtime (precedence_flags l) ex_args (fl_Name ex_bind)) (fl_get ex_bind ex_config)"
    using ex_bind_flag(1) [of l] by (simp only: list_all_iff)
  then have "fl_get ex_bind c' = VString '':7000''"
    by (simp add: ex_bind_flag ex_given value_after_def Value_Set_def)
  with c' show ?thesis by blast
qed

section \<open>The flags of the command\<close>

definition default_config :: "'w host \<Rightarrow> Configuration" where
  "default_config h = \<lparr>cfg_Log = Some (Options_SetDefaults NewOptions),
     cfg_Manager = Some (ManagerOptions_SetDefaults (ho_TMPDIR h) zero_ManagerOptions)\<rparr>"

definition command_flags :: "Options \<Rightarrow> (bool \<times> ManagerFlags \<times> Configuration) flagset" where
  "command_flags l = help_flag # map rest_part (precedence_flags l)"

lemma no_help: "''help'' \<notin> set (map fl_Name (precedence_flags l))"
  using config_names_start [of l] by (auto simp: precedence_flags_names simp del: set_map)

lemma no_help_flag: "Lookup (precedence_flags l) ''help'' = None"
  using no_help [of l] unfolding Lookup_def find_None_iff by (metis image_eqI list.set_map)

lemma help_flag_simps [simp]:
  "fl_Name help_flag = ''help''" "fl_Shorthand help_flag = ''h''" "fl_Kind help_flag = KBool"
  "fl_get help_flag s = VBool (fst s)"
  "fl_put help_flag (VBool b) s = (b, snd s)"
  by (simp_all add: help_flag_def var_put split: prod.splits)

text \<open>Creating the command never panics.\<close>

lemma NewManagerCommand_Return:
  "NewManagerCommand h = Return (command_flags (Options_SetDefaults NewOptions), False,
     ManagerFlags_SetDefaults NewManagerFlags, default_config h)"
proof -
  let ?l = "Options_SetDefaults NewOptions"
  have defaults: "Configuration_SetDefaults (ho_TMPDIR h) NewConfiguration = Return (default_config h)"
    by (simp add: Configuration_SetDefaults_def deref_def NewConfiguration_def default_config_def)
  have flags: "Configuration_AddFlags (default_config h) = Return (Configuration_flags ?l)"
    by (simp add: Configuration_AddFlags_Return default_config_def) (simp add: Options_SetDefaults_def)
  have "add_all rt n (map rest_part (precedence_flags ?l)) [help_flag] = Return (command_flags ?l)" for rt n
  proof -
    have "list_all (\<lambda>f. fl_Shorthand f = []) (map rest_part (precedence_flags ?l))"
      using precedence_flags_shorthands [of ?l] by (simp add: list_all_iff rest_part_def)
    moreover have "distinct (map fl_Name ([help_flag] @ map rest_part (precedence_flags ?l)))"
      using precedence_flags_distinct [of ?l] no_help [of ?l] by (simp only: map_append command_part_names) simp
    ultimately show ?thesis using add_all_ok by (fastforce simp: command_flags_def)
  qed
  then show ?thesis
    by (simp add: NewManagerCommand_def defaults flags precedence_flags_def [symmetric] AddFlag_def Lookup_def ShorthandLookup_def)
qed

section \<open>Runs of the manager\<close>

text \<open>The server ran and ended without error; help or version was shown.\<close>

fun served :: "prog_event \<Rightarrow> bool" where
  "served (EvStart k None) = True"
| "served _ = False"

fun shown :: "prog_event \<Rightarrow> bool" where
  "shown EvHelp = True"
| "shown (EvVersion i) = True"
| "shown _ = False"

lemma setup_not_served:
  "behaves (NewManagerServer h cfg) (\<lambda>r es. \<not> list_ex served es \<and> \<not> list_ex shown es)"
proof (rule behaves_weaken [OF NewManagerServer_order])
  fix r es
  assume *: "case r of Panic p \<Rightarrow> cfg_Manager cfg = None \<and> es = []
   | Return x \<Rightarrow> in_order setup_order x es \<or> es = [] \<and> isl x"
  then have "es = [] \<or> map step_name es = take (length es) setup_order"
    by (auto simp: in_order_def split: outcome.splits)
  then have "set (map step_name es) \<subseteq> set setup_order" by (metis empty_subsetI list.simps(8) set_empty set_take_subset)
  moreover have "[] \<notin> set setup_order"
    by (simp add: setup_order_def IndexNameForOwnerRefUID_def IndexNameForFrpServerPhase_def)
  ultimately have names: "step_name e \<noteq> []" if "e \<in> set es" for e using that by auto
  have "step_name e = []" if "served e \<or> shown e" for e
    using that by (cases e rule: served.cases) (auto simp: step_name_def)
  with names show "\<not> list_ex served es \<and> \<not> list_ex shown es" by (auto simp: list_ex_iff)
qed

lemma start_manager_server_behaves:
  "behaves (start_manager_server h cfg) (\<lambda>r es. list_all (created_for cfg) es \<and> \<not> list_ex shown es
     \<and> (r = Return None \<longleftrightarrow> list_ex served es))"
  unfolding start_manager_server_def NewLogger_def ManagerServer_Start_def
  by (auto split: option.splits intro!: behaves_rules behaves_weaken [OF behaves_conj [OF NewManagerServer_options setup_not_served]]
      simp: created_for_def split: sum.splits outcome.splits)

lemma assign_all_keeps:
  assumes "assign_all (flag_Set rt) ops st = (st', None)" and "P (st_config st)"
    and "\<And>f v c. f \<in> fst ` set ops \<Longrightarrow> P c \<Longrightarrow> P (fl_put f v c)"
  shows "P (st_config st')"
  using assms
proof (induction ops arbitrary: st)
  case (Cons op ops)
  obtain f v where op: "op = (f, v)" by fastforce
  obtain st1 e1 where s: "flag_Set rt f v st = (st1, e1)" by fastforce
  with Cons.prems(1) op have "e1 = None" and rest: "assign_all (flag_Set rt) ops st1 = (st', None)"
    by (auto split: option.splits)
  from s Cons.prems(2) Cons.prems(3) [of f] op have "P (st_config st1)"
    by (auto simp: flag_Set_def Let_def split: prod.splits option.splits if_splits)
  with Cons.IH [OF rest] Cons.prems(3) show ?case by simp
qed auto

lemma FlagPrecedence_parts:
  assumes "FlagPrecedence rt args c = Return (c', None)"
  shows "cfg_Log c' \<noteq> None \<and> cfg_Manager c' \<noteq> None"
proof -
  from FlagPrecedence_Return [OF assms] obtain l m st rest where lm: "cfg_Log c = Some l" "cfg_Manager c = Some m"
    and p: "Parse rt (precedence_flags l) args (NewManagerFlags, c) = (st, rest, None)" and c': "c' = snd (st_config st)" .
  from Parse_assigns [OF p] obtain ops where ops: "fst ` set ops \<subseteq> set (precedence_flags l)"
    "assign_all (flag_Set rt) ops \<lparr>st_config = (NewManagerFlags, c), st_actual = []\<rparr> = (st, None)" .
  let ?P = "\<lambda>s :: ManagerFlags \<times> Configuration. cfg_Log (snd s) \<noteq> None \<and> cfg_Manager (snd s) \<noteq> None"
  have "?P (fl_put f v s)" if "f \<in> set (precedence_flags l)" "?P s" for f v s
    using that by (auto simp: precedence_flags_def Configuration_flags_def flags_part_def config_part_def
        log_part_def manager_part_def split: prod.splits)
  note keeps = this
  have "?P (st_config st)"
    by (rule assign_all_keeps [where P = ?P, OF ops(2)]) (use lm in simp, rule keeps, use ops(1) in auto)
  with c' show ?thesis by simp
qed

definition configured :: "'w host \<Rightarrow> string list \<Rightarrow> Configuration \<Rightarrow> prog_event \<Rightarrow> bool" where
  "configured h args cfg e = (case e of
     EvNewManager k os a \<Rightarrow> \<exists>c'. FlagPrecedence (ho_runtime h) args cfg = Return (c', None)
       \<and> Configuration_Validate (ho_yaml h) c' = Return None \<and> created_for c' e
   | _ \<Rightarrow> True)"

lemma run_configured_behaves:
  "behaves (run_configured h args cfg) (\<lambda>r es. list_all (configured h args cfg) es \<and> \<not> list_ex shown es
     \<and> (r = Return None \<longleftrightarrow> list_ex served es))"
proof -
  have *: "list_all (configured h args cfg) es" if "FlagPrecedence (ho_runtime h) args cfg = Return (c', None)"
    "Configuration_Validate (ho_yaml h) c' = Return None" "list_all (created_for c') es" for c' es
    using that by (auto simp: list_all_iff configured_def split: prog_event.splits)
  have "behaves (start_manager_server h c') (\<lambda>r es. list_all (configured h args cfg) es \<and> \<not> list_ex shown es
     \<and> (r = Return None \<longleftrightarrow> list_ex served es))" if "FlagPrecedence (ho_runtime h) args cfg = Return (c', None)"
    "Configuration_Validate (ho_yaml h) c' = Return None" for c'
    by (rule behaves_weaken [OF start_manager_server_behaves]) (use * [OF that] in blast)
  then show ?thesis
    unfolding run_configured_def by (auto split: outcome.splits option.splits intro!: behaves_ret)
qed

lemma manager_RunE_behaves:
  "behaves (manager_RunE h cmd args) (\<lambda>r es. (r = Return None \<longleftrightarrow> list_ex (\<lambda>e. served e \<or> shown e) es)
     \<and> list_all (\<lambda>e. case e of
         EvNewManager k os a \<Rightarrow> \<exists>st file data c. Parse (ho_runtime h) (fst cmd) args (snd cmd) = (st, [], None)
           \<and> EvStat file None \<in> set es \<and> EvReadFile file (Inr data) \<in> set es
           \<and> ho_load h data (snd (snd (st_config st))) = Inr c \<and> configured h args c e
       | _ \<Rightarrow> True) es)"
proof -
  have ex: "list_ex (\<lambda>e. served e \<or> shown e) es \<longleftrightarrow> list_ex served es \<or> list_ex shown es" for es
    by (auto simp: list_ex_iff)
  show ?thesis
    unfolding manager_RunE_def ManagerFlags_Validate_def LoadConfigFile_def ex
    by (auto split: option.splits prod.splits if_splits sum.splits simp: Let_def
        intro!: behaves_rules behaves_weaken [OF run_configured_behaves])
      (auto simp: list_all_iff configured_def split: prog_event.splits, (drule (1) bspec, simp, blast)+)
qed

definition nil_section :: "Configuration \<Rightarrow> bool" where
  "nil_section c \<longleftrightarrow> (case cfg_Log c of None \<Rightarrow> True | Some l \<Rightarrow> opt_Level l = None) \<or> cfg_Manager c = None"

lemma FlagPrecedence_panics_iff: "(\<exists>p. FlagPrecedence rt args c = Panic p) \<longleftrightarrow> nil_section c"
proof (cases "nil_section c")
  case True
  then have "\<exists>p. Configuration_AddFlags c = Panic p"
    by (auto simp: nil_section_def Configuration_AddFlags_def Options_AddFlags_def ManagerOptions_AddFlags_def
        split: option.splits outcome.splits)
  with True show ?thesis by (auto simp: FlagPrecedence_def)
next
  case False
  then obtain l m where "cfg_Log c = Some l" "opt_Level l \<noteq> None" "cfg_Manager c = Some m"
    by (auto simp: nil_section_def split: option.splits)
  from FlagPrecedence_eq [OF this] False show ?thesis by (auto split: prod.splits)
qed

lemma start_manager_server_returns:
  assumes "cfg_Log cfg \<noteq> None" and "cfg_Manager cfg \<noteq> None"
  shows "behaves (start_manager_server h cfg) (\<lambda>r es. \<nexists>p. r = Panic p)"
  using assms unfolding start_manager_server_def NewLogger_def ManagerServer_Start_def
  by (auto split: option.splits sum.splits outcome.splits intro!: behaves_rules behaves_weaken [OF NewManagerServer_order])

lemma run_configured_panics:
  "behaves (run_configured h args cfg) (\<lambda>r es. (\<exists>p. r = Panic p) \<longleftrightarrow> nil_section cfg)"
proof (cases "FlagPrecedence (ho_runtime h) args cfg")
  case (Panic p)
  with FlagPrecedence_panics_iff [of "ho_runtime h" args cfg] show ?thesis
    by (simp add: run_configured_def behaves_ret)
next
  case (Return x)
  then have ok: "\<not> nil_section cfg" using FlagPrecedence_panics_iff [of "ho_runtime h" args cfg] by simp
  obtain c' e where x: "x = (c', e)" by fastforce
  show ?thesis
  proof (cases e)
    case None
    from FlagPrecedence_parts [OF Return [unfolded x None]] obtain l m where
      lm: "cfg_Log c' = Some l" "cfg_Manager c' = Some m" by auto
    with start_manager_server_returns [of c' h] Return x None ok show ?thesis
      by (auto simp: run_configured_def Configuration_Validate_def deref_def behaves_ret split: option.splits)
  qed (use Return x ok in \<open>simp add: run_configured_def behaves_ret\<close>)
qed

section \<open>Properties of runs\<close>

text \<open>
  (C11) The manager is only created with a configuration that was checked: the arguments were parsed and left
  nothing over, the configuration file exists and was loaded on top of the defaults, the arguments were
  parsed again on top of it and the result passed the validation, and its options are the ones
  the manager gets.
\<close>

theorem manager_runs_configured:
  "behaves (manager_RunE h cmd args) (\<lambda>r es. list_all (\<lambda>e. case e of
       EvNewManager k os a \<Rightarrow> \<exists>st file data c. Parse (ho_runtime h) (fst cmd) args (snd cmd) = (st, [], None)
         \<and> EvStat file None \<in> set es \<and> EvReadFile file (Inr data) \<in> set es
         \<and> ho_load h data (snd (snd (st_config st))) = Inr c \<and> configured h args c e
     | _ \<Rightarrow> True) es)"
  by (rule behaves_weaken [OF manager_RunE_behaves]) simp

text \<open>
  The command reports success exactly when it has shown help or version, or the server has run and ended
  without error.  Whatever else happens is reported as an error, or panics.
\<close>

lemma manager_succeeds_iff:
  "behaves (manager_RunE h cmd args) (\<lambda>r es. r = Return None \<longleftrightarrow> list_ex (\<lambda>e. served e \<or> shown e) es)"
  by (rule behaves_weaken [OF manager_RunE_behaves]) simp

text \<open>
  (C33) A configuration file can crash the program.  On a loaded configuration it panics exactly when a section
  is nil, as after \<^verbatim>\<open>log: null\<close> or \<^verbatim>\<open>manager: null\<close>, or the log level is.
\<close>

theorem nil_section_panics:
  "behaves (run_configured h args cfg) (\<lambda>r es. (\<exists>p. r = Panic p) \<longleftrightarrow> nil_section cfg)"
  by (rule run_configured_panics)

end
