(* ===== verification/Program_Main.thy ===== *)
theory Program_Main
  imports Commands "HOL-Library.Sublist"
begin

text \<open>
  The two programs as a whole: \<^verbatim>\<open>cmd/manager/main.go\<close>, \<^verbatim>\<open>cmd/agent/main.go\<close> and what cobra does between \<^verbatim>\<open>main\<close> and \<^verbatim>\<open>RunE\<close>, as
  vendored, for a command without subcommands that parses its flags itself.  The only other command there
  is the hidden one that shells ask for completions; which completions it prints is not modelled.
  The result of \<^verbatim>\<open>main\<close> is the exit status of the process.
\<close>

section \<open>Finding the command\<close>

text \<open>The flags that cobra knows of: those of package \<^verbatim>\<open>flag\<close>, where controller-runtime has registered \<^verbatim>\<open>--kubeconfig\<close>, and those of
  the command's own flag set.\<close>

definition KubeconfigFlagName :: string where "KubeconfigFlagName = ''kubeconfig''"

definition goFlagSet :: "'c flagset" where
  "goFlagSet = [StringVar (\<lambda>_. []) (\<lambda>_ c. c) KubeconfigFlagName]"

definition AddFlagSet :: "'c flagset \<Rightarrow> 'c flagset \<Rightarrow> 'c flagset" where
  "AddFlagSet fs newSet = fs @ filter (\<lambda>f. Lookup fs (fl_Name f) = None) newSet"

definition cmd_Flags :: "'c flagset \<Rightarrow> 'c flagset" where
  "cmd_Flags cleanFlagSet = AddFlagSet goFlagSet cleanFlagSet"

definition hasNoOptDefVal :: "string \<Rightarrow> 'c flagset \<Rightarrow> bool" where
  "hasNoOptDefVal name fs = (case Lookup fs name of None \<Rightarrow> False | Some f \<Rightarrow> NoOptDefVal f \<noteq> [])"

definition shortHasNoOptDefVal :: "string \<Rightarrow> 'c flagset \<Rightarrow> bool" where
  "shortHasNoOptDefVal name fs = (case name of
     [] \<Rightarrow> False
   | c # _ \<Rightarrow> (case ShorthandLookup fs c of None \<Rightarrow> False | Some f \<Rightarrow> NoOptDefVal f \<noteq> []))"

text \<open>The next argument is the value of this one.\<close>

definition takes_value :: "'c flagset \<Rightarrow> string \<Rightarrow> bool" where
  "takes_value flags s \<longleftrightarrow>
     prefix ''--'' s \<and> CHR ''='' \<notin> set s \<and> \<not> hasNoOptDefVal (drop 2 s) flags
     \<or> prefix ''-'' s \<and> CHR ''='' \<notin> set s \<and> length s = 2 \<and> \<not> shortHasNoOptDefVal (drop 1 s) flags"

fun stripFlags :: "'c flagset \<Rightarrow> string list \<Rightarrow> string list" where
  "stripFlags flags [] = []"
| "stripFlags flags (s # args) =
     (if s = ''--'' then []
      else if takes_value flags s then (if length args \<le> 1 then [] else stripFlags flags (tl args))
      else if s \<noteq> [] \<and> \<not> prefix ''-'' s then s # stripFlags flags args
      else stripFlags flags args)"

fun argsMinusFirstX :: "'c flagset \<Rightarrow> string list \<Rightarrow> string \<Rightarrow> string list" where
  "argsMinusFirstX flags [] x = []"
| "argsMinusFirstX flags (s # args) x =
     (if s = ''--'' then s # args
      else if takes_value flags s then (case args of [] \<Rightarrow> [s] | v # rest \<Rightarrow> s # v # argsMinusFirstX flags rest x)
      else if \<not> prefix ''-'' s \<and> s = x then args
      else s # argsMinusFirstX flags args x)"

definition ShellCompRequestCmd :: string where "ShellCompRequestCmd = ''__complete''"
definition ShellCompNoDescRequestCmd :: string where "ShellCompNoDescRequestCmd = ''__completeNoDesc''"

text \<open>The command found and its arguments; the completion command is removed again unless it is asked for, and
  without it every argument belongs to the root.\<close>

datatype target = RootCommand "string list" | CompleteCommand "string list"

definition Find :: "'c flagset \<Rightarrow> string list \<Rightarrow> target" where
  "Find flags args = (case stripFlags flags args of
     [] \<Rightarrow> RootCommand args
   | nextSubCmd # _ \<Rightarrow>
       (if nextSubCmd = ShellCompRequestCmd \<or> nextSubCmd = ShellCompNoDescRequestCmd
        then CompleteCommand (argsMinusFirstX flags args nextSubCmd)
        else RootCommand args))"

section \<open>Executing it\<close>

definition MinimumNArgs :: "nat \<Rightarrow> string list \<Rightarrow> go_error option" where
  "MinimumNArgs n args = (if length args < n then Some (ErrorString (''requires at least '' @ itoa (int n)
     @ '' arg(s), only received '' @ itoa (int (length args)))) else None)"

definition Command_execute ::
    "'w host \<Rightarrow> (string list \<Rightarrow> ('w, go_error option outcome) prog) \<Rightarrow> target \<Rightarrow> ('w, go_error option outcome) prog" where
  "Command_execute h runE cmd = (case cmd of
     RootCommand a \<Rightarrow> runE a
   | CompleteCommand a \<Rightarrow> (case MinimumNArgs 1 a of
       Some err \<Rightarrow> ret (Return (Some err))
     | None \<Rightarrow> do { _ \<leftarrow> Output h (EvCompletions a); ret (Return None) }))"

definition ExecuteC ::
    "'w host \<Rightarrow> 'c flagset \<Rightarrow> (string list \<Rightarrow> ('w, go_error option outcome) prog) \<Rightarrow> string list
     \<Rightarrow> ('w, go_error option outcome) prog" where
  "ExecuteC h flags runE args = do {
     r \<leftarrow> Command_execute h runE (Find flags args);
     case r of
       Panic p \<Rightarrow> ret (Panic p)
     | Return None \<Rightarrow> ret (Return None)
     | Return (Some err) \<Rightarrow>
         (if errors_Is err ErrHelp then do { _ \<leftarrow> Output h EvHelp; ret (Return None) }
          else do {
            _ \<leftarrow> Output h (EvError err);
            _ \<leftarrow> Output h EvUsage;
            ret (Return (Some err)) }) }"

section \<open>The main functions\<close>

text \<open>A fatal log entry is written by the logger, if it is not the one that drops everything, and ends the process.\<close>

definition logger_Fatal :: "'w host \<Rightarrow> nat option \<Rightarrow> string \<Rightarrow> ('w, nat) prog" where
  "logger_Fatal h l msg = (case l of
     None \<Rightarrow> ret 1
   | Some k \<Rightarrow> do { _ \<leftarrow> Output h (EvLog k msg); ret 1 })"

text \<open>The logger is the global one of the time before the command has set it, which drops everything; a panic ends the
  process with status 2.\<close>

definition main_with ::
    "'w host \<Rightarrow> 'c flagset \<Rightarrow> (string list \<Rightarrow> ('w, go_error option outcome) prog) \<Rightarrow> string list \<Rightarrow> ('w, nat) prog" where
  "main_with h flags runE args = do {
     let l = WithoutContext None;
     r \<leftarrow> ExecuteC h flags runE args;
     case r of
       Panic p \<Rightarrow> ret 2
     | Return None \<Rightarrow> ret 0
     | Return (Some err) \<Rightarrow> logger_Fatal h l (Error err) }"

definition manager_main :: "'w host \<Rightarrow> string list \<Rightarrow> ('w, nat) prog" where
  "manager_main h args = (case NewManagerCommand h of
     Panic p \<Rightarrow> ret 2
   | Return cmd \<Rightarrow> main_with h (cmd_Flags (fst cmd)) (manager_RunE h cmd) args)"

definition agent_main :: "'w host \<Rightarrow> string list \<Rightarrow> ('w, nat) prog" where
  "agent_main h args = (case NewAgentCommand h of
     Panic p \<Rightarrow> ret 2
   | Return cmd \<Rightarrow> main_with h (cmd_Flags (fst cmd)) (agent_RunE h cmd) args)"

section \<open>What a command has to do with it\<close>

text \<open>An error that the user is told about.\<close>

fun reported :: "prog_event \<Rightarrow> bool" where
  "reported (EvError err) = True"
| "reported _ = False"

fun completed :: "prog_event \<Rightarrow> bool" where
  "completed (EvCompletions a) = True"
| "completed _ = False"

text \<open>A command leaves it to cobra to report its error, and completions as well.\<close>

locale silent_command =
  fixes runE :: "string list \<Rightarrow> ('w, go_error option outcome) prog"
  assumes silent: "behaves (runE args) (\<lambda>r es. \<not> list_ex reported es \<and> \<not> list_ex completed es)"
begin

lemma execute_silent: "behaves (Command_execute h runE cmd) (\<lambda>r es. \<not> list_ex reported es)"
proof (cases cmd)
  case (RootCommand a)
  then show ?thesis using behaves_weaken [OF silent [of a]] by (simp add: Command_execute_def)
next
  case (CompleteCommand a)
  then show ?thesis unfolding Command_execute_def by simp (intro behaves_rules, simp_all)
qed

lemma ExecuteC_reports:
  "behaves (ExecuteC h flags runE args) (\<lambda>r es. list_ex reported es \<longleftrightarrow> (\<exists>err. r = Return (Some err)))"
  unfolding ExecuteC_def
  by (rule behaves_bind_use [OF execute_silent], intro behaves_rules) simp_all

lemma main_reports:
  "behaves (main_with h flags runE args) (\<lambda>status es. status \<le> 2 \<and> (status = 1 \<longleftrightarrow> list_ex reported es))"
  unfolding main_with_def logger_Fatal_def WithoutContext_def FromContext_def Let_def
  by (rule behaves_bind_use [OF ExecuteC_reports]) (auto intro!: behaves_ret split: outcome.splits option.splits)

end

lemma setup_silent: "behaves (NewManagerServer h cfg) (\<lambda>r es. \<not> list_ex reported es \<and> \<not> list_ex completed es)"
  unfolding NewManagerServer_def start_manager_def setup_manager_def step_or_def RegisterFieldIndexes_def
    ServiceReconciler_SetupWithManager_def FrpServerReconciler_SetupWithManager_def SetupWebhookWithManager_def
  by (intro behaves_rules) simp_all

lemma manager_RunE_silent: "behaves (manager_RunE h cmd args) (\<lambda>r es. \<not> list_ex reported es \<and> \<not> list_ex completed es)"
  unfolding manager_RunE_def ManagerFlags_Validate_def LoadConfigFile_def run_configured_def start_manager_server_def
    NewLogger_def ManagerServer_Start_def
  by (intro behaves_rules behaves_weaken [OF setup_silent]) simp_all

lemma agent_RunE_silent: "behaves (agent_RunE h cmd args) (\<lambda>r es. \<not> list_ex reported es \<and> \<not> list_ex completed es)"
  unfolding agent_RunE_def AgentFlags_Validate_def agent_LoadConfigFile_def run_configured_agent_def start_agent_server_def
    NewLogger_def NewAgentServer_def AgentServer_Start_def
  by (intro behaves_rules) simp_all

interpretation manager_command: silent_command "manager_RunE h cmd" for h cmd
  by unfold_locales (rule manager_RunE_silent)

interpretation agent_command: silent_command "agent_RunE h cmd" for h cmd
  by unfold_locales (rule agent_RunE_silent)

section \<open>The exit status of the manager\<close>

text \<open>Something the user asked for has been done.\<close>

definition achieved :: "prog_event \<Rightarrow> bool" where
  "achieved e \<longleftrightarrow> served e \<or> shown e \<or> completed e"

lemma achieved_simps [simp]:
  "achieved EvHelp" "achieved (EvCompletions a)" "\<not> achieved (EvError err)" "\<not> achieved EvUsage"
  by (simp_all add: achieved_def)

text \<open>A section of the loaded configuration is nil.\<close>

definition nil_loaded :: "'w host \<Rightarrow> prog_event list \<Rightarrow> bool" where
  "nil_loaded h es \<longleftrightarrow> (\<exists>file data c0 c. EvReadFile file (Inr data) \<in> set es \<and> ho_load h data c0 = Inr c \<and> nil_section c)"

lemma manager_RunE_panics:
  "behaves (manager_RunE h cmd args) (\<lambda>r es. (\<exists>p. r = Panic p) \<longrightarrow> nil_loaded h es)"
  unfolding manager_RunE_def ManagerFlags_Validate_def LoadConfigFile_def
  by (intro behaves_rules behaves_weaken [OF run_configured_panics]) (auto simp: nil_loaded_def)

lemma manager_execute:
  "behaves (Command_execute h (manager_RunE h c) cmd) (\<lambda>r es. (r = Return None \<longleftrightarrow> list_ex achieved es)
     \<and> ((\<exists>p. r = Panic p) \<longrightarrow> nil_loaded h es))"
proof (cases cmd)
  case (RootCommand a)
  have "behaves (manager_RunE h c a) (\<lambda>r es. (r = Return None \<longleftrightarrow> list_ex achieved es) \<and> ((\<exists>p. r = Panic p) \<longrightarrow> nil_loaded h es))"
    by (rule behaves_weaken [OF behaves_conj [OF manager_RunE_behaves behaves_conj [OF manager_RunE_silent manager_RunE_panics]]])
      (auto simp: achieved_def list_ex_iff)
  with RootCommand show ?thesis by (simp add: Command_execute_def)
next
  case (CompleteCommand a)
  then show ?thesis unfolding Command_execute_def by simp (intro behaves_rules, simp_all)
qed

lemma nil_loaded_append: "nil_loaded h es \<Longrightarrow> nil_loaded h (es @ fs)"
  by (auto simp: nil_loaded_def)

lemma manager_ExecuteC:
  "behaves (ExecuteC h flags (manager_RunE h c) args) (\<lambda>r es. (r = Return None \<longleftrightarrow> list_ex achieved es)
     \<and> ((\<exists>p. r = Panic p) \<longrightarrow> nil_loaded h es))"
  unfolding ExecuteC_def
  by (rule behaves_bind_use [OF manager_execute], intro behaves_rules) (simp_all add: nil_loaded_append)

lemma manager_main_with:
  "behaves (main_with h flags (manager_RunE h c) args) (\<lambda>status es. (status = 0 \<longleftrightarrow> list_ex achieved es)
     \<and> (status = 2 \<longrightarrow> nil_loaded h es))"
  unfolding main_with_def logger_Fatal_def WithoutContext_def FromContext_def Let_def
  by (rule behaves_bind_use [OF manager_ExecuteC]) (auto intro!: behaves_ret split: outcome.splits option.splits)

section \<open>Properties of the programs\<close>

text \<open>
  (C12) The exit status tells what happened.  The manager exits with 0 exactly when its server has run and ended without error, or help, the
  version or completions were shown; it exits with 1 exactly when an error was reported, and there is no other status
  than these and 2, of a crash, which needs a configuration file with a nil section.  The
  agent, too, exits with 1 exactly when an error was reported.
\<close>

theorem exit_status:
  "behaves (manager_main h args) (\<lambda>status es. (status = 0 \<longleftrightarrow> list_ex (\<lambda>e. served e \<or> shown e \<or> completed e) es)
     \<and> (status = 1 \<longleftrightarrow> list_ex reported es) \<and> status \<le> 2
     \<and> (status = 0 \<or> status = 1 \<or> (\<exists>file data c0 c. EvReadFile file (Inr data) \<in> set es \<and> ho_load h data c0 = Inr c \<and> nil_section c)))
   \<and> behaves (agent_main h args) (\<lambda>status es. status = 1 \<longleftrightarrow> list_ex reported es)"
proof
  show "behaves (manager_main h args) (\<lambda>status es. (status = 0 \<longleftrightarrow> list_ex (\<lambda>e. served e \<or> shown e \<or> completed e) es)
     \<and> (status = 1 \<longleftrightarrow> list_ex reported es) \<and> status \<le> 2
     \<and> (status = 0 \<or> status = 1 \<or> (\<exists>file data c0 c. EvReadFile file (Inr data) \<in> set es \<and> ho_load h data c0 = Inr c \<and> nil_section c)))"
    unfolding manager_main_def NewManagerCommand_Return outcome.case
    by (rule behaves_weaken [OF behaves_conj [OF manager_main_with manager_command.main_reports]])
      (auto simp: achieved_def [abs_def] nil_loaded_def le_Suc_eq numeral_2_eq_2)
  have "behaves (main_with h fs (agent_RunE h cmd) args) (\<lambda>status es. status = 1 \<longleftrightarrow> list_ex reported es)" for fs cmd
    by (rule behaves_weaken [OF agent_command.main_reports]) simp
  then show "behaves (agent_main h args) (\<lambda>status es. status = 1 \<longleftrightarrow> list_ex reported es)"
    unfolding agent_main_def by (auto split: outcome.split intro!: behaves_ret)
qed

text \<open>
  (C34) The help lists a flag that the program refuses: \<^verbatim>\<open>--kubeconfig\<close>, which controller-runtime registers with package \<^verbatim>\<open>flag\<close>, is added to the
  flags of the command, but the arguments are parsed with a flag set that does not have it.  The program ends with status 1.
\<close>

theorem kubeconfig_refused:
  "\<exists>cmd. NewManagerCommand h = Return cmd \<and> list_ex (\<lambda>f. fl_Name f = ''kubeconfig'') (cmd_Flags (fst cmd))
     \<and> behaves (manager_main h [''--kubeconfig'', file]) (\<lambda>status es. status = 1
         \<and> es = [EvError (ErrorString ''unknown flag: --kubeconfig''), EvUsage])"
proof -
  let ?l = "Options_SetDefaults NewOptions"
  let ?cmd = "(command_flags ?l, False, ManagerFlags_SetDefaults NewManagerFlags, default_config h)"
  have "map fl_Name (command_flags ?l) = [''help'', ''version'', ''config''] @ map fl_Name (Configuration_flags ?l)"
    unfolding command_flags_def list.map command_part_names precedence_flags_names by simp
  then have "''kubeconfig'' \<notin> set (map fl_Name (command_flags ?l))"
    using config_names_start [of ?l] by (auto simp del: set_map)
  then have none: "Lookup (command_flags ?l) ''kubeconfig'' = None"
    unfolding Lookup_def find_None_iff by (metis image_eqI list.set_map)
  have sp: "split_eq ''kubeconfig'' = (''kubeconfig'', None)" by (simp add: split_eq_def)
  have parse: "\<exists>st. Parse rt (command_flags ?l) [''--kubeconfig'', file] v = (st, [], Some (ErrorString ''unknown flag: --kubeconfig''))" for rt v
    by (simp add: Parse_def is_flag_arg_def parse_one_def parseLongArg_def sp none)
  have root: "Find (cmd_Flags (command_flags ?l)) [''--kubeconfig'', file] = RootCommand [''--kubeconfig'', file]"
    by (simp add: Find_def takes_value_def hasNoOptDefVal_def cmd_Flags_def AddFlagSet_def goFlagSet_def Lookup_def var_defs NoOptDefVal_def
        KubeconfigFlagName_def)
  have "behaves (manager_main h [''--kubeconfig'', file]) (\<lambda>status es. status = 1
         \<and> es = [EvError (ErrorString ''unknown flag: --kubeconfig''), EvUsage])"
  proof -
    have "manager_RunE h ?cmd [''--kubeconfig'', file] = ret (Return (Some (ErrorString ''unknown flag: --kubeconfig'')))"
      using parse [of "ho_runtime h" "snd ?cmd"] by (auto simp: manager_RunE_def)
    then have "ExecuteC h (cmd_Flags (command_flags ?l)) (manager_RunE h ?cmd) [''--kubeconfig'', file] = do {
        _ \<leftarrow> Output h (EvError (ErrorString ''unknown flag: --kubeconfig''));
        _ \<leftarrow> Output h EvUsage;
        ret (Return (Some (ErrorString ''unknown flag: --kubeconfig''))) }"
      by (simp add: ExecuteC_def Command_execute_def root ErrHelp_def)
    then show ?thesis
      unfolding manager_main_def NewManagerCommand_Return outcome.case fst_conv main_with_def Let_def
      by (simp add: logger_Fatal_def WithoutContext_def FromContext_def) (intro behaves_rules, simp_all)
  qed
  moreover have "list_ex (\<lambda>f. fl_Name f = ''kubeconfig'') (cmd_Flags (command_flags ?l))"
    by (simp add: cmd_Flags_def AddFlagSet_def goFlagSet_def KubeconfigFlagName_def var_defs)
  ultimately show ?thesis using NewManagerCommand_Return [of h] by auto
qed

lemma split_help: "split_eq ''help=false'' = (''help'', Some ''false'')"
  by (simp add: split_eq_def)

lemma negated_help_parsed:
  "Parse rt (command_flags l) [''--help=false''] (False, f, c) = (\<lparr>st_config = (False, f, c), st_actual = [''help'']\<rparr>, [], None)"
  by (simp add: Parse_def is_flag_arg_def parse_one_def parseLongArg_def split_help long_value_def command_flags_def Lookup_def
      flag_Set_def Value_Set_def ParseBool_def)

lemma negated_help_configured:
  "run_configured h [''--help=false''] c = ret (Return (Some ErrHelp)) \<or> (\<exists>p. run_configured h [''--help=false''] c = ret (Panic p))"
proof (cases "nil_section c")
  case True
  then obtain p where "FlagPrecedence (ho_runtime h) [''--help=false''] c = Panic p"
    using FlagPrecedence_panics_iff by blast
  then show ?thesis by (auto simp: run_configured_def)
next
  case False
  then obtain l m where c: "cfg_Log c = Some l" "opt_Level l \<noteq> None" "cfg_Manager c = Some m"
    by (auto simp: nil_section_def split: option.splits)
  have "\<exists>c'. FlagPrecedence (ho_runtime h) [''--help=false''] c = Return (c', Some ErrHelp)"
    unfolding FlagPrecedence_eq [OF c]
    by (simp add: Parse_def is_flag_arg_def parse_one_def parseLongArg_def split_help no_help_flag)
  then show ?thesis by (auto simp: run_configured_def)
qed

text \<open>The calls up to the end of such a run.\<close>

fun no_start :: "prog_event \<Rightarrow> bool" where
  "no_start (EvStat f r) = True"
| "no_start (EvReadFile f r) = True"
| "no_start (EvError err) = True"
| "no_start EvUsage = True"
| "no_start EvHelp = True"
| "no_start _ = False"

lemma negated_help_runs:
  "behaves (manager_RunE h (command_flags l, False, ManagerFlags_SetDefaults NewManagerFlags, c) [''--help=false''])
     (\<lambda>r es. list_all no_start es)"
proof -
  have end_run: "behaves (run_configured h [''--help=false''] c') (\<lambda>r es. es = [])" for c'
    using negated_help_configured [of h c'] by (auto intro!: behaves_ret)
  show ?thesis
    unfolding manager_RunE_def fst_conv snd_conv negated_help_parsed ManagerFlags_Validate_def LoadConfigFile_def
    by (simp add: ManagerFlags_SetDefaults_def NewManagerFlags_def manager_defaultConfigFile_def)
      (intro behaves_rules behaves_weaken [OF end_run]; simp)
qed

text \<open>
  \<^verbatim>\<open>--help=false\<close> keeps the manager from running.  The flag set of the command accepts it and shows no help, but the
  flag set used on top of the file does not know the flag and takes its name for a request for help.  The
  manager is not created; when the file can be loaded, help is shown after all and the exit status is 0.
\<close>

lemma negated_help_shows_help:
  "behaves (manager_main h [''--help=false'']) (\<lambda>status es. (status = 0 \<longleftrightarrow> EvHelp \<in> set es)
     \<and> list_all (\<lambda>e. case e of EvNewManager k os a \<Rightarrow> False | EvStart k a \<Rightarrow> False | _ \<Rightarrow> True) es)"
proof -
  let ?l = "Options_SetDefaults NewOptions"
  let ?cmd = "(command_flags ?l, False, ManagerFlags_SetDefaults NewManagerFlags, default_config h)"
  have root: "Find (cmd_Flags (command_flags ?l)) [''--help=false''] = RootCommand [''--help=false'']"
    by (simp add: Find_def takes_value_def)
  have "behaves (ExecuteC h (cmd_Flags (command_flags ?l)) (manager_RunE h ?cmd) [''--help=false'']) (\<lambda>r es. list_all no_start es)"
    unfolding ExecuteC_def Command_execute_def root target.case
    by (rule behaves_bind_use [OF negated_help_runs], intro behaves_rules) simp_all
  then have "behaves (manager_main h [''--help=false'']) (\<lambda>status es. list_all no_start es)"
    unfolding manager_main_def NewManagerCommand_Return outcome.case fst_conv main_with_def Let_def logger_Fatal_def WithoutContext_def FromContext_def
    by (rule behaves_bind_use) (auto intro!: behaves_ret split: outcome.splits option.splits)
  moreover have "behaves (manager_main h [''--help=false'']) (\<lambda>status es. status = 0 \<longleftrightarrow> list_ex achieved es)"
    unfolding manager_main_def NewManagerCommand_Return outcome.case by (rule behaves_weaken [OF manager_main_with]) simp
  ultimately have "behaves (manager_main h [''--help=false'']) (\<lambda>status es. list_all no_start es \<and> (status = 0 \<longleftrightarrow> list_ex achieved es))"
    by (rule behaves_conj)
  then show ?thesis
  proof (rule behaves_weaken, elim conjE)
    fix status :: nat and es
    assume es: "list_all no_start es" and st: "status = 0 \<longleftrightarrow> list_ex achieved es"
    have "achieved e \<longleftrightarrow> e = EvHelp" if "no_start e" for e
      using that by (cases e rule: no_start.cases) (simp_all add: achieved_def)
    with es have "list_ex achieved es \<longleftrightarrow> EvHelp \<in> set es" by (auto simp: list_all_iff list_ex_iff)
    moreover have "case e of EvNewManager k os a \<Rightarrow> False | EvStart k a \<Rightarrow> False | _ \<Rightarrow> True" if "no_start e" for e
      using that by (cases e rule: no_start.cases) simp_all
    with es have "list_all (\<lambda>e. case e of EvNewManager k os a \<Rightarrow> False | EvStart k a \<Rightarrow> False | _ \<Rightarrow> True) es"
      by (auto simp: list_all_iff)
    ultimately show "(status = 0 \<longleftrightarrow> EvHelp \<in> set es)
      \<and> list_all (\<lambda>e. case e of EvNewManager k os a \<Rightarrow> False | EvStart k a \<Rightarrow> False | _ \<Rightarrow> True) es"
      using st by blast
  qed
qed

end
