(* ===== verification/Version_Text.thy ===== *)
theory Version_Text
  imports Commands
begin

text \<open>
  The text of the version information: \<^verbatim>\<open>Info.String\<close> of \<^verbatim>\<open>pkg/version/version.go\<close>, which is the JSON of the structure, with what it
  uses of \<^verbatim>\<open>encoding/json\<close> for a structure of strings.
\<close>

section \<open>Writing\<close>

text \<open>The bytes that stand for themselves in a JSON string that may end up in HTML.\<close>

definition htmlSafe :: "char \<Rightarrow> bool" where
  "htmlSafe c \<longleftrightarrow> 32 \<le> (of_char c :: nat) \<and> c \<notin> set [CHR 0x22, backslash, CHR ''&'', CHR ''<'', CHR ''>'']"

definition json_byte :: "char \<Rightarrow> string" where
  "json_byte c =
     (if htmlSafe c then [c]
      else if c = backslash \<or> c = CHR 0x22 then [backslash, c]
      else if c = CHR 0x0A then backslash # ''n''
      else if c = CHR 0x0D then backslash # ''r''
      else if c = CHR 0x09 then backslash # ''t''
      else backslash # ''u00'' @ hex_digits 2 (of_char c))"

definition json_rune :: "nat \<Rightarrow> string \<Rightarrow> string" where
  "json_rune r bytes = (if r = 0x2028 \<or> r = 0x2029 then backslash # ''u202'' @ [hex_digit (r mod 16)] else bytes)"

function json_body :: "string \<Rightarrow> string" where
  "json_body [] = []"
| "json_body (c # s) =
     (if of_char c < (128 :: nat) then json_byte c @ json_body s
      else case utf8_len (c # s) of
        None \<Rightarrow> backslash # ''ufffd'' @ json_body s
      | Some n \<Rightarrow> json_rune (rune_of (take n (c # s))) (take n (c # s)) @ json_body (drop n (c # s)))"
  by pat_completeness auto
termination
  by (relation "measure length") (auto dest: utf8_len_bounds)

definition json_string :: "string \<Rightarrow> string" where
  "json_string s = [CHR 0x22] @ json_body s @ [CHR 0x22]"

fun json_fields :: "char \<Rightarrow> (string \<times> string) list \<Rightarrow> string" where
  "json_fields sep [] = ''}''"
| "json_fields sep ((k, v) # fs) = [sep] @ json_string k @ '':'' @ json_string v @ json_fields (CHR '','') fs"

definition json_object :: "(string \<times> string) list \<Rightarrow> string" where
  "json_object fs = (if fs = [] then ''{'' else []) @ json_fields (CHR ''{'') fs"

definition Info_fields :: "Info \<Rightarrow> (string \<times> string) list" where
  "Info_fields info = [(''gitVersion'', vi_GitVersion info), (''gitCommit'', vi_GitCommit info), (''buildDate'', vi_BuildDate info),
     (''goVersion'', vi_GoVersion info), (''compiler'', vi_Compiler info), (''platform'', vi_Platform info),
     (''frpVersion'', vi_FrpVersion info)]"

definition Info_String :: "Info \<Rightarrow> string" where
  "Info_String info = json_object (Info_fields info)"

section \<open>Reading\<close>

text \<open>A reader of such texts: the rest of a string after its opening quote, and a number of fields.\<close>

definition hex_value :: "char \<Rightarrow> nat" where
  "hex_value c = (let n = of_char c in if n < 58 then n - 48 else n - 87)"

definition unescape :: "char \<Rightarrow> char" where
  "unescape c = (if c = CHR ''n'' then CHR 0x0A else if c = CHR ''r'' then CHR 0x0D else if c = CHR ''t'' then CHR 0x09 else c)"

fun read_string :: "string \<Rightarrow> (string \<times> string) option" where
  "read_string [] = None"
| "read_string (c # s) =
     (if c = CHR 0x22 then Some ([], s)
      else if c \<noteq> backslash then map_option (apfst ((#) c)) (read_string s)
      else case s of
          (e # a # b # x # y # s') \<Rightarrow>
            (if e = CHR ''u'' then map_option (apfst ((#) (char_of (16 * hex_value x + hex_value y)))) (read_string s')
             else map_option (apfst ((#) (unescape e))) (read_string (a # b # x # y # s')))
        | (e # s') \<Rightarrow> map_option (apfst ((#) (unescape e))) (read_string s')
        | [] \<Rightarrow> None)"

definition read_quoted :: "string \<Rightarrow> (string \<times> string) option" where
  "read_quoted s = (case s of q # s \<Rightarrow> if q = CHR 0x22 then read_string s else None | [] \<Rightarrow> None)"

definition read_char :: "char \<Rightarrow> string \<Rightarrow> string option" where
  "read_char c s = (case s of d # s \<Rightarrow> if d = c then Some s else None | [] \<Rightarrow> None)"

definition read_field :: "char \<Rightarrow> string \<Rightarrow> ((string \<times> string) \<times> string) option" where
  "read_field sep s = do {
     s \<leftarrow> read_char sep s;
     (k, s) \<leftarrow> read_quoted s;
     s \<leftarrow> read_char (CHR '':'') s;
     (v, s) \<leftarrow> read_quoted s;
     Some ((k, v), s)
   }"

text \<open>The fields after the first are separated by commas; a brace and nothing else follows the last.\<close>

fun read_fields :: "char \<Rightarrow> nat \<Rightarrow> string \<Rightarrow> (string \<times> string) list option" where
  "read_fields sep 0 s = (if s = ''}'' then Some [] else None)"
| "read_fields sep (Suc n) s = do {
     (kv, s) \<leftarrow> read_field sep s;
     kvs \<leftarrow> read_fields (CHR '','') n s;
     Some (kv # kvs)
   }"

definition read_object :: "nat \<Rightarrow> string \<Rightarrow> (string \<times> string) list option" where
  "read_object n s = read_fields (CHR ''{'') n s"

section \<open>What is written can be read\<close>

definition ascii :: "string \<Rightarrow> bool" where
  "ascii s \<longleftrightarrow> list_all (\<lambda>c. of_char c < (128 :: nat)) s"

lemma hex_value_digit: "d < 16 \<Longrightarrow> hex_value (hex_digit d) = d"
  by (auto simp: hex_value_def hex_digit_def)

lemma read_string_cases:
  "c \<noteq> CHR 0x22 \<Longrightarrow> c \<noteq> backslash \<Longrightarrow> read_string (c # s) = map_option (apfst ((#) c)) (read_string s)"
  "e \<noteq> CHR ''u'' \<Longrightarrow> read_string (backslash # e # s) = map_option (apfst ((#) (unescape e))) (read_string s)"
  "read_string (backslash # CHR ''u'' # a # b # x # y # s)
     = map_option (apfst ((#) (char_of (16 * hex_value x + hex_value y)))) (read_string s)"
  by (subst read_string.simps, simp add: backslash_def del: read_string.simps split: list.split)+

declare read_string.simps(2) [simp del]

lemma read_byte:
  assumes "of_char c < (128 :: nat)"
  shows "read_string (json_byte c @ d # s) = map_option (apfst ((#) c)) (read_string (d # s))"
proof -
  consider "c = CHR 0x22" | "c = backslash" | "c = CHR 0x0A" | "c = CHR 0x0D" | "c = CHR 0x09"
    | (safe) "htmlSafe c" | (escaped) "\<not> htmlSafe c" "c \<notin> set [CHR 0x22, backslash, CHR 0x0A, CHR 0x0D, CHR 0x09]"
    by fastforce
  then show ?thesis
  proof cases
    case safe
    then have "json_byte c = [c]" "c \<noteq> CHR 0x22" "c \<noteq> backslash"
      by (auto simp: json_byte_def htmlSafe_def)
    then show ?thesis
      by (simp add: read_string_cases)
  next
    case escaped
    then have "json_byte c = backslash # ''u00'' @ hex_digits 2 (of_char c)"
      by (simp add: json_byte_def)
    then show ?thesis
      using assms by (simp add: numeral_2_eq_2 hex_value_digit read_string_cases)
  qed (simp_all add: json_byte_def htmlSafe_def unescape_def backslash_def read_string_cases [unfolded backslash_def])
qed

lemma read_body:
  assumes "ascii s"
  shows "read_string (json_body s @ CHR 0x22 # rest) = Some (s, rest)"
  using assms
proof (induction s)
  case (Cons c s)
  obtain d tail where tail: "json_body s @ CHR 0x22 # rest = d # tail"
    by (cases "json_body s") auto
  show ?case
    using Cons read_byte [of c d tail] by (simp add: ascii_def tail)
qed (simp add: ascii_def read_string.simps)

lemma read_json_string: "ascii s \<Longrightarrow> read_quoted (json_string s @ rest) = Some (s, rest)"
  by (simp add: read_quoted_def json_string_def read_body)

lemma read_json_fields:
  assumes "list_all (\<lambda>(k, v). ascii k \<and> ascii v) fs"
  shows "read_fields sep (length fs) (json_fields sep fs) = Some fs"
  using assms
  by (induction fs arbitrary: sep) (auto simp: read_field_def read_char_def read_json_string)


definition ex_info :: Info where
  "ex_info = \<lparr>vi_GitVersion = ''v1 <a&b>'', vi_GitCommit = [backslash, CHR 0x22], vi_BuildDate = [CHR 0x0A, CHR 0x01],
     vi_GoVersion = ''go1.21'', vi_Compiler = ''gc'', vi_Platform = ''linux/amd64'', vi_FrpVersion = []\<rparr>"


end
