(* ===== verification/Deep_Heap.thy ===== *)
theory Deep_Heap
  imports Api_Types
begin

text \<open>
  Memory for the deep copies of \<^verbatim>\<open>pkg/api/v1beta1/zz_generated.deepcopy.go\<close>.  What a pointer, a slice or a map refers to
  is a cell of a heap; a struct in memory has references where the Go struct has pointers, slices and
  maps, and \<^const>\<open>None\<close> where they are nil.  The contract of a copying function is a locale: the copy
  stands for the same value and shares no cell with the original.
\<close>

section \<open>Cells\<close>

type_synonym ref = "nat option"

record mem_owner =
  mw_APIVersion :: string
  mw_Kind :: string
  mw_Name :: string
  mw_UID :: string
  mw_Controller :: ref
  mw_BlockOwnerDeletion :: ref

record mem_meta =
  mm_Name :: string
  mm_Namespace :: string
  mm_UID :: string
  mm_ResourceVersion :: string
  mm_Labels :: ref
  mm_Annotations :: ref
  mm_OwnerReferences :: ref
  mm_Finalizers :: ref
  mm_DeletionTimestamp :: ref

record mem_oidc =
  mi_ClientID :: string
  mi_ClientSecret :: string
  mi_Audience :: string
  mi_Scope :: string
  mi_TokenEndpointURL :: string
  mi_AdditionalEndpointParams :: ref

record mem_auth =
  ma_Method :: string
  ma_AdditionalScopes :: ref
  ma_Token :: string
  ma_OIDC :: ref

record mem_tls =
  mt_SecretRef :: ref
  mt_ServerName :: string
  mt_DisableCustomTLSFirstByte :: ref

record mem_transport =
  mr_Protocol :: string
  mr_DialServerTimeout :: int
  mr_DialServerKeepAlive :: int
  mr_ConnectServerLocalIP :: string
  mr_ProxyURL :: string
  mr_PoolCount :: int
  mr_TCPMux :: ref
  mr_TCPMuxKeepaliveInterval :: int
  mr_QUIC :: ref
  mr_HeartbeatInterval :: int
  mr_HeartbeatTimeout :: int
  mr_TLS :: mem_tls

record mem_spec =
  mp_Auth :: mem_auth
  mp_User :: string
  mp_ServerAddr :: string
  mp_ServerPort :: int
  mp_ExternalIPs :: ref
  mp_NatHoleSTUNServer :: string
  mp_DNSServer :: string
  mp_LoginFailExit :: ref
  mp_Transport :: mem_transport
  mp_UDPPacketSize :: int
  mp_Metadatas :: ref

record mem_status =
  mst_Phase :: string
  mst_Conditions :: ref
  mst_Reason :: string
  mst_ServiceReferences :: ref

record mem_server =
  ms_TypeMeta :: GroupVersionKind
  ms_ObjectMeta :: mem_meta
  ms_Spec :: mem_spec
  ms_Status :: mem_status

record mem_list_meta =
  ml_SelfLink :: string
  ml_ResourceVersion :: string
  ml_Continue :: string
  ml_RemainingItemCount :: ref

record mem_server_list =
  mls_TypeMeta :: GroupVersionKind
  mls_ListMeta :: mem_list_meta
  mls_Items :: ref

datatype cell =
    CBool bool
  | CInt int
  | CTime go_time
  | CMap str_map
  | CStrings "string list"
  | CSecretRef SecretReference
  | CQUIC FrpServerTransportQUIC
  | COIDC mem_oidc
  | CConditions "Condition list"
  | CServiceRefs "ServiceReference list"
  | COwners "mem_owner list"
  | CServers "mem_server list"
  | CServiceRef ServiceReference
  | CTLS mem_tls
  | CTransport mem_transport
  | CAuth mem_auth
  | CSpec mem_spec
  | CStatus mem_status
  | CServer mem_server
  | CServerList mem_server_list

text \<open>What a cell holds, by the type of the pointer that leads to it.\<close>

definition as_Bool :: "cell \<Rightarrow> bool option" where "as_Bool c = (case c of CBool x \<Rightarrow> Some x | _ \<Rightarrow> None)"
definition as_Int :: "cell \<Rightarrow> int option" where "as_Int c = (case c of CInt x \<Rightarrow> Some x | _ \<Rightarrow> None)"
definition as_Time :: "cell \<Rightarrow> go_time option" where "as_Time c = (case c of CTime x \<Rightarrow> Some x | _ \<Rightarrow> None)"
definition as_Map :: "cell \<Rightarrow> str_map option" where "as_Map c = (case c of CMap x \<Rightarrow> Some x | _ \<Rightarrow> None)"
definition as_Strings :: "cell \<Rightarrow> string list option" where "as_Strings c = (case c of CStrings x \<Rightarrow> Some x | _ \<Rightarrow> None)"
definition as_SecretRef :: "cell \<Rightarrow> SecretReference option" where "as_SecretRef c = (case c of CSecretRef x \<Rightarrow> Some x | _ \<Rightarrow> None)"
definition as_QUIC :: "cell \<Rightarrow> FrpServerTransportQUIC option" where "as_QUIC c = (case c of CQUIC x \<Rightarrow> Some x | _ \<Rightarrow> None)"
definition as_OIDC :: "cell \<Rightarrow> mem_oidc option" where "as_OIDC c = (case c of COIDC x \<Rightarrow> Some x | _ \<Rightarrow> None)"
definition as_Conditions :: "cell \<Rightarrow> Condition list option" where "as_Conditions c = (case c of CConditions x \<Rightarrow> Some x | _ \<Rightarrow> None)"
definition as_ServiceRefs :: "cell \<Rightarrow> ServiceReference list option" where "as_ServiceRefs c = (case c of CServiceRefs x \<Rightarrow> Some x | _ \<Rightarrow> None)"
definition as_Owners :: "cell \<Rightarrow> mem_owner list option" where "as_Owners c = (case c of COwners x \<Rightarrow> Some x | _ \<Rightarrow> None)"
definition as_Servers :: "cell \<Rightarrow> mem_server list option" where "as_Servers c = (case c of CServers x \<Rightarrow> Some x | _ \<Rightarrow> None)"
definition as_ServiceRef :: "cell \<Rightarrow> ServiceReference option" where "as_ServiceRef c = (case c of CServiceRef x \<Rightarrow> Some x | _ \<Rightarrow> None)"
definition as_TLS :: "cell \<Rightarrow> mem_tls option" where "as_TLS c = (case c of CTLS x \<Rightarrow> Some x | _ \<Rightarrow> None)"
definition as_Transport :: "cell \<Rightarrow> mem_transport option" where "as_Transport c = (case c of CTransport x \<Rightarrow> Some x | _ \<Rightarrow> None)"
definition as_Auth :: "cell \<Rightarrow> mem_auth option" where "as_Auth c = (case c of CAuth x \<Rightarrow> Some x | _ \<Rightarrow> None)"
definition as_Spec :: "cell \<Rightarrow> mem_spec option" where "as_Spec c = (case c of CSpec x \<Rightarrow> Some x | _ \<Rightarrow> None)"
definition as_Status :: "cell \<Rightarrow> mem_status option" where "as_Status c = (case c of CStatus x \<Rightarrow> Some x | _ \<Rightarrow> None)"
definition as_Server :: "cell \<Rightarrow> mem_server option" where "as_Server c = (case c of CServer x \<Rightarrow> Some x | _ \<Rightarrow> None)"
definition as_ServerList :: "cell \<Rightarrow> mem_server_list option" where "as_ServerList c = (case c of CServerList x \<Rightarrow> Some x | _ \<Rightarrow> None)"

lemma as_cell [simp]:
  "as_Bool (CBool x0) = Some x0"
  "as_Int (CInt x1) = Some x1"
  "as_Time (CTime x2) = Some x2"
  "as_Map (CMap x3) = Some x3"
  "as_Strings (CStrings x4) = Some x4"
  "as_SecretRef (CSecretRef x5) = Some x5"
  "as_QUIC (CQUIC x6) = Some x6"
  "as_OIDC (COIDC x7) = Some x7"
  "as_Conditions (CConditions x8) = Some x8"
  "as_ServiceRefs (CServiceRefs x9) = Some x9"
  "as_Owners (COwners x10) = Some x10"
  "as_Servers (CServers x11) = Some x11"
  "as_ServiceRef (CServiceRef x12) = Some x12"
  "as_TLS (CTLS x13) = Some x13"
  "as_Transport (CTransport x14) = Some x14"
  "as_Auth (CAuth x15) = Some x15"
  "as_Spec (CSpec x16) = Some x16"
  "as_Status (CStatus x17) = Some x17"
  "as_Server (CServer x18) = Some x18"
  "as_ServerList (CServerList x19) = Some x19"
  by (simp_all add: as_Bool_def as_Int_def as_Time_def as_Map_def as_Strings_def as_SecretRef_def as_QUIC_def as_OIDC_def as_Conditions_def as_ServiceRefs_def as_Owners_def as_Servers_def as_ServiceRef_def as_TLS_def as_Transport_def as_Auth_def as_Spec_def as_Status_def as_Server_def as_ServerList_def)

record heap =
  cells :: "nat \<Rightarrow> cell option"
  lim :: nat

type_synonym 'a on_heap = "(heap, 'a) state"

definition reserve :: "nat on_heap" where
  "reserve = State (\<lambda>h. (lim h, h\<lparr>lim := Suc (lim h)\<rparr>))"

definition write_cell :: "nat \<Rightarrow> cell \<Rightarrow> heap \<Rightarrow> heap" where
  "write_cell a c h = h\<lparr>cells := (cells h)(a \<mapsto> c)\<rparr>"

definition store :: "nat \<Rightarrow> cell \<Rightarrow> unit on_heap" where
  "store a c = State (\<lambda>h. ((), write_cell a c h))"

lemma write_cell_simps [simp]: "cells (write_cell a c h) b = (if b = a then Some c else cells h b)" "lim (write_cell a c h) = lim h"
  by (simp_all add: write_cell_def)

section \<open>The contract of a copy\<close>

text \<open>A later heap keeps what was allocated before.\<close>

definition extends :: "heap \<Rightarrow> heap \<Rightarrow> bool" where
  "extends h h' \<longleftrightarrow> lim h \<le> lim h' \<and> (\<forall>a<lim h. cells h' a = cells h a)"

text \<open>Of the cells there were, at most those of a set have changed.\<close>

definition changes_only :: "nat set \<Rightarrow> heap \<Rightarrow> heap \<Rightarrow> bool" where
  "changes_only A h h' \<longleftrightarrow> lim h \<le> lim h' \<and> (\<forall>a<lim h. a \<notin> A \<longrightarrow> cells h' a = cells h a)"

lemma extends_refl [simp]: "extends h h" by (simp add: extends_def)

lemma extends_trans: "extends h h' \<Longrightarrow> extends h' h'' \<Longrightarrow> extends h h''"
  by (auto simp: extends_def)

text \<open>
  \<open>value\<close> is what a struct in memory stands for, \<open>refs\<close> the cells it reaches, \<open>wf\<close> that these exist and have
  the right contents.  All three depend on the cells that are reached only.
\<close>

locale copier =
  fixes copy :: "'m \<Rightarrow> 'm on_heap" and val_of :: "heap \<Rightarrow> 'm \<Rightarrow> 'v"
    and refs :: "heap \<Rightarrow> 'm \<Rightarrow> nat set" and wf :: "heap \<Rightarrow> 'm \<Rightarrow> bool"
  assumes frame: "\<lbrakk>wf h m; \<forall>a\<in>refs h m. cells h' a = cells h a; lim h \<le> lim h'\<rbrakk>
      \<Longrightarrow> wf h' m \<and> val_of h' m = val_of h m \<and> refs h' m = refs h m"
    and bounded: "wf h m \<Longrightarrow> refs h m \<subseteq> {..<lim h}"
    and copied: "\<lbrakk>wf h m; run_state (copy m) h = (m', h')\<rbrakk>
      \<Longrightarrow> extends h h' \<and> wf h' m' \<and> val_of h' m' = val_of h m \<and> refs h' m' \<subseteq> {lim h..<lim h'}"
begin

lemma later: "wf h m \<Longrightarrow> extends h h' \<Longrightarrow> wf h' m \<and> val_of h' m = val_of h m \<and> refs h' m = refs h m"
  using bounded [of h m] by (intro frame) (auto simp: extends_def)

lemma disjoint:
  assumes "wf h m" and "run_state (copy m) h = (m', h')"
  shows "refs h' m' \<inter> refs h' m = {}"
  using copied [OF assms] later [OF assms(1), of h'] bounded [OF assms(1)] by fastforce

text \<open>Whatever is done to the cells of the copy, the original stays as it is, and the other way round.\<close>

lemma original_unaffected:
  assumes "wf h m" and "run_state (copy m) h = (m', h')" and "changes_only (refs h' m') h' h''"
  shows "val_of h'' m = val_of h m"
proof -
  have h': "wf h' m" "val_of h' m = val_of h m"
    using later [OF assms(1)] copied [OF assms(1,2)] by blast+
  have "\<forall>b\<in>refs h' m. cells h'' b = cells h' b"
    using disjoint [OF assms(1,2)] bounded [OF h'(1)] assms(3) by (fastforce simp: changes_only_def)
  from frame [OF h'(1) this] h'(2) assms(3) show ?thesis by (simp add: changes_only_def)
qed

lemma copy_unaffected:
  assumes "wf h m" and "run_state (copy m) h = (m', h')" and "changes_only (refs h' m) h' h''"
  shows "val_of h'' m' = val_of h m"
proof -
  have h': "wf h' m'" "val_of h' m' = val_of h m" using copied [OF assms(1,2)] by blast+
  have "\<forall>b\<in>refs h' m'. cells h'' b = cells h' b"
    using disjoint [OF assms(1,2)] bounded [OF h'(1)] assms(3) by (fastforce simp: changes_only_def)
  from frame [OF h'(1) this] h'(2) assms(3) show ?thesis by (simp add: changes_only_def)
qed

end

section \<open>Building copiers\<close>

text \<open>A value without references.\<close>

lemma copier_flat: "copier ret (\<lambda>h m. m) (\<lambda>h m. {}) (\<lambda>h m. True)"
  by unfold_locales auto

text \<open>A map is copied entry by entry.\<close>

definition copy_map :: "str_map \<Rightarrow> str_map" where
  "copy_map m = foldl (\<lambda>out (key, val). map_put key val out) [] m"

lemma copy_map_id: "distinct (map fst m) \<Longrightarrow> copy_map m = m"
proof -
  assume d: "distinct (map fst m)"
  have "foldl (\<lambda>out (key, val). map_put key val out) out m = out @ m" if "distinct (map fst (out @ m))" for out
    using that
  proof (induction m arbitrary: out)
    case (Cons p m)
    obtain k v where p: "p = (k, v)" by fastforce
    with Cons.prems have "map_put k v out = out @ [(k, v)]"
      by (induction out) (auto simp: map_put_def)
    with Cons.IH [of "out @ [(k, v)]"] Cons.prems p show ?case by simp
  qed simp
  from this [of "[]"] d show ?thesis by (simp add: copy_map_def)
qed

lemma copier_map: "copier (\<lambda>m. ret (copy_map m)) (\<lambda>h m. m) (\<lambda>h m. {}) (\<lambda>h m. distinct (map fst m))"
  by unfold_locales (auto simp: copy_map_id)

text \<open>Two parts, one after the other.\<close>

definition copy_pair :: "('a \<Rightarrow> 'a on_heap) \<Rightarrow> ('b \<Rightarrow> 'b on_heap) \<Rightarrow> 'a \<times> 'b \<Rightarrow> ('a \<times> 'b) on_heap" where
  "copy_pair c1 c2 p = do { x \<leftarrow> c1 (fst p); y \<leftarrow> c2 (snd p); ret (x, y) }"

lemma copier_pair:
  assumes "copier c1 v1 r1 w1" and "copier c2 v2 r2 w2"
  shows "copier (copy_pair c1 c2) (\<lambda>h p. (v1 h (fst p), v2 h (snd p))) (\<lambda>h p. r1 h (fst p) \<union> r2 h (snd p))
    (\<lambda>h p. w1 h (fst p) \<and> w2 h (snd p))"
proof
  fix h h' :: heap and p p'
  show "(w1 h' (fst p) \<and> w2 h' (snd p)) \<and> (v1 h' (fst p), v2 h' (snd p)) = (v1 h (fst p), v2 h (snd p))
      \<and> r1 h' (fst p) \<union> r2 h' (snd p) = r1 h (fst p) \<union> r2 h (snd p)"
    if "w1 h (fst p) \<and> w2 h (snd p)" "\<forall>a\<in>r1 h (fst p) \<union> r2 h (snd p). cells h' a = cells h a" "lim h \<le> lim h'"
    using that copier.frame [OF assms(1), of h "fst p" h'] copier.frame [OF assms(2), of h "snd p" h'] by auto
  show "r1 h (fst p) \<union> r2 h (snd p) \<subseteq> {..<lim h}" if "w1 h (fst p) \<and> w2 h (snd p)"
    using that copier.bounded [OF assms(1)] copier.bounded [OF assms(2)] by auto
  assume w: "w1 h (fst p) \<and> w2 h (snd p)" and run: "run_state (copy_pair c1 c2 p) h = (p', h')"
  obtain x h1 where x: "run_state (c1 (fst p)) h = (x, h1)" by fastforce
  obtain y h2 where y: "run_state (c2 (snd p)) h1 = (y, h2)" by fastforce
  from run x y have p': "p' = (x, y)" "h' = h2" by (auto simp: copy_pair_def)
  from copier.copied [OF assms(1) conjunct1 [OF w] x] have 1: "extends h h1" "w1 h1 x" "v1 h1 x = v1 h (fst p)"
    "r1 h1 x \<subseteq> {lim h..<lim h1}" by auto
  from copier.later [OF assms(2) conjunct2 [OF w] 1(1)] have 2: "w2 h1 (snd p)" "v2 h1 (snd p) = v2 h (snd p)" by auto
  from copier.copied [OF assms(2) 2(1) y] have 3: "extends h1 h2" "w2 h2 y" "v2 h2 y = v2 h1 (snd p)"
    "r2 h2 y \<subseteq> {lim h1..<lim h2}" by auto
  from copier.later [OF assms(1) 1(2) 3(1)] have 4: "w1 h2 x" "v1 h2 x = v1 h1 x" "r1 h2 x = r1 h1 x" by auto
  from 1 2 3 4 have "r1 h2 x \<union> r2 h2 y \<subseteq> {lim h..<lim h2}" by (auto simp: extends_def)
  with 1 2 3 4 p' show "extends h h' \<and> (w1 h' (fst p') \<and> w2 h' (snd p'))
      \<and> (v1 h' (fst p'), v2 h' (snd p')) = (v1 h (fst p), v2 h (snd p))
      \<and> r1 h' (fst p') \<union> r2 h' (snd p') \<subseteq> {lim h..<lim h'}"
    by (auto intro: extends_trans)
qed

text \<open>The elements of a slice, in order.\<close>

fun copy_list :: "('a \<Rightarrow> 'a on_heap) \<Rightarrow> 'a list \<Rightarrow> 'a list on_heap" where
  "copy_list c [] = ret []"
| "copy_list c (x # xs) = do { x' \<leftarrow> c x; xs' \<leftarrow> copy_list c xs; ret (x' # xs') }"

lemma copier_list:
  assumes c: "copier c v r w"
  shows "copier (copy_list c) (\<lambda>h xs. map (v h) xs) (\<lambda>h xs. \<Union>(r h ` set xs)) (\<lambda>h xs. list_all (w h) xs)"
proof
  fix h h' :: heap and xs
  show "list_all (w h') xs \<and> map (v h') xs = map (v h) xs \<and> \<Union>(r h' ` set xs) = \<Union>(r h ` set xs)"
    if "list_all (w h) xs" "\<forall>a\<in>\<Union>(r h ` set xs). cells h' a = cells h a" "lim h \<le> lim h'"
    using that copier.frame [OF c, of h _ h'] by (auto simp: list_all_iff)
  show "\<Union>(r h ` set xs) \<subseteq> {..<lim h}" if "list_all (w h) xs"
    using that copier.bounded [OF c] by (fastforce simp: list_all_iff)
next
  fix h h' :: heap and xs xs'
  assume "list_all (w h) xs" and "run_state (copy_list c xs) h = (xs', h')"
  then show "extends h h' \<and> list_all (w h') xs' \<and> map (v h') xs' = map (v h) xs \<and> \<Union>(r h' ` set xs') \<subseteq> {lim h..<lim h'}"
  proof (induction xs arbitrary: h h' xs')
    case (Cons x xs)
    obtain y h1 where y: "run_state (c x) h = (y, h1)" by fastforce
    obtain ys h2 where ys: "run_state (copy_list c xs) h1 = (ys, h2)" by fastforce
    have eq: "xs' = y # ys" "h' = h2" using Cons.prems(2) y ys by auto
    from Cons.prems(1) have w: "w h x" "list_all (w h) xs" by auto
    from copier.copied [OF c w(1) y] have 1: "extends h h1" "w h1 y" "v h1 y = v h x" "r h1 y \<subseteq> {lim h..<lim h1}" by auto
    have "list_all (w h1) xs" "map (v h1) xs = map (v h) xs"
      using w(2) copier.later [OF c _ 1(1)] by (auto simp: list_all_iff)
    with Cons.IH [OF _ ys] have 2: "extends h1 h2" "list_all (w h2) ys" "map (v h2) ys = map (v h) xs"
      "\<Union>(r h2 ` set ys) \<subseteq> {lim h1..<lim h2}" by auto
    from copier.later [OF c 1(2) 2(1)] have 3: "w h2 y" "v h2 y = v h1 y" "r h2 y = r h1 y" by auto
    from 1 2 3 have "\<Union>(r h2 ` set (y # ys)) \<subseteq> {lim h..<lim h2}" by (auto simp: extends_def)
    with 1 2 3 eq show ?case by (auto intro: extends_trans)
  qed auto
qed

text \<open>
  A reference: \<^verbatim>\<open>new\<close> or \<^verbatim>\<open>make\<close> reserves a cell, the contents are copied and stored there.  \<open>C\<close> makes a cell of the contents and
  \<open>get\<close> takes one apart.
\<close>

definition contents :: "(cell \<Rightarrow> 'x option) \<Rightarrow> heap \<Rightarrow> nat \<Rightarrow> 'x option" where
  "contents get h a = Option.bind (cells h a) get"

definition load :: "(cell \<Rightarrow> 'x option) \<Rightarrow> nat \<Rightarrow> 'x option on_heap" where
  "load get a = State (\<lambda>h. (contents get h a, h))"

definition copy_ref :: "('x \<Rightarrow> cell) \<Rightarrow> (cell \<Rightarrow> 'x option) \<Rightarrow> ('x \<Rightarrow> 'x on_heap) \<Rightarrow> ref \<Rightarrow> ref on_heap" where
  "copy_ref C get c p = (case p of
     None \<Rightarrow> ret None
   | Some a \<Rightarrow> do {
       out \<leftarrow> reserve;
       x \<leftarrow> load get a;
       case x of
         None \<Rightarrow> ret (Some out)
       | Some x \<Rightarrow> do { x' \<leftarrow> c x; _ \<leftarrow> store out (C x'); ret (Some out) } })"

definition ref_val :: "(cell \<Rightarrow> 'x option) \<Rightarrow> (heap \<Rightarrow> 'x \<Rightarrow> 'v) \<Rightarrow> heap \<Rightarrow> ref \<Rightarrow> 'v option" where
  "ref_val get v h p = Option.bind p (\<lambda>a. map_option (v h) (contents get h a))"

definition ref_refs :: "(cell \<Rightarrow> 'x option) \<Rightarrow> (heap \<Rightarrow> 'x \<Rightarrow> nat set) \<Rightarrow> heap \<Rightarrow> ref \<Rightarrow> nat set" where
  "ref_refs get r h p = (case p of None \<Rightarrow> {} | Some a \<Rightarrow>
     insert a (case contents get h a of None \<Rightarrow> {} | Some x \<Rightarrow> r h x))"

definition ref_wf :: "(cell \<Rightarrow> 'x option) \<Rightarrow> (heap \<Rightarrow> 'x \<Rightarrow> bool) \<Rightarrow> heap \<Rightarrow> ref \<Rightarrow> bool" where
  "ref_wf get w h p = (case p of None \<Rightarrow> True | Some a \<Rightarrow>
     a < lim h \<and> (case contents get h a of None \<Rightarrow> False | Some x \<Rightarrow> w h x))"

lemma contents_cong: "cells h' a = cells h a \<Longrightarrow> contents get h' a = contents get h a"
  by (simp add: contents_def)

lemma copier_ref:
  assumes c: "copier c v r w" and C: "\<And>x. get (C x) = Some x"
  shows "copier (copy_ref C get c) (ref_val get v) (ref_refs get r) (ref_wf get w)"
proof
  fix h h' :: heap and p
  show "ref_wf get w h' p \<and> ref_val get v h' p = ref_val get v h p \<and> ref_refs get r h' p = ref_refs get r h p"
    if "ref_wf get w h p" "\<forall>a\<in>ref_refs get r h p. cells h' a = cells h a" "lim h \<le> lim h'"
  proof (cases p)
    case (Some a)
    with that have "cells h' a = cells h a" by (simp add: ref_refs_def)
    note same = contents_cong [where get = get, OF this]
    from that Some obtain x where x: "contents get h a = Some x" "w h x" "a < lim h"
      by (auto simp: ref_wf_def split: option.splits)
    with that Some copier.frame [OF c x(2), of h'] same show ?thesis
      by (simp add: ref_wf_def ref_val_def ref_refs_def)
  qed (simp add: ref_wf_def ref_val_def ref_refs_def)
  show "ref_refs get r h p \<subseteq> {..<lim h}" if "ref_wf get w h p"
    using that copier.bounded [OF c] by (auto simp: ref_wf_def ref_refs_def split: option.splits)
next
  fix h h' :: heap and p p'
  assume wf: "ref_wf get w h p" and run: "run_state (copy_ref C get c p) h = (p', h')"
  show "extends h h' \<and> ref_wf get w h' p' \<and> ref_val get v h' p' = ref_val get v h p
      \<and> ref_refs get r h' p' \<subseteq> {lim h..<lim h'}"
  proof (cases p)
    case None
    with run show ?thesis by (simp add: copy_ref_def ref_wf_def ref_val_def ref_refs_def)
  next
    case (Some a)
    from wf Some obtain x where x: "contents get h a = Some x" "w h x" by (auto simp: ref_wf_def split: option.splits)
    let ?h1 = "h\<lparr>lim := Suc (lim h)\<rparr>"
    have 1: "extends h ?h1" "contents get ?h1 a = Some x" using x by (auto simp: extends_def contents_def)
    from copier.later [OF c x(2) 1(1)] have w1: "w ?h1 x" "v ?h1 x = v h x" by auto
    obtain y h2 where y: "run_state (c x) ?h1 = (y, h2)" by fastforce
    from copier.copied [OF c w1(1) y] have 2: "extends ?h1 h2" "w h2 y" "v h2 y = v h x" "r h2 y \<subseteq> {Suc (lim h)..<lim h2}"
      using w1 by auto
    let ?h3 = "write_cell (lim h) (C y) h2"
    have res: "p' = Some (lim h)" "h' = ?h3"
      using run Some 1(2) y by (auto simp: copy_ref_def reserve_def load_def store_def)
    have "\<forall>b\<in>r h2 y. cells ?h3 b = cells h2 b" using 2(4) by fastforce
    from copier.frame [OF c 2(2) this] have 3: "w ?h3 y" "v ?h3 y = v h x" "r ?h3 y = r h2 y" using 2(3) by auto
    have cont: "contents get ?h3 (lim h) = Some y" by (simp add: contents_def C)
    have "lim h < lim h2" using 2(1) by (simp add: extends_def)
    with 3 cont have new: "ref_wf get w ?h3 p'" "ref_val get v ?h3 p' = Some (v h x)" "ref_refs get r ?h3 p' = insert (lim h) (r h2 y)"
      by (simp_all add: res ref_wf_def ref_val_def ref_refs_def)
    have "extends h ?h3" using 1(1) 2(1) by (auto simp: extends_def)
    moreover have "insert (lim h) (r h2 y) \<subseteq> {lim h..<lim h2}" using 2(4) \<open>lim h < lim h2\<close> by auto
    moreover have "ref_val get v h p = Some (v h x)" using x Some by (simp add: ref_val_def)
    ultimately show ?thesis using new res by simp
  qed
qed

text \<open>A struct: its parts with references are copied, and the rest is kept.\<close>

lemma copier_struct:
  assumes c: "copier c v r w"
    and copy: "\<And>m h. run_state (copy m) h = (case run_state (c (get m)) h of (x, h') \<Rightarrow> (put x m, h'))"
    and get_put: "\<And>x m. get (put x m) = x" and build_put: "\<And>x m y. build (put x m) y = build m y"
    and val_of: "\<And>h m. val_of h m = build m (v h (get m))"
    and refs: "\<And>h m. refs h m = r h (get m)" and ok: "\<And>h m. ok h m = w h (get m)"
  shows "copier copy val_of refs ok"
proof
  fix h h' :: heap and m
  show "ok h' m \<and> val_of h' m = val_of h m \<and> refs h' m = refs h m"
    if "ok h m" "\<forall>a\<in>refs h m. cells h' a = cells h a" "lim h \<le> lim h'"
    using that copier.frame [OF c, of h "get m" h'] by (simp add: val_of refs ok)
  show "refs h m \<subseteq> {..<lim h}" if "ok h m"
    using that copier.bounded [OF c, of h "get m"] by (simp add: refs ok)
next
  fix h h' :: heap and m m'
  assume w: "ok h m" and run: "run_state (copy m) h = (m', h')"
  then obtain x where "run_state (c (get m)) h = (x, h')" "m' = put x m" by (auto simp: copy split: prod.splits)
  with copier.copied [OF c w [unfolded ok] this(1)]
  show "extends h h' \<and> ok h' m' \<and> val_of h' m' = val_of h m \<and> refs h' m' \<subseteq> {lim h..<lim h'}"
    by (simp add: val_of refs ok get_put build_put)
qed

end
