(* ===== verification/Deep_Copy.thy ===== *)
theory Deep_Copy
  imports Deep_Heap
begin

text \<open>
  The generated deep copies of \<^verbatim>\<open>pkg/api/v1beta1/zz_generated.deepcopy.go\<close> and the ones of
  \<^verbatim>\<open>k8s.io/apimachinery/pkg/apis/meta/v1\<close> they call.  \<^verbatim>\<open>DeepCopyInto\<close> is a function from the struct to
  the struct written into \<^verbatim>\<open>out\<close>; \<^verbatim>\<open>DeepCopy\<close> works on a pointer.  For each there is what the struct stands
  for, as the record of \<^verbatim>\<open>Api_Types\<close>, and the cells it reaches.
\<close>

definition slice :: "'a list option \<Rightarrow> 'a list" where
  "slice s = (case s of None \<Rightarrow> [] | Some xs \<Rightarrow> xs)"

abbreviation leaf_val :: "heap \<Rightarrow> 'x \<Rightarrow> 'x" where "leaf_val \<equiv> \<lambda>h x. x"
abbreviation leaf_refs :: "heap \<Rightarrow> 'x \<Rightarrow> nat set" where "leaf_refs \<equiv> \<lambda>h x. {}"
abbreviation leaf_wf :: "heap \<Rightarrow> 'x \<Rightarrow> bool" where "leaf_wf \<equiv> \<lambda>h x. True"
abbreviation map_wf :: "heap \<Rightarrow> str_map \<Rightarrow> bool" where "map_wf \<equiv> \<lambda>h m. distinct (map fst m)"

text \<open>The copies of pointers, slices and maps of plain values.\<close>

definition copy_bool :: "ref \<Rightarrow> ref on_heap" where "copy_bool = copy_ref CBool as_Bool ret"
definition copy_int :: "ref \<Rightarrow> ref on_heap" where "copy_int = copy_ref CInt as_Int ret"
definition copy_time :: "ref \<Rightarrow> ref on_heap" where "copy_time = copy_ref CTime as_Time ret"
definition copy_strings :: "ref \<Rightarrow> ref on_heap" where "copy_strings = copy_ref CStrings as_Strings ret"
definition copy_str_map :: "ref \<Rightarrow> ref on_heap" where
  "copy_str_map = copy_ref CMap as_Map (\<lambda>m. ret (copy_map m))"

lemma copier_plain:
  "copier copy_bool (ref_val as_Bool leaf_val) (ref_refs as_Bool leaf_refs) (ref_wf as_Bool leaf_wf)"
  "copier copy_int (ref_val as_Int leaf_val) (ref_refs as_Int leaf_refs) (ref_wf as_Int leaf_wf)"
  "copier copy_time (ref_val as_Time leaf_val) (ref_refs as_Time leaf_refs) (ref_wf as_Time leaf_wf)"
  "copier copy_strings (ref_val as_Strings leaf_val) (ref_refs as_Strings leaf_refs) (ref_wf as_Strings leaf_wf)"
  "copier copy_str_map (ref_val as_Map leaf_val) (ref_refs as_Map leaf_refs) (ref_wf as_Map map_wf)"
  unfolding copy_bool_def copy_int_def copy_time_def copy_strings_def copy_str_map_def
  by (simp_all add: copier_ref [OF copier_flat] copier_ref [OF copier_map])

section \<open>Metadata\<close>

definition OwnerReference_DeepCopyInto :: "mem_owner \<Rightarrow> mem_owner on_heap" where
  "OwnerReference_DeepCopyInto m = do {
     controller \<leftarrow> copy_bool (mw_Controller m);
     block \<leftarrow> copy_bool (mw_BlockOwnerDeletion m);
     ret (m\<lparr>mw_Controller := controller, mw_BlockOwnerDeletion := block\<rparr>) }"

definition owner_value :: "heap \<Rightarrow> mem_owner \<Rightarrow> OwnerReference" where
  "owner_value h m = \<lparr>or_APIVersion = mw_APIVersion m, or_Kind = mw_Kind m, or_Name = mw_Name m, or_UID = mw_UID m,
     or_Controller = ref_val as_Bool leaf_val h (mw_Controller m),
     or_BlockOwnerDeletion = ref_val as_Bool leaf_val h (mw_BlockOwnerDeletion m)\<rparr>"

definition owner_refs :: "heap \<Rightarrow> mem_owner \<Rightarrow> nat set" where
  "owner_refs h m = ref_refs as_Bool leaf_refs h (mw_Controller m) \<union> ref_refs as_Bool leaf_refs h (mw_BlockOwnerDeletion m)"

definition owner_wf :: "heap \<Rightarrow> mem_owner \<Rightarrow> bool" where
  "owner_wf h m \<longleftrightarrow> ref_wf as_Bool leaf_wf h (mw_Controller m) \<and> ref_wf as_Bool leaf_wf h (mw_BlockOwnerDeletion m)"

interpretation owner_copy: copier OwnerReference_DeepCopyInto owner_value owner_refs owner_wf
  by (rule copier_struct [OF copier_pair [OF copier_plain(1) copier_plain(1)],
        where get = "\<lambda>m. (mw_Controller m, mw_BlockOwnerDeletion m)"
          and put = "\<lambda>(c, b) m. m\<lparr>mw_Controller := c, mw_BlockOwnerDeletion := b\<rparr>"
          and build = "\<lambda>m (c, b). \<lparr>or_APIVersion = mw_APIVersion m, or_Kind = mw_Kind m, or_Name = mw_Name m,
            or_UID = mw_UID m, or_Controller = c, or_BlockOwnerDeletion = b\<rparr>"])
     (auto simp: OwnerReference_DeepCopyInto_def copy_pair_def owner_value_def owner_refs_def owner_wf_def split: prod.splits)

definition ObjectMeta_DeepCopyInto :: "mem_meta \<Rightarrow> mem_meta on_heap" where
  "ObjectMeta_DeepCopyInto m = do {
     deletion \<leftarrow> copy_time (mm_DeletionTimestamp m);
     labels \<leftarrow> copy_str_map (mm_Labels m);
     annotations \<leftarrow> copy_str_map (mm_Annotations m);
     owners \<leftarrow> copy_ref COwners as_Owners (copy_list OwnerReference_DeepCopyInto) (mm_OwnerReferences m);
     finalizers \<leftarrow> copy_strings (mm_Finalizers m);
     ret (m\<lparr>mm_DeletionTimestamp := deletion, mm_Labels := labels, mm_Annotations := annotations,
       mm_OwnerReferences := owners, mm_Finalizers := finalizers\<rparr>) }"

definition owners_value :: "heap \<Rightarrow> ref \<Rightarrow> OwnerReference list option" where
  "owners_value = ref_val as_Owners (\<lambda>h xs. map (owner_value h) xs)"
definition owners_refs :: "heap \<Rightarrow> ref \<Rightarrow> nat set" where
  "owners_refs = ref_refs as_Owners (\<lambda>h xs. \<Union>(owner_refs h ` set xs))"
definition owners_wf :: "heap \<Rightarrow> ref \<Rightarrow> bool" where
  "owners_wf = ref_wf as_Owners (\<lambda>h xs. list_all (owner_wf h) xs)"

lemma copier_owners: "copier (copy_ref COwners as_Owners (copy_list OwnerReference_DeepCopyInto)) owners_value owners_refs owners_wf"
  unfolding owners_value_def owners_refs_def owners_wf_def
  by (rule copier_ref [OF copier_list [OF owner_copy.copier_axioms]]) simp

definition meta_value :: "heap \<Rightarrow> mem_meta \<Rightarrow> ObjectMeta" where
  "meta_value h m = \<lparr>om_Name = mm_Name m, om_Namespace = mm_Namespace m, om_UID = mm_UID m,
     om_ResourceVersion = mm_ResourceVersion m, om_Labels = ref_val as_Map leaf_val h (mm_Labels m),
     om_Annotations = slice (ref_val as_Map leaf_val h (mm_Annotations m)),
     om_OwnerReferences = slice (owners_value h (mm_OwnerReferences m)),
     om_Finalizers = slice (ref_val as_Strings leaf_val h (mm_Finalizers m)),
     om_DeletionTimestamp = ref_val as_Time leaf_val h (mm_DeletionTimestamp m)\<rparr>"

definition meta_refs :: "heap \<Rightarrow> mem_meta \<Rightarrow> nat set" where
  "meta_refs h m = ref_refs as_Time leaf_refs h (mm_DeletionTimestamp m) \<union> ref_refs as_Map leaf_refs h (mm_Labels m)
     \<union> ref_refs as_Map leaf_refs h (mm_Annotations m) \<union> owners_refs h (mm_OwnerReferences m)
     \<union> ref_refs as_Strings leaf_refs h (mm_Finalizers m)"

definition meta_wf :: "heap \<Rightarrow> mem_meta \<Rightarrow> bool" where
  "meta_wf h m \<longleftrightarrow> ref_wf as_Time leaf_wf h (mm_DeletionTimestamp m) \<and> ref_wf as_Map map_wf h (mm_Labels m)
     \<and> ref_wf as_Map map_wf h (mm_Annotations m) \<and> owners_wf h (mm_OwnerReferences m)
     \<and> ref_wf as_Strings leaf_wf h (mm_Finalizers m)"

interpretation meta_copy: copier ObjectMeta_DeepCopyInto meta_value meta_refs meta_wf
  by (rule copier_struct [OF copier_pair [OF copier_plain(3) copier_pair [OF copier_plain(5)
          copier_pair [OF copier_plain(5) copier_pair [OF copier_owners copier_plain(4)]]]],
        where get = "\<lambda>m. (mm_DeletionTimestamp m, mm_Labels m, mm_Annotations m, mm_OwnerReferences m, mm_Finalizers m)"
          and put = "\<lambda>(d, l, a, ow, f) m. m\<lparr>mm_DeletionTimestamp := d, mm_Labels := l, mm_Annotations := a,
            mm_OwnerReferences := ow, mm_Finalizers := f\<rparr>"
          and build = "\<lambda>m (d, l, a, ow, f). \<lparr>om_Name = mm_Name m, om_Namespace = mm_Namespace m, om_UID = mm_UID m,
            om_ResourceVersion = mm_ResourceVersion m, om_Labels = l, om_Annotations = slice a,
            om_OwnerReferences = slice ow, om_Finalizers = slice f, om_DeletionTimestamp = d\<rparr>"])
     (auto simp: ObjectMeta_DeepCopyInto_def copy_pair_def meta_value_def meta_refs_def meta_wf_def split: prod.splits)

definition ListMeta_DeepCopyInto :: "mem_list_meta \<Rightarrow> mem_list_meta on_heap" where
  "ListMeta_DeepCopyInto m = do {
     remaining \<leftarrow> copy_int (ml_RemainingItemCount m);
     ret (m\<lparr>ml_RemainingItemCount := remaining\<rparr>) }"

definition list_meta_value :: "heap \<Rightarrow> mem_list_meta \<Rightarrow> string \<times> string \<times> string \<times> int option" where
  "list_meta_value h m = (ml_SelfLink m, ml_ResourceVersion m, ml_Continue m, ref_val as_Int leaf_val h (ml_RemainingItemCount m))"

definition list_meta_refs :: "heap \<Rightarrow> mem_list_meta \<Rightarrow> nat set" where
  "list_meta_refs h m = ref_refs as_Int leaf_refs h (ml_RemainingItemCount m)"

definition list_meta_wf :: "heap \<Rightarrow> mem_list_meta \<Rightarrow> bool" where
  "list_meta_wf h m \<longleftrightarrow> ref_wf as_Int leaf_wf h (ml_RemainingItemCount m)"

interpretation list_meta_copy: copier ListMeta_DeepCopyInto list_meta_value list_meta_refs list_meta_wf
  by (rule copier_struct [OF copier_plain(2), where get = ml_RemainingItemCount
          and put = "\<lambda>r m. m\<lparr>ml_RemainingItemCount := r\<rparr>"
          and build = "\<lambda>m r. (ml_SelfLink m, ml_ResourceVersion m, ml_Continue m, r)"])
     (auto simp: ListMeta_DeepCopyInto_def list_meta_value_def list_meta_refs_def list_meta_wf_def split: prod.splits)

text \<open>\<^verbatim>\<open>LastTransitionTime\<close> is a \<^verbatim>\<open>metav1.Time\<close>, whose own copy is an assignment.\<close>

definition Condition_DeepCopyInto :: "Condition \<Rightarrow> Condition on_heap" where
  "Condition_DeepCopyInto m = ret m"

section \<open>The FrpServer resource\<close>

definition ServiceReference_DeepCopyInto :: "ServiceReference \<Rightarrow> ServiceReference on_heap" where
  "ServiceReference_DeepCopyInto m = ret m"

definition ServiceReference_DeepCopy :: "ref \<Rightarrow> ref on_heap" where
  "ServiceReference_DeepCopy p = copy_ref CServiceRef as_ServiceRef ServiceReference_DeepCopyInto p"

definition FrpServerTransportQUIC_DeepCopyInto :: "FrpServerTransportQUIC \<Rightarrow> FrpServerTransportQUIC on_heap" where
  "FrpServerTransportQUIC_DeepCopyInto m = ret m"

definition FrpServerTransportQUIC_DeepCopy :: "ref \<Rightarrow> ref on_heap" where
  "FrpServerTransportQUIC_DeepCopy p = copy_ref CQUIC as_QUIC FrpServerTransportQUIC_DeepCopyInto p"

lemma copier_flat_structs:
  "copier ServiceReference_DeepCopyInto leaf_val leaf_refs leaf_wf"
  "copier FrpServerTransportQUIC_DeepCopyInto leaf_val leaf_refs leaf_wf"
  "copier Condition_DeepCopyInto leaf_val leaf_refs leaf_wf"
  using copier_flat
  by (simp_all add: ServiceReference_DeepCopyInto_def [abs_def] FrpServerTransportQUIC_DeepCopyInto_def [abs_def]
      Condition_DeepCopyInto_def [abs_def])

definition FrpServerTransportTLS_DeepCopyInto :: "mem_tls \<Rightarrow> mem_tls on_heap" where
  "FrpServerTransportTLS_DeepCopyInto m = do {
     secret \<leftarrow> copy_ref CSecretRef as_SecretRef ret (mt_SecretRef m);
     disable \<leftarrow> copy_bool (mt_DisableCustomTLSFirstByte m);
     ret (m\<lparr>mt_SecretRef := secret, mt_DisableCustomTLSFirstByte := disable\<rparr>) }"

definition FrpServerTransportTLS_DeepCopy :: "ref \<Rightarrow> ref on_heap" where
  "FrpServerTransportTLS_DeepCopy p = copy_ref CTLS as_TLS FrpServerTransportTLS_DeepCopyInto p"

definition tls_value :: "heap \<Rightarrow> mem_tls \<Rightarrow> FrpServerTransportTLS" where
  "tls_value h m = \<lparr>tls_SecretRef = ref_val as_SecretRef leaf_val h (mt_SecretRef m), tls_ServerName = mt_ServerName m,
     tls_DisableCustomTLSFirstByte = ref_val as_Bool leaf_val h (mt_DisableCustomTLSFirstByte m)\<rparr>"

definition tls_refs :: "heap \<Rightarrow> mem_tls \<Rightarrow> nat set" where
  "tls_refs h m = ref_refs as_SecretRef leaf_refs h (mt_SecretRef m)
     \<union> ref_refs as_Bool leaf_refs h (mt_DisableCustomTLSFirstByte m)"

definition tls_wf :: "heap \<Rightarrow> mem_tls \<Rightarrow> bool" where
  "tls_wf h m \<longleftrightarrow> ref_wf as_SecretRef leaf_wf h (mt_SecretRef m)
     \<and> ref_wf as_Bool leaf_wf h (mt_DisableCustomTLSFirstByte m)"

interpretation tls_copy: copier FrpServerTransportTLS_DeepCopyInto tls_value tls_refs tls_wf
  by (rule copier_struct [OF copier_pair [OF copier_ref [OF copier_flat, of as_SecretRef CSecretRef] copier_plain(1)],
        where get = "\<lambda>m. (mt_SecretRef m, mt_DisableCustomTLSFirstByte m)"
          and put = "\<lambda>(s, d) m. m\<lparr>mt_SecretRef := s, mt_DisableCustomTLSFirstByte := d\<rparr>"
          and build = "\<lambda>m (s, d). \<lparr>tls_SecretRef = s, tls_ServerName = mt_ServerName m, tls_DisableCustomTLSFirstByte = d\<rparr>"])
     (auto simp: FrpServerTransportTLS_DeepCopyInto_def copy_pair_def tls_value_def tls_refs_def tls_wf_def split: prod.splits)

definition FrpServerTransport_DeepCopyInto :: "mem_transport \<Rightarrow> mem_transport on_heap" where
  "FrpServerTransport_DeepCopyInto m = do {
     mux \<leftarrow> copy_bool (mr_TCPMux m);
     quic \<leftarrow> copy_ref CQUIC as_QUIC ret (mr_QUIC m);
     tls \<leftarrow> FrpServerTransportTLS_DeepCopyInto (mr_TLS m);
     ret (m\<lparr>mr_TCPMux := mux, mr_QUIC := quic, mr_TLS := tls\<rparr>) }"

definition FrpServerTransport_DeepCopy :: "ref \<Rightarrow> ref on_heap" where
  "FrpServerTransport_DeepCopy p = copy_ref CTransport as_Transport FrpServerTransport_DeepCopyInto p"

definition transport_value :: "heap \<Rightarrow> mem_transport \<Rightarrow> FrpServerTransport" where
  "transport_value h m = \<lparr>tr_Protocol = mr_Protocol m, tr_DialServerTimeout = mr_DialServerTimeout m,
     tr_DialServerKeepAlive = mr_DialServerKeepAlive m, tr_ConnectServerLocalIP = mr_ConnectServerLocalIP m,
     tr_ProxyURL = mr_ProxyURL m, tr_PoolCount = mr_PoolCount m, tr_TCPMux = ref_val as_Bool leaf_val h (mr_TCPMux m),
     tr_TCPMuxKeepaliveInterval = mr_TCPMuxKeepaliveInterval m, tr_QUIC = ref_val as_QUIC leaf_val h (mr_QUIC m),
     tr_HeartbeatInterval = mr_HeartbeatInterval m, tr_HeartbeatTimeout = mr_HeartbeatTimeout m,
     tr_TLS = tls_value h (mr_TLS m)\<rparr>"

definition transport_refs :: "heap \<Rightarrow> mem_transport \<Rightarrow> nat set" where
  "transport_refs h m = ref_refs as_Bool leaf_refs h (mr_TCPMux m) \<union> ref_refs as_QUIC leaf_refs h (mr_QUIC m)
     \<union> tls_refs h (mr_TLS m)"

definition transport_wf :: "heap \<Rightarrow> mem_transport \<Rightarrow> bool" where
  "transport_wf h m \<longleftrightarrow> ref_wf as_Bool leaf_wf h (mr_TCPMux m) \<and> ref_wf as_QUIC leaf_wf h (mr_QUIC m)
     \<and> tls_wf h (mr_TLS m)"

interpretation transport_copy: copier FrpServerTransport_DeepCopyInto transport_value transport_refs transport_wf
  by (rule copier_struct [OF copier_pair [OF copier_plain(1) copier_pair [OF
          copier_ref [OF copier_flat, of as_QUIC CQUIC] tls_copy.copier_axioms]],
        where get = "\<lambda>m. (mr_TCPMux m, mr_QUIC m, mr_TLS m)"
          and put = "\<lambda>(x, q, t) m. m\<lparr>mr_TCPMux := x, mr_QUIC := q, mr_TLS := t\<rparr>"
          and build = "\<lambda>m (x, q, t). \<lparr>tr_Protocol = mr_Protocol m, tr_DialServerTimeout = mr_DialServerTimeout m,
            tr_DialServerKeepAlive = mr_DialServerKeepAlive m, tr_ConnectServerLocalIP = mr_ConnectServerLocalIP m,
            tr_ProxyURL = mr_ProxyURL m, tr_PoolCount = mr_PoolCount m, tr_TCPMux = x,
            tr_TCPMuxKeepaliveInterval = mr_TCPMuxKeepaliveInterval m, tr_QUIC = q,
            tr_HeartbeatInterval = mr_HeartbeatInterval m, tr_HeartbeatTimeout = mr_HeartbeatTimeout m, tr_TLS = t\<rparr>"])
     (auto simp: FrpServerTransport_DeepCopyInto_def copy_pair_def transport_value_def transport_refs_def transport_wf_def
       split: prod.splits)

definition FrpServerAuthOIDC_DeepCopyInto :: "mem_oidc \<Rightarrow> mem_oidc on_heap" where
  "FrpServerAuthOIDC_DeepCopyInto m = do {
     params \<leftarrow> copy_str_map (mi_AdditionalEndpointParams m);
     ret (m\<lparr>mi_AdditionalEndpointParams := params\<rparr>) }"

definition FrpServerAuthOIDC_DeepCopy :: "ref \<Rightarrow> ref on_heap" where
  "FrpServerAuthOIDC_DeepCopy p = copy_ref COIDC as_OIDC FrpServerAuthOIDC_DeepCopyInto p"

definition oidc_value :: "heap \<Rightarrow> mem_oidc \<Rightarrow> FrpServerAuthOIDC" where
  "oidc_value h m = \<lparr>oidc_ClientID = mi_ClientID m, oidc_ClientSecret = mi_ClientSecret m, oidc_Audience = mi_Audience m,
     oidc_Scope = mi_Scope m, oidc_TokenEndpointURL = mi_TokenEndpointURL m,
     oidc_AdditionalEndpointParams = ref_val as_Map leaf_val h (mi_AdditionalEndpointParams m)\<rparr>"

definition oidc_refs :: "heap \<Rightarrow> mem_oidc \<Rightarrow> nat set" where
  "oidc_refs h m = ref_refs as_Map leaf_refs h (mi_AdditionalEndpointParams m)"

definition oidc_wf :: "heap \<Rightarrow> mem_oidc \<Rightarrow> bool" where
  "oidc_wf h m \<longleftrightarrow> ref_wf as_Map map_wf h (mi_AdditionalEndpointParams m)"

interpretation oidc_copy: copier FrpServerAuthOIDC_DeepCopyInto oidc_value oidc_refs oidc_wf
  by (rule copier_struct [OF copier_plain(5), where get = mi_AdditionalEndpointParams
          and put = "\<lambda>p m. m\<lparr>mi_AdditionalEndpointParams := p\<rparr>"
          and build = "\<lambda>m p. \<lparr>oidc_ClientID = mi_ClientID m, oidc_ClientSecret = mi_ClientSecret m,
            oidc_Audience = mi_Audience m, oidc_Scope = mi_Scope m, oidc_TokenEndpointURL = mi_TokenEndpointURL m,
            oidc_AdditionalEndpointParams = p\<rparr>"])
     (auto simp: FrpServerAuthOIDC_DeepCopyInto_def oidc_value_def oidc_refs_def oidc_wf_def split: prod.splits)

definition FrpServerAuth_DeepCopyInto :: "mem_auth \<Rightarrow> mem_auth on_heap" where
  "FrpServerAuth_DeepCopyInto m = do {
     scopes \<leftarrow> copy_strings (ma_AdditionalScopes m);
     oidc \<leftarrow> copy_ref COIDC as_OIDC FrpServerAuthOIDC_DeepCopyInto (ma_OIDC m);
     ret (m\<lparr>ma_AdditionalScopes := scopes, ma_OIDC := oidc\<rparr>) }"

definition FrpServerAuth_DeepCopy :: "ref \<Rightarrow> ref on_heap" where
  "FrpServerAuth_DeepCopy p = copy_ref CAuth as_Auth FrpServerAuth_DeepCopyInto p"

definition auth_value :: "heap \<Rightarrow> mem_auth \<Rightarrow> FrpServerAuth" where
  "auth_value h m = \<lparr>auth_Method = ma_Method m,
     auth_AdditionalScopes = slice (ref_val as_Strings leaf_val h (ma_AdditionalScopes m)), auth_Token = ma_Token m,
     auth_OIDC = ref_val as_OIDC oidc_value h (ma_OIDC m)\<rparr>"

definition auth_refs :: "heap \<Rightarrow> mem_auth \<Rightarrow> nat set" where
  "auth_refs h m = ref_refs as_Strings leaf_refs h (ma_AdditionalScopes m) \<union> ref_refs as_OIDC oidc_refs h (ma_OIDC m)"

definition auth_wf :: "heap \<Rightarrow> mem_auth \<Rightarrow> bool" where
  "auth_wf h m \<longleftrightarrow> ref_wf as_Strings leaf_wf h (ma_AdditionalScopes m) \<and> ref_wf as_OIDC oidc_wf h (ma_OIDC m)"

interpretation auth_copy: copier FrpServerAuth_DeepCopyInto auth_value auth_refs auth_wf
  by (rule copier_struct [OF copier_pair [OF copier_plain(4) copier_ref [OF oidc_copy.copier_axioms, of as_OIDC COIDC]],
        where get = "\<lambda>m. (ma_AdditionalScopes m, ma_OIDC m)"
          and put = "\<lambda>(s, q) m. m\<lparr>ma_AdditionalScopes := s, ma_OIDC := q\<rparr>"
          and build = "\<lambda>m (s, q). \<lparr>auth_Method = ma_Method m, auth_AdditionalScopes = slice s, auth_Token = ma_Token m,
            auth_OIDC = q\<rparr>"])
     (auto simp: FrpServerAuth_DeepCopyInto_def copy_pair_def auth_value_def auth_refs_def auth_wf_def split: prod.splits)

definition FrpServerSpec_DeepCopyInto :: "mem_spec \<Rightarrow> mem_spec on_heap" where
  "FrpServerSpec_DeepCopyInto m = do {
     auth \<leftarrow> FrpServerAuth_DeepCopyInto (mp_Auth m);
     ips \<leftarrow> copy_strings (mp_ExternalIPs m);
     exit \<leftarrow> copy_bool (mp_LoginFailExit m);
     transport \<leftarrow> FrpServerTransport_DeepCopyInto (mp_Transport m);
     metadatas \<leftarrow> copy_str_map (mp_Metadatas m);
     ret (m\<lparr>mp_Auth := auth, mp_ExternalIPs := ips, mp_LoginFailExit := exit, mp_Transport := transport,
       mp_Metadatas := metadatas\<rparr>) }"

definition FrpServerSpec_DeepCopy :: "ref \<Rightarrow> ref on_heap" where
  "FrpServerSpec_DeepCopy p = copy_ref CSpec as_Spec FrpServerSpec_DeepCopyInto p"

definition spec_value :: "heap \<Rightarrow> mem_spec \<Rightarrow> FrpServerSpec" where
  "spec_value h m = \<lparr>spec_Auth = auth_value h (mp_Auth m), spec_User = mp_User m, spec_ServerAddr = mp_ServerAddr m,
     spec_ServerPort = mp_ServerPort m, spec_ExternalIPs = slice (ref_val as_Strings leaf_val h (mp_ExternalIPs m)),
     spec_NatHoleSTUNServer = mp_NatHoleSTUNServer m, spec_DNSServer = mp_DNSServer m,
     spec_LoginFailExit = ref_val as_Bool leaf_val h (mp_LoginFailExit m),
     spec_Transport = transport_value h (mp_Transport m), spec_UDPPacketSize = mp_UDPPacketSize m,
     spec_Metadatas = ref_val as_Map leaf_val h (mp_Metadatas m)\<rparr>"

definition spec_refs :: "heap \<Rightarrow> mem_spec \<Rightarrow> nat set" where
  "spec_refs h m = auth_refs h (mp_Auth m) \<union> ref_refs as_Strings leaf_refs h (mp_ExternalIPs m)
     \<union> ref_refs as_Bool leaf_refs h (mp_LoginFailExit m) \<union> transport_refs h (mp_Transport m)
     \<union> ref_refs as_Map leaf_refs h (mp_Metadatas m)"

definition spec_wf :: "heap \<Rightarrow> mem_spec \<Rightarrow> bool" where
  "spec_wf h m \<longleftrightarrow> auth_wf h (mp_Auth m) \<and> ref_wf as_Strings leaf_wf h (mp_ExternalIPs m)
     \<and> ref_wf as_Bool leaf_wf h (mp_LoginFailExit m) \<and> transport_wf h (mp_Transport m)
     \<and> ref_wf as_Map map_wf h (mp_Metadatas m)"

interpretation spec_copy: copier FrpServerSpec_DeepCopyInto spec_value spec_refs spec_wf
  by (rule copier_struct [OF copier_pair [OF auth_copy.copier_axioms copier_pair [OF copier_plain(4)
          copier_pair [OF copier_plain(1) copier_pair [OF transport_copy.copier_axioms copier_plain(5)]]]],
        where get = "\<lambda>m. (mp_Auth m, mp_ExternalIPs m, mp_LoginFailExit m, mp_Transport m, mp_Metadatas m)"
          and put = "\<lambda>(a, i, l, t, d) m. m\<lparr>mp_Auth := a, mp_ExternalIPs := i, mp_LoginFailExit := l, mp_Transport := t,
            mp_Metadatas := d\<rparr>"
          and build = "\<lambda>m (a, i, l, t, d). \<lparr>spec_Auth = a, spec_User = mp_User m, spec_ServerAddr = mp_ServerAddr m,
            spec_ServerPort = mp_ServerPort m, spec_ExternalIPs = slice i,
            spec_NatHoleSTUNServer = mp_NatHoleSTUNServer m, spec_DNSServer = mp_DNSServer m,
            spec_LoginFailExit = l, spec_Transport = t, spec_UDPPacketSize = mp_UDPPacketSize m, spec_Metadatas = d\<rparr>"])
     (auto simp: FrpServerSpec_DeepCopyInto_def copy_pair_def spec_value_def spec_refs_def spec_wf_def split: prod.splits)

definition FrpServerStatus_DeepCopyInto :: "mem_status \<Rightarrow> mem_status on_heap" where
  "FrpServerStatus_DeepCopyInto m = do {
     conditions \<leftarrow> copy_ref CConditions as_Conditions (copy_list Condition_DeepCopyInto) (mst_Conditions m);
     services \<leftarrow> copy_ref CServiceRefs as_ServiceRefs ret (mst_ServiceReferences m);
     ret (m\<lparr>mst_Conditions := conditions, mst_ServiceReferences := services\<rparr>) }"

definition FrpServerStatus_DeepCopy :: "ref \<Rightarrow> ref on_heap" where
  "FrpServerStatus_DeepCopy p = copy_ref CStatus as_Status FrpServerStatus_DeepCopyInto p"

definition status_value :: "heap \<Rightarrow> mem_status \<Rightarrow> FrpServerStatus" where
  "status_value h m = \<lparr>st_Phase = mst_Phase m, st_Conditions = slice (ref_val as_Conditions leaf_val h (mst_Conditions m)),
     st_Reason = mst_Reason m, st_ServiceReferences = slice (ref_val as_ServiceRefs leaf_val h (mst_ServiceReferences m))\<rparr>"

definition status_refs :: "heap \<Rightarrow> mem_status \<Rightarrow> nat set" where
  "status_refs h m = ref_refs as_Conditions leaf_refs h (mst_Conditions m)
     \<union> ref_refs as_ServiceRefs leaf_refs h (mst_ServiceReferences m)"

definition status_wf :: "heap \<Rightarrow> mem_status \<Rightarrow> bool" where
  "status_wf h m \<longleftrightarrow> ref_wf as_Conditions leaf_wf h (mst_Conditions m)
     \<and> ref_wf as_ServiceRefs leaf_wf h (mst_ServiceReferences m)"

lemma copier_conditions: "copier (copy_ref CConditions as_Conditions (copy_list Condition_DeepCopyInto))
    (ref_val as_Conditions leaf_val) (ref_refs as_Conditions leaf_refs) (ref_wf as_Conditions leaf_wf)"
  using copier_ref [OF copier_list [OF copier_flat_structs(3)], of as_Conditions CConditions]
  by (simp add: list_all_iff)

interpretation status_copy: copier FrpServerStatus_DeepCopyInto status_value status_refs status_wf
  by (rule copier_struct [OF copier_pair [OF copier_conditions copier_ref [OF copier_flat, of as_ServiceRefs CServiceRefs]],
        where get = "\<lambda>m. (mst_Conditions m, mst_ServiceReferences m)"
          and put = "\<lambda>(c, s) m. m\<lparr>mst_Conditions := c, mst_ServiceReferences := s\<rparr>"
          and build = "\<lambda>m (c, s). \<lparr>st_Phase = mst_Phase m, st_Conditions = slice c, st_Reason = mst_Reason m,
            st_ServiceReferences = slice s\<rparr>"])
     (auto simp: FrpServerStatus_DeepCopyInto_def copy_pair_def status_value_def status_refs_def status_wf_def split: prod.splits)

definition FrpServer_DeepCopyInto :: "mem_server \<Rightarrow> mem_server on_heap" where
  "FrpServer_DeepCopyInto m = do {
     meta \<leftarrow> ObjectMeta_DeepCopyInto (ms_ObjectMeta m);
     spec \<leftarrow> FrpServerSpec_DeepCopyInto (ms_Spec m);
     status \<leftarrow> FrpServerStatus_DeepCopyInto (ms_Status m);
     ret (m\<lparr>ms_ObjectMeta := meta, ms_Spec := spec, ms_Status := status\<rparr>) }"

definition FrpServer_DeepCopy :: "ref \<Rightarrow> ref on_heap" where
  "FrpServer_DeepCopy p = copy_ref CServer as_Server FrpServer_DeepCopyInto p"

definition FrpServer_DeepCopyObject :: "ref \<Rightarrow> ref on_heap" where
  "FrpServer_DeepCopyObject p = do { c \<leftarrow> FrpServer_DeepCopy p; if c \<noteq> None then ret c else ret None }"

definition server_value :: "heap \<Rightarrow> mem_server \<Rightarrow> GroupVersionKind \<times> FrpServer" where
  "server_value h m = (ms_TypeMeta m,
     \<lparr>fs_meta = meta_value h (ms_ObjectMeta m), fs_Spec = spec_value h (ms_Spec m), fs_Status = status_value h (ms_Status m)\<rparr>)"

definition server_refs :: "heap \<Rightarrow> mem_server \<Rightarrow> nat set" where
  "server_refs h m = meta_refs h (ms_ObjectMeta m) \<union> spec_refs h (ms_Spec m) \<union> status_refs h (ms_Status m)"

definition server_wf :: "heap \<Rightarrow> mem_server \<Rightarrow> bool" where
  "server_wf h m \<longleftrightarrow> meta_wf h (ms_ObjectMeta m) \<and> spec_wf h (ms_Spec m) \<and> status_wf h (ms_Status m)"

interpretation server_copy: copier FrpServer_DeepCopyInto server_value server_refs server_wf
  by (rule copier_struct [OF copier_pair [OF meta_copy.copier_axioms copier_pair [OF spec_copy.copier_axioms
          status_copy.copier_axioms]],
        where get = "\<lambda>m. (ms_ObjectMeta m, ms_Spec m, ms_Status m)"
          and put = "\<lambda>(a, b, c) m. m\<lparr>ms_ObjectMeta := a, ms_Spec := b, ms_Status := c\<rparr>"
          and build = "\<lambda>m (a, b, c). (ms_TypeMeta m, \<lparr>fs_meta = a, fs_Spec = b, fs_Status = c\<rparr>)"])
     (auto simp: FrpServer_DeepCopyInto_def copy_pair_def server_value_def server_refs_def server_wf_def split: prod.splits)

definition FrpServerList_DeepCopyInto :: "mem_server_list \<Rightarrow> mem_server_list on_heap" where
  "FrpServerList_DeepCopyInto m = do {
     meta \<leftarrow> ListMeta_DeepCopyInto (mls_ListMeta m);
     items \<leftarrow> copy_ref CServers as_Servers (copy_list FrpServer_DeepCopyInto) (mls_Items m);
     ret (m\<lparr>mls_ListMeta := meta, mls_Items := items\<rparr>) }"

definition FrpServerList_DeepCopy :: "ref \<Rightarrow> ref on_heap" where
  "FrpServerList_DeepCopy p = copy_ref CServerList as_ServerList FrpServerList_DeepCopyInto p"

definition FrpServerList_DeepCopyObject :: "ref \<Rightarrow> ref on_heap" where
  "FrpServerList_DeepCopyObject p = do { c \<leftarrow> FrpServerList_DeepCopy p; if c \<noteq> None then ret c else ret None }"

definition items_value :: "heap \<Rightarrow> ref \<Rightarrow> (GroupVersionKind \<times> FrpServer) list option" where
  "items_value = ref_val as_Servers (\<lambda>h xs. map (server_value h) xs)"
definition items_refs :: "heap \<Rightarrow> ref \<Rightarrow> nat set" where
  "items_refs = ref_refs as_Servers (\<lambda>h xs. \<Union>(server_refs h ` set xs))"
definition items_wf :: "heap \<Rightarrow> ref \<Rightarrow> bool" where
  "items_wf = ref_wf as_Servers (\<lambda>h xs. list_all (server_wf h) xs)"

lemma copier_items: "copier (copy_ref CServers as_Servers (copy_list FrpServer_DeepCopyInto)) items_value items_refs items_wf"
  unfolding items_value_def items_refs_def items_wf_def
  by (rule copier_ref [OF copier_list [OF server_copy.copier_axioms]]) simp

type_synonym list_contents =
  "GroupVersionKind \<times> (string \<times> string \<times> string \<times> int option) \<times> (GroupVersionKind \<times> FrpServer) list option"

definition list_value :: "heap \<Rightarrow> mem_server_list \<Rightarrow> list_contents" where
  "list_value h m = (mls_TypeMeta m, list_meta_value h (mls_ListMeta m), items_value h (mls_Items m))"

definition list_refs :: "heap \<Rightarrow> mem_server_list \<Rightarrow> nat set" where
  "list_refs h m = list_meta_refs h (mls_ListMeta m) \<union> items_refs h (mls_Items m)"

definition list_wf :: "heap \<Rightarrow> mem_server_list \<Rightarrow> bool" where
  "list_wf h m \<longleftrightarrow> list_meta_wf h (mls_ListMeta m) \<and> items_wf h (mls_Items m)"

interpretation list_copy: copier FrpServerList_DeepCopyInto list_value list_refs list_wf
  by (rule copier_struct [OF copier_pair [OF list_meta_copy.copier_axioms copier_items],
        where get = "\<lambda>m. (mls_ListMeta m, mls_Items m)"
          and put = "\<lambda>(a, b) m. m\<lparr>mls_ListMeta := a, mls_Items := b\<rparr>"
          and build = "\<lambda>m (a, b). (mls_TypeMeta m, a, b)"])
     (auto simp: FrpServerList_DeepCopyInto_def copy_pair_def list_value_def list_refs_def list_wf_def split: prod.splits)

section \<open>The copies the controllers make\<close>

definition server_ptr_value :: "heap \<Rightarrow> ref \<Rightarrow> (GroupVersionKind \<times> FrpServer) option" where
  "server_ptr_value = ref_val as_Server server_value"
definition server_ptr_refs :: "heap \<Rightarrow> ref \<Rightarrow> nat set" where "server_ptr_refs = ref_refs as_Server server_refs"
definition server_ptr_wf :: "heap \<Rightarrow> ref \<Rightarrow> bool" where "server_ptr_wf = ref_wf as_Server server_wf"

definition list_ptr_value :: "heap \<Rightarrow> ref \<Rightarrow> list_contents option" where
  "list_ptr_value = ref_val as_ServerList list_value"
definition list_ptr_refs :: "heap \<Rightarrow> ref \<Rightarrow> nat set" where "list_ptr_refs = ref_refs as_ServerList list_refs"
definition list_ptr_wf :: "heap \<Rightarrow> ref \<Rightarrow> bool" where "list_ptr_wf = ref_wf as_ServerList list_wf"

lemma returns_copy: "(do { c \<leftarrow> m; if c \<noteq> None then ret c else ret None }) = (m :: ref on_heap)"
  by (rule state.expand) (auto simp: fun_eq_iff split: prod.splits)

interpretation server_ptr: copier FrpServer_DeepCopyObject server_ptr_value server_ptr_refs server_ptr_wf
  unfolding server_ptr_value_def server_ptr_refs_def server_ptr_wf_def
    FrpServer_DeepCopyObject_def [abs_def] FrpServer_DeepCopy_def returns_copy
  by (rule copier_ref [OF server_copy.copier_axioms]) simp

interpretation list_ptr: copier FrpServerList_DeepCopyObject list_ptr_value list_ptr_refs list_ptr_wf
  unfolding list_ptr_value_def list_ptr_refs_def list_ptr_wf_def
    FrpServerList_DeepCopyObject_def [abs_def] FrpServerList_DeepCopy_def returns_copy
  by (rule copier_ref [OF list_copy.copier_axioms]) simp

text \<open>The other generated \<^verbatim>\<open>DeepCopy\<close> methods.\<close>

lemma deep_copies:
  "copier FrpServerSpec_DeepCopy (ref_val as_Spec spec_value) (ref_refs as_Spec spec_refs) (ref_wf as_Spec spec_wf)"
  "copier FrpServerStatus_DeepCopy (ref_val as_Status status_value) (ref_refs as_Status status_refs) (ref_wf as_Status status_wf)"
  "copier FrpServerAuth_DeepCopy (ref_val as_Auth auth_value) (ref_refs as_Auth auth_refs) (ref_wf as_Auth auth_wf)"
  "copier FrpServerAuthOIDC_DeepCopy (ref_val as_OIDC oidc_value) (ref_refs as_OIDC oidc_refs) (ref_wf as_OIDC oidc_wf)"
  "copier FrpServerTransport_DeepCopy (ref_val as_Transport transport_value) (ref_refs as_Transport transport_refs)
     (ref_wf as_Transport transport_wf)"
  "copier FrpServerTransportTLS_DeepCopy (ref_val as_TLS tls_value) (ref_refs as_TLS tls_refs) (ref_wf as_TLS tls_wf)"
  "copier FrpServerTransportQUIC_DeepCopy (ref_val as_QUIC leaf_val) (ref_refs as_QUIC leaf_refs) (ref_wf as_QUIC leaf_wf)"
  "copier ServiceReference_DeepCopy (ref_val as_ServiceRef leaf_val) (ref_refs as_ServiceRef leaf_refs)
     (ref_wf as_ServiceRef leaf_wf)"
  unfolding FrpServerSpec_DeepCopy_def FrpServerStatus_DeepCopy_def FrpServerAuth_DeepCopy_def FrpServerAuthOIDC_DeepCopy_def
    FrpServerTransport_DeepCopy_def FrpServerTransportTLS_DeepCopy_def FrpServerTransportQUIC_DeepCopy_def
    ServiceReference_DeepCopy_def
  by (rule copier_ref spec_copy.copier_axioms status_copy.copier_axioms auth_copy.copier_axioms oidc_copy.copier_axioms
      transport_copy.copier_axioms tls_copy.copier_axioms copier_flat_structs as_cell)+

section \<open>Properties\<close>


text \<open>Memory with an object at address 0: labels, an owner reference with a controller flag, and a list with that object.\<close>

definition ex_mem_server :: mem_server where
  "ex_mem_server = \<lparr>
     ms_TypeMeta = \<lparr>gvk_Group = ''frp.gofrp.io'', gvk_Version = ''v1beta1'', gvk_Kind = ''FrpServer''\<rparr>,
     ms_ObjectMeta = \<lparr>mm_Name = ''edge'', mm_Namespace = [], mm_UID = ''u1'', mm_ResourceVersion = ''7'', mm_Labels = Some 1,
       mm_Annotations = None, mm_OwnerReferences = Some 2, mm_Finalizers = None, mm_DeletionTimestamp = None\<rparr>,
     ms_Spec = \<lparr>
       mp_Auth = \<lparr>ma_Method = ''token'', ma_AdditionalScopes = None, ma_Token = ''t'', ma_OIDC = Some 4\<rparr>,
       mp_User = [], mp_ServerAddr = ''frp.example.com'', mp_ServerPort = 7000, mp_ExternalIPs = None,
       mp_NatHoleSTUNServer = [], mp_DNSServer = [], mp_LoginFailExit = None,
       mp_Transport = \<lparr>mr_Protocol = ''tcp'', mr_DialServerTimeout = 10, mr_DialServerKeepAlive = 0,
         mr_ConnectServerLocalIP = [], mr_ProxyURL = [], mr_PoolCount = 1, mr_TCPMux = Some 3, mr_TCPMuxKeepaliveInterval = 60,
         mr_QUIC = None, mr_HeartbeatInterval = 30, mr_HeartbeatTimeout = 90,
         mr_TLS = \<lparr>mt_SecretRef = None, mt_ServerName = [], mt_DisableCustomTLSFirstByte = None\<rparr>\<rparr>,
       mp_UDPPacketSize = 1500, mp_Metadatas = None\<rparr>,
     ms_Status = \<lparr>mst_Phase = ''Healthy'', mst_Conditions = None, mst_Reason = [], mst_ServiceReferences = None\<rparr>\<rparr>"

definition ex_memory :: heap where
  "ex_memory = \<lparr>
     cells = [0 \<mapsto> CServer ex_mem_server, 1 \<mapsto> CMap [(''app'', ''frp'')],
       2 \<mapsto> COwners [\<lparr>mw_APIVersion = ''v1'', mw_Kind = ''Service'', mw_Name = ''web'', mw_UID = ''u9'',
         mw_Controller = Some 3, mw_BlockOwnerDeletion = None\<rparr>],
       3 \<mapsto> CBool True,
       4 \<mapsto> COIDC \<lparr>mi_ClientID = ''id'', mi_ClientSecret = [], mi_Audience = [], mi_Scope = [], mi_TokenEndpointURL = [],
         mi_AdditionalEndpointParams = Some 1\<rparr>,
       5 \<mapsto> CServerList \<lparr>mls_TypeMeta = \<lparr>gvk_Group = [], gvk_Version = [], gvk_Kind = []\<rparr>,
         mls_ListMeta = \<lparr>ml_SelfLink = [], ml_ResourceVersion = ''8'', ml_Continue = [], ml_RemainingItemCount = None\<rparr>,
         mls_Items = Some 6\<rparr>,
       6 \<mapsto> CServers [ex_mem_server]],
     lim = 7\<rparr>"

lemma ex_memory_wf: "server_ptr_wf ex_memory (Some 0)" "list_ptr_wf ex_memory (Some 5)"
  by code_simp+






end
