(* ===== verification/Spec2Isabelle.thy ===== *)
theory Spec2Isabelle
  imports Service_Convergence Frp_Validator Frp_Reconciler Safe_Tasks Program_Main Version_Text Deep_Copy
begin

text \<open>
  Verification of the frp provisioner.

  The program has two executables.  The manager (\<^verbatim>\<open>cmd/manager\<close>) runs Kubernetes controllers: one makes a pod with an
  frp client for every service of type \<^verbatim>\<open>LoadBalancer\<close> that names an frp server, one checks the health of the
  \<^verbatim>\<open>FrpServer\<close> resources by logging in to them, and an admission webhook defaults and validates these
  resources.  The agent (\<^verbatim>\<open>cmd/agent\<close>) is the program meant for the pods; its server is empty so far.

  \<^bold>\<open>How code becomes definitions.\<close>  Go strings are lists of characters, maps association lists, pointers options, errors the
  type \<^typ>\<open>go_error\<close>, and a panic is a value of \<^typ>\<open>'a outcome\<close>.  Code with effects is a state monad over a world and a
  trace: each call to the API server, the file system or the network is logged with its
  arguments and its answer.  \<^const>\<open>behaves\<close> states what holds of the result and the calls of every run, whatever the
  answers are; so the theorems on controllers and commands hold for every API server and every host.  Code that is not in the
  repository (the API server, YAML and JSON decoding, the sockets below the frp connector, zap's sinks,
  \<^verbatim>\<open>unicode.IsPrint\<close>, random strings) is an argument: the records \<^typ>\<open>'w api\<close>, \<^typ>\<open>'w sys\<close>, \<^typ>\<open>'w host\<close> and \<^typ>\<open>runtime\<close>.  Where a
  theorem relies on what such code does, this is a hypothesis of it (\<^const>\<open>rand_ok\<close>, \<^const>\<open>store_api\<close>), and its witness
  discharges it for the example cluster of \<^verbatim>\<open>Mem_Cluster\<close>.  \<^const>\<open>runs\<close> follows a computation from a world to the world after
  it, where a theorem is about what the cluster holds in the end.

  \<^bold>\<open>Theories.\<close>
  \<^item> \<^verbatim>\<open>Go_Prelude\<close>, \<^verbatim>\<open>Go_Errors\<close>, \<^verbatim>\<open>Go_Fmt\<close>, \<^verbatim>\<open>Go_Strconv\<close>: Go's maps, errors (wrapping, \<^verbatim>\<open>errors.Join\<close>, \<^verbatim>\<open>Aggregate\<close>, \<^verbatim>\<open>IsNotFound\<close>), \<^verbatim>\<open>fmt\<close> on a
    format without arguments, quoting, conversions and durations at 64 bits, and the rules for \<^const>\<open>behaves\<close>.
  \<^item> \<^verbatim>\<open>Defaulting\<close>: the locale of functions that fill in defaults; options, specs and frp configurations instantiate it.
  \<^item> \<^verbatim>\<open>K8s_Objects\<close>, \<^verbatim>\<open>K8s_Lib\<close>: objects, conditions, selectors, owner references and names of the Kubernetes libraries, as vendored.
  \<^item> \<^verbatim>\<open>Api_Types\<close>: \<^verbatim>\<open>pkg/api/v1beta1\<close> and \<^verbatim>\<open>pkg/utils/controller/controller.go\<close>.
  \<^item> \<^verbatim>\<open>Frp_Config\<close>: the client configuration of the vendored frp library with its completion and validation.
  \<^item> \<^verbatim>\<open>Cluster_Env\<close>, \<^verbatim>\<open>Mem_Cluster\<close>: the calls of the controllers, and an API server in memory for the examples.
  \<^item> \<^verbatim>\<open>Ref_Manager\<close>: \<^verbatim>\<open>pkg/utils/controller/refmanager.go\<close>.  Every update adopts or releases rightly, claimed pods belong to the owner,
    a release undoes an adoption, and an update that fails because the pod is gone is reported, against the comment.
  \<^item> \<^verbatim>\<open>Service_Controller\<close>: \<^verbatim>\<open>pkg/controller/service_controller.go\<close>.  The protocol of a run is an inductive relation which the code refines;
    from it follow what is deleted and created and when, that failures are reported, and that a second run
    leaves the pod of the first alone.  The claim is used through the locale \<^verbatim>\<open>pod_claimer\<close>, interpreted by the
    reference manager.
  \<^item> \<^verbatim>\<open>Scheme_Build\<close>, \<^verbatim>\<open>Startup_Scheme\<close>, \<^verbatim>\<open>Service_Startup\<close>: the registration of the types of \<^verbatim>\<open>pkg/api/v1beta1\<close> and of client-go at program start
    (\<^verbatim>\<open>init\<close> of \<^verbatim>\<open>pkg/server/server.go\<close>, the scheme as vendored).  It succeeds, each kind has one type, and with this scheme the
    service reconciler never panics.
  \<^item> \<^verbatim>\<open>Cluster_Store\<close>, \<^verbatim>\<open>Service_Convergence\<close>: an API server that keeps a store of services and pods, and the service reconciler on it.  A run
    that reports success has settled the service; without faults one run settles it and later runs change nothing.
  \<^item> \<^verbatim>\<open>Frp_Client\<close>: \<^verbatim>\<open>pkg/utils/frpclient/validate.go\<close>.  The check succeeds exactly when the login is accepted, releases what it opens, never
    panics, and stores the TLS secret before it connects.
  \<^item> \<^verbatim>\<open>Frp_Validator\<close>: \<^verbatim>\<open>pkg/controller/frpserver_validator.go\<close>.  When a server is admitted, that the defaults are those of frp, when
    defaulting panics, and where creating and updating disagree.
  \<^item> \<^verbatim>\<open>Frp_Reconciler\<close>: \<^verbatim>\<open>pkg/controller/frpserver_controller.go\<close>.  The status follows the check; two statements show what it never does.
  \<^item> \<^verbatim>\<open>Step_System\<close>, \<^verbatim>\<open>Safe_Tasks\<close>: \<^verbatim>\<open>pkg/safe/groutine.go\<close> as a transition system of any number of goroutines, with its invariant, what
    \<^verbatim>\<open>Close\<close> guarantees, when it can finish, and the deadlock.
  \<^item> \<^verbatim>\<open>Zap_Level\<close>, \<^verbatim>\<open>Flag_Set\<close>: the levels of zap and the flag sets of pflag, as vendored.  The locale \<^verbatim>\<open>pointers\<close> says that the
    variables of a flag set are independent; in it, parsing is shown to give each variable its last value.
  \<^item> \<^verbatim>\<open>Log_Options\<close>, \<^verbatim>\<open>Manager_Config\<close>: \<^verbatim>\<open>pkg/log\<close> and \<^verbatim>\<open>pkg/config\<close>.
  \<^item> \<^verbatim>\<open>Program_Env\<close>, \<^verbatim>\<open>Manager_Server\<close>: the calls of the programs; \<^verbatim>\<open>pkg/server\<close>, \<^verbatim>\<open>pkg/utils/fieldindex\<close> and the \<^verbatim>\<open>SetupWithManager\<close> functions, with the order of
    the setup and the options the manager gets.
  \<^item> \<^verbatim>\<open>Commands\<close>: \<^verbatim>\<open>app\<close> of \<^verbatim>\<open>cmd/manager\<close> and \<^verbatim>\<open>cmd/agent\<close>, \<^verbatim>\<open>pkg/version\<close>.  Arguments override the file, only a validated configuration is run, success is reported
    exactly when the work was done, and which configuration files crash the program.
  \<^item> \<^verbatim>\<open>Program_Main\<close>: the \<^verbatim>\<open>main\<close> functions and cobra's dispatch between them and the commands.  What each exit status means, and two
    flags that do not do what the help says.  The locale \<^verbatim>\<open>silent_command\<close> is what \<^verbatim>\<open>main\<close> relies on; both commands interpret it.
  \<^item> \<^verbatim>\<open>Version_Text\<close>: the JSON text of the version, which can be read back.
  \<^item> \<^verbatim>\<open>Deep_Heap\<close>, \<^verbatim>\<open>Deep_Copy\<close>: \<^verbatim>\<open>zz_generated.deepcopy.go\<close> on an explicit heap.  The locale \<^verbatim>\<open>copier\<close> is the contract of a copy; each generated
    function interprets it.  A copy stands for the same object and shares no memory with it, so that
    the other theories may treat objects as values.
  \<^item> this theory: a property across the configuration and the service controller.

  \<^bold>\<open>Bounds.\<close>  No recursion is bounded by fuel: the loops of the code run over lists, and the parsers of durations, quoted
  strings and arguments are total by a measure.  Integers are unbounded where the code only compares them; parsing checks the
  64-bit range as \<^verbatim>\<open>strconv\<close> does.  The number of goroutines is a parameter.

  \<^bold>\<open>Not modelled.\<close>  The signal handler, which provides the context the servers are started with; the texts of help, usage and
  completions, which are events; conversion and defaulting functions and version priorities of the scheme, which
  the controllers do not use; the cache the manager reads from, which \<^const>\<open>store_api\<close> takes to be up to date; \<^verbatim>\<open>pkg/metrics\<close>, which
  no package imports, and \<^verbatim>\<open>pkg/env\<close>, whose only function is empty; \<^verbatim>\<open>pkg/safe/nocopy.go\<close>, a marker for the
  linter; log messages; cancellation of contexts other than that of the task manager.  The structures of Kubernetes have
  the fields the program reads or writes.
\<close>

section \<open>From the configuration to the pods\<close>

text \<open>The service reconciler that \<^verbatim>\<open>NewManagerServer\<close> sets up; the client, the scheme and the printers are those of
  the manager.\<close>

definition service_reconciler :: "scheme option \<Rightarrow> printers \<Rightarrow> (string \<Rightarrow> go_error + Pod) \<Rightarrow> ManagerOptions \<Rightarrow> ServiceReconciler" where
  "service_reconciler sch pr yaml opts =
     \<lparr>r_Scheme = sch, r_PodTemplate = mo_PodTemplate opts, r_yaml = yaml, r_printers = pr\<rparr>"

lemma validated_template:
  assumes "Configuration_Validate yaml cfg = Return None"
  shows "\<exists>opts t. cfg_Manager cfg = Some opts \<and> yaml (mo_PodTemplate opts) = Inr t \<and> pod_Containers t \<noteq> []"
  using assms by (auto simp: Configuration_Validate_def deref_def part_errors_def ManagerOptions_Validate_def
      template_errors_def Let_def split: option.splits sum.splits if_splits)

text \<open>
  (C13) A validated configuration gives pods that can run: with the options of a configuration that has passed its
  validation, every pod the service reconciler creates has a container, and it is the template
  but for its metadata, on every run and whatever the API server answers.
\<close>

theorem created_pods_run:
  assumes "Configuration_Validate yaml cfg = Return None"
  shows "\<exists>opts t. cfg_Manager cfg = Some opts \<and> yaml (mo_PodTemplate opts) = Inr t
    \<and> behaves (ServiceReconciler_Reconcile a y (service_reconciler sch pr yaml opts) req) (\<lambda>res es. list_all (\<lambda>e. case e of
         EvCreatePod p c \<Rightarrow> pod_Containers p \<noteq> [] \<and> p = t\<lparr>pod_meta := pod_meta p\<rparr> | _ \<Rightarrow> True) es)"
proof -
  from validated_template [OF assms] obtain opts t where
    opts: "cfg_Manager cfg = Some opts" "yaml (mo_PodTemplate opts) = Inr t" "pod_Containers t \<noteq> []" by blast
  have created: "case e of EvCreatePod p c \<Rightarrow> pod_Containers p \<noteq> [] \<and> p = t\<lparr>pod_meta := pod_meta p\<rparr> | _ \<Rightarrow> True"
    if "created_from y (service_reconciler sch pr yaml opts) e" for e
  proof (cases e)
    case (EvCreatePod p c)
    with that opts(2) have p: "p = t\<lparr>pod_meta := pod_meta p\<rparr>" by (simp add: created_from_def service_reconciler_def)
    have "pod_Containers (t\<lparr>pod_meta := pod_meta p\<rparr>) \<noteq> []" using opts(3) by simp
    with p EvCreatePod show ?thesis by simp
  qed simp_all
  have "behaves (ServiceReconciler_Reconcile a y (service_reconciler sch pr yaml opts) req) (\<lambda>res es. list_all (\<lambda>e. case e of
         EvCreatePod p c \<Rightarrow> pod_Containers p \<noteq> [] \<and> p = t\<lparr>pod_meta := pod_meta p\<rparr> | _ \<Rightarrow> True) es)"
    by (rule behaves_weaken [OF Reconcile_creates_from]) (simp add: list_all_iff created)
  with opts show ?thesis by blast
qed

text \<open>The default configuration with a template that has one container.\<close>

theorem created_pods_run_witness:
  "Configuration_Validate (r_yaml ex_reconciler) ex_config = Return None
    \<and> behaves (ServiceReconciler_Reconcile mem_api ex_sys
         (service_reconciler (Some ex_scheme) ex_printers (r_yaml ex_reconciler) ex_manager) ex_key)
       (\<lambda>res es. list_all (\<lambda>e. case e of EvCreatePod p c \<Rightarrow> pod_Containers p \<noteq> [] | _ \<Rightarrow> True) es)"
proof -
  have valid: "Configuration_Validate (r_yaml ex_reconciler) ex_config = Return None" by code_simp
  from created_pods_run [OF valid, of mem_api ex_sys "Some ex_scheme" ex_printers ex_key] obtain t where
    "behaves (ServiceReconciler_Reconcile mem_api ex_sys
         (service_reconciler (Some ex_scheme) ex_printers (r_yaml ex_reconciler) ex_manager) ex_key) (\<lambda>res es. list_all (\<lambda>e. case e of
         EvCreatePod p c \<Rightarrow> pod_Containers p \<noteq> [] \<and> p = t\<lparr>pod_meta := pod_meta p\<rparr> | _ \<Rightarrow> True) es)"
    by (auto simp: ex_config_def)
  then have "behaves (ServiceReconciler_Reconcile mem_api ex_sys
         (service_reconciler (Some ex_scheme) ex_printers (r_yaml ex_reconciler) ex_manager) ex_key)
       (\<lambda>res es. list_all (\<lambda>e. case e of EvCreatePod p c \<Rightarrow> pod_Containers p \<noteq> [] | _ \<Rightarrow> True) es)"
    by (rule behaves_weaken) (auto simp: list_all_iff split: event.splits)
  with valid show ?thesis by blast
qed

end
